(* ===== verification/Egress_Prelude.thy ===== *)
theory Egress_Prelude
  imports Complex_Main "HOL-Library.Word"
begin

text \<open>
  What every component of the development shares: the machine integers and the
  \<open>Duration\<close> of the source, the comparisons of \<open>f64\<close>, the functions of Rust's \<open>str\<close> that
  the source calls (on the UTF-8 bytes of the string), effects as functions that pass the
  world along, and the collections of simplification rules the component theories fill.
\<close>

named_theorems policy_simps "unfolding rules of the policy values and their validation"
named_theorems call_simps "unfolding rules of the calls of a client"
named_theorems codec_simps "unfolding rules of the wire codecs"

section \<open>Integers, effects, results\<close>

type_synonym u8 = "8 word"
type_synonym u32 = "32 word"
type_synonym u64 = "64 word"

text \<open>An effect runs in a world \<open>'w\<close> and gives a value and the world after it.\<close>

type_synonym ('w, 'a) io = "'w \<Rightarrow> 'a \<times> 'w"

text \<open>Rust's \<open>?\<close> on a \<open>Result\<close>: the first error ends the computation.\<close>

definition bind_result :: "'e + 'a \<Rightarrow> ('a \<Rightarrow> 'e + 'b) \<Rightarrow> 'e + 'b" where
  "bind_result r f = (case r of Inl e \<Rightarrow> Inl e | Inr a \<Rightarrow> f a)"

definition map_err :: "('e \<Rightarrow> 'f) \<Rightarrow> 'e + 'a \<Rightarrow> 'f + 'a" where
  "map_err f r = (case r of Inl e \<Rightarrow> Inl (f e) | Inr a \<Rightarrow> Inr a)"

definition ok_or :: "'e \<Rightarrow> 'a option \<Rightarrow> 'e + 'a" where
  "ok_or e x = (case x of None \<Rightarrow> Inl e | Some a \<Rightarrow> Inr a)"

lemma bind_result_simps [simp]:
  "bind_result (Inl e) f = Inl e"
  "bind_result (Inr a) f = f a"
  by (simp_all add: bind_result_def)

lemma map_err_simps [simp]:
  "map_err g (Inl e) = Inl (g e)"
  "map_err g (Inr a) = Inr a"
  by (simp_all add: map_err_def)

lemma map_err_id [simp]: "map_err (\<lambda>e. e) r = r"
  by (cases r) simp_all

lemma ok_or_simps [simp]:
  "ok_or e None = Inl e"
  "ok_or e (Some a) = Inr a"
  by (simp_all add: ok_or_def)

lemma bind_result_eq_Inr [simp]:
  "bind_result r f = Inr b \<longleftrightarrow> (\<exists>a. r = Inr a \<and> f a = Inr b)"
  by (cases r) auto

lemma map_err_eq_Inr [simp]: "map_err g r = Inr a \<longleftrightarrow> r = Inr a"
  by (cases r) auto

lemma ok_or_eq_Inr [simp]: "ok_or e x = Inr a \<longleftrightarrow> x = Some a"
  by (cases x) auto

text \<open>A counter below a bound of the same width does not wrap when it is incremented.\<close>

lemma unat_Suc_below: "x < y \<Longrightarrow> unat (x + 1) = Suc (unat x)" for x y :: "'a::len word"
proof -
  assume "x < y"
  then have "x + 1 \<noteq> 0"
    by (metis add.inverse_unique add.commute minus_equation_iff word_n1_ge leD)
  then show ?thesis
    by (metis add.commute unatSuc)
qed

section \<open>Durations\<close>

text \<open>
  \<open>std::time::Duration\<close> counts nanoseconds: at most \<open>u64::MAX\<close> whole seconds and
  999999999 nanoseconds. \<open>checked_sub\<close> and \<open>checked_add\<close> give \<open>None\<close> outside that range.
\<close>

type_synonym duration = nat

definition nanos_per_sec :: nat where
  "nanos_per_sec = 1000000000"

definition nanos_per_milli :: nat where
  "nanos_per_milli = 1000000"

definition duration_max :: duration where
  "duration_max = (2 ^ 64 - 1) * nanos_per_sec + 999999999"

definition from_secs :: "u64 \<Rightarrow> duration" where
  "from_secs s = unat s * nanos_per_sec"

definition from_millis :: "u64 \<Rightarrow> duration" where
  "from_millis ms = unat ms * nanos_per_milli"

definition as_secs :: "duration \<Rightarrow> u64" where
  "as_secs d = of_nat (d div nanos_per_sec)"

definition duration_checked_sub :: "duration \<Rightarrow> duration \<Rightarrow> duration option" where
  "duration_checked_sub a b = (if b \<le> a then Some (a - b) else None)"

definition duration_checked_add :: "duration \<Rightarrow> duration \<Rightarrow> duration option" where
  "duration_checked_add a b = (if a + b \<le> duration_max then Some (a + b) else None)"

lemma unat_u64_less: "unat (s :: u64) < 18446744073709551616"
  using unsigned_less [of s] by simp

lemma from_secs_in_range: "from_secs s \<le> duration_max"
  using unat_u64_less [of s] by (simp add: from_secs_def duration_max_def nanos_per_sec_def)

lemma from_millis_in_range: "from_millis s \<le> duration_max"
  using unat_u64_less [of s]
  by (simp add: from_millis_def nanos_per_milli_def duration_max_def nanos_per_sec_def)

lemma as_secs_from_secs [simp]: "as_secs (from_secs s) = s"
  by (simp add: as_secs_def from_secs_def nanos_per_sec_def)

section \<open>Comparisons of f64\<close>

text \<open>
  The source compares \<open>f64\<close> values and never computes with them, so a value is a rational
  (every finite double is one; the two zeros compare equal) or one of the three special
  values. Every comparison with \<open>NaN\<close> is false, as in IEEE 754.
\<close>

datatype f64 = F64_NaN | F64_NegInf | F64_PosInf | F64_Finite rat

fun f64_le :: "f64 \<Rightarrow> f64 \<Rightarrow> bool" where
  "f64_le F64_NaN y = False"
| "f64_le x F64_NaN = False"
| "f64_le F64_NegInf y = True"
| "f64_le x F64_PosInf = True"
| "f64_le (F64_Finite a) (F64_Finite b) = (a \<le> b)"
| "f64_le x y = False"

fun f64_lt :: "f64 \<Rightarrow> f64 \<Rightarrow> bool" where
  "f64_lt F64_NaN y = False"
| "f64_lt x F64_NaN = False"
| "f64_lt F64_NegInf y = (y \<noteq> F64_NegInf)"
| "f64_lt x F64_PosInf = (x \<noteq> F64_PosInf)"
| "f64_lt (F64_Finite a) (F64_Finite b) = (a < b)"
| "f64_lt x y = False"

fun f64_eq :: "f64 \<Rightarrow> f64 \<Rightarrow> bool" where
  "f64_eq F64_NaN y = False"
| "f64_eq x F64_NaN = False"
| "f64_eq x y = (x = y)"

fun is_finite :: "f64 \<Rightarrow> bool" where
  "is_finite (F64_Finite a) = True"
| "is_finite x = False"

lemma f64_le_zero_iff: "is_finite x \<Longrightarrow> f64_le x (F64_Finite b) \<longleftrightarrow> \<not> f64_lt (F64_Finite b) x"
  by (cases x) auto

lemma f64_range_finite:
  "f64_le (F64_Finite a) x \<Longrightarrow> f64_le x (F64_Finite b) \<Longrightarrow> is_finite x"
  by (cases x) auto

lemma f64_eq_refl: "x \<noteq> F64_NaN \<Longrightarrow> f64_eq x x"
  by (cases x) auto

lemma is_finite_not_NaN: "is_finite x \<Longrightarrow> x \<noteq> F64_NaN"
  by (cases x) auto

lemma is_finite_iff: "is_finite x \<longleftrightarrow> (\<exists>a. x = F64_Finite a)"
  by (cases x) auto

end
