(* ===== verification/Rust_Str.thy ===== *)
theory Rust_Str
  imports Egress_Prelude "HOL-Library.Sublist"
begin

text \<open>
  The functions of Rust's \<open>str\<close> that the source calls, on the UTF-8 bytes of a string (a
  \<open>char\<close> of HOL is a byte): \<open>starts_with\<close>, \<open>find\<close>, \<open>contains\<close>,
  \<open>to_ascii_lowercase\<close>, \<open>eq_ignore_ascii_case\<close>, \<open>trim\<close> (the characters of Unicode's
  \<open>White_Space\<close>), \<open>parse::<u64>\<close>, \<open>Display\<close> of an unsigned integer, and the
  character-boundary test behind string slicing.
\<close>

section \<open>Searching\<close>

definition starts_with :: "string \<Rightarrow> string \<Rightarrow> bool" where
  "starts_with s p \<longleftrightarrow> take (length p) s = p"

fun str_find :: "string \<Rightarrow> string \<Rightarrow> nat option" where
  "str_find [] p = (if p = [] then Some 0 else None)"
| "str_find (c # s) p =
     (if starts_with (c # s) p then Some 0 else map_option Suc (str_find s p))"

definition str_contains :: "string \<Rightarrow> string \<Rightarrow> bool" where
  "str_contains s p \<longleftrightarrow> str_find s p \<noteq> None"

lemma starts_with_append [simp]: "starts_with (p @ s) p"
  by (simp add: starts_with_def)

lemma starts_with_prefix: "starts_with s p \<longleftrightarrow> prefix p s"
  by (auto simp: starts_with_def prefix_def) (metis append_take_drop_id)

lemma str_find_start: "starts_with s p \<Longrightarrow> str_find s p = Some 0"
  by (cases s) (auto simp: starts_with_def)

lemma str_find_Some:
  "str_find s p = Some i \<Longrightarrow> i + length p \<le> length s \<and> starts_with (drop i s) p"
proof (induction s arbitrary: i)
  case Nil
  then show ?case by (auto simp: starts_with_def split: if_splits)
next
  case (Cons c s)
  show ?case
  proof (cases "starts_with (c # s) p")
    case True
    with Cons.prems show ?thesis
      by (auto simp: starts_with_prefix dest: prefix_length_le)
  next
    case False
    with Cons.prems obtain j where "str_find s p = Some j" "i = Suc j" by auto
    with Cons.IH show ?thesis by auto
  qed
qed

lemma str_find_complete: "str_find (a @ p @ b) p \<noteq> None"
proof (induction a)
  case Nil
  show ?case by (simp add: str_find_start)
next
  case (Cons c a)
  then show ?case by auto
qed

lemma str_contains_iff: "str_contains s p \<longleftrightarrow> (\<exists>a b. s = a @ p @ b)"
proof
  assume "str_contains s p"
  then obtain i where "str_find s p = Some i" by (auto simp: str_contains_def)
  then have "prefix p (drop i s)" using str_find_Some [of s p i] by (simp add: starts_with_prefix)
  then obtain b where "drop i s = p @ b" by (auto simp: prefix_def)
  then have "s = take i s @ p @ b" by (metis append_take_drop_id)
  then show "\<exists>a b. s = a @ p @ b" by blast
qed (use str_find_complete in \<open>auto simp: str_contains_def\<close>)

lemma str_find_char_skip:
  "c \<notin> set s \<Longrightarrow> str_find (s @ c # t) [c] = Some (length s)"
  by (induction s) (auto simp: starts_with_def)

lemma str_find_first:
  "\<not> str_contains (butlast (a @ p)) p \<Longrightarrow> p \<noteq> [] \<Longrightarrow> str_find (a @ p @ b) p = Some (length a)"
proof (induction a)
  case Nil
  show ?case by (simp add: str_find_start)
next
  case (Cons c a)
  have no: "\<not> starts_with (c # a @ p @ b) p"
  proof
    assume "starts_with (c # a @ p @ b) p"
    moreover have "c # a @ p @ b = (c # butlast (a @ p)) @ (last (a @ p) # b)"
      using \<open>p \<noteq> []\<close> append_butlast_last_id [of "a @ p"] by (metis append_Cons append_Nil
          append_assoc append_is_Nil_conv)
    ultimately have "prefix p ((c # butlast (a @ p)) @ (last (a @ p) # b))"
      by (simp only: starts_with_prefix)
    moreover have "length p \<le> length (c # butlast (a @ p))" using \<open>p \<noteq> []\<close> by simp
    ultimately have "prefix p (c # butlast (a @ p))"
      by (meson prefixI prefix_length_prefix)
    then have "prefix p (butlast ((c # a) @ p))" using \<open>p \<noteq> []\<close> by simp
    then obtain z where "butlast ((c # a) @ p) = [] @ p @ z" by (auto simp: prefix_def)
    then have "str_contains (butlast ((c # a) @ p)) p" unfolding str_contains_iff by blast
    with Cons.prems show False by simp
  qed
  have "\<not> str_contains (butlast (a @ p)) p"
  proof
    assume "str_contains (butlast (a @ p)) p"
    then obtain x y where "butlast (a @ p) = x @ p @ y" by (auto simp: str_contains_iff)
    then have "butlast ((c # a) @ p) = (c # x) @ p @ y" using \<open>p \<noteq> []\<close> by simp
    then have "str_contains (butlast ((c # a) @ p)) p" unfolding str_contains_iff by blast
    with Cons.prems show False by simp
  qed
  with Cons.IH \<open>p \<noteq> []\<close> have "str_find (a @ p @ b) p = Some (length a)" by blast
  with no show ?case by simp
qed

section \<open>ASCII case\<close>

definition ascii_lower :: "char \<Rightarrow> char" where
  "ascii_lower c =
     (let n = of_char c :: nat in if 65 \<le> n \<and> n \<le> 90 then char_of (n + 32) else c)"

definition to_ascii_lowercase :: "string \<Rightarrow> string" where
  "to_ascii_lowercase s = map ascii_lower s"

definition eq_ignore_ascii_case :: "string \<Rightarrow> string \<Rightarrow> bool" where
  "eq_ignore_ascii_case s t \<longleftrightarrow> to_ascii_lowercase s = to_ascii_lowercase t"

lemma ascii_lower_idem [simp]: "ascii_lower (ascii_lower c) = ascii_lower c"
  by (simp add: ascii_lower_def Let_def)

lemma to_ascii_lowercase_idem [simp]:
  "to_ascii_lowercase (to_ascii_lowercase s) = to_ascii_lowercase s"
  by (simp add: to_ascii_lowercase_def)

lemma to_ascii_lowercase_append [simp]:
  "to_ascii_lowercase (s @ t) = to_ascii_lowercase s @ to_ascii_lowercase t"
  by (simp add: to_ascii_lowercase_def)

section \<open>Trimming\<close>

text \<open>The UTF-8 encodings of the characters of \<open>White_Space\<close>.\<close>

definition white_space :: "string list" where
  "white_space = map (map char_of)
     ([[9], [10], [11], [12], [13], [32], [194, 133], [194, 160], [225, 154, 128],
       [226, 128, 168], [226, 128, 169], [226, 128, 175], [226, 129, 159], [227, 128, 128 :: nat]]
      @ map (\<lambda>k. [226, 128, k]) [128, 129, 130, 131, 132, 133, 134, 135, 136, 137, 138])"

fun first_match :: "(string \<Rightarrow> bool) \<Rightarrow> string list \<Rightarrow> string option" where
  "first_match P [] = None"
| "first_match P (w # ws) = (if P w then Some w else first_match P ws)"

text \<open>The recursion drops a white-space character, which is not empty; the bound is the
  length of the string, enough since every round drops at least one byte.\<close>

fun trim_start_upto :: "nat \<Rightarrow> string \<Rightarrow> string" where
  "trim_start_upto 0 s = s"
| "trim_start_upto (Suc n) s =
     (case first_match (\<lambda>w. starts_with s w) white_space of
        None \<Rightarrow> s
      | Some w \<Rightarrow> trim_start_upto n (drop (length w) s))"

fun trim_end_upto :: "nat \<Rightarrow> string \<Rightarrow> string" where
  "trim_end_upto 0 s = s"
| "trim_end_upto (Suc n) s =
     (case first_match (\<lambda>w. starts_with (rev s) (rev w)) white_space of
        None \<Rightarrow> s
      | Some w \<Rightarrow> trim_end_upto n (take (length s - length w) s))"

definition str_trim :: "string \<Rightarrow> string" where
  "str_trim s = (let t = trim_start_upto (length s) s in trim_end_upto (length t) t)"

text \<open>A string that begins with a byte of no white-space character is not trimmed away.\<close>

definition white_bytes :: "char set" where
  "white_bytes = \<Union> (set ` set white_space)"

lemma first_match_Some: "first_match P ws = Some w \<Longrightarrow> w \<in> set ws \<and> P w"
  by (induction ws) (auto split: if_splits)

lemma white_space_not_empty: "w \<in> set white_space \<Longrightarrow> w \<noteq> []"
  by (auto simp: white_space_def)

lemma trim_end_keeps_head: "s \<noteq> [] \<Longrightarrow> hd s \<notin> white_bytes \<Longrightarrow> trim_end_upto n s \<noteq> []"
proof (induction n arbitrary: s)
  case (Suc n)
  show ?case
  proof (cases "first_match (\<lambda>w. starts_with (rev s) (rev w)) white_space")
    case None
    with Suc.prems show ?thesis by simp
  next
    case (Some w)
    then have w: "w \<in> set white_space" "starts_with (rev s) (rev w)"
      using first_match_Some by fast+
    then obtain t where t: "s = t @ w"
      by (metis append_take_drop_id rev_append rev_rev_ident starts_with_def length_rev)
    have "t \<noteq> []"
      using Suc.prems(2) w(1) white_space_not_empty [OF w(1)] by (auto simp: t white_bytes_def)
    then have "trim_end_upto n t \<noteq> []"
      using Suc.IH Suc.prems(2) by (simp add: t)
    with Some show ?thesis
      by (simp add: t)
  qed
qed simp

lemma str_trim_keeps_head:
  assumes "c \<notin> white_bytes"
  shows "str_trim (c # s) \<noteq> []"
proof -
  have "first_match (\<lambda>w. starts_with (c # s) w) white_space = None"
  proof (cases "first_match (\<lambda>w. starts_with (c # s) w) white_space")
    case (Some w)
    then have "w \<in> set white_space" "starts_with (c # s) w"
      using first_match_Some by fast+
    then have "take (length w) (c # s) = w" "w \<noteq> []"
      using white_space_not_empty by (auto simp: starts_with_def)
    then have "c \<in> set w"
      by (metis length_greater_0_conv list.set_intros(1) take_Cons' neq0_conv)
    then show ?thesis
      using assms \<open>w \<in> set white_space\<close> by (auto simp: white_bytes_def)
  qed
  then have start: "trim_start_upto (length (c # s)) (c # s) = c # s"
    by simp
  show ?thesis
    unfolding str_trim_def start Let_def by (rule trim_end_keeps_head) (use assms in simp_all)
qed

section \<open>Unsigned decimal numbers\<close>

definition digit_value :: "char \<Rightarrow> nat option" where
  "digit_value c = (let n = of_char c in if 48 \<le> n \<and> n \<le> 57 then Some (n - 48) else None)"

fun digits_value :: "nat \<Rightarrow> string \<Rightarrow> nat option" where
  "digits_value acc [] = Some acc"
| "digits_value acc (c # cs) =
     (case digit_value c of None \<Rightarrow> None | Some d \<Rightarrow> digits_value (10 * acc + d) cs)"

text \<open>\<open>u64::from_str\<close>: one leading plus is allowed, at least one digit is required, and a
  value above \<open>u64::MAX\<close> is an error (\<open>None\<close>).\<close>

definition parse_u64 :: "string \<Rightarrow> u64 option" where
  "parse_u64 s =
     (let ds = (case s of [] \<Rightarrow> s | c # cs \<Rightarrow> if c = CHR ''+'' then cs else s)
      in if ds = [] then None
         else case digits_value 0 ds of
                None \<Rightarrow> None
              | Some n \<Rightarrow> if n < 2 ^ 64 then Some (of_nat n) else None)"

fun show_nat :: "nat \<Rightarrow> string" where
  "show_nat n =
     (if n < 10 then [char_of (48 + n)] else show_nat (n div 10) @ [char_of (48 + n mod 10)])"

declare show_nat.simps [simp del]

definition show_u64 :: "u64 \<Rightarrow> string" where
  "show_u64 n = show_nat (unat n)"

lemma digit_value_char_of [simp]: "n < 10 \<Longrightarrow> digit_value (char_of (48 + n)) = Some n"
  by (simp add: digit_value_def Let_def)

lemma digits_value_append:
  "digits_value acc (s @ t) =
     (case digits_value acc s of None \<Rightarrow> None | Some n \<Rightarrow> digits_value n t)"
  by (induction s arbitrary: acc) (auto split: option.splits)

lemma digits_value_show_nat: "digits_value 0 (show_nat n) = Some n"
proof (induction n rule: show_nat.induct)
  case (1 n)
  show ?case
  proof (cases "n < 10")
    case True
    then show ?thesis by (simp add: show_nat.simps [of n])
  next
    case False
    with "1.IH" show ?thesis
      by (simp add: show_nat.simps [of n] digits_value_append)
  qed
qed

lemma show_nat_not_Nil [simp]: "show_nat n \<noteq> []"
  by (subst show_nat.simps) simp

lemma show_nat_digits: "c \<in> set (show_nat n) \<Longrightarrow> 48 \<le> (of_char c :: nat) \<and> of_char c \<le> (57 :: nat)"
proof (induction n rule: show_nat.induct)
  case (1 n)
  have mod10: "n mod 10 < 10" by simp
  show ?case
  proof (cases "n < 10")
    case True
    with "1.prems" show ?thesis by (simp add: show_nat.simps [of n])
  next
    case False
    with "1.prems" have "c \<in> set (show_nat (n div 10)) \<or> c = char_of (48 + n mod 10)"
      by (auto simp: show_nat.simps [of n])
    with "1.IH" False mod10 show ?thesis by (auto simp del: mod_less_divisor)
  qed
qed

lemma show_nat_no_plus: "show_nat n \<noteq> CHR ''+'' # cs"
  using show_nat_digits [of "CHR ''+''" n] by auto

lemma show_nat_no_s: "CHR ''s'' \<notin> set (show_nat n)"
  using show_nat_digits [of "CHR ''s''" n] by auto

lemma parse_u64_show_u64 [simp]: "parse_u64 (show_u64 n) = Some n"
proof -
  obtain c cs where eq: "show_nat (unat n) = c # cs"
    using show_nat_not_Nil by (cases "show_nat (unat n)") auto
  with show_nat_no_plus [of "unat n" cs] have "c \<noteq> CHR ''+''" by auto
  moreover have "digits_value 0 (c # cs) = Some (unat n)"
    using digits_value_show_nat [of "unat n"] eq by simp
  ultimately show ?thesis
    using unat_u64_less [of n] eq by (simp add: parse_u64_def show_u64_def Let_def)
qed

section \<open>Character boundaries\<close>

text \<open>Slicing a \<open>str\<close> at a byte index panics unless the index is 0, the length, or the start
  of a character (a byte that is no UTF-8 continuation byte).\<close>

definition is_char_boundary :: "string \<Rightarrow> nat \<Rightarrow> bool" where
  "is_char_boundary s i \<longleftrightarrow>
     i = 0 \<or> i = length s \<or> (i < length s \<and> \<not> (128 \<le> (of_char (s ! i) :: nat) \<and> of_char (s ! i) < (192 :: nat)))"

definition is_ascii :: "string \<Rightarrow> bool" where
  "is_ascii s \<longleftrightarrow> (\<forall>c \<in> set s. of_char c < (128 :: nat))"

lemma is_ascii_char_boundary: "is_ascii s \<Longrightarrow> i \<le> length s \<Longrightarrow> is_char_boundary s i"
  using nth_mem [of i s] by (fastforce simp: is_ascii_def is_char_boundary_def)

section \<open>UTF-8\<close>

text \<open>\<open>String::from_utf8_lossy\<close>: a well-formed character is kept; the longest prefix of an
  ill-formed one becomes the replacement character. \<open>utf8_step\<close> tells whether the bytes start
  with a character, and how many bytes belong to it or to the ill-formed prefix.\<close>

definition continuation :: "nat \<Rightarrow> bool" where
  "continuation b \<longleftrightarrow> 128 \<le> b \<and> b < 192"

fun second_byte :: "nat \<Rightarrow> nat \<Rightarrow> bool" where
  "second_byte b0 b1 =
     (if b0 = 224 then 160 \<le> b1 \<and> b1 < 192
      else if b0 = 237 then 128 \<le> b1 \<and> b1 < 160
      else if b0 = 240 then 144 \<le> b1 \<and> b1 < 192
      else if b0 = 244 then 128 \<le> b1 \<and> b1 < 144
      else continuation b1)"

definition char_width :: "nat \<Rightarrow> nat" where
  "char_width b =
     (if b < 128 then 1 else if b < 194 then 0 else if b < 224 then 2 else if b < 240 then 3
      else if b < 245 then 4 else 0)"

fun tail_bytes :: "nat \<Rightarrow> nat \<Rightarrow> nat list \<Rightarrow> bool \<times> nat" where
  "tail_bytes seen 0 bs = (True, seen)"
| "tail_bytes seen (Suc n) [] = (False, seen)"
| "tail_bytes seen (Suc n) (b # bs) = (if continuation b then tail_bytes (Suc seen) n bs else (False, seen))"

fun utf8_step :: "nat list \<Rightarrow> bool \<times> nat" where
  "utf8_step [] = (False, 0)"
| "utf8_step (b0 # bs) =
     (if char_width b0 = 0 then (False, 1)
      else if char_width b0 = 1 then (True, 1)
      else (case bs of
              [] \<Rightarrow> (False, 1)
            | b1 # bs' \<Rightarrow> if second_byte b0 b1 then tail_bytes 2 (char_width b0 - 2) bs' else (False, 1)))"

lemma tail_bytes_bounds: "seen \<le> snd (tail_bytes seen n bs) \<and> snd (tail_bytes seen n bs) \<le> seen + length bs"
proof (induction seen n bs rule: tail_bytes.induct)
  case (3 seen n b bs)
  then show ?case by (cases "continuation b") auto
qed simp_all

lemma utf8_step_bounds:
  "1 \<le> snd (utf8_step (b # bs))" "snd (utf8_step (b # bs)) \<le> length (b # bs)"
  using tail_bytes_bounds [of 2 "char_width b - 2" "tl bs"]
  by (auto split: list.split)

definition replacement :: "nat list" where
  "replacement = [239, 191, 189]"

function from_utf8_lossy :: "nat list \<Rightarrow> nat list" where
  "from_utf8_lossy [] = []"
| "from_utf8_lossy (b # bs) =
     (if fst (utf8_step (b # bs)) then take (snd (utf8_step (b # bs))) (b # bs) else replacement) @
     from_utf8_lossy (drop (snd (utf8_step (b # bs))) (b # bs))"
  by pat_completeness auto
termination
proof (relation "measure length")
  fix b :: nat and bs
  show "(drop (snd (utf8_step (b # bs))) (b # bs), b # bs) \<in> measure length"
    using utf8_step_bounds(1) [of b bs] by (simp del: utf8_step.simps)
qed simp

text \<open>\<open>str::from_utf8\<close>: the bytes, when all of them belong to characters.\<close>

function utf8_valid :: "nat list \<Rightarrow> bool" where
  "utf8_valid [] = True"
| "utf8_valid (b # bs) =
     (fst (utf8_step (b # bs)) \<and> utf8_valid (drop (snd (utf8_step (b # bs))) (b # bs)))"
  by pat_completeness auto
termination
proof (relation "measure length")
  fix b :: nat and bs
  show "(drop (snd (utf8_step (b # bs))) (b # bs), b # bs) \<in> measure length"
    using utf8_step_bounds(1) [of b bs] by (simp del: utf8_step.simps)
qed simp

definition from_utf8 :: "u8 list \<Rightarrow> string option" where
  "from_utf8 bytes =
     (if utf8_valid (map unat bytes) then Some (map (\<lambda>b. char_of (unat b)) bytes) else None)"

definition as_bytes :: "string \<Rightarrow> u8 list" where
  "as_bytes s = map (\<lambda>c. word_of_nat (of_char c)) s"

text \<open>The invariant of a \<open>str\<close>.\<close>

definition is_str :: "string \<Rightarrow> bool" where
  "is_str s \<longleftrightarrow> utf8_valid (map of_char s)"

lemma length_as_bytes [simp]: "length (as_bytes s) = length s"
  by (simp add: as_bytes_def)

lemma unat_byte_of_char [simp]: "unat (word_of_nat (of_char c) :: u8) = of_char c"
  by (simp add: unat_of_nat take_bit_eq_mod)

lemma from_utf8_as_bytes [simp]: "is_str s \<Longrightarrow> from_utf8 (as_bytes s) = Some s"
  by (simp add: from_utf8_def as_bytes_def is_str_def comp_def)

lemma utf8_valid_ascii: "\<forall>b \<in> set bs. b < 128 \<Longrightarrow> utf8_valid bs"
  by (induction bs) (simp_all add: char_width_def)

lemma is_ascii_str: "is_ascii s \<Longrightarrow> is_str s"
  by (simp add: is_ascii_def is_str_def utf8_valid_ascii)

end
