(* ===== verification/Config_Core.thy ===== *)
theory Config_Core
  imports Rust_Str
begin

text \<open>
  What the policy values of the crates share: the error of a policy, the TOML reader as an
  interface, and the contract of a value that is validated when it is made and validated
  again by its provider (\<open>try_new\<close> and \<open>validate\<close> of the sources).
\<close>

text \<open>The error type of the shared policy crates; the sources build these two variants.\<close>

datatype policy_error = ParseFailed string | InvalidConfig string

text \<open>The TOML reader is a library: it reads the plain data (or fails), and a failing
  \<open>TryFrom\<close> of the data becomes an error of the reader with the failure's text.\<close>

record ('d, 'te) toml_reader =
  from_str :: "string \<Rightarrow> 'te + 'd"
  custom_error :: "string \<Rightarrow> 'te"
  toml_error_text :: "'te \<Rightarrow> string"

definition deserialize_with ::
  "('d, 'te) toml_reader \<Rightarrow> ('d \<Rightarrow> 'e + 'c) \<Rightarrow> ('e \<Rightarrow> string) \<Rightarrow> string \<Rightarrow> 'te + 'c" where
  "deserialize_with tr conv text s =
     bind_result (from_str tr s) (\<lambda>d. map_err (\<lambda>e. custom_error tr (text e)) (conv d))"

lemma deserialize_with_Inr [simp]:
  "deserialize_with tr conv text s = Inr c \<longleftrightarrow> (\<exists>d. from_str tr s = Inr d \<and> conv d = Inr c)"
  by (auto simp: deserialize_with_def)

text \<open>The contract of a validated value: what construction gives satisfies \<open>valid\<close>, and the
  provider's check is \<open>valid\<close>.\<close>

locale checked_config =
  fixes construct :: "'r \<Rightarrow> 'e + 'c"
    and check :: "'c \<Rightarrow> 'f + unit"
    and valid :: "'c \<Rightarrow> bool"
  assumes construct_valid: "construct r = Inr c \<Longrightarrow> valid c"
    and check_valid: "valid c \<Longrightarrow> check c = Inr ()"
begin

lemma construct_checked: "construct r = Inr c \<Longrightarrow> check c = Inr ()"
  by (simp add: construct_valid check_valid)

text \<open>Checking a value again after making it changes nothing: the builders and parsers of the
  sources do it.\<close>

lemma recheck:
  "bind_result (construct r) (\<lambda>c. bind_result (map_err g (check c)) (\<lambda>_. Inr c)) = construct r"
  by (cases "construct r") (simp_all add: construct_checked)

lemma recheck_parsed:
  "bind_result (map_err h (deserialize_with tr (\<lambda>d. construct (f d)) text s))
     (\<lambda>c. bind_result (map_err g (check c)) (\<lambda>_. Inr c)) =
   map_err h (deserialize_with tr (\<lambda>d. construct (f d)) text s)"
proof (cases "from_str tr s")
  case (Inl e)
  then show ?thesis by (simp add: deserialize_with_def)
next
  case (Inr d)
  then show ?thesis
    by (cases "construct (f d)") (simp_all add: deserialize_with_def construct_checked)
qed

lemma parsed_valid:
  "deserialize_with tr (\<lambda>d. construct (f d)) text s = Inr c \<Longrightarrow> valid c"
  by (auto simp: construct_valid)

end

text \<open>The check is complete and every valid value can be made from its own fields.\<close>

locale constructible_config = checked_config construct check valid
  for construct :: "'r \<Rightarrow> 'e + 'c" and check :: "'c \<Rightarrow> 'f + unit" and valid :: "'c \<Rightarrow> bool" +
  fixes fields :: "'c \<Rightarrow> 'r"
  assumes check_complete: "check c = Inr () \<Longrightarrow> valid c"
    and construct_fields: "valid c \<Longrightarrow> construct (fields c) = Inr c"
begin

lemma check_iff: "check c = Inr () \<longleftrightarrow> valid c"
  using check_complete check_valid by blast

lemma constructible_iff: "(\<exists>r. construct r = Inr c) \<longleftrightarrow> valid c"
  using construct_valid construct_fields by blast

lemma check_iff_constructible: "check c = Inr () \<longleftrightarrow> (\<exists>r. construct r = Inr c)"
  by (simp add: check_iff constructible_iff)

end

end
