(* ===== verification/Retry_Policy.thy ===== *)
theory Retry_Policy
  imports Config_Core
begin

text \<open>
  The retry policy value of \<open>grpc-egress-retry-api\<close> and the standard builder and provider of
  \<open>grpc-egress-retry-spi\<close>: construction with validation, deserialization, the fluent
  builder, the derived durations, and the views the backoff scheduler reads. The scheduler,
  the TOML reader and the error type's text are code outside the repository.
\<close>

section \<open>The policy value\<close>

record build_grpc_retry_config_request =
  br_max_attempts :: u32
  br_initial_backoff_ms :: u64
  br_backoff_multiplier :: f64
  br_jitter_factor :: f64
  br_max_backoff_ms :: u64
  br_rate_limit_max_attempts :: u32
  br_rate_limit_initial_backoff_ms :: u64
  br_rate_limit_max_backoff_ms :: u64

record grpc_retry_config =
  max_attempts :: u32
  initial_backoff_ms :: u64
  backoff_multiplier :: f64
  jitter_factor :: f64
  max_backoff_ms :: u64
  rate_limit_max_attempts :: u32
  rate_limit_initial_backoff_ms :: u64
  rate_limit_max_backoff_ms :: u64

record grpc_retry_config_data =
  rd_max_attempts :: u32
  rd_initial_backoff_ms :: u64
  rd_backoff_multiplier :: f64
  rd_jitter_factor :: f64
  rd_max_backoff_ms :: u64
  rd_rate_limit_max_attempts :: u32
  rd_rate_limit_initial_backoff_ms :: u64
  rd_rate_limit_max_backoff_ms :: u64

text \<open>The test \<open>(0.0..=1.0).contains(&x)\<close>.\<close>

definition in_unit_range :: "f64 \<Rightarrow> bool" where
  "in_unit_range x \<longleftrightarrow> f64_le (F64_Finite 0) x \<and> f64_le x (F64_Finite 1)"

definition try_new :: "build_grpc_retry_config_request \<Rightarrow> policy_error + grpc_retry_config" where
  "try_new inp =
     (if br_max_attempts inp = 0 then Inl (InvalidConfig ''max_attempts must be >= 1'')
      else if br_rate_limit_max_attempts inp = 0
        then Inl (InvalidConfig ''rate_limit_max_attempts must be >= 1'')
      else if f64_le (br_backoff_multiplier inp) (F64_Finite 0) \<or> \<not> is_finite (br_backoff_multiplier inp)
        then Inl (InvalidConfig ''backoff_multiplier must be a positive finite number'')
      else if \<not> in_unit_range (br_jitter_factor inp) \<or> \<not> is_finite (br_jitter_factor inp)
        then Inl (InvalidConfig ''jitter_factor must be in [0.0, 1.0]'')
      else if br_max_backoff_ms inp < br_initial_backoff_ms inp
        then Inl (InvalidConfig ''max_backoff_ms must be >= initial_backoff_ms'')
      else if br_rate_limit_max_backoff_ms inp < br_rate_limit_initial_backoff_ms inp
        then Inl (InvalidConfig ''rate_limit_max_backoff_ms must be >= rate_limit_initial_backoff_ms'')
      else Inr
        \<lparr>max_attempts = br_max_attempts inp,
         initial_backoff_ms = br_initial_backoff_ms inp,
         backoff_multiplier = br_backoff_multiplier inp,
         jitter_factor = br_jitter_factor inp,
         max_backoff_ms = br_max_backoff_ms inp,
         rate_limit_max_attempts = br_rate_limit_max_attempts inp,
         rate_limit_initial_backoff_ms = br_rate_limit_initial_backoff_ms inp,
         rate_limit_max_backoff_ms = br_rate_limit_max_backoff_ms inp\<rparr>)"

definition try_from_data :: "grpc_retry_config_data \<Rightarrow> policy_error + grpc_retry_config" where
  "try_from_data d = try_new
     \<lparr>br_max_attempts = rd_max_attempts d,
      br_initial_backoff_ms = rd_initial_backoff_ms d,
      br_backoff_multiplier = rd_backoff_multiplier d,
      br_jitter_factor = rd_jitter_factor d,
      br_max_backoff_ms = rd_max_backoff_ms d,
      br_rate_limit_max_attempts = rd_rate_limit_max_attempts d,
      br_rate_limit_initial_backoff_ms = rd_rate_limit_initial_backoff_ms d,
      br_rate_limit_max_backoff_ms = rd_rate_limit_max_backoff_ms d\<rparr>"

text \<open>The literal \<open>0.1\<close> is the double nearest to one tenth.\<close>

definition f64_one_tenth :: f64 where
  "f64_one_tenth = F64_Finite (3602879701896397 / 36028797018963968)"

definition default_retry_config :: grpc_retry_config where
  "default_retry_config =
     \<lparr>max_attempts = 5,
      initial_backoff_ms = 100,
      backoff_multiplier = F64_Finite 2,
      jitter_factor = f64_one_tenth,
      max_backoff_ms = 5000,
      rate_limit_max_attempts = 2,
      rate_limit_initial_backoff_ms = 1000,
      rate_limit_max_backoff_ms = 10000\<rparr>"

text \<open>The derived \<open>PartialEq\<close>, which compares the two \<open>f64\<close> fields as IEEE values.\<close>

definition retry_config_eq :: "grpc_retry_config \<Rightarrow> grpc_retry_config \<Rightarrow> bool" where
  "retry_config_eq a b \<longleftrightarrow>
     max_attempts a = max_attempts b \<and>
     initial_backoff_ms a = initial_backoff_ms b \<and>
     f64_eq (backoff_multiplier a) (backoff_multiplier b) \<and>
     f64_eq (jitter_factor a) (jitter_factor b) \<and>
     max_backoff_ms a = max_backoff_ms b \<and>
     rate_limit_max_attempts a = rate_limit_max_attempts b \<and>
     rate_limit_initial_backoff_ms a = rate_limit_initial_backoff_ms b \<and>
     rate_limit_max_backoff_ms a = rate_limit_max_backoff_ms b"

section \<open>What the backoff scheduler reads\<close>

record backoff_policy =
  bp_initial_backoff_ms :: u64
  bp_max_backoff_ms :: u64
  bp_backoff_multiplier :: f64
  bp_jitter_factor :: f64

record rate_limit_backoff_policy =
  rp_rate_limit_max_attempts :: u32
  rp_rate_limit_initial_backoff_ms :: u64
  rp_rate_limit_max_backoff_ms :: u64

definition as_backoff_policy :: "grpc_retry_config \<Rightarrow> backoff_policy" where
  "as_backoff_policy c =
     \<lparr>bp_initial_backoff_ms = initial_backoff_ms c,
      bp_max_backoff_ms = max_backoff_ms c,
      bp_backoff_multiplier = backoff_multiplier c,
      bp_jitter_factor = jitter_factor c\<rparr>"

definition as_rate_limit_policy :: "grpc_retry_config \<Rightarrow> rate_limit_backoff_policy" where
  "as_rate_limit_policy c =
     \<lparr>rp_rate_limit_max_attempts = rate_limit_max_attempts c,
      rp_rate_limit_initial_backoff_ms = rate_limit_initial_backoff_ms c,
      rp_rate_limit_max_backoff_ms = rate_limit_max_backoff_ms c\<rparr>"

section \<open>The provider: parsing, durations, validation\<close>

definition validate :: "grpc_retry_config \<Rightarrow> policy_error + unit" where
  "validate c =
     (if max_attempts c = 0 then Inl (InvalidConfig ''max_attempts must be >= 1'')
      else if f64_le (backoff_multiplier c) (F64_Finite 0) \<or> \<not> is_finite (backoff_multiplier c)
        then Inl (InvalidConfig ''backoff_multiplier must be a positive finite number'')
      else if \<not> in_unit_range (jitter_factor c) \<or> \<not> is_finite (jitter_factor c)
        then Inl (InvalidConfig ''jitter_factor must be in [0.0, 1.0]'')
      else if max_backoff_ms c < initial_backoff_ms c
        then Inl (InvalidConfig ''max_backoff_ms must be >= initial_backoff_ms'')
      else if rate_limit_max_attempts c = 0
        then Inl (InvalidConfig ''rate_limit_max_attempts must be >= 1'')
      else if rate_limit_max_backoff_ms c < rate_limit_initial_backoff_ms c
        then Inl (InvalidConfig ''rate_limit_max_backoff_ms must be >= rate_limit_initial_backoff_ms'')
      else Inr ())"

definition parse_config ::
  "(grpc_retry_config_data, 'te) toml_reader \<Rightarrow> (policy_error \<Rightarrow> string) \<Rightarrow> string \<Rightarrow>
     policy_error + grpc_retry_config" where
  "parse_config tr text s =
     bind_result
       (map_err (\<lambda>e. ParseFailed (toml_error_text tr e)) (deserialize_with tr try_from_data text s))
       (\<lambda>c. bind_result (validate c) (\<lambda>_. Inr c))"

definition initial_backoff :: "grpc_retry_config \<Rightarrow> duration" where
  "initial_backoff c = from_millis (initial_backoff_ms c)"

definition max_backoff :: "grpc_retry_config \<Rightarrow> duration" where
  "max_backoff c = from_millis (max_backoff_ms c)"

definition rate_limit_initial_backoff :: "grpc_retry_config \<Rightarrow> duration" where
  "rate_limit_initial_backoff c = from_millis (rate_limit_initial_backoff_ms c)"

definition rate_limit_max_backoff :: "grpc_retry_config \<Rightarrow> duration" where
  "rate_limit_max_backoff c = from_millis (rate_limit_max_backoff_ms c)"

section \<open>The fluent builder\<close>

record retry_config_builder =
  rb_max_attempts :: u32
  rb_initial_backoff_ms :: u64
  rb_backoff_multiplier :: f64
  rb_jitter_factor :: f64
  rb_max_backoff_ms :: u64
  rb_rate_limit_max_attempts :: u32
  rb_rate_limit_initial_backoff_ms :: u64
  rb_rate_limit_max_backoff_ms :: u64

definition default_builder :: retry_config_builder where
  "default_builder =
     (let config = default_retry_config in
      \<lparr>rb_max_attempts = max_attempts config,
       rb_initial_backoff_ms = initial_backoff_ms config,
       rb_backoff_multiplier = backoff_multiplier config,
       rb_jitter_factor = jitter_factor config,
       rb_max_backoff_ms = max_backoff_ms config,
       rb_rate_limit_max_attempts = rate_limit_max_attempts config,
       rb_rate_limit_initial_backoff_ms = rate_limit_initial_backoff_ms config,
       rb_rate_limit_max_backoff_ms = rate_limit_max_backoff_ms config\<rparr>)"

datatype retry_setting =
    Set_max_attempts u32
  | Set_initial_backoff_ms u64
  | Set_backoff_multiplier f64
  | Set_jitter_factor f64
  | Set_max_backoff_ms u64
  | Set_rate_limit_max_attempts u32
  | Set_rate_limit_initial_backoff_ms u64
  | Set_rate_limit_max_backoff_ms u64

text \<open>One equation per method of the builder.\<close>

fun apply_setting :: "retry_setting \<Rightarrow> retry_config_builder \<Rightarrow> retry_config_builder" where
  "apply_setting (Set_max_attempts v) b = b\<lparr>rb_max_attempts := v\<rparr>"
| "apply_setting (Set_initial_backoff_ms v) b = b\<lparr>rb_initial_backoff_ms := v\<rparr>"
| "apply_setting (Set_backoff_multiplier v) b = b\<lparr>rb_backoff_multiplier := v\<rparr>"
| "apply_setting (Set_jitter_factor v) b = b\<lparr>rb_jitter_factor := v\<rparr>"
| "apply_setting (Set_max_backoff_ms v) b = b\<lparr>rb_max_backoff_ms := v\<rparr>"
| "apply_setting (Set_rate_limit_max_attempts v) b = b\<lparr>rb_rate_limit_max_attempts := v\<rparr>"
| "apply_setting (Set_rate_limit_initial_backoff_ms v) b = b\<lparr>rb_rate_limit_initial_backoff_ms := v\<rparr>"
| "apply_setting (Set_rate_limit_max_backoff_ms v) b = b\<lparr>rb_rate_limit_max_backoff_ms := v\<rparr>"

definition builder_input :: "retry_config_builder \<Rightarrow> build_grpc_retry_config_request" where
  "builder_input b =
     \<lparr>br_max_attempts = rb_max_attempts b,
      br_initial_backoff_ms = rb_initial_backoff_ms b,
      br_backoff_multiplier = rb_backoff_multiplier b,
      br_jitter_factor = rb_jitter_factor b,
      br_max_backoff_ms = rb_max_backoff_ms b,
      br_rate_limit_max_attempts = rb_rate_limit_max_attempts b,
      br_rate_limit_initial_backoff_ms = rb_rate_limit_initial_backoff_ms b,
      br_rate_limit_max_backoff_ms = rb_rate_limit_max_backoff_ms b\<rparr>"

definition build_config :: "retry_config_builder \<Rightarrow> policy_error + grpc_retry_config" where
  "build_config b =
     bind_result (try_new (builder_input b)) (\<lambda>c. bind_result (validate c) (\<lambda>_. Inr c))"

section \<open>What construction guarantees\<close>

definition valid_retry_config :: "grpc_retry_config \<Rightarrow> bool" where
  "valid_retry_config c \<longleftrightarrow>
     1 \<le> unat (max_attempts c) \<and>
     1 \<le> unat (rate_limit_max_attempts c) \<and>
     (\<exists>m > 0. backoff_multiplier c = F64_Finite m) \<and>
     (\<exists>j. 0 \<le> j \<and> j \<le> 1 \<and> jitter_factor c = F64_Finite j) \<and>
     initial_backoff c \<le> max_backoff c \<and>
     rate_limit_initial_backoff c \<le> rate_limit_max_backoff c"

definition config_input :: "grpc_retry_config \<Rightarrow> build_grpc_retry_config_request" where
  "config_input c =
     \<lparr>br_max_attempts = max_attempts c,
      br_initial_backoff_ms = initial_backoff_ms c,
      br_backoff_multiplier = backoff_multiplier c,
      br_jitter_factor = jitter_factor c,
      br_max_backoff_ms = max_backoff_ms c,
      br_rate_limit_max_attempts = rate_limit_max_attempts c,
      br_rate_limit_initial_backoff_ms = rate_limit_initial_backoff_ms c,
      br_rate_limit_max_backoff_ms = rate_limit_max_backoff_ms c\<rparr>"

lemma unat_ge_1 [simp]: "Suc 0 \<le> unat (w :: 'a::len word) \<longleftrightarrow> w \<noteq> 0"
  by (simp add: Suc_le_eq unat_gt_0)

lemma from_millis_le [simp]: "from_millis a \<le> from_millis b \<longleftrightarrow> a \<le> b"
  by (simp add: from_millis_def nanos_per_milli_def word_le_nat_alt)

lemma positive_multiplier:
  "\<not> f64_le x (F64_Finite 0) \<and> is_finite x \<longleftrightarrow> (\<exists>m > 0. x = F64_Finite m)"
  by (cases x) auto

lemma unit_jitter:
  "in_unit_range x \<and> is_finite x \<longleftrightarrow> (\<exists>j. 0 \<le> j \<and> j \<le> 1 \<and> x = F64_Finite j)"
  by (cases x) (auto simp: in_unit_range_def)

lemma valid_retry_config_iff:
  "valid_retry_config c \<longleftrightarrow>
     max_attempts c \<noteq> 0 \<and> rate_limit_max_attempts c \<noteq> 0 \<and>
     (\<not> f64_le (backoff_multiplier c) (F64_Finite 0) \<and> is_finite (backoff_multiplier c)) \<and>
     (in_unit_range (jitter_factor c) \<and> is_finite (jitter_factor c)) \<and>
     \<not> max_backoff_ms c < initial_backoff_ms c \<and>
     \<not> rate_limit_max_backoff_ms c < rate_limit_initial_backoff_ms c"
  unfolding valid_retry_config_def positive_multiplier unit_jitter
  by (simp add: initial_backoff_def max_backoff_def rate_limit_initial_backoff_def
      rate_limit_max_backoff_def not_less)

lemma validate_iff: "validate c = Inr () \<longleftrightarrow> valid_retry_config c"
  by (auto simp: validate_def valid_retry_config_iff)

lemma try_new_Inr:
  "try_new inp = Inr c \<Longrightarrow> valid_retry_config c \<and> config_input c = inp"
  by (auto simp: try_new_def valid_retry_config_iff config_input_def split: if_splits)

lemma try_new_config_input: "valid_retry_config c \<Longrightarrow> try_new (config_input c) = Inr c"
  by (simp add: try_new_def valid_retry_config_iff config_input_def)

text \<open>The retry policy keeps the contract of a validated value.\<close>

interpretation retry_cfg: constructible_config try_new validate valid_retry_config config_input
  by unfold_locales (auto simp: validate_iff try_new_config_input dest: try_new_Inr)

section \<open>Properties\<close>

lemma retry_config_eq_refl: "valid_retry_config c \<Longrightarrow> retry_config_eq c c"
  by (auto simp: valid_retry_config_def retry_config_eq_def)

text \<open>The provider's \<open>validate\<close> accepts exactly the values that
  \<open>try_new\<close> can make, and those are the policies with at least one attempt on each track, a
  positive finite multiplier, a jitter in the unit interval and ordered backoffs; checking a
  value again, as the builder does, never changes the outcome.\<close>

lemma retry_policy_contract:
  "(validate c = Inr () \<longleftrightarrow> (\<exists>inp. try_new inp = Inr c)) \<and>
   (validate c = Inr () \<longleftrightarrow> valid_retry_config c) \<and>
   build_config b = try_new (builder_input b)"
  using retry_cfg.recheck [of "builder_input b" "\<lambda>e. e"]
  by (simp add: validate_iff retry_cfg.constructible_iff build_config_def)

end
