(* ===== verification/Call_Contract.thy ===== *)
theory Call_Contract
  imports Rust_Str
begin

text \<open>
  The vocabulary of the call contract (the crate \<open>proto-pattern\<close>), as the sources under
  \<open>src/\<close> name and match it: status codes, call errors, call options, requests, responses,
  response streams, lifecycle events and the two transports of a client. The contract's own
  code is not in the repository. Its types with behaviour of their own stay parameters: a
  metadata value is of any type \<open>'md\<close> (the metadata of a response of any type \<open>'h\<close>), and
  what can be asked of it is a record of functions.
\<close>

section \<open>Status codes and call errors\<close>

text \<open>The sixteen codes and \<open>Ok\<close>, which \<open>StdRetryClassifier::classify_status\<close> matches
  exhaustively.\<close>

datatype status_code =
    Ok | Cancelled | Unknown | InvalidArgument | DeadlineExceeded | NotFound | AlreadyExists
  | PermissionDenied | ResourceExhausted | FailedPrecondition | Aborted | OutOfRange
  | Unimplemented | Internal | Unavailable | DataLoss | Unauthenticated

text \<open>An encoding or decoding failure: the name of the message and the reason, the two arguments
  of \<open>DecodeError::create\<close>.\<close>

datatype codec_error = CodecError (codec_message: string) (codec_reason: string)

text \<open>The four variants of \<open>CallError\<close>, which the classifiers match exhaustively.\<close>

datatype 'md call_error =
    Status (err_path: string) (err_code: status_code) (err_message: string)
      (err_details: "u8 list") (err_trailers: 'md)
  | Transport (err_path: string) (err_code: status_code) (err_reason: string)
  | Encode codec_error
  | Decode codec_error

section \<open>Metadata, as an interface\<close>

text \<open>
  \<open>MetadataView\<close>: the values of a key, the text entries, and the binary entries, each of which
  may fail to decode. \<open>MetadataBuilder\<close>: an append checks its key and value.
\<close>

record ('v, 'me) metadata_view =
  get_values :: "'v \<Rightarrow> string \<Rightarrow> 'me + string list"
  get_entries :: "'v \<Rightarrow> 'me + (string \<times> string) list"
  get_binary_entries :: "'v \<Rightarrow> 'me + ('me + (string \<times> u8 list)) list"

record ('md, 'mb, 'me) metadata_builder =
  mb_create :: 'mb
  mb_append :: "'mb \<Rightarrow> string \<Rightarrow> string \<Rightarrow> 'me + 'mb"
  mb_append_binary :: "'mb \<Rightarrow> string \<Rightarrow> u8 list \<Rightarrow> 'me + 'mb"
  mb_build :: "'mb \<Rightarrow> 'md"

section \<open>Calls\<close>

record 'md call_options =
  opt_timeout :: "duration option"
  opt_metadata :: 'md

definition create_options :: "duration option \<Rightarrow> 'md \<Rightarrow> 'md call_options" where
  "create_options t m = \<lparr>opt_timeout = t, opt_metadata = m\<rparr>"

text \<open>A request of any shape: the path of the method, what is sent (one message, or a stream of
  messages) and the options.\<close>

record ('i, 'md) call_request =
  req_path :: string
  req_body :: 'i
  req_options :: "'md call_options"

record ('o, 'h) call_response =
  resp_message :: 'o
  resp_headers :: 'h
  resp_trailers :: 'h

datatype call_kind = Unary | ServerStream | ClientStream | BidiStream

record call_identity =
  id_path :: string
  id_kind :: call_kind

datatype ('md, 'h) call_event =
    Started call_identity
  | Opened call_identity 'h
  | MessageRead call_identity
  | Completed call_identity "'h option" 'h
  | Failed call_identity "'md call_error"
  | CancelledEvent call_identity

text \<open>The operations of an opened response stream; a read changes the stream.\<close>

record ('w, 's, 'o, 'h, 'md) response_stream =
  read_message :: "'s \<Rightarrow> 'w \<Rightarrow> ('md call_error + 'o option) \<times> 's \<times> 'w"
  get_headers :: "'s \<Rightarrow> 'w \<Rightarrow> ('md call_error + 'h) \<times> 's \<times> 'w"
  read_trailers :: "'s \<Rightarrow> 'w \<Rightarrow> ('md call_error + 'h) \<times> 's \<times> 'w"
  drop_stream :: "'s \<Rightarrow> 'w \<Rightarrow> 'w"

text \<open>
  A transport, typed or raw: the four call shapes. \<open>'i\<close> and \<open>'o\<close> are the messages (the
  caller's own types, or bytes), \<open>'q\<close> a stream of request messages, \<open>'s\<close> an opened
  response stream.
\<close>

record ('w, 'i, 'q, 'o, 's, 'md, 'h) transport =
  call_unary :: "('i, 'md) call_request \<Rightarrow> ('w, 'md call_error + ('o, 'h) call_response) io"
  call_server_stream :: "('i, 'md) call_request \<Rightarrow> ('w, 'md call_error + 's) io"
  call_client_stream :: "('q, 'md) call_request \<Rightarrow> ('w, 'md call_error + ('o, 'h) call_response) io"
  call_bidi_stream :: "('q, 'md) call_request \<Rightarrow> ('w, 'md call_error + 's) io"

text \<open>A client is a \<open>Transport\<close> and a \<open>RawTransport\<close> over one state.\<close>

record ('w, 'i, 'q, 'o, 's, 'bq, 'bs, 'md, 'h) client =
  typed :: "('w, 'i, 'q, 'o, 's, 'md, 'h) transport"
  raw :: "('w, u8 list, 'bq, u8 list, 'bs, 'md, 'h) transport"

lemma create_options_simps [simp]:
  "opt_timeout (create_options t m) = t"
  "opt_metadata (create_options t m) = m"
  "create_options (opt_timeout opts) (opt_metadata opts) = opts"
  by (simp_all add: create_options_def)

end
