(* ===== verification/Retry_Classifier.thy ===== *)
theory Retry_Classifier
  imports Call_Contract
begin

text \<open>
  Which failures the retry decorator retries: the trait \<open>RetryClassifier\<close> of
  \<open>grpc-egress-retry-api\<close> as a record of its operations and as a contract, and
  \<open>StdRetryClassifier\<close> of \<open>grpc-egress-retry-std\<close>, which provides it.
\<close>

section \<open>Decisions\<close>

datatype retry_decision = Success | Retry | RetryRateLimit | Terminal

datatype resource_exhausted_context = Capacity | RateLimit | HardQuota

text \<open>The operations of the trait at one result type.\<close>

record ('md, 'r) retry_classifier =
  rc_classify :: "'md call_error + 'r \<Rightarrow> retry_decision"
  rc_classify_resource_exhausted :: "string \<Rightarrow> resource_exhausted_context"
  rc_should_retry :: "retry_decision \<Rightarrow> bool"
  rc_is_rate_limit :: "retry_decision \<Rightarrow> bool"
  rc_read_retry_after :: "'md call_error \<Rightarrow> duration option"
  rc_parse_retry_after_hint :: "string \<Rightarrow> duration option"

section \<open>StdRetryClassifier\<close>

definition classify_resource_exhausted :: "string \<Rightarrow> resource_exhausted_context" where
  "classify_resource_exhausted message =
     (let msg = to_ascii_lowercase message in
      if str_contains msg ''quota'' \<or> str_contains msg ''billing'' \<or> str_contains msg ''plan limit''
      then HardQuota
      else if str_contains msg ''rate'' \<or> str_contains msg ''too many requests''
           \<or> str_contains msg ''throttl''
      then RateLimit
      else Capacity)"

fun classify_status :: "status_code \<Rightarrow> string \<Rightarrow> retry_decision" where
  "classify_status Unavailable msg = Retry"
| "classify_status ResourceExhausted msg =
     (case classify_resource_exhausted msg of
        HardQuota \<Rightarrow> Terminal
      | RateLimit \<Rightarrow> RetryRateLimit
      | Capacity \<Rightarrow> Retry)"
| "classify_status Unauthenticated msg = Terminal"
| "classify_status PermissionDenied msg = Terminal"
| "classify_status DeadlineExceeded msg = Terminal"
| "classify_status Internal msg = Terminal"
| "classify_status Cancelled msg = Terminal"
| "classify_status Ok msg = Terminal"
| "classify_status Unknown msg = Terminal"
| "classify_status InvalidArgument msg = Terminal"
| "classify_status NotFound msg = Terminal"
| "classify_status AlreadyExists msg = Terminal"
| "classify_status FailedPrecondition msg = Terminal"
| "classify_status Aborted msg = Terminal"
| "classify_status OutOfRange msg = Terminal"
| "classify_status Unimplemented msg = Terminal"
| "classify_status DataLoss msg = Terminal"

fun classify :: "'md call_error + 'r \<Rightarrow> retry_decision" where
  "classify (Inr v) = Success"
| "classify (Inl (Status path code message details trailers)) = classify_status code message"
| "classify (Inl (Transport path code reason)) =
     (if code = Unavailable \<or> code = Unknown then Retry else Terminal)"
| "classify (Inl (Encode e)) = Terminal"
| "classify (Inl (Decode e)) = Terminal"

definition should_retry :: "retry_decision \<Rightarrow> bool" where
  "should_retry decision \<longleftrightarrow> decision \<in> {Retry, RetryRateLimit}"

definition is_rate_limit :: "retry_decision \<Rightarrow> bool" where
  "is_rate_limit decision \<longleftrightarrow> decision = RetryRateLimit"

definition retry_after_keys :: "string list" where
  "retry_after_keys = [''retry-after'', ''x-ratelimit-reset-requests'']"

text \<open>The tag's bytes are ASCII, so both slices start at a character boundary.\<close>

definition parse_retry_after_hint :: "string \<Rightarrow> duration option" where
  "parse_retry_after_hint message =
     (let tag = ''[retry-after='' in
      case str_find message tag of
        None \<Rightarrow> None
      | Some i \<Rightarrow>
          (let rest = drop (i + length tag) message in
           case str_find rest ''s'' of
             None \<Rightarrow> None
           | Some end \<Rightarrow>
               (case parse_u64 (take end rest) of
                  None \<Rightarrow> None
                | Some secs \<Rightarrow> Some (from_secs secs))))"

fun find_map :: "('a \<Rightarrow> 'b option) \<Rightarrow> 'a list \<Rightarrow> 'b option" where
  "find_map f [] = None"
| "find_map f (x # xs) = (case f x of Some y \<Rightarrow> Some y | None \<Rightarrow> find_map f xs)"

text \<open>The values of a key, none when the view refuses the key.\<close>

definition values_or_default :: "('v, 'me) metadata_view \<Rightarrow> 'v \<Rightarrow> string \<Rightarrow> string list" where
  "values_or_default view m key = (case get_values view m key of Inl e \<Rightarrow> [] | Inr vs \<Rightarrow> vs)"

definition trailer_seconds :: "('md, 'me) metadata_view \<Rightarrow> 'md \<Rightarrow> string \<Rightarrow> u64 option" where
  "trailer_seconds view trailers key =
     (case values_or_default view trailers key of
        [] \<Rightarrow> None
      | value # _ \<Rightarrow> parse_u64 (str_trim value))"

fun read_retry_after :: "('md, 'me) metadata_view \<Rightarrow> 'md call_error \<Rightarrow> duration option" where
  "read_retry_after view (Status path code message details trailers) =
     (case find_map (trailer_seconds view trailers) retry_after_keys of
        Some secs \<Rightarrow> Some (from_secs secs)
      | None \<Rightarrow> parse_retry_after_hint message)"
| "read_retry_after view error = None"

definition std_retry_classifier :: "('md, 'me) metadata_view \<Rightarrow> ('md, 'r) retry_classifier" where
  "std_retry_classifier view =
     \<lparr>rc_classify = classify,
      rc_classify_resource_exhausted = classify_resource_exhausted,
      rc_should_retry = should_retry,
      rc_is_rate_limit = is_rate_limit,
      rc_read_retry_after = read_retry_after view,
      rc_parse_retry_after_hint = parse_retry_after_hint\<rparr>"

lemma std_retry_classifier_simps [simp]:
  "rc_classify (std_retry_classifier view) = classify"
  "rc_read_retry_after (std_retry_classifier view) = read_retry_after view"
  by (simp_all add: std_retry_classifier_def)

section \<open>The contract of a classifier\<close>

text \<open>
  What the documentation of the trait promises whoever calls it: a result with a value is a
  success and nothing else is, the caller's own codec failures are terminal, and the two
  predicates on decisions name the retrying ones.
\<close>

locale retry_classifier_contract =
  fixes cls :: "('md, 'r) retry_classifier"
  assumes success_iff: "rc_classify cls r = Success \<longleftrightarrow> (\<exists>v. r = Inr v)"
    and codec_terminal: "rc_classify cls (Inl (Encode e)) = Terminal"
      "rc_classify cls (Inl (Decode e)) = Terminal"
    and should_retry_iff: "rc_should_retry cls d \<longleftrightarrow> d = Retry \<or> d = RetryRateLimit"
    and is_rate_limit_iff: "rc_is_rate_limit cls d \<longleftrightarrow> d = RetryRateLimit"
begin

lemma retry_has_error:
  "rc_classify cls r = Retry \<or> rc_classify cls r = RetryRateLimit \<Longrightarrow> \<exists>e. r = Inl e"
  using success_iff [of r] by (cases r) auto

lemma classify_value: "rc_classify cls (Inr v) = Success"
  using success_iff by blast

lemma rate_limit_is_retry: "rc_is_rate_limit cls d \<Longrightarrow> rc_should_retry cls d"
  by (simp add: should_retry_iff is_rate_limit_iff)

lemma not_retried_iff:
  "\<not> rc_should_retry cls (rc_classify cls r) \<longleftrightarrow>
     (\<exists>v. r = Inr v) \<or> rc_classify cls r = Terminal"
  using success_iff [of r] by (cases "rc_classify cls r") (auto simp: should_retry_iff)

end

lemma classify_status_not_success [simp]: "classify_status code msg \<noteq> Success"
  by (cases "(code, msg)" rule: classify_status.cases)
    (auto split: resource_exhausted_context.splits)

lemma classify_success_iff: "classify r = Success \<longleftrightarrow> (\<exists>v. r = Inr v)"
  by (cases r rule: classify.cases) auto

interpretation std_cls: retry_classifier_contract "std_retry_classifier view" for view
  by unfold_locales
    (auto simp: std_retry_classifier_def classify_success_iff should_retry_def is_rate_limit_def)

section \<open>Lemmas\<close>

lemma classify_status_retry_iff:
  "classify_status code msg = Retry \<longleftrightarrow>
     code = Unavailable \<or> (code = ResourceExhausted \<and> classify_resource_exhausted msg = Capacity)"
  by (cases "(code, msg)" rule: classify_status.cases)
    (auto split: resource_exhausted_context.splits)

lemma classify_status_rate_limit_iff:
  "classify_status code msg = RetryRateLimit \<longleftrightarrow>
     code = ResourceExhausted \<and> classify_resource_exhausted msg = RateLimit"
  by (cases "(code, msg)" rule: classify_status.cases)
    (auto split: resource_exhausted_context.splits)

lemma hint_tag_first:
  assumes "\<not> str_contains (butlast (a @ ''[retry-after='')) ''[retry-after=''"
  shows "str_find (a @ ''[retry-after='' @ b) ''[retry-after='' = Some (length a)"
  using str_find_first [OF assms] by simp

lemma parse_hint_round_trip:
  assumes "\<not> str_contains (butlast (a @ ''[retry-after='')) ''[retry-after=''"
  shows "parse_retry_after_hint (a @ ''[retry-after='' @ show_u64 n @ ''s]'' @ b) = Some (from_secs n)"
proof -
  have find: "str_find (a @ ''[retry-after='' @ show_u64 n @ ''s]'' @ b) ''[retry-after='' = Some (length a)"
    by (rule hint_tag_first [OF assms])
  have "str_find (show_u64 n @ CHR ''s'' # '']'' @ b) ''s'' = Some (length (show_u64 n))"
    by (rule str_find_char_skip) (simp add: show_u64_def show_nat_no_s)
  then show ?thesis
    using find by (simp add: parse_retry_after_hint_def Let_def)
qed

lemma classify_resource_exhausted_ignores_case:
  "to_ascii_lowercase m = to_ascii_lowercase m' \<Longrightarrow>
   classify_resource_exhausted m = classify_resource_exhausted m'"
  by (simp add: classify_resource_exhausted_def)

section \<open>Properties\<close>

text \<open>A status is retried on the standard track when the server is
  unavailable or out of capacity, and on the rate-limit track when its resource-exhausted
  message speaks of a rate and not of a quota; a transport failure only when its code is
  \<open>Unavailable\<close> or \<open>Unknown\<close>; the case of the letters of the message never matters.\<close>

lemma classification_table:
  "classify (Inl (Status path code m details trailers) :: 'md call_error + 'r) =
     (if code = Unavailable \<or> (code = ResourceExhausted \<and> classify_resource_exhausted m = Capacity) then Retry
      else if code = ResourceExhausted \<and> classify_resource_exhausted m = RateLimit then RetryRateLimit
      else Terminal) \<and>
   classify (Inl (Transport path code m) :: 'md call_error + 'r) =
     (if code \<in> {Unavailable, Unknown} then Retry else Terminal) \<and>
   classify (Inl (Status path code (to_ascii_lowercase m) details trailers) :: 'md call_error + 'r) =
     classify (Inl (Status path code m details trailers) :: 'md call_error + 'r)"
proof -
  have table: "classify_status code msg =
      (if code = Unavailable \<or> (code = ResourceExhausted \<and> classify_resource_exhausted msg = Capacity) then Retry
       else if code = ResourceExhausted \<and> classify_resource_exhausted msg = RateLimit then RetryRateLimit
       else Terminal)" for msg
    using classify_status_not_success [of code msg] classify_status_retry_iff [of code msg]
      classify_status_rate_limit_iff [of code msg]
    by (cases "classify_status code msg") auto
  have "classify_resource_exhausted (to_ascii_lowercase m) = classify_resource_exhausted m"
    by (rule classify_resource_exhausted_ignores_case) (simp add: to_ascii_lowercase_idem)
  then show ?thesis
    by (simp add: table)
qed

text \<open>C24 (retry_after_read_back). A pause of any number of seconds that a status message carries as
  the tag \<open>[retry-after=Ns]\<close> is read back, when no earlier text contains the tag and the
  trailers name no pause; a trailer that does name one comes first.\<close>

theorem retry_after_read_back:
  assumes "\<not> str_contains (butlast (a @ ''[retry-after='')) ''[retry-after=''"
  shows "read_retry_after view
      (Status path code (a @ ''[retry-after='' @ show_u64 n @ ''s]'' @ b) details trailers) =
    Some (case find_map (trailer_seconds view trailers) retry_after_keys of
      Some secs \<Rightarrow> from_secs secs | None \<Rightarrow> from_secs n)"
  using parse_hint_round_trip [OF assms] by (simp split: option.split)

text \<open>A view of metadata without entries, for the witnesses.\<close>

definition demo_view :: "(unit, unit) metadata_view" where
  "demo_view = \<lparr>get_values = (\<lambda>m k. Inr []), get_entries = (\<lambda>m. Inr []), get_binary_entries = (\<lambda>m. Inr [])\<rparr>"

theorem retry_after_read_back_witness:
  "read_retry_after demo_view
     (Status ''/s/M'' ResourceExhausted ''busy [retry-after=30s] now'' [] ()) = Some (from_secs 30)"
proof -
  have "\<not> str_contains (butlast (''busy '' @ ''[retry-after='')) ''[retry-after=''"
    by code_simp
  moreover have "show_u64 30 = ''30''"
    by code_simp
  ultimately show ?thesis
    using retry_after_read_back [of "''busy ''" demo_view "''/s/M''" ResourceExhausted 30 "'' now''" "[]" "()"]
    by (simp add: demo_view_def retry_after_keys_def trailer_seconds_def values_or_default_def)
qed

end
