(* ===== verification/Retry_Client.thy ===== *)
theory Retry_Client
  imports Retry_Policy Retry_Classifier
begin

text \<open>
  The retry decorator \<open>GrpcRetryClient\<close> of \<open>grpc-egress-retry-spi\<close>: the loop
  \<open>run_with_retry\<close> with its two backoff tracks and its time budget, and the eight calls of
  the decorated client. The clock, the timer, the jitter generator and the backoff scheduler
  are the runtime the loop runs on, passed as a record; the inner client is any transport.
\<close>

section \<open>The runtime\<close>

text \<open>\<open>Instant::now\<close>, \<open>tokio::time::sleep\<close>, \<open>DefaultJitterRng\<close> and \<open>BackoffScheduler\<close>. An
  instant is a number of nanoseconds of the monotonic clock.\<close>

record ('w, 'g, 'u) retry_runtime =
  rt_now :: "('w, nat) io"
  rt_sleep :: "duration \<Rightarrow> 'w \<Rightarrow> 'w"
  rt_jitter_from_clock :: "('w, 'g) io"
  rt_next_unit :: "'g \<Rightarrow> 'u \<times> 'g"
  rt_next_backoff :: "backoff_policy \<Rightarrow> u32 \<Rightarrow> 'u \<Rightarrow> duration"
  rt_rate_limit_backoff :: "rate_limit_backoff_policy \<Rightarrow> backoff_policy \<Rightarrow> u32 \<Rightarrow> duration option \<Rightarrow> 'u \<Rightarrow> duration"

section \<open>The loop\<close>

text \<open>The local variables of the loop.\<close>

record ('md, 'g) retry_state =
  rng :: 'g
  standard_attempt :: u32
  rate_lim_attempt :: u32
  last_error :: "'md call_error option"

definition initial_retry_state :: "'g \<Rightarrow> ('md, 'g) retry_state" where
  "initial_retry_state g =
     \<lparr>rng = g, standard_attempt = 0, rate_lim_attempt = 0, last_error = None\<rparr>"

text \<open>\<open>started.elapsed()\<close> saturates at zero.\<close>

definition elapsed :: "('w, 'g, 'u) retry_runtime \<Rightarrow> nat \<Rightarrow> ('w, duration) io" where
  "elapsed rt started w = (let (t, w') = rt_now rt w in (t - started, w'))"

text \<open>What is left of the budget before an attempt: \<open>None\<close> when it is spent, otherwise the
  timeout of the attempt.\<close>

definition remaining ::
  "('w, 'g, 'u) retry_runtime \<Rightarrow> nat \<Rightarrow> duration option \<Rightarrow> ('w, duration option option) io" where
  "remaining rt started total_budget w =
     (case total_budget of
        None \<Rightarrow> (Some None, w)
      | Some budget \<Rightarrow>
          (let (e, w') = elapsed rt started w in
           case duration_checked_sub budget e of
             Some left \<Rightarrow> (if left \<noteq> 0 then Some (Some left) else None, w')
           | None \<Rightarrow> (None, w')))"

definition budget_allows_sleep ::
  "('w, 'g, 'u) retry_runtime \<Rightarrow> nat \<Rightarrow> duration option \<Rightarrow> duration \<Rightarrow> ('w, bool) io" where
  "budget_allows_sleep rt started total_budget sleep_for w =
     (case total_budget of
        None \<Rightarrow> (True, w)
      | Some budget \<Rightarrow>
          (let (elapsed_after, w') = elapsed rt started w in
           (case duration_checked_add elapsed_after sleep_for of
              None \<Rightarrow> False
            | Some t \<Rightarrow> t < budget, w')))"

definition deadline_before_retry :: "string \<Rightarrow> 'md call_error" where
  "deadline_before_retry path =
     Transport path DeadlineExceeded ''deadline exhausted before retry could be issued''"

definition no_recorded_error :: "string \<Rightarrow> 'md call_error" where
  "no_recorded_error path =
     Transport path Internal ''grpc-retry: exhausted attempts with no recorded error''"

definition result_err :: "'e + 'r \<Rightarrow> 'e option" where
  "result_err r = (case r of Inl e \<Rightarrow> Some e | Inr v \<Rightarrow> None)"

definition unwrap_or :: "'a \<Rightarrow> 'a option \<Rightarrow> 'a" where
  "unwrap_or d x = (case x of None \<Rightarrow> d | Some a \<Rightarrow> a)"

text \<open>
  The two retrying arms of the loop's \<open>match\<close>: record the error, stop when the track has no
  attempt left, compute the pause, stop when the budget does not allow it, and pause. The
  flag says whether the loop goes on (otherwise it breaks).
\<close>

definition standard_track ::
  "('w, 'g, 'u) retry_runtime \<Rightarrow> grpc_retry_config \<Rightarrow> nat \<Rightarrow> duration option \<Rightarrow>
     'md call_error + 'r \<Rightarrow> ('md, 'g) retry_state \<Rightarrow> 'w \<Rightarrow> bool \<times> ('md, 'g) retry_state \<times> 'w" where
  "standard_track rt cfg started total_budget result st w =
     (let st1 = st\<lparr>last_error := result_err result\<rparr> in
      if max_attempts cfg \<le> standard_attempt st1 + 1 then (False, st1, w)
      else
        (let (unit, g) = rt_next_unit rt (rng st1);
             sleep_for = rt_next_backoff rt (as_backoff_policy cfg) (standard_attempt st1) unit;
             st2 = st1\<lparr>rng := g, standard_attempt := standard_attempt st1 + 1\<rparr>;
             (fits, w1) = budget_allows_sleep rt started total_budget sleep_for w
         in if fits then (True, st2, rt_sleep rt sleep_for w1) else (False, st2, w1)))"

definition rate_limit_track ::
  "('w, 'g, 'u) retry_runtime \<Rightarrow> ('md, 'r) retry_classifier \<Rightarrow> grpc_retry_config \<Rightarrow> nat \<Rightarrow>
     duration option \<Rightarrow> 'md call_error + 'r \<Rightarrow> ('md, 'g) retry_state \<Rightarrow> 'w \<Rightarrow>
     bool \<times> ('md, 'g) retry_state \<times> 'w" where
  "rate_limit_track rt cls cfg started total_budget result st w =
     (let st1 = st\<lparr>last_error := result_err result\<rparr> in
      if rate_limit_max_attempts cfg < rate_lim_attempt st1 + 1 then (False, st1, w)
      else
        (let hint = Option.bind (last_error st1) (rc_read_retry_after cls);
             (unit, g) = rt_next_unit rt (rng st1);
             sleep_for = rt_rate_limit_backoff rt (as_rate_limit_policy cfg) (as_backoff_policy cfg)
               (rate_lim_attempt st1) hint unit;
             st2 = st1\<lparr>rng := g, rate_lim_attempt := rate_lim_attempt st1 + 1\<rparr>;
             (fits, w1) = budget_allows_sleep rt started total_budget sleep_for w
         in if fits then (True, st2, rt_sleep rt sleep_for w1) else (False, st2, w1)))"

text \<open>An attempt is a closure with a state of its own (\<open>FnMut\<close>); it gets the timeout it may
  take.\<close>

type_synonym ('w, 'c, 'md, 'r) attempt_fn =
  "duration option \<Rightarrow> 'c \<Rightarrow> 'w \<Rightarrow> ('md call_error + 'r) \<times> 'c \<times> 'w"

text \<open>The \<open>for\<close> loop: the first argument counts the indices of \<open>0..max_attempts\<close> still to come.\<close>

fun run_attempts ::
  "nat \<Rightarrow> ('w, 'g, 'u) retry_runtime \<Rightarrow> ('md, 'r) retry_classifier \<Rightarrow> grpc_retry_config \<Rightarrow> string \<Rightarrow>
     nat \<Rightarrow> duration option \<Rightarrow> ('w, 'c, 'md, 'r) attempt_fn \<Rightarrow> ('md, 'g) retry_state \<Rightarrow> 'c \<Rightarrow> 'w \<Rightarrow>
     ('md call_error + 'r) \<times> 'c \<times> 'w" where
  "run_attempts 0 rt cls cfg path started total_budget attempt st c w =
     (Inl (unwrap_or (no_recorded_error path) (last_error st)), c, w)"
| "run_attempts (Suc n) rt cls cfg path started total_budget attempt st c w =
     (case remaining rt started total_budget w of
        (None, w1) \<Rightarrow> (Inl (unwrap_or (deadline_before_retry path) (last_error st)), c, w1)
      | (Some timeout, w1) \<Rightarrow>
          (case attempt timeout c w1 of (result, c', w2) \<Rightarrow>
             (case rc_classify cls result of
                Success \<Rightarrow> (result, c', w2)
              | Terminal \<Rightarrow> (result, c', w2)
              | Retry \<Rightarrow>
                  (case standard_track rt cfg started total_budget result st w2 of
                     (go, st', w3) \<Rightarrow>
                       if go
                       then run_attempts n rt cls cfg path started total_budget attempt st' c' w3
                       else (Inl (unwrap_or (no_recorded_error path) (last_error st')), c', w3))
              | RetryRateLimit \<Rightarrow>
                  (case rate_limit_track rt cls cfg started total_budget result st w2 of
                     (go, st', w3) \<Rightarrow>
                       if go
                       then run_attempts n rt cls cfg path started total_budget attempt st' c' w3
                       else (Inl (unwrap_or (no_recorded_error path) (last_error st')), c', w3)))))"

definition run_with_retry ::
  "('w, 'g, 'u) retry_runtime \<Rightarrow> ('md, 'r) retry_classifier \<Rightarrow> grpc_retry_config \<Rightarrow> string \<Rightarrow>
     duration option \<Rightarrow> ('w, 'c, 'md, 'r) attempt_fn \<Rightarrow> 'c \<Rightarrow> 'w \<Rightarrow>
     ('md call_error + 'r) \<times> 'c \<times> 'w" where
  "run_with_retry rt cls cfg path total_budget attempt c w =
     (let (started, w1) = rt_now rt w;
          (g, w2) = rt_jitter_from_clock rt w1
      in run_attempts (unat (max_attempts cfg)) rt cls cfg path started total_budget attempt
           (initial_retry_state g) c w2)"

section \<open>The calls of the decorated client\<close>

text \<open>The \<open>Payload\<close> of a request message, the caller's own code.\<close>

record 'i payload =
  encode_into :: "'i \<Rightarrow> codec_error + u8 list"
  decode_from :: "u8 list \<Rightarrow> codec_error + 'i"

definition make_request :: "string \<Rightarrow> 'i \<Rightarrow> 'md call_options \<Rightarrow> ('i, 'md) call_request" where
  "make_request path body options = \<lparr>req_path = path, req_body = body, req_options = options\<rparr>"

lemma make_request_parts [simp]:
  "make_request (req_path r) (req_body r) (req_options r) = r"
  "req_path (make_request p b opts) = p"
  "req_body (make_request p b opts) = b"
  "req_options (make_request p b opts) = opts"
  by (simp_all add: make_request_def)

text \<open>One attempt of a typed call: the first sends the message it was given, a later one the
  message decoded from its own encoding.\<close>

definition typed_attempt ::
  "('w, 'i, 'q, 'o, 's, 'md, 'h) transport \<Rightarrow> 'i payload \<Rightarrow> string \<Rightarrow> 'md \<Rightarrow> u8 list \<Rightarrow>
     ('w, 'i option, 'md, ('o, 'h) call_response) attempt_fn" where
  "typed_attempt inner pl path md encoded attempt_timeout first w =
     (case (case first of
              Some message \<Rightarrow> Inr message
            | None \<Rightarrow> map_err Decode (decode_from pl encoded)) of
        Inl e \<Rightarrow> (Inl e, None, w)
      | Inr message \<Rightarrow>
          (let (r, w') = call_unary inner (make_request path message (create_options attempt_timeout md)) w
           in (r, None, w')))"

definition retry_call ::
  "('w, 'g, 'u) retry_runtime \<Rightarrow> ('md, ('o, 'h) call_response) retry_classifier \<Rightarrow>
     grpc_retry_config \<Rightarrow> ('w, 'i, 'q, 'o, 's, 'md, 'h) transport \<Rightarrow> 'i payload \<Rightarrow>
     ('i, 'md) call_request \<Rightarrow> ('w, 'md call_error + ('o, 'h) call_response) io" where
  "retry_call rt cls cfg inner pl request w =
     (let path = req_path request; message = req_body request; options = req_options request in
      if max_attempts cfg \<le> 1 then call_unary inner (make_request path message options) w
      else
        (case encode_into pl message of
           Inl e \<Rightarrow> (Inl (Encode e), w)
         | Inr encoded \<Rightarrow>
             (let (r, c, w') = run_with_retry rt cls cfg path (opt_timeout options)
                   (typed_attempt inner pl path (opt_metadata options) encoded) (Some message) w
              in (r, w'))))"

definition raw_attempt ::
  "('w, u8 list, 'q, u8 list, 's, 'md, 'h) transport \<Rightarrow> string \<Rightarrow> 'md \<Rightarrow> u8 list \<Rightarrow>
     ('w, unit, 'md, (u8 list, 'h) call_response) attempt_fn" where
  "raw_attempt inner path md body attempt_timeout c w =
     (let (r, w') = call_unary inner (make_request path body (create_options attempt_timeout md)) w
      in (r, (), w'))"

definition retry_call_raw ::
  "('w, 'g, 'u) retry_runtime \<Rightarrow> ('md, (u8 list, 'h) call_response) retry_classifier \<Rightarrow>
     grpc_retry_config \<Rightarrow> ('w, u8 list, 'q, u8 list, 's, 'md, 'h) transport \<Rightarrow>
     (u8 list, 'md) call_request \<Rightarrow> ('w, 'md call_error + (u8 list, 'h) call_response) io" where
  "retry_call_raw rt cls cfg inner request w =
     (let path = req_path request; body = req_body request; options = req_options request;
          (r, c, w') = run_with_retry rt cls cfg path (opt_timeout options)
            (raw_attempt inner path (opt_metadata options) body) () w
      in (r, w'))"

text \<open>The six streaming calls are forwarded as they are.\<close>

definition retry_typed ::
  "('w, 'g, 'u) retry_runtime \<Rightarrow> ('md, ('o, 'h) call_response) retry_classifier \<Rightarrow>
     grpc_retry_config \<Rightarrow> 'i payload \<Rightarrow> ('w, 'i, 'q, 'o, 's, 'md, 'h) transport \<Rightarrow>
     ('w, 'i, 'q, 'o, 's, 'md, 'h) transport" where
  "retry_typed rt cls cfg pl inner =
     \<lparr>call_unary = retry_call rt cls cfg inner pl,
      call_server_stream = (\<lambda>request. call_server_stream inner request),
      call_client_stream = (\<lambda>request. call_client_stream inner request),
      call_bidi_stream = (\<lambda>request. call_bidi_stream inner request)\<rparr>"

definition retry_raw ::
  "('w, 'g, 'u) retry_runtime \<Rightarrow> ('md, (u8 list, 'h) call_response) retry_classifier \<Rightarrow>
     grpc_retry_config \<Rightarrow> ('w, u8 list, 'q, u8 list, 's, 'md, 'h) transport \<Rightarrow>
     ('w, u8 list, 'q, u8 list, 's, 'md, 'h) transport" where
  "retry_raw rt cls cfg inner =
     \<lparr>call_unary = retry_call_raw rt cls cfg inner,
      call_server_stream = (\<lambda>request. call_server_stream inner
        (make_request (req_path request) (req_body request) (req_options request))),
      call_client_stream = (\<lambda>request. call_client_stream inner
        (make_request (req_path request) (req_body request) (req_options request))),
      call_bidi_stream = (\<lambda>request. call_bidi_stream inner
        (make_request (req_path request) (req_body request) (req_options request)))\<rparr>"

text \<open>\<open>StdGrpcRetryFactory::build\<close>: the inner client, the policy and the standard classifier.\<close>

definition std_retry_client ::
  "('w, 'g, 'u) retry_runtime \<Rightarrow> ('md, 'me) metadata_view \<Rightarrow> 'i payload \<Rightarrow> grpc_retry_config \<Rightarrow>
     ('w, 'i, 'q, 'o, 's, 'bq, 'bs, 'md, 'h) client \<Rightarrow>
     ('w, 'i, 'q, 'o, 's, 'bq, 'bs, 'md, 'h) client" where
  "std_retry_client rt view pl cfg inner =
     \<lparr>typed = retry_typed rt (std_retry_classifier view) cfg pl (typed inner),
      raw = retry_raw rt (std_retry_classifier view) cfg (raw inner)\<rparr>"

end
