(* ===== verification/Retry_Loop.thy ===== *)
theory Retry_Loop
  imports Retry_Client
begin

text \<open>
  The specification of the retry loop and the proof that \<open>run_with_retry\<close> implements it. The
  specification \<open>retry_run\<close> relates the number of attempts left, the retries used on each
  track and the last error to the log of a run (its attempts, with the timeout each was given
  and its result, and its pauses) and to the result of the run; its counters are natural
  numbers. The log of the code's own loop is what an instrumented runtime records.
\<close>

section \<open>The log of a run\<close>

datatype ('md, 'r) retry_event =
    Attempt (ev_timeout: "duration option") (ev_result: "'md call_error + 'r")
  | Pause (ev_pause: duration)

text \<open>The runtime and the attempt, made to record what happens.\<close>

definition log_runtime ::
  "('w, 'g, 'u) retry_runtime \<Rightarrow> ('w \<times> ('md, 'r) retry_event list, 'g, 'u) retry_runtime" where
  "log_runtime rt =
     \<lparr>rt_now = (\<lambda>(w, l). case rt_now rt w of (t, w') \<Rightarrow> (t, (w', l))),
      rt_sleep = (\<lambda>d (w, l). (rt_sleep rt d w, l @ [Pause d])),
      rt_jitter_from_clock = (\<lambda>(w, l). case rt_jitter_from_clock rt w of (g, w') \<Rightarrow> (g, (w', l))),
      rt_next_unit = rt_next_unit rt,
      rt_next_backoff = rt_next_backoff rt,
      rt_rate_limit_backoff = rt_rate_limit_backoff rt\<rparr>"

definition log_attempt ::
  "('w, 'c, 'md, 'r) attempt_fn \<Rightarrow> ('w \<times> ('md, 'r) retry_event list, 'c, 'md, 'r) attempt_fn" where
  "log_attempt attempt timeout c = (\<lambda>(w, l).
     case attempt timeout c w of (r, c', w') \<Rightarrow> (r, c', (w', l @ [Attempt timeout r])))"

text \<open>A run on the instrumented runtime, started with an empty log.\<close>

definition logged_run ::
  "('w, 'g, 'u) retry_runtime \<Rightarrow> ('md, 'r) retry_classifier \<Rightarrow> grpc_retry_config \<Rightarrow> string \<Rightarrow>
     duration option \<Rightarrow> ('w, 'c, 'md, 'r) attempt_fn \<Rightarrow> 'c \<Rightarrow> 'w \<Rightarrow>
     ('md call_error + 'r) \<times> 'c \<times> 'w \<times> ('md, 'r) retry_event list" where
  "logged_run rt cls cfg path budget attempt c w =
     run_with_retry (log_runtime rt) cls cfg path budget (log_attempt attempt) c (w, [])"

definition forget_log :: "'a \<times> 'c \<times> 'w \<times> 'l \<Rightarrow> 'a \<times> 'c \<times> 'w" where
  "forget_log x = (case x of (r, c, w, l) \<Rightarrow> (r, c, w))"

definition run_log ::
  "('w, 'g, 'u) retry_runtime \<Rightarrow> ('md, 'r) retry_classifier \<Rightarrow> grpc_retry_config \<Rightarrow> string \<Rightarrow>
     duration option \<Rightarrow> ('w, 'c, 'md, 'r) attempt_fn \<Rightarrow> 'c \<Rightarrow> 'w \<Rightarrow> ('md, 'r) retry_event list" where
  "run_log rt cls cfg path budget attempt c w =
     snd (snd (snd (logged_run rt cls cfg path budget attempt c w)))"

lemma log_runtime_simps [simp]:
  "rt_now (log_runtime rt) (w, l) = (fst (rt_now rt w), (snd (rt_now rt w), l))"
  "rt_sleep (log_runtime rt) d (w, l) = (rt_sleep rt d w, l @ [Pause d])"
  "rt_jitter_from_clock (log_runtime rt) (w, l) =
     (fst (rt_jitter_from_clock rt w), (snd (rt_jitter_from_clock rt w), l))"
  "rt_next_unit (log_runtime rt) = rt_next_unit rt"
  "rt_next_backoff (log_runtime rt) = rt_next_backoff rt"
  "rt_rate_limit_backoff (log_runtime rt) = rt_rate_limit_backoff rt"
  by (simp_all add: log_runtime_def split: prod.split)

lemma log_attempt_simp [simp]:
  "log_attempt attempt timeout c (w, l) =
     (case attempt timeout c w of (r, c', w') \<Rightarrow> (r, c', (w', l @ [Attempt timeout r])))"
  by (simp add: log_attempt_def)

lemma remaining_logged [simp]:
  "remaining (log_runtime rt) started b (w, l) =
     (case remaining rt started b w of (x, w') \<Rightarrow> (x, (w', l)))"
  by (auto simp: remaining_def elapsed_def Let_def split: option.split prod.split)

lemma budget_allows_sleep_logged [simp]:
  "budget_allows_sleep (log_runtime rt) started b d (w, l) =
     (case budget_allows_sleep rt started b d w of (x, w') \<Rightarrow> (x, (w', l)))"
  by (auto simp: budget_allows_sleep_def elapsed_def Let_def split: option.split prod.split)

lemma standard_track_logged:
  "standard_track rt cfg started b result st w = (go, st', w') \<Longrightarrow>
   \<exists>l'. standard_track (log_runtime rt) cfg started b result st (w, l) = (go, st', (w', l'))"
  by (auto simp: standard_track_def Let_def split: prod.splits if_splits)

lemma rate_limit_track_logged:
  "rate_limit_track rt cls cfg started b result st w = (go, st', w') \<Longrightarrow>
   \<exists>l'. rate_limit_track (log_runtime rt) cls cfg started b result st (w, l) = (go, st', (w', l'))"
  by (auto simp: rate_limit_track_def Let_def split: prod.splits if_splits)

text \<open>Recording changes neither the result nor the world of a run.\<close>

lemma run_attempts_erasure:
  "\<exists>l'. run_attempts n (log_runtime rt) cls cfg path started b (log_attempt attempt) st c (w, l) =
     (case run_attempts n rt cls cfg path started b attempt st c w of (r, c', w') \<Rightarrow> (r, c', (w', l')))"
proof (induction n arbitrary: st c w l)
  case 0
  then show ?case by simp
next
  case (Suc n)
  obtain x w1 where rem: "remaining rt started b w = (x, w1)" by fastforce
  show ?case
  proof (cases x)
    case None
    with rem show ?thesis by simp
  next
    case (Some timeout)
    obtain r c' w2 where att: "attempt timeout c w1 = (r, c', w2)" by (metis prod_cases3)
    obtain g1 t1 v1 where std: "standard_track rt cfg started b r st w2 = (g1, t1, v1)"
      by (metis prod_cases3)
    obtain s1 where std': "standard_track (log_runtime rt) cfg started b r st
        (w2, l @ [Attempt timeout r]) = (g1, t1, (v1, s1))"
      using standard_track_logged [OF std] by blast
    obtain g2 t2 v2 where rl: "rate_limit_track rt cls cfg started b r st w2 = (g2, t2, v2)"
      by (metis prod_cases3)
    obtain s2 where rl': "rate_limit_track (log_runtime rt) cls cfg started b r st
        (w2, l @ [Attempt timeout r]) = (g2, t2, (v2, s2))"
      using rate_limit_track_logged [OF rl] by blast
    show ?thesis
      using Some rem att std std' rl rl' Suc.IH by (simp split: retry_decision.split)
  qed
qed

lemma run_attempts_forget:
  "forget_log (run_attempts n (log_runtime rt) cls cfg path started b (log_attempt attempt) st c (w, l)) =
   run_attempts n rt cls cfg path started b attempt st c w"
proof -
  obtain l' where "run_attempts n (log_runtime rt) cls cfg path started b (log_attempt attempt) st c (w, l) =
     (case run_attempts n rt cls cfg path started b attempt st c w of (r, c', w') \<Rightarrow> (r, c', (w', l')))"
    using run_attempts_erasure [of n rt cls cfg path started b attempt st c w l] by auto
  then show ?thesis
    by (simp add: forget_log_def split: prod.split)
qed

lemma logged_run_forget:
  "forget_log (logged_run rt cls cfg path b attempt c w) = run_with_retry rt cls cfg path b attempt c w"
  by (simp add: logged_run_def run_with_retry_def Let_def run_attempts_forget split: prod.split)

section \<open>The specification\<close>

text \<open>What an attempt may be given, and how long a pause may be, under a budget.\<close>

fun timeout_allowed :: "duration option \<Rightarrow> duration option \<Rightarrow> bool" where
  "timeout_allowed None t = (t = None)"
| "timeout_allowed (Some b) (Some t) = (0 < t \<and> t \<le> b)"
| "timeout_allowed (Some b) None = False"

fun pause_allowed :: "duration option \<Rightarrow> duration \<Rightarrow> bool" where
  "pause_allowed None d = True"
| "pause_allowed (Some b) d = (d < b)"

text \<open>
  \<open>retry_run cls cfg path budget n s l e events r\<close>: with \<open>n\<close> attempts left, \<open>s\<close> retries used on
  the standard track, \<open>l\<close> on the rate-limit track and \<open>e\<close> the last error, a run may record
  \<open>events\<close> and give \<open>r\<close>.
\<close>

inductive retry_run ::
  "('md, 'r) retry_classifier \<Rightarrow> grpc_retry_config \<Rightarrow> string \<Rightarrow> duration option \<Rightarrow>
     nat \<Rightarrow> nat \<Rightarrow> nat \<Rightarrow> 'md call_error option \<Rightarrow> ('md, 'r) retry_event list \<Rightarrow>
     'md call_error + 'r \<Rightarrow> bool"
  for cls cfg path budget where
  exhausted:
    "retry_run cls cfg path budget 0 s l e [] (Inl (unwrap_or (no_recorded_error path) e))"
| deadline:
    "budget = Some b \<Longrightarrow>
     retry_run cls cfg path budget (Suc n) s l e [] (Inl (unwrap_or (deadline_before_retry path) e))"
| settled:
    "timeout_allowed budget t \<Longrightarrow> rc_classify cls r = Success \<or> rc_classify cls r = Terminal \<Longrightarrow>
     retry_run cls cfg path budget (Suc n) s l e [Attempt t r] r"
| standard_stop:
    "timeout_allowed budget t \<Longrightarrow> rc_classify cls (Inl e') = Retry \<Longrightarrow>
     unat (max_attempts cfg) \<le> Suc s \<or> budget \<noteq> None \<Longrightarrow>
     retry_run cls cfg path budget (Suc n) s l e [Attempt t (Inl e')] (Inl e')"
| standard_retry:
    "timeout_allowed budget t \<Longrightarrow> rc_classify cls (Inl e') = Retry \<Longrightarrow>
     Suc s < unat (max_attempts cfg) \<Longrightarrow> pause_allowed budget d \<Longrightarrow>
     retry_run cls cfg path budget n (Suc s) l (Some e') events r \<Longrightarrow>
     retry_run cls cfg path budget (Suc n) s l e (Attempt t (Inl e') # Pause d # events) r"
| rate_limit_stop:
    "timeout_allowed budget t \<Longrightarrow> rc_classify cls (Inl e') = RetryRateLimit \<Longrightarrow>
     unat (rate_limit_max_attempts cfg) < Suc l \<or> budget \<noteq> None \<Longrightarrow>
     retry_run cls cfg path budget (Suc n) s l e [Attempt t (Inl e')] (Inl e')"
| rate_limit_retry:
    "timeout_allowed budget t \<Longrightarrow> rc_classify cls (Inl e') = RetryRateLimit \<Longrightarrow>
     Suc l \<le> unat (rate_limit_max_attempts cfg) \<Longrightarrow> pause_allowed budget d \<Longrightarrow>
     retry_run cls cfg path budget n s (Suc l) (Some e') events r \<Longrightarrow>
     retry_run cls cfg path budget (Suc n) s l e (Attempt t (Inl e') # Pause d # events) r"

lemma remaining_allowed:
  "remaining rt started b w = (Some t, w') \<Longrightarrow> timeout_allowed b t"
  by (auto simp: remaining_def duration_checked_sub_def Let_def
      split: option.splits prod.splits if_splits)

lemma remaining_spent: "remaining rt started b w = (None, w') \<Longrightarrow> \<exists>x. b = Some x"
  by (auto simp: remaining_def split: option.splits)

lemma budget_allows_sleep_allowed:
  "budget_allows_sleep rt started b d w = (True, w') \<Longrightarrow> pause_allowed b d"
  by (auto simp: budget_allows_sleep_def duration_checked_add_def Let_def
      split: option.splits prod.splits if_splits)

lemma budget_allows_sleep_refused:
  "budget_allows_sleep rt started b d w = (False, w') \<Longrightarrow> b \<noteq> None"
  by (auto simp: budget_allows_sleep_def split: option.splits)

text \<open>What the two arms do, over natural counters: the counters never wrap.\<close>

lemma standard_track_cases:
  assumes "standard_track (log_runtime rt) cfg started b (Inl e') st (w, l) = (go, st', (w', l'))"
    and "standard_attempt st < max_attempts cfg"
  obtains (stop) "\<not> go" "l' = l" "last_error st' = Some e'"
      "unat (max_attempts cfg) \<le> Suc (unat (standard_attempt st)) \<or> b \<noteq> None"
  | (retry) d where "go" "l' = l @ [Pause d]" "last_error st' = Some e'" "pause_allowed b d"
      "Suc (unat (standard_attempt st)) < unat (max_attempts cfg)"
      "unat (standard_attempt st') = Suc (unat (standard_attempt st))"
      "rate_lim_attempt st' = rate_lim_attempt st"
proof -
  note inc = unat_Suc_below [OF assms(2)]
  show thesis
  proof (cases "max_attempts cfg \<le> standard_attempt st + 1")
    case True
    then show ?thesis
      using assms(1) stop inc
      by (auto simp: standard_track_def result_err_def word_le_nat_alt)
  next
    case False
    then have below: "Suc (unat (standard_attempt st)) < unat (max_attempts cfg)"
      using inc by (simp add: word_le_nat_alt)
    obtain u g where u: "rt_next_unit rt (rng st) = (u, g)" by fastforce
    let ?d = "rt_next_backoff rt (as_backoff_policy cfg) (standard_attempt st) u"
    obtain f v where f: "budget_allows_sleep rt started b ?d w = (f, v)" by fastforce
    show ?thesis
    proof (cases f)
      case True
      then show ?thesis
        using assms(1) False u f below inc retry [of ?d] budget_allows_sleep_allowed [of rt started b ?d w v]
        by (auto simp: standard_track_def result_err_def Let_def)
    next
      case no: False
      then show ?thesis
        using assms(1) False u f stop budget_allows_sleep_refused [of rt started b ?d w v]
        by (auto simp: standard_track_def result_err_def Let_def)
    qed
  qed
qed

lemma rate_limit_track_cases:
  assumes "rate_limit_track (log_runtime rt) cls cfg started b (Inl e') st (w, l) = (go, st', (w', l'))"
    and "rate_lim_attempt st < m"
  obtains (stop) "\<not> go" "l' = l" "last_error st' = Some e'"
      "unat (rate_limit_max_attempts cfg) < Suc (unat (rate_lim_attempt st)) \<or> b \<noteq> None"
  | (retry) d where "go" "l' = l @ [Pause d]" "last_error st' = Some e'" "pause_allowed b d"
      "Suc (unat (rate_lim_attempt st)) \<le> unat (rate_limit_max_attempts cfg)"
      "unat (rate_lim_attempt st') = Suc (unat (rate_lim_attempt st))"
      "standard_attempt st' = standard_attempt st"
proof -
  note inc = unat_Suc_below [OF assms(2)]
  show thesis
  proof (cases "rate_limit_max_attempts cfg < rate_lim_attempt st + 1")
    case True
    then show ?thesis
      using assms(1) stop inc
      by (auto simp: rate_limit_track_def result_err_def word_less_nat_alt)
  next
    case False
    then have below: "Suc (unat (rate_lim_attempt st)) \<le> unat (rate_limit_max_attempts cfg)"
      using inc by (simp add: word_less_nat_alt)
    obtain u g where u: "rt_next_unit rt (rng st) = (u, g)" by fastforce
    let ?d = "rt_rate_limit_backoff rt (as_rate_limit_policy cfg) (as_backoff_policy cfg)
      (rate_lim_attempt st) (rc_read_retry_after cls e') u"
    obtain f v where f: "budget_allows_sleep rt started b ?d w = (f, v)" by fastforce
    show ?thesis
    proof (cases f)
      case True
      then show ?thesis
        using assms(1) False u f below inc retry [of ?d] budget_allows_sleep_allowed [of rt started b ?d w v]
        by (auto simp: rate_limit_track_def result_err_def Let_def)
    next
      case no: False
      then show ?thesis
        using assms(1) False u f stop budget_allows_sleep_refused [of rt started b ?d w v]
        by (auto simp: rate_limit_track_def result_err_def Let_def)
    qed
  qed
qed

text \<open>The classifier's contract is what makes the loop's \<open>last_error\<close> the error of the attempt.\<close>

context retry_classifier_contract
begin

lemma run_attempts_refines:
  assumes "run_attempts n (log_runtime rt) cls cfg path started b (log_attempt attempt) st c (w, l) =
      (r, c', (w', l'))"
    and "unat (standard_attempt st) + n \<le> unat (max_attempts cfg)"
    and "unat (rate_lim_attempt st) + n \<le> unat (max_attempts cfg)"
  shows "\<exists>events. l' = l @ events \<and>
    retry_run cls cfg path b n (unat (standard_attempt st)) (unat (rate_lim_attempt st))
      (last_error st) events r"
  using assms
proof (induction n arbitrary: st c w l)
  case 0
  then show ?case by (auto intro: retry_run.exhausted)
next
  case (Suc n)
  have bounds: "standard_attempt st < max_attempts cfg" "rate_lim_attempt st < max_attempts cfg"
    using Suc.prems(2,3) by (simp_all add: word_less_nat_alt)
  obtain x w1 where rem: "remaining rt started b w = (x, w1)" by fastforce
  show ?case
  proof (cases x)
    case None
    then show ?thesis
      using Suc.prems(1) rem remaining_spent [of rt started b w w1]
      by (auto intro: retry_run.deadline)
  next
    case (Some t)
    then have t: "timeout_allowed b t"
      using rem remaining_allowed by simp
    obtain res c1 w2 where att: "attempt t c w1 = (res, c1, w2)" by (metis prod_cases3)
    show ?thesis
    proof (cases "rc_classify cls res")
      case Success
      then show ?thesis
        using Suc.prems(1) rem Some att t by (auto intro: retry_run.settled)
    next
      case Terminal
      then show ?thesis
        using Suc.prems(1) rem Some att t by (auto intro: retry_run.settled)
    next
      case Retry
      then obtain e where e: "res = Inl e"
        using retry_has_error by blast
      obtain go st' w3 l3 where tr: "standard_track (log_runtime rt) cfg started b (Inl e :: 'md call_error + 'r) st
          (w2, l @ [Attempt t (Inl e)]) = (go, st', (w3, l3))" by (metis prod_cases4)
      have next_step: "(if go
          then run_attempts n (log_runtime rt) cls cfg path started b (log_attempt attempt) st' c1 (w3, l3)
          else (Inl (unwrap_or (no_recorded_error path) (last_error st')), c1, (w3, l3))) =
          (r, c', (w', l'))"
        using Suc.prems(1) rem Some att Retry e tr by simp
      show ?thesis
        using tr bounds(1)
      proof (cases rule: standard_track_cases)
        case stop
        then show ?thesis
          using next_step t Retry e by (auto simp: unwrap_or_def intro: retry_run.standard_stop)
      next
        case (retry d)
        have "\<exists>events. l' = l3 @ events \<and> retry_run cls cfg path b n (unat (standard_attempt st'))
            (unat (rate_lim_attempt st')) (last_error st') events r"
          by (rule Suc.IH [of st' c1 w3]) (use Suc.prems next_step retry in auto)
        then show ?thesis
          using retry t Retry e by (auto intro: retry_run.standard_retry)
      qed
    next
      case RetryRateLimit
      then obtain e where e: "res = Inl e"
        using retry_has_error by blast
      obtain go st' w3 l3 where tr: "rate_limit_track (log_runtime rt) cls cfg started b (Inl e :: 'md call_error + 'r) st
          (w2, l @ [Attempt t (Inl e)]) = (go, st', (w3, l3))" by (metis prod_cases4)
      have next_step: "(if go
          then run_attempts n (log_runtime rt) cls cfg path started b (log_attempt attempt) st' c1 (w3, l3)
          else (Inl (unwrap_or (no_recorded_error path) (last_error st')), c1, (w3, l3))) =
          (r, c', (w', l'))"
        using Suc.prems(1) rem Some att RetryRateLimit e tr by simp
      show ?thesis
        using tr bounds(2)
      proof (cases rule: rate_limit_track_cases)
        case stop
        then show ?thesis
          using next_step t RetryRateLimit e by (auto simp: unwrap_or_def intro: retry_run.rate_limit_stop)
      next
        case (retry d)
        have "\<exists>events. l' = l3 @ events \<and> retry_run cls cfg path b n (unat (standard_attempt st'))
            (unat (rate_lim_attempt st')) (last_error st') events r"
          by (rule Suc.IH [of st' c1 w3]) (use Suc.prems next_step retry in auto)
        then show ?thesis
          using retry t RetryRateLimit e by (auto intro: retry_run.rate_limit_retry)
      qed
    qed
  qed
qed

lemma run_with_retry_refines:
  "retry_run cls cfg path b (unat (max_attempts cfg)) 0 0 None
     (run_log rt cls cfg path b attempt c w) (fst (run_with_retry rt cls cfg path b attempt c w))"
proof -
  obtain r c' w' l' where run: "logged_run rt cls cfg path b attempt c w = (r, c', (w', l'))"
    by (metis prod_cases4)
  have "fst (run_with_retry rt cls cfg path b attempt c w) = r"
    unfolding logged_run_forget [symmetric] run by (simp add: forget_log_def)
  moreover have "run_log rt cls cfg path b attempt c w = l'"
    by (simp add: run_log_def run)
  ultimately show ?thesis
    using run run_attempts_refines
      [of "unat (max_attempts cfg)" rt cfg path _ b attempt "initial_retry_state _" c _ "[]" r c' w' l']
    by (auto simp: logged_run_def run_with_retry_def initial_retry_state_def Let_def split: prod.splits)
qed

end

end
