(* ===== verification/Retry_Budget.thy ===== *)
theory Retry_Budget
  imports Retry_Loop
begin

text \<open>
  The time budget of the retry loop. A runtime that writes down every reading of its clock, beside the attempts and
  the pauses, shows what the loop did with the time: which timeout an attempt got at which reading, and before which
  pause the clock was read. What a budget allows is stated over that log, instant by instant.
\<close>

section \<open>The log of a run with its clock readings\<close>

datatype ('md, 'r) timed_event =
    Reading nat
  | Tried "duration option" "'md call_error + 'r"
  | Slept duration

definition timed_runtime ::
  "('w, 'g, 'u) retry_runtime \<Rightarrow> ('w \<times> ('md, 'r) timed_event list, 'g, 'u) retry_runtime" where
  "timed_runtime rt =
     \<lparr>rt_now = (\<lambda>(w, l). case rt_now rt w of (t, w') \<Rightarrow> (t, (w', l @ [Reading t]))),
      rt_sleep = (\<lambda>d (w, l). (rt_sleep rt d w, l @ [Slept d])),
      rt_jitter_from_clock = (\<lambda>(w, l). case rt_jitter_from_clock rt w of (g, w') \<Rightarrow> (g, (w', l))),
      rt_next_unit = rt_next_unit rt,
      rt_next_backoff = rt_next_backoff rt,
      rt_rate_limit_backoff = rt_rate_limit_backoff rt\<rparr>"

definition timed_attempt ::
  "('w, 'c, 'md, 'r) attempt_fn \<Rightarrow> ('w \<times> ('md, 'r) timed_event list, 'c, 'md, 'r) attempt_fn" where
  "timed_attempt attempt timeout c = (\<lambda>(w, l).
     case attempt timeout c w of (r, c', w') \<Rightarrow> (r, c', (w', l @ [Tried timeout r])))"

definition timed_run ::
  "('w, 'g, 'u) retry_runtime \<Rightarrow> ('md, 'r) retry_classifier \<Rightarrow> grpc_retry_config \<Rightarrow> string \<Rightarrow>
     duration option \<Rightarrow> ('w, 'c, 'md, 'r) attempt_fn \<Rightarrow> 'c \<Rightarrow> 'w \<Rightarrow>
     ('md call_error + 'r) \<times> 'c \<times> 'w \<times> ('md, 'r) timed_event list" where
  "timed_run rt cls cfg path b attempt c w =
     run_with_retry (timed_runtime rt) cls cfg path b (timed_attempt attempt) c (w, [])"

lemma timed_runtime_simps [simp]:
  "rt_now (timed_runtime rt) v = (fst (rt_now rt (fst v)), (snd (rt_now rt (fst v)), snd v @ [Reading (fst (rt_now rt (fst v)))]))"
  "rt_sleep (timed_runtime rt) d v = (rt_sleep rt d (fst v), snd v @ [Slept d])"
  "rt_jitter_from_clock (timed_runtime rt) v = (fst (rt_jitter_from_clock rt (fst v)), (snd (rt_jitter_from_clock rt (fst v)), snd v))"
  "rt_next_unit (timed_runtime rt) = rt_next_unit rt"
  "rt_next_backoff (timed_runtime rt) = rt_next_backoff rt"
  "rt_rate_limit_backoff (timed_runtime rt) = rt_rate_limit_backoff rt"
  by (simp_all add: timed_runtime_def split: prod.split)

lemma timed_attempt_simp [simp]:
  "timed_attempt attempt timeout c (w, l) =
     (case attempt timeout c w of (r, c', w') \<Rightarrow> (r, c', (w', l @ [Tried timeout r])))"
  by (simp add: timed_attempt_def split: prod.split)

section \<open>What the steps of the loop write down\<close>

lemma remaining_timed:
  "remaining (timed_runtime rt) started b (w, l) =
     (fst (remaining rt started b w), (snd (remaining rt started b w),
      l @ (case b of None \<Rightarrow> [] | Some budget \<Rightarrow> [Reading (fst (rt_now rt w))])))"
  by (simp add: remaining_def elapsed_def Let_def split: option.split prod.split)

lemma allows_sleep_timed:
  "budget_allows_sleep (timed_runtime rt) started b d (w, l) =
     (fst (budget_allows_sleep rt started b d w), (snd (budget_allows_sleep rt started b d w),
      l @ (case b of None \<Rightarrow> [] | Some budget \<Rightarrow> [Reading (fst (rt_now rt w))])))"
  by (simp add: budget_allows_sleep_def elapsed_def Let_def split: option.split prod.split)

text \<open>Recording changes neither the result nor the world of a run.\<close>

lemma standard_track_timed:
  assumes "standard_track rt cfg started b result st w = (go, st', w')"
  shows "\<exists>l'. standard_track (timed_runtime rt) cfg started b result st (w, l) = (go, st', (w', l'))"
  using assms by (auto simp: standard_track_def allows_sleep_timed Let_def split: prod.splits if_splits)

lemma rate_limit_track_timed:
  assumes "rate_limit_track rt cls cfg started b result st w = (go, st', w')"
  shows "\<exists>l'. rate_limit_track (timed_runtime rt) cls cfg started b result st (w, l) = (go, st', (w', l'))"
  using assms by (auto simp: rate_limit_track_def allows_sleep_timed Let_def split: prod.splits if_splits)

lemma run_attempts_timed:
  "\<exists>l'. run_attempts n (timed_runtime rt) cls cfg path started b (timed_attempt attempt) st c (w, l) =
     (case run_attempts n rt cls cfg path started b attempt st c w of (r, c', w') \<Rightarrow> (r, c', (w', l')))"
proof (induction n arbitrary: st c w l)
  case 0
  then show ?case by simp
next
  case (Suc n)
  obtain x w1 where rem: "remaining rt started b w = (x, w1)" by fastforce
  show ?case
  proof (cases x)
    case None
    with rem show ?thesis by (simp add: remaining_timed)
  next
    case (Some timeout)
    obtain r c' w2 where att: "attempt timeout c w1 = (r, c', w2)" by (metis prod_cases3)
    obtain g1 t1 v1 where std: "standard_track rt cfg started b r st w2 = (g1, t1, v1)" by (metis prod_cases3)
    obtain g2 t2 v2 where rl: "rate_limit_track rt cls cfg started b r st w2 = (g2, t2, v2)" by (metis prod_cases3)
    obtain l0 where rem': "remaining (timed_runtime rt) started b (w, l) = (Some timeout, (w1, l0))"
      using rem Some by (simp add: remaining_timed)
    obtain s1 where std': "standard_track (timed_runtime rt) cfg started b r st (w2, l0 @ [Tried timeout r]) = (g1, t1, (v1, s1))"
      using standard_track_timed [OF std] by blast
    obtain s2 where rl': "rate_limit_track (timed_runtime rt) cls cfg started b r st (w2, l0 @ [Tried timeout r]) = (g2, t2, (v2, s2))"
      using rate_limit_track_timed [OF rl] by blast
    show ?thesis
      using Some rem rem' att std std' rl rl' Suc.IH by (simp split: retry_decision.split)
  qed
qed

lemma timed_run_forget:
  "forget_log (timed_run rt cls cfg path b attempt c w) = run_with_retry rt cls cfg path b attempt c w"
proof -
  obtain started w1 where now: "rt_now rt w = (started, w1)" by fastforce
  obtain g w2 where jitter: "rt_jitter_from_clock rt w1 = (g, w2)" by fastforce
  obtain l' where "run_attempts (unat (max_attempts cfg)) (timed_runtime rt) cls cfg path started b (timed_attempt attempt)
      (initial_retry_state g) c (w2, [Reading started]) =
     (case run_attempts (unat (max_attempts cfg)) rt cls cfg path started b attempt (initial_retry_state g) c w2 of
        (r, c', w') \<Rightarrow> (r, c', (w', l')))"
    using run_attempts_timed [of "unat (max_attempts cfg)" rt cls cfg path started b attempt "initial_retry_state g" c w2
        "[Reading started]"] by blast
  then show ?thesis
    by (simp add: timed_run_def run_with_retry_def now jitter forget_log_def split: prod.split)
qed

section \<open>What a budget allows\<close>

text \<open>The rest of a log, before an attempt and after one, of a run that started at \<open>t0\<close> with the budget \<open>b\<close>. An attempt
  is made only at a reading at which time is left, and gets exactly that time; a run that makes no further attempt
  after a reading has spent its budget; a pause ends before the budget does.\<close>

fun within_budget :: "nat \<Rightarrow> duration \<Rightarrow> ('md, 'r) timed_event list \<Rightarrow> bool"
  and after_attempt :: "nat \<Rightarrow> duration \<Rightarrow> ('md, 'r) timed_event list \<Rightarrow> bool" where
  "within_budget t0 b [] = True"
| "within_budget t0 b [Reading t] = (b \<le> t - t0)"
| "within_budget t0 b (Reading t # Tried timeout r # rest) =
     (t - t0 < b \<and> timeout = Some (b - (t - t0)) \<and> after_attempt t0 b rest)"
| "within_budget t0 b _ = False"
| "after_attempt t0 b [] = True"
| "after_attempt t0 b [Reading t] = True"
| "after_attempt t0 b (Reading t # Slept d # rest) = (t - t0 + d < b \<and> within_budget t0 b rest)"
| "after_attempt t0 b _ = False"

text \<open>Without a budget the clock is not read again, and no attempt has a timeout.\<close>

fun without_budget :: "('md, 'r) timed_event \<Rightarrow> bool" where
  "without_budget (Reading t) = False"
| "without_budget (Tried timeout r) = (timeout = None)"
| "without_budget (Slept d) = True"

definition budgeted :: "nat \<Rightarrow> duration option \<Rightarrow> ('md, 'r) timed_event list \<Rightarrow> bool" where
  "budgeted t0 b es = (case b of None \<Rightarrow> list_all without_budget es | Some budget \<Rightarrow> within_budget t0 budget es)"

definition budgeted_after :: "nat \<Rightarrow> duration option \<Rightarrow> ('md, 'r) timed_event list \<Rightarrow> bool" where
  "budgeted_after t0 b es = (case b of None \<Rightarrow> list_all without_budget es | Some budget \<Rightarrow> after_attempt t0 budget es)"

text \<open>The two steps that look at the clock.\<close>

lemma remaining_writes:
  assumes "remaining (timed_runtime rt) started b (w, l) = (x, (w1, l1))"
  obtains (spent) "x = None" "\<exists>budget t. b = Some budget \<and> l1 = l @ [Reading t] \<and> budget \<le> t - started"
  | (left) timeout es where "x = Some timeout" "l1 = l @ es"
      "\<And>r rest. budgeted_after started b rest \<Longrightarrow> budgeted started b (es @ Tried timeout r # rest)"
proof (cases b)
  case None
  then show ?thesis
    using assms left [of None "[]"] by (simp add: remaining_def budgeted_def budgeted_after_def)
next
  case (Some budget)
  obtain t w' where "rt_now rt w = (t, w')" by fastforce
  then have "x = (case duration_checked_sub budget (t - started) of Some left \<Rightarrow> if left \<noteq> 0 then Some (Some left) else None | None \<Rightarrow> None)"
      "l1 = l @ [Reading t]"
    using assms Some by (auto simp: remaining_def elapsed_def split: option.splits)
  then show ?thesis
    using Some spent left [of "Some (budget - (t - started))" "[Reading t]"]
    by (auto simp: duration_checked_sub_def budgeted_def budgeted_after_def split: if_splits)
qed

lemma pause_writes:
  assumes "budget_allows_sleep (timed_runtime rt) started b d (w, l) = (fits, (w1, l1))"
  obtains es where "l1 = l @ es" "budgeted_after started b es"
    "\<forall>rest. fits \<and> budgeted started b rest \<longrightarrow> budgeted_after started b (es @ Slept d # rest)"
proof (cases b)
  case None
  then show ?thesis
    using assms that [of "[]"] by (simp add: budget_allows_sleep_def budgeted_def budgeted_after_def)
next
  case (Some budget)
  obtain t w' where "rt_now rt w = (t, w')" by fastforce
  then have "fits = (case duration_checked_add (t - started) d of None \<Rightarrow> False | Some s \<Rightarrow> s < budget)" "l1 = l @ [Reading t]"
    using assms Some by (auto simp: budget_allows_sleep_def elapsed_def)
  then show ?thesis
    using Some by (intro that [of "[Reading t]"])
      (auto simp: duration_checked_add_def budgeted_def budgeted_after_def split: if_splits)
qed

text \<open>Either track: what it writes, and what may follow when the loop goes on.\<close>

definition track_writes ::
  "nat \<Rightarrow> duration option \<Rightarrow> bool \<times> ('md, 'g) retry_state \<times> ('w \<times> ('md, 'r) timed_event list) \<Rightarrow> ('md, 'r) timed_event list \<Rightarrow> bool" where
  "track_writes started b out l \<longleftrightarrow>
     (case out of (go, st', (w', l')) \<Rightarrow>
        \<exists>es. l' = l @ es \<and> (if go then (\<forall>rest. budgeted started b rest \<longrightarrow> budgeted_after started b (es @ rest))
          else budgeted_after started b es))"

lemma nothing_written: "track_writes started b (False, st, (w, l)) l"
  by (cases b) (simp_all add: track_writes_def budgeted_after_def)

lemma pause_track_writes:
  assumes "budget_allows_sleep (timed_runtime rt) started b d (w, l) = (fits, (w1, l1))"
  shows "track_writes started b (if fits then (True, st, rt_sleep (timed_runtime rt) d (w1, l1)) else (False, st, (w1, l1))) l"
proof -
  obtain es where "l1 = l @ es" "budgeted_after started b es"
    "\<forall>rest. fits \<and> budgeted started b rest \<longrightarrow> budgeted_after started b (es @ Slept d # rest)"
    by (rule pause_writes [OF assms])
  then show ?thesis
    by (cases fits) (auto simp: track_writes_def)
qed

lemma standard_track_writes:
  "track_writes started b (standard_track (timed_runtime rt) cfg started b result st (w, l)) l"
proof -
  obtain u g where u: "rt_next_unit rt (rng st) = (u, g)" by fastforce
  obtain fits w1 l1 where fits: "budget_allows_sleep (timed_runtime rt) started b
      (rt_next_backoff rt (as_backoff_policy cfg) (standard_attempt st) u) (w, l) = (fits, (w1, l1))"
    by (metis prod_cases3)
  show ?thesis
    using pause_track_writes [OF fits, of "st\<lparr>last_error := result_err result, rng := g, standard_attempt := standard_attempt st + 1\<rparr>"]
    by (cases fits) (simp_all add: standard_track_def Let_def u fits nothing_written del: timed_runtime_simps(2))
qed

lemma rate_limit_track_writes:
  "track_writes started b (rate_limit_track (timed_runtime rt) cls cfg started b result st (w, l)) l"
proof -
  obtain u g where u: "rt_next_unit rt (rng st) = (u, g)" by fastforce
  obtain fits w1 l1 where fits: "budget_allows_sleep (timed_runtime rt) started b
      (rt_rate_limit_backoff rt (as_rate_limit_policy cfg) (as_backoff_policy cfg) (rate_lim_attempt st)
        (Option.bind (result_err result) (rc_read_retry_after cls)) u) (w, l) = (fits, (w1, l1))"
    by (metis prod_cases3)
  show ?thesis
    using pause_track_writes [OF fits, of "st\<lparr>last_error := result_err result, rng := g, rate_lim_attempt := rate_lim_attempt st + 1\<rparr>"]
    by (cases fits) (simp_all add: rate_limit_track_def Let_def u fits nothing_written del: timed_runtime_simps(2))
qed

lemma run_attempts_budgeted:
  assumes "run_attempts n (timed_runtime rt) cls cfg path started b (timed_attempt attempt) st c (w, l) = (r, c', (w', l'))"
  shows "\<exists>es. l' = l @ es \<and> budgeted started b es"
  using assms
proof (induction n arbitrary: st c w l)
  case 0
  then show ?case by (cases b) (auto simp: budgeted_def)
next
  case (Suc n)
  obtain x w1 l1 where rem: "remaining (timed_runtime rt) started b (w, l) = (x, (w1, l1))" by (metis prod_cases3)
  from rem show ?case
  proof (cases rule: remaining_writes)
    case spent
    then show ?thesis
      using Suc.prems rem by (auto simp: budgeted_def)
  next
    case (left timeout es)
    obtain q c1 w2 where att: "attempt timeout c w1 = (q, c1, w2)" by (metis prod_cases3)
    have made: "\<exists>fs. l' = l1 @ Tried timeout q # fs \<and> budgeted_after started b fs"
    proof -
      have on: ?thesis if track: "track_writes started b (go, st', (w3, l3)) (l1 @ [Tried timeout q])"
        and result: "(if go then run_attempts n (timed_runtime rt) cls cfg path started b (timed_attempt attempt) st' c1 (w3, l3)
          else (e, c1, (w3, l3))) = (r, c', (w', l'))" for go st' w3 l3 e
      proof -
        obtain ws where ws: "l3 = l1 @ [Tried timeout q] @ ws"
          "if go then (\<forall>rest. budgeted started b rest \<longrightarrow> budgeted_after started b (ws @ rest)) else budgeted_after started b ws"
          using track by (auto simp: track_writes_def)
        show ?thesis
        proof (cases go)
          case True
          then obtain fs where "l' = l3 @ fs" "budgeted started b fs"
            using Suc.IH [of st' c1 w3 l3] result by auto
          then show ?thesis using ws True by auto
        next
          case False
          then show ?thesis using ws result by auto
        qed
      qed
      obtain go1 s1 v1 k1 where std: "standard_track (timed_runtime rt) cfg started b q st (w2, l1 @ [Tried timeout q]) =
          (go1, s1, (v1, k1))" by (metis prod_cases4)
      obtain go2 s2 v2 k2 where rl: "rate_limit_track (timed_runtime rt) cls cfg started b q st (w2, l1 @ [Tried timeout q]) =
          (go2, s2, (v2, k2))" by (metis prod_cases4)
      note writes = standard_track_writes [of started b rt cfg q st w2 "l1 @ [Tried timeout q]", unfolded std]
        rate_limit_track_writes [of started b rt cls cfg q st w2 "l1 @ [Tried timeout q]", unfolded rl]
      have none: "budgeted_after started b []" by (cases b) (simp_all add: budgeted_after_def)
      show ?thesis
      proof (cases "rc_classify cls q")
        case Retry
        show ?thesis
          by (rule on [OF writes(1)]) (use Suc.prems rem left(1) att Retry std in simp)
      next
        case RetryRateLimit
        show ?thesis
          by (rule on [OF writes(2)]) (use Suc.prems rem left(1) att RetryRateLimit rl in simp)
      qed (use Suc.prems rem left(1) att none in auto)
    qed
    then show ?thesis
      using left(2,3) by auto
  qed
qed

text \<open>The whole log: the clock is read when the run starts, and what follows keeps to the budget.\<close>

lemma timed_run_budgeted:
  "\<exists>t0 es. snd (snd (snd (timed_run rt cls cfg path b attempt c w))) = Reading t0 # es \<and> t0 = fst (rt_now rt w) \<and> budgeted t0 b es"
proof -
  obtain started w1 where now: "rt_now rt w = (started, w1)" by fastforce
  obtain g w2 where jitter: "rt_jitter_from_clock rt w1 = (g, w2)" by fastforce
  obtain r c' w' l' where run: "run_attempts (unat (max_attempts cfg)) (timed_runtime rt) cls cfg path started b
      (timed_attempt attempt) (initial_retry_state g) c (w2, [Reading started]) = (r, c', (w', l'))" by (metis prod_cases4)
  then have "timed_run rt cls cfg path b attempt c w = (r, c', (w', l'))"
    by (simp add: timed_run_def run_with_retry_def now jitter)
  then show ?thesis
    using run_attempts_budgeted [OF run] by (auto simp: now)
qed

text \<open>A run makes no attempt at all exactly when its budget is spent at the first reading after the start.\<close>

definition spent_at_start :: "('w, 'g, 'u) retry_runtime \<Rightarrow> duration option \<Rightarrow> 'w \<Rightarrow> bool" where
  "spent_at_start rt b w \<longleftrightarrow>
     (case b of
        None \<Rightarrow> False
      | Some budget \<Rightarrow>
          (let (started, w1) = rt_now rt w; (g, w2) = rt_jitter_from_clock rt w1; (t, w3) = rt_now rt w2
           in budget \<le> t - started))"

lemma remaining_spent_iff:
  "fst (remaining rt started b w) = None \<longleftrightarrow>
     (case b of None \<Rightarrow> False | Some budget \<Rightarrow> budget \<le> fst (rt_now rt w) - started)"
  by (auto simp: remaining_def elapsed_def duration_checked_sub_def Let_def split: option.split prod.split if_splits)

text \<open>The log of the attempts only grows; its first entry is the first attempt.\<close>

lemma track_log_grows:
  "standard_track (log_runtime rt) cfg started b result st (w, l) = (go, st', (w', l')) \<Longrightarrow> \<exists>es. l' = l @ es"
  "rate_limit_track (log_runtime rt) cls cfg started b result st (w, l) = (go, st', (w', l')) \<Longrightarrow> \<exists>es. l' = l @ es"
  by (auto simp: standard_track_def rate_limit_track_def Let_def split: prod.splits if_splits)

lemma run_attempts_log_grows:
  "run_attempts n (log_runtime rt) cls cfg path started b (log_attempt attempt) st c (w, l) = (r, c', (w', l')) \<Longrightarrow>
     \<exists>es. l' = l @ es"
proof (induction n arbitrary: st c w l)
  case 0
  then show ?case by simp
next
  case (Suc n)
  obtain x w1 where rem: "remaining rt started b w = (x, w1)" by fastforce
  show ?case
  proof (cases x)
    case None
    with Suc.prems rem show ?thesis by simp
  next
    case (Some timeout)
    obtain q c1 w2 where att: "attempt timeout c w1 = (q, c1, w2)" by (metis prod_cases3)
    obtain go1 s1 v1 k1 where std: "standard_track (log_runtime rt) cfg started b q st (w2, l @ [Attempt timeout q]) =
        (go1, s1, (v1, k1))" by (metis prod_cases4)
    obtain go2 s2 v2 k2 where rl: "rate_limit_track (log_runtime rt) cls cfg started b q st (w2, l @ [Attempt timeout q]) =
        (go2, s2, (v2, k2))" by (metis prod_cases4)
    obtain es1 es2 where es: "k1 = (l @ [Attempt timeout q]) @ es1" "k2 = (l @ [Attempt timeout q]) @ es2"
      using track_log_grows(1) [OF std] track_log_grows(2) [OF rl] by blast
    show ?thesis
    proof (cases "rc_classify cls q")
      case Retry
      then show ?thesis
        using Suc.prems rem Some att std es Suc.IH [of s1 c1 v1 k1] by (cases go1) auto
    next
      case RetryRateLimit
      then show ?thesis
        using Suc.prems rem Some att rl es Suc.IH [of s2 c1 v2 k2] by (cases go2) auto
    qed (use Suc.prems rem Some att in auto)
  qed
qed

lemma first_attempt_logged:
  assumes "run_attempts (Suc n) (log_runtime rt) cls cfg path started b (log_attempt attempt) st c (w, l) = (r, c', (w', l'))"
  shows "if fst (remaining rt started b w) = None then l' = l else \<exists>t q es. l' = l @ Attempt t q # es"
proof -
  obtain x w1 where rem: "remaining rt started b w = (x, w1)" by fastforce
  show ?thesis
  proof (cases x)
    case None
    with assms rem show ?thesis by simp
  next
    case (Some timeout)
    obtain q c1 w2 where att: "attempt timeout c w1 = (q, c1, w2)" by (metis prod_cases3)
    obtain go1 s1 v1 k1 where std: "standard_track (log_runtime rt) cfg started b q st (w2, l @ [Attempt timeout q]) =
        (go1, s1, (v1, k1))" by (metis prod_cases4)
    obtain go2 s2 v2 k2 where rl: "rate_limit_track (log_runtime rt) cls cfg started b q st (w2, l @ [Attempt timeout q]) =
        (go2, s2, (v2, k2))" by (metis prod_cases4)
    obtain es1 es2 where es: "k1 = (l @ [Attempt timeout q]) @ es1" "k2 = (l @ [Attempt timeout q]) @ es2"
      using track_log_grows(1) [OF std] track_log_grows(2) [OF rl] by blast
    note grows = run_attempts_log_grows [where n = n and rt = rt and attempt = attempt]
    have "\<exists>es. l' = (l @ [Attempt timeout q]) @ es"
    proof (cases "rc_classify cls q")
      case Retry
      then show ?thesis
        using assms rem Some att std es grows [of cls cfg path started b s1 c1 v1 k1] by (cases go1) auto
    next
      case RetryRateLimit
      then show ?thesis
        using assms rem Some att rl es grows [of cls cfg path started b s2 c1 v2 k2] by (cases go2) auto
    qed (use assms rem Some att in auto)
    with rem Some show ?thesis by auto
  qed
qed

lemma no_attempt_iff_spent:
  assumes "max_attempts cfg \<noteq> 0"
  shows "(\<exists>t q es. run_log rt cls cfg path b attempt c w = Attempt t q # es) \<noteq> spent_at_start rt b w"
    and "spent_at_start rt b w \<Longrightarrow> run_log rt cls cfg path b attempt c w = []"
proof -
  obtain started w1 where now: "rt_now rt w = (started, w1)" by fastforce
  obtain g w2 where jitter: "rt_jitter_from_clock rt w1 = (g, w2)" by fastforce
  obtain n where n: "unat (max_attempts cfg) = Suc n"
    using assms by (metis not0_implies_Suc unat_eq_zero)
  obtain r c' w' l' where run: "run_attempts (Suc n) (log_runtime rt) cls cfg path started b (log_attempt attempt)
      (initial_retry_state g) c (w2, []) = (r, c', (w', l'))" by (metis prod_cases4)
  then have log: "run_log rt cls cfg path b attempt c w = l'"
    by (simp add: run_log_def logged_run_def run_with_retry_def now jitter n del: run_attempts.simps)
  have "spent_at_start rt b w \<longleftrightarrow> fst (remaining rt started b w2) = None"
    by (simp add: spent_at_start_def now jitter remaining_spent_iff split: option.split prod.split)
  then show "(\<exists>t q es. run_log rt cls cfg path b attempt c w = Attempt t q # es) \<noteq> spent_at_start rt b w"
    and "spent_at_start rt b w \<Longrightarrow> run_log rt cls cfg path b attempt c w = []"
    using first_attempt_logged [OF run] by (auto simp: log split: if_splits)
qed

end
