(* ===== verification/Retry_Properties.thy ===== *)
theory Retry_Properties
  imports Retry_Budget
begin

text \<open>
  What the specification of the retry loop gives: bounds on the attempts of each track, the
  result a caller sees, the timeouts the attempts get, when the loop gives up, and what a
  typed call sends again. A concrete runtime for the witnesses stands at the end of the first
  part.
\<close>

section \<open>Attempts and pauses of a log\<close>

fun attempts_of :: "('md, 'r) retry_event list \<Rightarrow> (duration option \<times> ('md call_error + 'r)) list" where
  "attempts_of [] = []"
| "attempts_of (Attempt t r # es) = (t, r) # attempts_of es"
| "attempts_of (Pause d # es) = attempts_of es"

fun pauses_of :: "('md, 'r) retry_event list \<Rightarrow> duration list" where
  "pauses_of [] = []"
| "pauses_of (Attempt t r # es) = pauses_of es"
| "pauses_of (Pause d # es) = d # pauses_of es"

definition decided ::
  "('md, 'r) retry_classifier \<Rightarrow> retry_decision \<Rightarrow> (duration option \<times> ('md call_error + 'r)) list \<Rightarrow> nat" where
  "decided cls d rs = length (filter (\<lambda>(t, r). rc_classify cls r = d) rs)"

lemma decided_simps [simp]:
  "decided cls d [] = 0"
  "decided cls d ((t, r) # rs) = (if rc_classify cls r = d then Suc (decided cls d rs) else decided cls d rs)"
  by (simp_all add: decided_def)

lemma retry_run_attempts_le:
  "retry_run cls cfg path b n s l e es r \<Longrightarrow> length (attempts_of es) \<le> n"
  by (induction rule: retry_run.induct) auto

lemma retry_run_pauses_le:
  "retry_run cls cfg path b n s l e es r \<Longrightarrow> length (pauses_of es) \<le> length (attempts_of es)"
  by (induction rule: retry_run.induct) auto

lemma retry_run_result:
  "retry_run cls cfg path b n s l e es r \<Longrightarrow>
     (if attempts_of es = []
      then r = Inl (unwrap_or (no_recorded_error path) e) \<and> n = 0 \<or>
           r = Inl (unwrap_or (deadline_before_retry path) e) \<and> b \<noteq> None
      else r = snd (last (attempts_of es)))"
  by (induction rule: retry_run.induct) (auto simp: unwrap_or_def split: if_splits)

lemma retry_run_earlier:
  "retry_run cls cfg path b n s l e es r \<Longrightarrow>
   \<forall>(t, q) \<in> set (butlast (attempts_of es)). rc_classify cls q \<in> {Retry, RetryRateLimit}"
  by (induction rule: retry_run.induct) auto

lemma retry_run_timeouts:
  "retry_run cls cfg path b n s l e es r \<Longrightarrow> \<forall>(t, q) \<in> set (attempts_of es). timeout_allowed b t"
  by (induction rule: retry_run.induct) auto

lemma retry_run_pauses_allowed:
  "retry_run cls cfg path b n s l e es r \<Longrightarrow> \<forall>d \<in> set (pauses_of es). pause_allowed b d"
  by (induction rule: retry_run.induct) auto

lemma retry_run_rate_limited_le:
  "retry_run cls cfg path b n s l e es r \<Longrightarrow> l \<le> unat (rate_limit_max_attempts cfg) \<Longrightarrow>
   decided cls RetryRateLimit (attempts_of es) + l \<le> Suc (unat (rate_limit_max_attempts cfg))"
  by (induction rule: retry_run.induct) auto

text \<open>Without a budget a retryable failure surfaces only when the attempts or the rate-limit
  retries are used up.\<close>

lemma retry_run_gives_up:
  "retry_run cls cfg path b n s l e es r \<Longrightarrow> b = None \<Longrightarrow> unat (max_attempts cfg) = n + s + l \<Longrightarrow>
   l \<le> unat (rate_limit_max_attempts cfg) \<Longrightarrow> attempts_of es \<noteq> [] \<Longrightarrow>
   rc_classify cls r \<in> {Retry, RetryRateLimit} \<Longrightarrow>
   length (attempts_of es) = n \<or>
   decided cls RetryRateLimit (attempts_of es) + l = Suc (unat (rate_limit_max_attempts cfg))"
proof (induction rule: retry_run.induct)
  case (standard_retry t e' s d n l events r e)
  then show ?case
    by (cases "attempts_of events = []") (auto dest: retry_run_result)
next
  case (rate_limit_retry t e' l d n s events r e)
  then show ?case
    by (cases "attempts_of events = []") (auto dest: retry_run_result)
qed auto

text \<open>A run whose attempts all fail on the standard track ends with an attempt.\<close>

lemma retry_run_standard_only:
  "retry_run cls cfg path b n s l e es r \<Longrightarrow> unat (max_attempts cfg) = n + s \<Longrightarrow> b = None \<Longrightarrow>
   \<forall>(t, q) \<in> set (attempts_of es). rc_classify cls q \<noteq> RetryRateLimit \<Longrightarrow>
   length (pauses_of es) = length (attempts_of es) - 1"
proof (induction rule: retry_run.induct)
  case (standard_retry t e' s d n l events r e)
  then have "length (pauses_of events) = length (attempts_of events) - 1" "n \<noteq> 0"
    by auto
  moreover have "attempts_of events \<noteq> []"
    using retry_run_result [OF standard_retry.hyps(5)] standard_retry.prems \<open>n \<noteq> 0\<close>
      standard_retry.hyps(5)
    by (auto elim: retry_run.cases)
  ultimately show ?case
    by (cases "attempts_of events") auto
qed auto

section \<open>A concrete runtime\<close>

text \<open>For the witnesses: the world is the clock, a pause advances it, the schedule is the initial
  backoff of each track, and an attempt takes a nanosecond and gives the next scripted result.\<close>

definition demo_runtime :: "(nat, unit, unit) retry_runtime" where
  "demo_runtime =
     \<lparr>rt_now = (\<lambda>w. (w, w)),
      rt_sleep = (\<lambda>d w. w + d),
      rt_jitter_from_clock = (\<lambda>w. ((), w)),
      rt_next_unit = (\<lambda>g. ((), g)),
      rt_next_backoff = (\<lambda>p k u. from_millis (bp_initial_backoff_ms p)),
      rt_rate_limit_backoff = (\<lambda>rp p k h u. from_millis (rp_rate_limit_initial_backoff_ms rp))\<rparr>"

fun scripted :: "(nat, ('md call_error + 'r) list, 'md, 'r) attempt_fn" where
  "scripted t (r # rs) w = (r, rs, Suc w)"
| "scripted t [] w = (Inl (Transport ''script'' Internal ''end''), [], Suc w)"

abbreviation unavailable :: "unit call_error" where
  "unavailable \<equiv> Transport ''/s/M'' Unavailable ''refused''"

abbreviation rate_limited :: "unit call_error" where
  "rate_limited \<equiv> Status ''/s/M'' ResourceExhausted ''rate limit'' [] ()"

lemmas demo_run_simps =
  demo_runtime_def demo_view_def logged_run_def run_log_def Let_def
  run_with_retry_def initial_retry_state_def remaining_def elapsed_def budget_allows_sleep_def
  standard_track_def rate_limit_track_def result_err_def unwrap_or_def duration_checked_sub_def
  duration_checked_add_def as_backoff_policy_def as_rate_limit_policy_def from_millis_def
  nanos_per_milli_def duration_max_def nanos_per_sec_def
  word_le_nat_alt word_less_nat_alt

section \<open>Properties of the loop\<close>

text \<open>C1 (run_refines_spec). On the standard classifier the loop implements its specification:
  the log of every run, and the result the caller gets, are a run of \<open>retry_run\<close> from
  \<open>max_attempts\<close> attempts and unused tracks; recording the log changes nothing of the run.\<close>

theorem run_refines_spec:
  "forget_log (logged_run rt (std_retry_classifier view) cfg path b attempt c w) =
     run_with_retry rt (std_retry_classifier view) cfg path b attempt c w \<and>
   retry_run (std_retry_classifier view) cfg path b (unat (max_attempts cfg)) 0 0 None
     (run_log rt (std_retry_classifier view) cfg path b attempt c w)
     (fst (run_with_retry rt (std_retry_classifier view) cfg path b attempt c w))"
  by (simp add: logged_run_forget std_cls.run_with_retry_refines)

text \<open>C7 (run_result_is_last_attempt). Under a policy that construction accepts, the caller gets the
  result of the last attempt, every earlier attempt failed with an error the classifier
  retries, and a run makes no attempt exactly when its budget is spent at the first reading of the clock
  after the start, which it reports as \<open>DeadlineExceeded\<close>.\<close>

theorem run_result_is_last_attempt:
  assumes "try_new inp = Inr cfg"
    and "es = attempts_of (run_log rt (std_retry_classifier view) cfg path b attempt c w)"
    and "r = fst (run_with_retry rt (std_retry_classifier view) cfg path b attempt c w)"
  shows "(es \<noteq> [] \<longrightarrow> r = snd (last es)) \<and>
    (es = [] \<longleftrightarrow> spent_at_start rt b w) \<and> (es = [] \<longrightarrow> r = Inl (deadline_before_retry path)) \<and>
    (\<forall>(t, q) \<in> set (butlast es). \<exists>e. q = Inl e \<and> classify q \<in> {Retry, RetryRateLimit})"
proof -
  have some: "max_attempts cfg \<noteq> 0"
    using retry_cfg.construct_valid [OF assms(1)] by (simp add: valid_retry_config_iff)
  have spent: "es = [] \<longleftrightarrow> spent_at_start rt b w"
    using no_attempt_iff_spent [OF some, where rt = rt and cls = "std_retry_classifier view" and path = path and b = b
        and attempt = attempt and c = c and w = w] by (auto simp: assms(2))
  moreover note run = std_cls.run_with_retry_refines [of view cfg path b rt attempt c w]
  ultimately have "(es \<noteq> [] \<longrightarrow> r = snd (last es)) \<and> (es = [] \<longrightarrow> r = Inl (deadline_before_retry path))"
    using retry_run_result [OF run] some by (auto simp: assms(2,3) unwrap_or_def unat_eq_zero)
  moreover have "\<exists>e. q = Inl e \<and> classify q \<in> {Retry, RetryRateLimit}"
    if "(t, q) \<in> set (butlast es)" for t q
    using that retry_run_earlier [OF run] std_cls.retry_has_error [of view q]
    by (fastforce simp: assms(2))
  ultimately show ?thesis using spent by blast
qed

lemma default_retry_limits [simp]:
  "max_attempts default_retry_config = 5" "rate_limit_max_attempts default_retry_config = 2"
  by (simp_all add: default_retry_config_def)

lemma demo_default_built: "try_new (config_input default_retry_config) = Inr default_retry_config"
  by (rule retry_cfg.construct_fields) (simp add: validate_iff [symmetric] validate_def
    default_retry_config_def in_unit_range_def f64_one_tenth_def)

lemmas run_attempts_numeral = run_attempts.simps(2) [of "pred_numeral v" for v, folded numeral_eq_Suc]

lemma demo_log:
  "run_log demo_runtime (std_retry_classifier demo_view) default_retry_config ''/s/M'' None scripted
     [Inl unavailable, Inr (7 :: nat)] 0 =
   [Attempt None (Inl unavailable), Pause 100000000, Attempt None (Inr 7)]"
  by (simp add: demo_run_simps default_retry_config_def run_attempts_numeral)

theorem run_result_is_last_attempt_witness:
  "fst (run_with_retry demo_runtime (std_retry_classifier demo_view) default_retry_config ''/s/M'' None
     scripted [Inl unavailable, Inr (7 :: nat)] 0) = Inr 7"
  using run_result_is_last_attempt [OF demo_default_built refl refl,
    of demo_runtime demo_view "''/s/M''" None scripted "[Inl unavailable, Inr (7 :: nat)]" 0]
  by (simp add: demo_log)

text \<open>C21 (attempts_bounded). A run makes at most \<open>max_attempts\<close> attempts, at most one more than
  \<open>rate_limit_max_attempts\<close> of them fail on the rate-limit track, and it pauses at most once
  after an attempt.\<close>

theorem attempts_bounded:
  "length (attempts_of (run_log rt (std_retry_classifier view) cfg path b attempt c w))
     \<le> unat (max_attempts cfg) \<and>
   decided (std_retry_classifier view) RetryRateLimit
     (attempts_of (run_log rt (std_retry_classifier view) cfg path b attempt c w))
     \<le> Suc (unat (rate_limit_max_attempts cfg)) \<and>
   length (pauses_of (run_log rt (std_retry_classifier view) cfg path b attempt c w))
     \<le> length (attempts_of (run_log rt (std_retry_classifier view) cfg path b attempt c w))"
proof -
  note run = std_cls.run_with_retry_refines [of view cfg path b rt attempt c w]
  show ?thesis
    using retry_run_attempts_le [OF run] retry_run_rate_limited_le [OF run] retry_run_pauses_le [OF run]
    by simp
qed


text \<open>The log of a run with a budget of two tenths of a second: one pause fits, the second does not.\<close>

lemma budget_respected_at_work:
  "snd (snd (snd (timed_run demo_runtime (std_retry_classifier demo_view) default_retry_config ''/s/M'' (Some (from_millis 200))
     scripted [Inl unavailable, Inl unavailable, Inr (7 :: nat)] 0))) =
   [Reading 0, Reading 0, Tried (Some 200000000) (Inl unavailable), Reading 1, Slept 100000000,
    Reading 100000001, Tried (Some 99999999) (Inl unavailable), Reading 100000002]"
  by (simp add: demo_run_simps timed_run_def default_retry_config_def run_attempts_numeral)

text \<open>A call without a timeout surfaces an error the classifier retries
  only after \<open>max_attempts\<close> attempts, or after \<open>rate_limit_max_attempts\<close> retries on the
  rate-limit track.\<close>

lemma gives_up_when_used_up:
  assumes "try_new inp = Inr cfg"
    and "es = attempts_of (run_log rt (std_retry_classifier view) cfg path None attempt c w)"
    and "classify (fst (run_with_retry rt (std_retry_classifier view) cfg path None attempt c w))
      \<in> {Retry, RetryRateLimit}"
  shows "length es = unat (max_attempts cfg) \<or>
    decided (std_retry_classifier view) RetryRateLimit es = Suc (unat (rate_limit_max_attempts cfg))"
proof -
  have "unat (max_attempts cfg) \<noteq> 0"
    using retry_cfg.construct_valid [OF assms(1)] by (simp add: valid_retry_config_iff unat_eq_zero)
  moreover note run = std_cls.run_with_retry_refines [of view cfg path None rt attempt c w]
  ultimately have "es \<noteq> []"
    using retry_run_result [OF run] by (auto simp: assms(2))
  then show ?thesis
    using retry_run_gives_up [OF run] assms by simp
qed

lemma classify_rate_limit_text [simp]: "classify_resource_exhausted ''rate limit'' = RateLimit"
  by code_simp

lemma demo_rate_limited_log:
  "run_log demo_runtime (std_retry_classifier demo_view) default_retry_config ''/s/M'' None scripted
     [Inl rate_limited, Inl rate_limited, Inl rate_limited, Inr (7 :: nat)] 0 =
   [Attempt None (Inl rate_limited), Pause 1000000000, Attempt None (Inl rate_limited),
    Pause 1000000000, Attempt None (Inl rate_limited)]"
  by (simp add: demo_run_simps default_retry_config_def run_attempts_numeral)

lemma demo_rate_limited_result:
  "fst (run_with_retry demo_runtime (std_retry_classifier demo_view) default_retry_config ''/s/M'' None
     scripted [Inl rate_limited, Inl rate_limited, Inl rate_limited, Inr (7 :: nat)] 0) = Inl rate_limited"
  by (simp add: demo_run_simps default_retry_config_def run_attempts_numeral)

lemma gives_up_when_used_up_at_work:
  "decided (std_retry_classifier demo_view) RetryRateLimit
     (attempts_of (run_log demo_runtime (std_retry_classifier demo_view) default_retry_config ''/s/M''
       None scripted [Inl rate_limited, Inl rate_limited, Inl rate_limited, Inr (7 :: nat)] 0)) =
   Suc (unat (rate_limit_max_attempts default_retry_config))"
  using gives_up_when_used_up [OF demo_default_built refl, of demo_runtime demo_view "''/s/M''"
    scripted "[Inl rate_limited, Inl rate_limited, Inl rate_limited, Inr (7 :: nat)]" 0]
  by (simp add: demo_rate_limited_result demo_rate_limited_log)

text \<open>A call without a timeout that never meets the rate-limit
  track pauses between its attempts and not after the last one.\<close>

lemma standard_track_pauses_between:
  assumes "decided (std_retry_classifier view) RetryRateLimit
      (attempts_of (run_log rt (std_retry_classifier view) cfg path None attempt c w)) = 0"
  shows "length (pauses_of (run_log rt (std_retry_classifier view) cfg path None attempt c w)) =
    length (attempts_of (run_log rt (std_retry_classifier view) cfg path None attempt c w)) - 1"
proof -
  note run = std_cls.run_with_retry_refines [of view cfg path None rt attempt c w]
  show ?thesis
    using retry_run_standard_only [OF run] assms by (auto simp: decided_def filter_empty_conv)
qed

lemma standard_track_pauses_between_at_work:
  "length (pauses_of (run_log demo_runtime (std_retry_classifier demo_view) default_retry_config ''/s/M''
     None scripted [Inl unavailable, Inr (7 :: nat)] 0)) = 1"
  using standard_track_pauses_between [of demo_view demo_runtime default_retry_config "''/s/M''"
    scripted "[Inl unavailable, Inr (7 :: nat)]" 0]
  by (simp add: demo_log)

text \<open>C23 (rate_limited_last_attempt_pauses). With one attempt allowed, a raw call that meets the
  rate-limit track still computes the rate-limit backoff and pauses for it, and then fails: the
  loop checks the track's own counter and not the attempts that are left.\<close>

theorem rate_limited_last_attempt_pauses:
  assumes "max_attempts cfg = 1" "rate_limit_max_attempts cfg \<noteq> 0"
    and "opt_timeout (req_options request) = None"
    and "call_unary inner request w2 = (Inl e, w3)" and "classify (Inl e :: 'md call_error + (u8 list, 'h) call_response) = RetryRateLimit"
    and "rt_now rt w = (started, w1)" and "rt_jitter_from_clock rt w1 = (g, w2)"
  shows "retry_call_raw rt (std_retry_classifier view :: ('md, (u8 list, 'h) call_response) retry_classifier)
      cfg inner request w =
    (Inl e, rt_sleep rt
      (rt_rate_limit_backoff rt (as_rate_limit_policy cfg) (as_backoff_policy cfg) 0
        (read_retry_after view e) (fst (rt_next_unit rt g))) w3)"
proof -
  have "make_request (req_path request) (req_body request)
      (create_options None (opt_metadata (req_options request))) = request"
    using assms(3) create_options_simps(3) [of "req_options request"] by simp
  then have "call_unary inner (make_request (req_path request) (req_body request)
      (create_options None (opt_metadata (req_options request)))) w2 = (Inl e, w3)"
    using assms(4) by simp
  then show ?thesis
    using assms
    by (simp add: retry_call_raw_def run_with_retry_def remaining_def raw_attempt_def
      rate_limit_track_def budget_allows_sleep_def initial_retry_state_def result_err_def
      unwrap_or_def word_less_1 Let_def case_prod_beta)
qed

text \<open>A transport whose unary call fails with the given error, after a nanosecond.\<close>

definition failing_transport :: "unit call_error \<Rightarrow> (nat, 'i, 'q, 'o, 's, unit, unit) transport" where
  "failing_transport e =
     \<lparr>call_unary = (\<lambda>r w. (Inl e, Suc w)), call_server_stream = (\<lambda>r w. (Inl e, Suc w)),
      call_client_stream = (\<lambda>r w. (Inl e, Suc w)), call_bidi_stream = (\<lambda>r w. (Inl e, Suc w))\<rparr>"

definition demo_options :: "unit call_options" where
  "demo_options = create_options None ()"

theorem rate_limited_last_attempt_pauses_witness:
  "retry_call_raw demo_runtime (std_retry_classifier demo_view)
     (default_retry_config\<lparr>max_attempts := 1\<rparr>) (failing_transport rate_limited)
     (make_request ''/s/M'' [] demo_options) 0 = (Inl rate_limited, 1000000001)"
  using rate_limited_last_attempt_pauses
    [of "default_retry_config\<lparr>max_attempts := 1\<rparr>" "make_request ''/s/M'' [] demo_options"
      "failing_transport rate_limited" 0 rate_limited 1 demo_runtime 0 0 0 "()" demo_view]
  by (simp add: failing_transport_def demo_options_def demo_runtime_def as_rate_limit_policy_def
    default_retry_config_def from_millis_def nanos_per_milli_def)

section \<open>What a typed call sends\<close>

text \<open>Attempts that send the same message each time.\<close>

definition resend_attempt ::
  "('w, 'i, 'q, 'o, 's, 'md, 'h) transport \<Rightarrow> string \<Rightarrow> 'md \<Rightarrow> 'i \<Rightarrow>
     ('w, unit, 'md, ('o, 'h) call_response) attempt_fn" where
  "resend_attempt inner path md message attempt_timeout c w =
     (let (r, w') = call_unary inner (make_request path message (create_options attempt_timeout md)) w
      in (r, (), w'))"

text \<open>Two closures that agree on every reachable closure state run the same.\<close>

lemma run_attempts_agree:
  assumes "\<And>t c w. P c \<Longrightarrow> \<exists>c'. P c' \<and>
      a t c w = (fst (a' t () w), c', snd (snd (a' t () w)))"
    and "P c"
  shows "\<exists>c'. run_attempts n rt cls cfg path started b a st c w =
     (fst (run_attempts n rt cls cfg path started b a' st () w), c',
      snd (snd (run_attempts n rt cls cfg path started b a' st () w)))"
  using assms(2)
proof (induction n arbitrary: st c w)
  case 0
  then show ?case by simp
next
  case (Suc n)
  obtain x w1 where rem: "remaining rt started b w = (x, w1)" by fastforce
  show ?case
  proof (cases x)
    case None
    then show ?thesis using rem by simp
  next
    case (Some t)
    obtain c' where "P c'" and att: "a t c w1 = (fst (a' t () w1), c', snd (snd (a' t () w1)))"
      using assms(1) [OF Suc.prems] by blast
    then show ?thesis
      using rem Some Suc.IH [OF \<open>P c'\<close>]
      by (auto split: prod.split retry_decision.split)
  qed
qed

lemma run_with_retry_agree:
  assumes "\<And>t c w. P c \<Longrightarrow> \<exists>c'. P c' \<and>
      a t c w = (fst (a' t () w), c', snd (snd (a' t () w)))"
    and "P c"
  shows "\<exists>c'. run_with_retry rt cls cfg path b a c w =
     (fst (run_with_retry rt cls cfg path b a' () w), c',
      snd (snd (run_with_retry rt cls cfg path b a' () w)))"
  unfolding run_with_retry_def Let_def case_prod_beta
  using run_attempts_agree [of P a a', OF assms] by simp

text \<open>When a message survives its own encoding, a retried typed
  call is the retry loop over attempts that each send that very message, with the caller's
  path and metadata and the attempt's own timeout.\<close>

lemma typed_retry_resends_message:
  assumes "max_attempts cfg > 1"
    and "encode_into pl message = Inr encoded" and "decode_from pl encoded = Inr message"
  shows "retry_call rt cls cfg inner pl (make_request path message options) w =
    (let (r, c, w') = run_with_retry rt cls cfg path (opt_timeout options)
           (resend_attempt inner path (opt_metadata options) message) () w
     in (r, w'))"
proof -
  let ?a = "typed_attempt inner pl path (opt_metadata options) encoded"
  let ?a' = "resend_attempt inner path (opt_metadata options) message"
  have agree: "\<exists>c'. (c' = None \<or> c' = Some message) \<and> ?a t c v = (fst (?a' t () v), c', snd (snd (?a' t () v)))"
    if "c = None \<or> c = Some message" for t c v
    using that assms(3) by (auto simp: typed_attempt_def resend_attempt_def split: prod.split)
  obtain c' where run: "run_with_retry rt cls cfg path (opt_timeout options) ?a (Some message) w =
      (fst (run_with_retry rt cls cfg path (opt_timeout options) ?a' () w), c',
       snd (snd (run_with_retry rt cls cfg path (opt_timeout options) ?a' () w)))"
    using run_with_retry_agree [of "\<lambda>c. c = None \<or> c = Some message" ?a ?a', OF agree] by blast
  have "\<not> max_attempts cfg \<le> 1"
    using assms(1) by simp
  then show ?thesis
    using assms(2,3) by (simp add: retry_call_def run case_prod_beta Let_def)
qed

definition demo_payload :: "u8 payload" where
  "demo_payload = \<lparr>encode_into = (\<lambda>m. Inr [m]),
     decode_from = (\<lambda>bs. case bs of [m] \<Rightarrow> Inr m | _ \<Rightarrow> Inl (CodecError ''m'' ''length''))\<rparr>"

lemma typed_retry_resends_message_at_work:
  "retry_call demo_runtime (std_retry_classifier demo_view)
     (default_retry_config\<lparr>max_attempts := 2\<rparr>) (failing_transport unavailable) demo_payload
     (make_request ''/s/M'' 7 demo_options) 0 = (Inl unavailable, 100000002)"
  using typed_retry_resends_message
    [of "default_retry_config\<lparr>max_attempts := 2\<rparr>" demo_payload 7 "[7]" demo_runtime
      "std_retry_classifier demo_view" "failing_transport unavailable" "''/s/M''" demo_options 0]
  by (simp add: demo_payload_def demo_options_def failing_transport_def resend_attempt_def demo_run_simps
    default_retry_config_def run_attempts_numeral)

end
