(* ===== verification/Breaker_Policy.thy ===== *)
theory Breaker_Policy
  imports Config_Core
begin

text \<open>
  The breaker policy value of \<open>grpc-egress-breaker-api\<close> and its provider of
  \<open>grpc-egress-breaker-spi\<close>: construction with validation, deserialization, the derived
  cool-down and the view the state machine of the shared breaker crate reads.
\<close>

section \<open>The policy value\<close>

record grpc_breaker_config =
  enabled :: bool
  failure_threshold :: u32
  cool_down_seconds :: u64
  half_open_probe_count :: u32

record grpc_breaker_config_data =
  bd_enabled :: bool
  bd_failure_threshold :: u32
  bd_cool_down_seconds :: u64
  bd_half_open_probe_count :: u32

text \<open>The arguments of \<open>GrpcBreakerConfig::try_new\<close>, in their order.\<close>

type_synonym breaker_args = "bool \<times> u32 \<times> u64 \<times> u32"

fun breaker_try_new :: "breaker_args \<Rightarrow> policy_error + grpc_breaker_config" where
  "breaker_try_new (on, threshold, cool_down, probes) =
     (if threshold = 0 then Inl (InvalidConfig ''failure_threshold must be >= 1'')
      else if probes = 0 then Inl (InvalidConfig ''half_open_probe_count must be >= 1'')
      else Inr \<lparr>enabled = on, failure_threshold = threshold, cool_down_seconds = cool_down,
                half_open_probe_count = probes\<rparr>)"

definition breaker_data_args :: "grpc_breaker_config_data \<Rightarrow> breaker_args" where
  "breaker_data_args d =
     (bd_enabled d, bd_failure_threshold d, bd_cool_down_seconds d, bd_half_open_probe_count d)"

definition breaker_try_from :: "grpc_breaker_config_data \<Rightarrow> policy_error + grpc_breaker_config" where
  "breaker_try_from d = breaker_try_new (breaker_data_args d)"

definition default_breaker_config :: grpc_breaker_config where
  "default_breaker_config =
     \<lparr>enabled = True, failure_threshold = 5, cool_down_seconds = 30, half_open_probe_count = 1\<rparr>"

text \<open>The data a missing field is taken from.\<close>

definition default_breaker_data :: grpc_breaker_config_data where
  "default_breaker_data =
     (let config = default_breaker_config in
      \<lparr>bd_enabled = enabled config, bd_failure_threshold = failure_threshold config,
       bd_cool_down_seconds = cool_down_seconds config,
       bd_half_open_probe_count = half_open_probe_count config\<rparr>)"

text \<open>\<open>BreakerConfig\<close> of the shared breaker policy crate.\<close>

record breaker_config =
  bc_failure_threshold :: u32
  bc_cool_down_seconds :: u64
  bc_half_open_probe_count :: u32

definition into_breaker_config :: "grpc_breaker_config \<Rightarrow> breaker_config" where
  "into_breaker_config cfg =
     \<lparr>bc_failure_threshold = failure_threshold cfg,
      bc_cool_down_seconds = cool_down_seconds cfg,
      bc_half_open_probe_count = half_open_probe_count cfg\<rparr>"

section \<open>The provider\<close>

definition breaker_validate :: "grpc_breaker_config \<Rightarrow> policy_error + unit" where
  "breaker_validate config =
     (if failure_threshold config = 0 then Inl (InvalidConfig ''failure_threshold must be >= 1'')
      else if half_open_probe_count config = 0
        then Inl (InvalidConfig ''half_open_probe_count must be >= 1'')
      else Inr ())"

definition breaker_parse_config ::
  "(grpc_breaker_config_data, 'te) toml_reader \<Rightarrow> (policy_error \<Rightarrow> string) \<Rightarrow> string \<Rightarrow>
     policy_error + grpc_breaker_config" where
  "breaker_parse_config tr text s =
     bind_result
       (map_err (\<lambda>e. ParseFailed (toml_error_text tr e)) (deserialize_with tr breaker_try_from text s))
       (\<lambda>c. bind_result (breaker_validate c) (\<lambda>_. Inr c))"

definition cool_down :: "grpc_breaker_config \<Rightarrow> duration" where
  "cool_down config = from_secs (cool_down_seconds config)"

section \<open>What construction guarantees\<close>

definition valid_breaker_config :: "grpc_breaker_config \<Rightarrow> bool" where
  "valid_breaker_config c \<longleftrightarrow> 1 \<le> unat (failure_threshold c) \<and> 1 \<le> unat (half_open_probe_count c)"

definition breaker_config_args :: "grpc_breaker_config \<Rightarrow> breaker_args" where
  "breaker_config_args c =
     (enabled c, failure_threshold c, cool_down_seconds c, half_open_probe_count c)"

lemma valid_breaker_config_iff:
  "valid_breaker_config c \<longleftrightarrow> failure_threshold c \<noteq> 0 \<and> half_open_probe_count c \<noteq> 0"
  by (simp add: valid_breaker_config_def Suc_le_eq unat_gt_0)

lemma breaker_validate_iff: "breaker_validate c = Inr () \<longleftrightarrow> valid_breaker_config c"
  by (simp add: breaker_validate_def valid_breaker_config_iff)

lemma breaker_try_new_Inr:
  "breaker_try_new r = Inr c \<Longrightarrow> valid_breaker_config c \<and> breaker_config_args c = r"
  by (cases r) (auto simp: valid_breaker_config_iff breaker_config_args_def split: if_splits)

text \<open>The breaker policy keeps the contract of a validated value.\<close>

interpretation breaker_cfg:
  constructible_config breaker_try_new breaker_validate valid_breaker_config breaker_config_args
  by unfold_locales
    (auto simp: breaker_validate_iff valid_breaker_config_iff breaker_config_args_def
      dest: breaker_try_new_Inr)

section \<open>Properties\<close>

lemma into_breaker_config_valid:
  "valid_breaker_config c \<Longrightarrow>
   bc_failure_threshold (into_breaker_config c) \<noteq> 0 \<and> bc_half_open_probe_count (into_breaker_config c) \<noteq> 0"
  by (simp add: into_breaker_config_def valid_breaker_config_iff)

text \<open>\<open>validate\<close> accepts exactly the policies that construction can
  make; parsing yields only those, and its second check never refuses what the reader gave; the
  state machine is never run with a threshold or a probe count of zero under such a policy.\<close>

lemma breaker_policy_contract:
  "(breaker_validate c = Inr () \<longleftrightarrow> (\<exists>r. breaker_try_new r = Inr c)) \<and>
   (breaker_parse_config tr text s = Inr c \<longleftrightarrow>
      (\<exists>d. from_str tr s = Inr d \<and> breaker_try_from d = Inr c)) \<and>
   (breaker_validate c = Inr () \<longleftrightarrow>
      bc_failure_threshold (into_breaker_config c) \<noteq> 0 \<and>
      bc_half_open_probe_count (into_breaker_config c) \<noteq> 0)"
proof -
  have "breaker_parse_config tr text s =
      map_err (\<lambda>e. ParseFailed (toml_error_text tr e)) (deserialize_with tr breaker_try_from text s)"
    using breaker_cfg.recheck_parsed
      [of "\<lambda>e. ParseFailed (toml_error_text tr e)" tr breaker_data_args "text" s "\<lambda>e. e"]
    by (simp add: breaker_parse_config_def breaker_try_from_def [abs_def])
  then show ?thesis
    unfolding breaker_cfg.constructible_iff
    by (simp add: breaker_validate_iff into_breaker_config_def valid_breaker_config_iff)
qed

end
