(* ===== verification/Breaker_Client.thy ===== *)
theory Breaker_Client
  imports Breaker_Policy Call_Contract
begin

text \<open>
  The breaker decorator \<open>GrpcBreakerClient\<close> of \<open>grpc-egress-breaker-spi\<close>: the failure
  classifier, the two uses of the state machine (\<open>admit\<close> before a call, \<open>record\<close> after it), the
  guarded calls, the observation of the state and the factory. The state machine itself
  (\<open>DefaultBreakerTransition\<close>) and the payload of its open state are code of the shared breaker
  crates: parameters. The world of a guarded client is the breaker's node and the world of the
  inner client; calls here run one after the other (\<open>Breaker_Concurrency\<close> interleaves them).
\<close>

section \<open>The state machine, as an interface\<close>

datatype 'x breaker_state = Closed | Open 'x | HalfOpen

datatype outcome = Success | Failure

datatype admission = Proceed | RejectOpen

record 'x breaker_node =
  bn_state :: "'x breaker_state"
  bn_consecutive_failures :: u32
  bn_consecutive_successes :: u32

record 'x admit_request =
  ar_state :: "'x breaker_state"
  ar_consecutive_failures :: u32
  ar_consecutive_successes :: u32
  ar_config :: breaker_config

record 'x admitted =
  ad_admission :: admission
  ad_state :: "'x breaker_state"
  ad_consecutive_failures :: u32
  ad_consecutive_successes :: u32

record 'x record_outcome_request =
  or_state :: "'x breaker_state"
  or_consecutive_failures :: u32
  or_consecutive_successes :: u32
  or_config :: breaker_config
  or_outcome :: outcome

record 'x recorded =
  rc_state :: "'x breaker_state"
  rc_consecutive_failures :: u32
  rc_consecutive_successes :: u32

text \<open>A transition may read the clock, which is part of the world.\<close>

record ('w, 'x, 'e) breaker_transition =
  bt_admit :: "'x admit_request \<Rightarrow> ('w, 'e + 'x admitted) io"
  bt_record :: "'x record_outcome_request \<Rightarrow> ('w, 'e + 'x recorded) io"
  bt_error_text :: "'e \<Rightarrow> string"

section \<open>Which failures count\<close>

fun is_breaker_failure :: "'md call_error + 'r \<Rightarrow> bool" where
  "is_breaker_failure (Inr v) = False"
| "is_breaker_failure (Inl (Transport path code reason)) = (code \<in> {Unavailable, Unknown, Internal})"
| "is_breaker_failure (Inl (Status path code message details trailers)) = (code \<in> {Unavailable, Internal})"
| "is_breaker_failure (Inl (Decode e)) = True"
| "is_breaker_failure (Inl (Encode e)) = False"

definition classify_result :: "'md call_error + 'r \<Rightarrow> outcome" where
  "classify_result result = (if is_breaker_failure result then Failure else Success)"

text \<open>What the documentation of the trait \<open>FailureClassifier\<close> promises.\<close>

locale failure_classifier =
  fixes outcome_of :: "'md call_error + 'r \<Rightarrow> outcome"
  assumes value_counts: "outcome_of (Inr v) = Success"
    and own_message: "outcome_of (Inl (Encode e)) = Success"
    and unreadable: "outcome_of (Inl (Decode e)) = Failure"
    and unhealthy_status: "outcome_of (Inl (Status p c m d t)) = Failure \<longleftrightarrow> c = Unavailable \<or> c = Internal"
    and broken_connection:
      "outcome_of (Inl (Transport p c m)) = Failure \<longleftrightarrow> c = Unavailable \<or> c = Unknown \<or> c = Internal"
begin

lemma failure_is_error: "outcome_of r = Failure \<Longrightarrow> \<exists>e. r = Inl e"
  using value_counts by (cases r) auto

lemma rate_limit_never_counts: "outcome_of (Inl (Status p ResourceExhausted m d t)) = Success"
  using unhealthy_status [of p ResourceExhausted m d t] by (cases "outcome_of (Inl (Status p ResourceExhausted m d t))") auto

lemma credentials_never_count:
  "c = Unauthenticated \<or> c = PermissionDenied \<Longrightarrow> outcome_of (Inl (Status p c m d t)) = Success"
  using unhealthy_status [of p c m d t] by (cases "outcome_of (Inl (Status p c m d t))") auto

end

interpretation std_failures: failure_classifier "classify_result :: 'md call_error + 'r \<Rightarrow> outcome"
  by unfold_locales (auto simp: classify_result_def)

section \<open>Admit, record, guard\<close>

definition log_prefix :: string where
  "log_prefix = ''grpc-breaker''"

definition refuse :: "string \<Rightarrow> status_code \<Rightarrow> string \<Rightarrow> 'md call_error" where
  "refuse path code reason = Transport path code reason"

definition circuit_open :: "string \<Rightarrow> 'md call_error" where
  "circuit_open path = refuse path Unavailable (log_prefix @ '': circuit open, request short-circuited'')"

type_synonym ('w, 'x) guarded_world = "'x breaker_node \<times> 'w"

definition admit_input :: "grpc_breaker_config \<Rightarrow> 'x breaker_node \<Rightarrow> 'x admit_request" where
  "admit_input cfg snapshot =
     \<lparr>ar_state = bn_state snapshot, ar_consecutive_failures = bn_consecutive_failures snapshot,
      ar_consecutive_successes = bn_consecutive_successes snapshot, ar_config = into_breaker_config cfg\<rparr>"

definition write_admitted :: "'x admitted \<Rightarrow> 'x breaker_node \<Rightarrow> 'x breaker_node" where
  "write_admitted a node = node
     \<lparr>bn_state := ad_state a, bn_consecutive_failures := ad_consecutive_failures a,
      bn_consecutive_successes := ad_consecutive_successes a\<rparr>"

definition admission_result :: "string \<Rightarrow> admission \<Rightarrow> 'md call_error + unit" where
  "admission_result path a =
     (case a of RejectOpen \<Rightarrow> Inl (circuit_open path) | Proceed \<Rightarrow> Inr ())"

definition admit ::
  "('w, 'x, 'e) breaker_transition \<Rightarrow> grpc_breaker_config \<Rightarrow> string \<Rightarrow>
     (('w, 'x) guarded_world, 'md call_error + unit) io" where
  "admit bt cfg path nw =
     (case nw of (node, w) \<Rightarrow>
        (case bt_admit bt (admit_input cfg node) w of
           (Inl e, w') \<Rightarrow>
             (Inl (refuse path Internal (log_prefix @ '': admit failed unexpectedly: '' @ bt_error_text bt e)),
              (node, w'))
         | (Inr a, w') \<Rightarrow> (admission_result path (ad_admission a), (write_admitted a node, w'))))"

definition record_input :: "grpc_breaker_config \<Rightarrow> outcome \<Rightarrow> 'x breaker_node \<Rightarrow> 'x record_outcome_request" where
  "record_input cfg result snapshot =
     \<lparr>or_state = bn_state snapshot, or_consecutive_failures = bn_consecutive_failures snapshot,
      or_consecutive_successes = bn_consecutive_successes snapshot, or_config = into_breaker_config cfg,
      or_outcome = result\<rparr>"

definition write_recorded :: "'x recorded \<Rightarrow> 'x breaker_node \<Rightarrow> 'x breaker_node" where
  "write_recorded r node = node
     \<lparr>bn_state := rc_state r, bn_consecutive_failures := rc_consecutive_failures r,
      bn_consecutive_successes := rc_consecutive_successes r\<rparr>"

definition record_outcome ::
  "('w, 'x, 'e) breaker_transition \<Rightarrow> grpc_breaker_config \<Rightarrow> outcome \<Rightarrow> ('w, 'x) guarded_world \<Rightarrow>
     ('w, 'x) guarded_world" where
  "record_outcome bt cfg result nw =
     (case nw of (node, w) \<Rightarrow>
        (case bt_record bt (record_input cfg result node) w of
           (Inr r, w') \<Rightarrow> (write_recorded r node, w')
         | (Inl e, w') \<Rightarrow> (node, w')))"

text \<open>A call of the inner client leaves the node alone.\<close>

definition inner_call :: "('w, 'a) io \<Rightarrow> (('w, 'x) guarded_world, 'a) io" where
  "inner_call f nw = (case nw of (node, w) \<Rightarrow> (case f w of (r, w') \<Rightarrow> (r, (node, w'))))"

definition guard ::
  "('w, 'x, 'e) breaker_transition \<Rightarrow> grpc_breaker_config \<Rightarrow> string \<Rightarrow>
     ('w, 'md call_error + 'r) io \<Rightarrow> (('w, 'x) guarded_world, 'md call_error + 'r) io" where
  "guard bt cfg path call nw =
     (if \<not> enabled cfg then inner_call call nw
      else
        (case admit bt cfg path nw of
           (Inl e, nw1) \<Rightarrow> (Inl e, nw1)
         | (Inr u, nw1) \<Rightarrow>
             (case inner_call call nw1 of
                (result, nw2) \<Rightarrow> (result, record_outcome bt cfg (classify_result result) nw2))))"

section \<open>The calls of the decorated client\<close>

definition breaker_typed ::
  "('w, 'x, 'e) breaker_transition \<Rightarrow> grpc_breaker_config \<Rightarrow>
     ('w, 'i, 'q, 'o, 's, 'md, 'h) transport \<Rightarrow>
     (('w, 'x) guarded_world, 'i, 'q, 'o, 's, 'md, 'h) transport" where
  "breaker_typed bt cfg inner =
     \<lparr>call_unary = (\<lambda>request. guard bt cfg (req_path request) (call_unary inner request)),
      call_server_stream = (\<lambda>request. guard bt cfg (req_path request) (call_server_stream inner request)),
      call_client_stream = (\<lambda>request. guard bt cfg (req_path request) (call_client_stream inner request)),
      call_bidi_stream = (\<lambda>request. guard bt cfg (req_path request) (call_bidi_stream inner request))\<rparr>"

text \<open>The raw calls write the guard out, each for its own shape.\<close>

definition rebuild_request :: "('i, 'md) call_request \<Rightarrow> ('i, 'md) call_request" where
  "rebuild_request request =
     \<lparr>req_path = req_path request, req_body = req_body request, req_options = req_options request\<rparr>"

definition raw_guarded ::
  "('w, 'x, 'e) breaker_transition \<Rightarrow> grpc_breaker_config \<Rightarrow>
     (('i, 'md) call_request \<Rightarrow> ('w, 'md call_error + 'r) io) \<Rightarrow> ('i, 'md) call_request \<Rightarrow>
     (('w, 'x) guarded_world, 'md call_error + 'r) io" where
  "raw_guarded bt cfg call request nw =
     (case (if enabled cfg then admit bt cfg (req_path request) nw else (Inr (), nw)) of
        (Inl e, nw1) \<Rightarrow> (Inl e, nw1)
      | (Inr u, nw1) \<Rightarrow>
          (case inner_call (call (rebuild_request request)) nw1 of
             (result, nw2) \<Rightarrow>
               (result, if enabled cfg then record_outcome bt cfg (classify_result result) nw2 else nw2)))"

definition breaker_raw ::
  "('w, 'x, 'e) breaker_transition \<Rightarrow> grpc_breaker_config \<Rightarrow>
     ('w, u8 list, 'q, u8 list, 's, 'md, 'h) transport \<Rightarrow>
     (('w, 'x) guarded_world, u8 list, 'q, u8 list, 's, 'md, 'h) transport" where
  "breaker_raw bt cfg inner =
     \<lparr>call_unary = raw_guarded bt cfg (call_unary inner),
      call_server_stream = raw_guarded bt cfg (call_server_stream inner),
      call_client_stream = raw_guarded bt cfg (call_client_stream inner),
      call_bidi_stream = raw_guarded bt cfg (call_bidi_stream inner)\<rparr>"

definition initial_node :: "'x breaker_node" where
  "initial_node = \<lparr>bn_state = Closed, bn_consecutive_failures = 0, bn_consecutive_successes = 0\<rparr>"

definition observe_state :: "(('w, 'x) guarded_world, 'e + 'x breaker_state) io" where
  "observe_state nw = (case nw of (node, w) \<Rightarrow> (Inr (bn_state node), (node, w)))"

text \<open>\<open>StdGrpcBreakerFactory::build\<close>: the policy is checked again, then the client is wrapped with
  a new node.\<close>

definition breaker_client ::
  "('w, 'x, 'e) breaker_transition \<Rightarrow> grpc_breaker_config \<Rightarrow>
     ('w, 'i, 'q, 'o, 's, 'bq, 'bs, 'md, 'h) client \<Rightarrow>
     (('w, 'x) guarded_world, 'i, 'q, 'o, 's, 'bq, 'bs, 'md, 'h) client" where
  "breaker_client bt cfg inner =
     \<lparr>typed = breaker_typed bt cfg (typed inner), raw = breaker_raw bt cfg (raw inner)\<rparr>"

definition build_breaker ::
  "('w, 'x, 'e) breaker_transition \<Rightarrow> grpc_breaker_config \<Rightarrow>
     ('w, 'i, 'q, 'o, 's, 'bq, 'bs, 'md, 'h) client \<Rightarrow>
     policy_error +
       ((('w, 'x) guarded_world, 'i, 'q, 'o, 's, 'bq, 'bs, 'md, 'h) client \<times> 'x breaker_node)" where
  "build_breaker bt cfg inner =
     bind_result (breaker_validate cfg) (\<lambda>_. Inr (breaker_client bt cfg inner, initial_node))"

end
