(* ===== verification/Breaker_Properties.thy ===== *)
theory Breaker_Properties
  imports Breaker_Client
begin

text \<open>
  What the breaker decorator guarantees. First what holds whatever the state machine does: a
  disabled breaker is transparent, typed and raw calls are guarded alike, a refused call
  reaches nothing, an admitted call keeps its result. Then, with the state machine of the
  crate's documentation, the refinement of an abstract breaker over natural counters, and when
  the circuit opens.
\<close>

section \<open>Calls\<close>

lemma rebuild_request_id [simp]: "rebuild_request request = request"
  by (simp add: rebuild_request_def)

lemma raw_guarded_is_guard: "raw_guarded bt cfg call request = guard bt cfg (req_path request) (call request)"
  by (rule ext) (simp add: raw_guarded_def guard_def split: prod.split sum.split)

lemma guard_disabled: "\<not> enabled cfg \<Longrightarrow> guard bt cfg path call = inner_call call"
  by (rule ext) (simp add: guard_def)

lemma guard_enabled:
  "enabled cfg \<Longrightarrow> guard bt cfg path call (node, w) =
     (case bt_admit bt (admit_input cfg node) w of
        (Inl e, w1) \<Rightarrow>
          (Inl (refuse path Internal (log_prefix @ '': admit failed unexpectedly: '' @ bt_error_text bt e)),
           (node, w1))
      | (Inr a, w1) \<Rightarrow>
          (case ad_admission a of
             RejectOpen \<Rightarrow> (Inl (circuit_open path), (write_admitted a node, w1))
           | Proceed \<Rightarrow>
               (case call w1 of (r, w2) \<Rightarrow>
                  (r, record_outcome bt cfg (classify_result r) (write_admitted a node, w2)))))"
  by (simp add: guard_def admit_def inner_call_def admission_result_def
      split: prod.split sum.split admission.split)

text \<open>A raw call, whose code writes the steps of the guard out, is
  guarded exactly as a typed call is, in all four shapes; and under a policy that is not
  enabled each call is the call of the inner client and the node never moves.\<close>

lemma raw_calls_guarded_alike:
  "breaker_raw bt cfg inner = breaker_typed bt cfg inner \<and>
   (enabled cfg \<or> breaker_typed bt cfg inner =
     \<lparr>call_unary = (\<lambda>r. inner_call (call_unary inner r)),
      call_server_stream = (\<lambda>r. inner_call (call_server_stream inner r)),
      call_client_stream = (\<lambda>r. inner_call (call_client_stream inner r)),
      call_bidi_stream = (\<lambda>r. inner_call (call_bidi_stream inner r))\<rparr>)"
  by (auto simp: breaker_raw_def breaker_typed_def raw_guarded_is_guard fun_eq_iff guard_disabled)

text \<open>When the state machine says that the circuit is open, the
  caller gets \<open>Unavailable\<close>, the inner client is not run (its world is the one the state machine
  left), nothing is recorded, and the refusal names the path of the call.\<close>

lemma refused_call_reaches_nothing:
  assumes "enabled cfg"
    and "bt_admit bt (admit_input cfg node) w = (Inr a, w1)" and "ad_admission a = RejectOpen"
  shows "call_unary (breaker_typed bt cfg inner) request (node, w) =
      (Inl (circuit_open (req_path request)), (write_admitted a node, w1)) \<and>
    err_path (circuit_open (req_path request) :: 'md call_error) = req_path request \<and>
    err_code (circuit_open (req_path request) :: 'md call_error) = Unavailable"
  using assms by (simp add: breaker_typed_def guard_enabled circuit_open_def refuse_def)

text \<open>An admitted call is made once, from the world the state machine
  left, and its result reaches the caller unchanged whatever the state machine answers to
  \<open>record\<close>: when that fails the node stays as admission left it.\<close>

lemma admitted_result_stands:
  assumes "enabled cfg"
    and "bt_admit bt (admit_input cfg node) w = (Inr a, w1)" and "ad_admission a = Proceed"
    and "call_unary inner request w1 = (r, w2)"
  shows "call_unary (breaker_raw bt cfg inner) request (node, w) =
    (r, case bt_record bt (record_input cfg (classify_result r) (write_admitted a node)) w2 of
          (Inl e, w3) \<Rightarrow> (write_admitted a node, w3)
        | (Inr m, w3) \<Rightarrow> (write_recorded m (write_admitted a node), w3))"
  using assms
  by (simp add: breaker_raw_def raw_guarded_is_guard guard_enabled record_outcome_def
      split: prod.split sum.split)

section \<open>The abstract breaker\<close>

datatype breaker_spec = SClosed nat | SOpen | SHalfOpen nat

definition abs_node :: "'x breaker_node \<Rightarrow> breaker_spec" where
  "abs_node node =
     (case bn_state node of
        Closed \<Rightarrow> SClosed (unat (bn_consecutive_failures node))
      | Open x \<Rightarrow> SOpen
      | HalfOpen \<Rightarrow> SHalfOpen (unat (bn_consecutive_successes node)))"

text \<open>An admitted call in an abstract state, ending with an outcome.\<close>

fun spec_after :: "nat \<Rightarrow> nat \<Rightarrow> breaker_spec \<Rightarrow> outcome \<Rightarrow> breaker_spec" where
  "spec_after threshold probes (SClosed n) Failure =
     (if threshold \<le> Suc n then SOpen else SClosed (Suc n))"
| "spec_after threshold probes (SClosed n) Success = SClosed 0"
| "spec_after threshold probes (SHalfOpen n) Failure = SOpen"
| "spec_after threshold probes (SHalfOpen n) Success =
     (if probes \<le> Suc n then SClosed 0 else SHalfOpen (Suc n))"
| "spec_after threshold probes SOpen Failure = SOpen"
| "spec_after threshold probes SOpen Success = (if probes \<le> 1 then SClosed 0 else SHalfOpen 1)"

text \<open>
  The state machine as the documentation of the crate gives it, for an opened circuit that is
  \<open>cooling\<close> or has cooled down: \<open>admits\<close> and \<open>records\<close> say what the machine answers.
\<close>

definition admits ::
  "('w, 'x, 'e) breaker_transition \<Rightarrow> grpc_breaker_config \<Rightarrow> 'x breaker_node \<Rightarrow> 'w \<Rightarrow>
     admission \<Rightarrow> 'x breaker_node \<Rightarrow> bool" where
  "admits bt cfg node w adm node' \<longleftrightarrow>
     (\<exists>a w'. bt_admit bt (admit_input cfg node) w = (Inr a, w') \<and> ad_admission a = adm \<and>
        write_admitted a node = node')"

definition records ::
  "('w, 'x, 'e) breaker_transition \<Rightarrow> grpc_breaker_config \<Rightarrow> 'x breaker_node \<Rightarrow> 'w \<Rightarrow>
     outcome \<Rightarrow> ('x breaker_node \<Rightarrow> bool) \<Rightarrow> bool" where
  "records bt cfg node w result P \<longleftrightarrow>
     (\<exists>m w'. bt_record bt (record_input cfg result node) w = (Inr m, w') \<and> P (write_recorded m node))"

definition documented_breaker ::
  "('w, 'x, 'e) breaker_transition \<Rightarrow> grpc_breaker_config \<Rightarrow> ('x \<Rightarrow> 'w \<Rightarrow> bool) \<Rightarrow> bool" where
  "documented_breaker bt cfg cooling \<longleftrightarrow>
     (\<forall>f s w. admits bt cfg \<lparr>bn_state = Closed, bn_consecutive_failures = f, bn_consecutive_successes = s\<rparr> w
        Proceed \<lparr>bn_state = Closed, bn_consecutive_failures = f, bn_consecutive_successes = s\<rparr>) \<and>
     (\<forall>x f s w. cooling x w \<longrightarrow>
        admits bt cfg \<lparr>bn_state = Open x, bn_consecutive_failures = f, bn_consecutive_successes = s\<rparr> w
        RejectOpen \<lparr>bn_state = Open x, bn_consecutive_failures = f, bn_consecutive_successes = s\<rparr>) \<and>
     (\<forall>x f s w. \<not> cooling x w \<longrightarrow> (\<exists>f'.
        admits bt cfg \<lparr>bn_state = Open x, bn_consecutive_failures = f, bn_consecutive_successes = s\<rparr> w
        Proceed \<lparr>bn_state = HalfOpen, bn_consecutive_failures = f', bn_consecutive_successes = 0\<rparr>)) \<and>
     (\<forall>f s w. admits bt cfg \<lparr>bn_state = HalfOpen, bn_consecutive_failures = f, bn_consecutive_successes = s\<rparr> w
        Proceed \<lparr>bn_state = HalfOpen, bn_consecutive_failures = f, bn_consecutive_successes = s\<rparr>) \<and>
     (\<forall>f s w. records bt cfg \<lparr>bn_state = Closed, bn_consecutive_failures = f, bn_consecutive_successes = s\<rparr> w
        Failure (\<lambda>n. if failure_threshold cfg \<le> f + 1 then (\<exists>x. bn_state n = Open x)
                     else bn_state n = Closed \<and> bn_consecutive_failures n = f + 1)) \<and>
     (\<forall>f s w. records bt cfg \<lparr>bn_state = Closed, bn_consecutive_failures = f, bn_consecutive_successes = s\<rparr> w
        Success (\<lambda>n. bn_state n = Closed \<and> bn_consecutive_failures n = 0)) \<and>
     (\<forall>f s w. records bt cfg \<lparr>bn_state = HalfOpen, bn_consecutive_failures = f, bn_consecutive_successes = s\<rparr> w
        Failure (\<lambda>n. \<exists>x. bn_state n = Open x)) \<and>
     (\<forall>f s w. records bt cfg \<lparr>bn_state = HalfOpen, bn_consecutive_failures = f, bn_consecutive_successes = s\<rparr> w
        Success (\<lambda>n. if half_open_probe_count cfg \<le> s + 1
                     then bn_state n = Closed \<and> bn_consecutive_failures n = 0
                     else bn_state n = HalfOpen \<and> bn_consecutive_successes n = s + 1))"

text \<open>The counters of a node that the decorator can be in are below their limits.\<close>

definition wf_node :: "grpc_breaker_config \<Rightarrow> 'x breaker_node \<Rightarrow> bool" where
  "wf_node cfg node \<longleftrightarrow>
     (bn_state node = Closed \<longrightarrow> bn_consecutive_failures node < failure_threshold cfg) \<and>
     (bn_state node = HalfOpen \<longrightarrow> bn_consecutive_successes node < half_open_probe_count cfg)"

lemma guard_refused:
  assumes "enabled cfg" "admits bt cfg node w RejectOpen node'"
  shows "\<exists>w'. guard bt cfg path call (node, w) = (Inl (circuit_open path), (node', w'))"
  using assms by (auto simp: admits_def guard_enabled)

lemma guard_admitted:
  assumes "enabled cfg" "admits bt cfg node w Proceed node1"
    and "\<And>result v. records bt cfg node1 v result (P result)"
    and "guard bt cfg path call (node, w) = (r, (node', w'))"
  shows "P (classify_result r) node' \<and> (\<exists>w1 w2. call w1 = (r, w2))"
proof -
  obtain a w1 where a: "bt_admit bt (admit_input cfg node) w = (Inr a, w1)" "ad_admission a = Proceed"
      "write_admitted a node = node1"
    using assms(2) by (auto simp: admits_def)
  obtain q w2 where q: "call w1 = (q, w2)" by fastforce
  obtain m w3 where "bt_record bt (record_input cfg (classify_result q) node1) w2 = (Inr m, w3)"
      "P (classify_result q) (write_recorded m node1)"
    using assms(3) [of w2 "classify_result q"] by (auto simp: records_def)
  then show ?thesis
    using assms(1,4) a q by (auto simp: guard_enabled record_outcome_def)
qed

text \<open>What the documented machine does to a node, by the kind of its state.\<close>

lemma documented_admits_closed:
  "documented_breaker bt cfg cooling \<Longrightarrow> bn_state node = Closed \<Longrightarrow> admits bt cfg node w Proceed node"
  unfolding documented_breaker_def by (cases node) auto

lemma documented_admits_half_open:
  "documented_breaker bt cfg cooling \<Longrightarrow> bn_state node = HalfOpen \<Longrightarrow> admits bt cfg node w Proceed node"
  unfolding documented_breaker_def by (cases node) auto

lemma documented_rejects:
  "documented_breaker bt cfg cooling \<Longrightarrow> bn_state node = Open x \<Longrightarrow> cooling x w \<Longrightarrow>
   admits bt cfg node w RejectOpen node"
  unfolding documented_breaker_def by (cases node) auto

lemma documented_promotes:
  assumes "documented_breaker bt cfg cooling" "bn_state node = Open x" "\<not> cooling x w"
  obtains node1 where "admits bt cfg node w Proceed node1" "bn_state node1 = HalfOpen"
    "bn_consecutive_successes node1 = 0"
proof -
  obtain f s where "node = \<lparr>bn_state = Open x, bn_consecutive_failures = f, bn_consecutive_successes = s\<rparr>"
    using assms(2) by (cases node) auto
  then have "\<exists>f'. admits bt cfg node w Proceed
      \<lparr>bn_state = HalfOpen, bn_consecutive_failures = f', bn_consecutive_successes = 0\<rparr>"
    using assms(1,3) unfolding documented_breaker_def by blast
  then obtain f' where "admits bt cfg node w Proceed
      \<lparr>bn_state = HalfOpen, bn_consecutive_failures = f', bn_consecutive_successes = 0\<rparr>" by blast
  then show thesis
    by (rule that) simp_all
qed

definition stepped :: "grpc_breaker_config \<Rightarrow> breaker_spec \<Rightarrow> outcome \<Rightarrow> 'x breaker_node \<Rightarrow> bool" where
  "stepped cfg a result node \<longleftrightarrow>
     abs_node node = spec_after (unat (failure_threshold cfg)) (unat (half_open_probe_count cfg)) a result \<and>
     wf_node cfg node"

lemma records_mono: "records bt cfg node w q P \<Longrightarrow> (\<And>n. P n \<Longrightarrow> Q n) \<Longrightarrow> records bt cfg node w q Q"
  unfolding records_def by blast

lemma documented_records_closed:
  assumes "documented_breaker bt cfg cooling" "valid_breaker_config cfg"
    and "bn_state node = Closed" "bn_consecutive_failures node < failure_threshold cfg"
  shows "records bt cfg node w q (stepped cfg (abs_node node) q)"
proof -
  obtain f s where node: "node = \<lparr>bn_state = Closed, bn_consecutive_failures = f, bn_consecutive_successes = s\<rparr>"
    using assms(3) by (cases node) auto
  then have "unat (f + 1) = Suc (unat f)"
    using assms(4) unat_Suc_below by simp
  then have step: "failure_threshold cfg \<le> f + 1 \<longleftrightarrow> unat (failure_threshold cfg) \<le> Suc (unat f)"
    by (simp add: word_le_nat_alt)
  show ?thesis
  proof (cases q)
    case Failure
    have "records bt cfg node w Failure (\<lambda>n. if failure_threshold cfg \<le> f + 1 then (\<exists>x. bn_state n = Open x)
        else bn_state n = Closed \<and> bn_consecutive_failures n = f + 1)"
      using assms(1) unfolding documented_breaker_def node by blast
    then show ?thesis
      unfolding Failure
      by (rule records_mono)
        (use \<open>unat (f + 1) = Suc (unat f)\<close> step in
          \<open>auto simp: stepped_def abs_node_def wf_node_def node not_le split: if_splits\<close>)
  next
    case Success
    have "records bt cfg node w Success (\<lambda>n. bn_state n = Closed \<and> bn_consecutive_failures n = 0)"
      using assms(1) unfolding documented_breaker_def node by blast
    then show ?thesis
      unfolding Success
      by (rule records_mono)
        (use assms(2) in \<open>auto simp: stepped_def abs_node_def wf_node_def node valid_breaker_config_iff
           word_gt_0\<close>)
  qed
qed

lemma documented_records_half_open:
  assumes "documented_breaker bt cfg cooling" "valid_breaker_config cfg"
    and "bn_state node = HalfOpen" "bn_consecutive_successes node < half_open_probe_count cfg"
  shows "records bt cfg node w q (stepped cfg (abs_node node) q)"
proof -
  obtain f s where node: "node = \<lparr>bn_state = HalfOpen, bn_consecutive_failures = f, bn_consecutive_successes = s\<rparr>"
    using assms(3) by (cases node) auto
  then have inc: "unat (s + 1) = Suc (unat s)"
    using assms(4) unat_Suc_below by simp
  show ?thesis
  proof (cases q)
    case Failure
    have "records bt cfg node w Failure (\<lambda>n. \<exists>x. bn_state n = Open x)"
      using assms(1) unfolding documented_breaker_def node by blast
    then show ?thesis
      unfolding Failure
      by (rule records_mono) (auto simp: stepped_def abs_node_def wf_node_def node)
  next
    case Success
    have "records bt cfg node w Success (\<lambda>n. if half_open_probe_count cfg \<le> s + 1
        then bn_state n = Closed \<and> bn_consecutive_failures n = 0
        else bn_state n = HalfOpen \<and> bn_consecutive_successes n = s + 1)"
      using assms(1) unfolding documented_breaker_def node by blast
    then show ?thesis
      unfolding Success
      by (rule records_mono)
        (use assms(2) inc in \<open>auto simp: stepped_def abs_node_def wf_node_def node
           valid_breaker_config_iff word_gt_0 unat_gt_0 word_le_nat_alt not_le word_less_nat_alt split: if_splits\<close>)
  qed
qed

lemma documented_records_promoted:
  assumes "documented_breaker bt cfg cooling" "valid_breaker_config cfg"
    and "bn_state node = HalfOpen" "bn_consecutive_successes node = 0"
  shows "records bt cfg node w q (stepped cfg SOpen q)"
proof -
  have "records bt cfg node w q (stepped cfg (abs_node node) q)"
    using assms by (intro documented_records_half_open)
      (auto simp: valid_breaker_config_iff word_gt_0)
  then show ?thesis
    by (rule records_mono) (cases q, auto simp: stepped_def abs_node_def assms)
qed

text \<open>The decorated call against the abstract breaker.\<close>

lemma guard_refines:
  assumes "enabled cfg" "documented_breaker bt cfg cooling" "valid_breaker_config cfg" "wf_node cfg node"
    and "guard bt cfg path call (node, w) = (r, (node', w'))"
  shows "(if \<exists>x. bn_state node = Open x \<and> cooling x w
     then r = Inl (circuit_open path) \<and> node' = node
     else stepped cfg (abs_node node) (classify_result r) node' \<and> (\<exists>w1 w2. call w1 = (r, w2)))"
proof (cases "bn_state node")
  case Closed
  then have "stepped cfg (abs_node node) (classify_result r) node' \<and> (\<exists>w1 w2. call w1 = (r, w2))"
    using assms by (intro guard_admitted [OF assms(1) documented_admits_closed])
      (auto intro: documented_records_closed simp: wf_node_def)
  with Closed show ?thesis by simp
next
  case HalfOpen
  then have "stepped cfg (abs_node node) (classify_result r) node' \<and> (\<exists>w1 w2. call w1 = (r, w2))"
    using assms by (intro guard_admitted [OF assms(1) documented_admits_half_open])
      (auto intro: documented_records_half_open simp: wf_node_def)
  with HalfOpen show ?thesis by simp
next
  case (Open x)
  show ?thesis
  proof (cases "cooling x w")
    case True
    have "\<exists>w'. guard bt cfg path call (node, w) = (Inl (circuit_open path), (node, w'))"
      by (rule guard_refused [OF assms(1) documented_rejects [where cooling = cooling, OF assms(2) Open True]])
    with True Open assms(5) show ?thesis by auto
  next
    case False
    obtain node1 where "admits bt cfg node w Proceed node1" "bn_state node1 = HalfOpen"
        "bn_consecutive_successes node1 = 0"
      by (rule documented_promotes [OF assms(2) Open False])
    then have "stepped cfg SOpen (classify_result r) node' \<and> (\<exists>w1 w2. call w1 = (r, w2))"
      using assms by (intro guard_admitted [OF assms(1)]) (auto intro: documented_records_promoted)
    moreover have "abs_node node = SOpen"
      using Open by (simp add: abs_node_def)
    ultimately show ?thesis
      using Open False by simp
  qed
qed

section \<open>Sequences of calls\<close>

fun guarded_calls ::
  "('w, 'x, 'e) breaker_transition \<Rightarrow> grpc_breaker_config \<Rightarrow> string \<Rightarrow>
     ('w, 'md call_error + 'r) io \<Rightarrow> nat \<Rightarrow> ('w, 'x) guarded_world \<Rightarrow> ('w, 'x) guarded_world" where
  "guarded_calls bt cfg path call 0 nw = nw"
| "guarded_calls bt cfg path call (Suc n) nw =
     guarded_calls bt cfg path call n (snd (guard bt cfg path call nw))"

lemma guard_step:
  assumes "enabled cfg" "documented_breaker bt cfg cooling" "valid_breaker_config cfg" "wf_node cfg node"
    and "\<nexists>x. bn_state node = Open x \<and> cooling x w"
  obtains w1 r w2 node' w' where "call w1 = (r, w2)" "guard bt cfg path call (node, w) = (r, (node', w'))"
    "stepped cfg (abs_node node) (classify_result r) node'"
proof -
  obtain r node' w' where g: "guard bt cfg path call (node, w) = (r, (node', w'))"
    by (metis prod_cases3)
  then show thesis
    using guard_refines [OF assms(1-4) g] assms(5) that by auto
qed

lemma closed_not_cooling: "abs_node node = SClosed k \<Longrightarrow> \<nexists>x. bn_state node = Open x \<and> cooling x w"
  by (auto simp: abs_node_def)

lemma half_open_not_cooling: "abs_node node = SHalfOpen k \<Longrightarrow> \<nexists>x. bn_state node = Open x \<and> cooling x w"
  by (auto simp: abs_node_def)

lemma failing_calls_count:
  assumes "enabled cfg" "documented_breaker bt cfg cooling" "valid_breaker_config cfg"
    and "\<And>v. is_breaker_failure (fst (call v))"
    and "wf_node cfg node" "abs_node node = SClosed k" "k + n \<le> unat (failure_threshold cfg)"
    and "k < unat (failure_threshold cfg)"
  shows "abs_node (fst (guarded_calls bt cfg path call n (node, w))) =
    (if k + n < unat (failure_threshold cfg) then SClosed (k + n) else SOpen)"
  using assms(5-8)
proof (induction n arbitrary: node w k)
  case 0
  then show ?case by simp
next
  case (Suc n)
  obtain w1 r w2 node' w' where step: "call w1 = (r, w2)" "guard bt cfg path call (node, w) = (r, (node', w'))"
      "stepped cfg (abs_node node) (classify_result r) node'"
    by (rule guard_step [OF assms(1-3) Suc.prems(1) closed_not_cooling [OF Suc.prems(2)]])
  then have "classify_result r = Failure"
    using assms(4) [of w1] by (simp add: classify_result_def)
  then have after: "abs_node node' = (if unat (failure_threshold cfg) \<le> Suc k then SOpen else SClosed (Suc k))"
      "wf_node cfg node'"
    using step(3) Suc.prems(2) by (simp_all add: stepped_def)
  show ?case
  proof (cases "unat (failure_threshold cfg) \<le> Suc k")
    case True
    then have "n = 0" using Suc.prems(3) by simp
    with True after step(2) Suc.prems show ?thesis by simp
  next
    case False
    then show ?thesis
      using Suc.IH [of node' "Suc k" w'] after step(2) Suc.prems by simp
  qed
qed

lemma probing_calls_count:
  assumes "enabled cfg" "documented_breaker bt cfg cooling" "valid_breaker_config cfg"
    and "\<And>v. \<not> is_breaker_failure (fst (call v))"
    and "wf_node cfg node" "abs_node node = SHalfOpen k" "k + n \<le> unat (half_open_probe_count cfg)"
    and "k < unat (half_open_probe_count cfg)"
  shows "abs_node (fst (guarded_calls bt cfg path call n (node, w))) =
    (if k + n < unat (half_open_probe_count cfg) then SHalfOpen (k + n) else SClosed 0)"
  using assms(5-8)
proof (induction n arbitrary: node w k)
  case 0
  then show ?case by simp
next
  case (Suc n)
  obtain w1 r w2 node' w' where step: "call w1 = (r, w2)" "guard bt cfg path call (node, w) = (r, (node', w'))"
      "stepped cfg (abs_node node) (classify_result r) node'"
    by (rule guard_step [OF assms(1-3) Suc.prems(1) half_open_not_cooling [OF Suc.prems(2)]])
  then have "classify_result r = Success"
    using assms(4) [of w1] by (simp add: classify_result_def)
  then have after: "abs_node node' =
      (if unat (half_open_probe_count cfg) \<le> Suc k then SClosed 0 else SHalfOpen (Suc k))" "wf_node cfg node'"
    using step(3) Suc.prems(2) by (simp_all add: stepped_def)
  show ?case
  proof (cases "unat (half_open_probe_count cfg) \<le> Suc k")
    case True
    then have "n = 0" using Suc.prems(3) by simp
    with True after step(2) Suc.prems show ?thesis by simp
  next
    case False
    then show ?thesis
      using Suc.IH [of node' "Suc k" w'] after step(2) Suc.prems by simp
  qed
qed

section \<open>A concrete state machine\<close>

text \<open>For the witnesses: the world is a clock in seconds, an open circuit carries the second it
  opened at.\<close>

definition demo_admit :: "nat admit_request \<Rightarrow> nat \<Rightarrow> nat admitted" where
  "demo_admit q w =
     (let same = \<lparr>ad_admission = Proceed, ad_state = ar_state q,
            ad_consecutive_failures = ar_consecutive_failures q,
            ad_consecutive_successes = ar_consecutive_successes q\<rparr> in
      case ar_state q of
        Open t \<Rightarrow>
          (if w < t + unat (bc_cool_down_seconds (ar_config q)) then same\<lparr>ad_admission := RejectOpen\<rparr>
           else same\<lparr>ad_state := HalfOpen, ad_consecutive_successes := 0\<rparr>)
      | _ \<Rightarrow> same)"

definition demo_record :: "nat record_outcome_request \<Rightarrow> nat \<Rightarrow> nat recorded" where
  "demo_record q w =
     (case (or_state q, or_outcome q) of
        (Closed, Failure) \<Rightarrow>
          (if bc_failure_threshold (or_config q) \<le> or_consecutive_failures q + 1
           then \<lparr>rc_state = Open w, rc_consecutive_failures = 0, rc_consecutive_successes = 0\<rparr>
           else \<lparr>rc_state = Closed, rc_consecutive_failures = or_consecutive_failures q + 1,
                 rc_consecutive_successes = 0\<rparr>)
      | (HalfOpen, Success) \<Rightarrow>
          (if bc_half_open_probe_count (or_config q) \<le> or_consecutive_successes q + 1
           then \<lparr>rc_state = Closed, rc_consecutive_failures = 0, rc_consecutive_successes = 0\<rparr>
           else \<lparr>rc_state = HalfOpen, rc_consecutive_failures = 0,
                 rc_consecutive_successes = or_consecutive_successes q + 1\<rparr>)
      | (HalfOpen, Failure) \<Rightarrow>
          \<lparr>rc_state = Open w, rc_consecutive_failures = 0, rc_consecutive_successes = 0\<rparr>
      | (s, _) \<Rightarrow> \<lparr>rc_state = s, rc_consecutive_failures = 0, rc_consecutive_successes = 0\<rparr>)"

definition demo_transition :: "(nat, nat, unit) breaker_transition" where
  "demo_transition =
     \<lparr>bt_admit = (\<lambda>q w. (Inr (demo_admit q w), w)), bt_record = (\<lambda>q w. (Inr (demo_record q w), w)),
      bt_error_text = (\<lambda>e. '''')\<rparr>"

definition demo_cooling :: "grpc_breaker_config \<Rightarrow> nat \<Rightarrow> nat \<Rightarrow> bool" where
  "demo_cooling cfg t w \<longleftrightarrow> w < t + unat (cool_down_seconds cfg)"

lemma demo_documented: "documented_breaker demo_transition cfg (demo_cooling cfg)"
  unfolding documented_breaker_def admits_def records_def
  by (simp add: demo_transition_def demo_admit_def demo_record_def demo_cooling_def Let_def
    admit_input_def record_input_def into_breaker_config_def write_admitted_def write_recorded_def)

definition failing_call :: "(nat, unit call_error + nat) io" where
  "failing_call w = (Inl (Transport ''/s/M'' Unavailable ''refused''), Suc w)"

definition answering_call :: "(nat, unit call_error + nat) io" where
  "answering_call w = (Inr 7, Suc w)"

lemma default_breaker_valid [simp]: "breaker_validate default_breaker_config = Inr ()"
  by (simp add: breaker_validate_def default_breaker_config_def)

lemma default_breaker_fields [simp]:
  "enabled default_breaker_config" "failure_threshold default_breaker_config = 5"
  "half_open_probe_count default_breaker_config = 1" "cool_down_seconds default_breaker_config = 30"
  by (simp_all add: default_breaker_config_def)


definition demo_inner :: "'o \<Rightarrow> (nat, 'i, unit, 'o, unit, unit, unit) transport" where
  "demo_inner v =
     \<lparr>call_unary = (\<lambda>r w. (Inr \<lparr>resp_message = v, resp_headers = (), resp_trailers = ()\<rparr>, Suc w)),
      call_server_stream = (\<lambda>r w. (Inr (), Suc w)),
      call_client_stream = (\<lambda>r w. (Inr \<lparr>resp_message = v, resp_headers = (), resp_trailers = ()\<rparr>, Suc w)),
      call_bidi_stream = (\<lambda>r w. (Inr (), Suc w))\<rparr>"

definition demo_request :: "'i \<Rightarrow> ('i, unit) call_request" where
  "demo_request b = \<lparr>req_path = ''/s/M'', req_body = b, req_options = create_options None ()\<rparr>"

definition opened_node :: "nat breaker_node" where
  "opened_node = \<lparr>bn_state = Open 0, bn_consecutive_failures = 0, bn_consecutive_successes = 0\<rparr>"

lemma demo_admit_opened:
  "bt_admit demo_transition (admit_input default_breaker_config opened_node) 3 =
     (Inr \<lparr>ad_admission = RejectOpen, ad_state = Open 0, ad_consecutive_failures = 0,
           ad_consecutive_successes = 0\<rparr>, 3)"
  by (simp add: demo_transition_def demo_admit_def admit_input_def opened_node_def into_breaker_config_def Let_def)

lemma demo_admit_initial:
  "bt_admit demo_transition (admit_input default_breaker_config initial_node) 3 =
     (Inr \<lparr>ad_admission = Proceed, ad_state = Closed, ad_consecutive_failures = 0,
           ad_consecutive_successes = 0\<rparr>, 3)"
  by (simp add: demo_transition_def demo_admit_def admit_input_def initial_node_def Let_def)

lemma refused_call_reaches_nothing_at_work:
  "fst (call_unary (breaker_typed demo_transition default_breaker_config (demo_inner (7 :: nat)))
     (demo_request ()) (opened_node, 3)) = Inl (circuit_open ''/s/M'')"
  using refused_call_reaches_nothing
    [OF _ demo_admit_opened, THEN conjunct1, of "demo_inner (7 :: nat)" "demo_request ()"]
  by (simp add: demo_request_def)

lemma admitted_result_stands_at_work:
  "fst (call_unary (breaker_raw demo_transition default_breaker_config (demo_inner [1]))
     (demo_request []) (initial_node, 3)) =
   Inr \<lparr>resp_message = [1], resp_headers = (), resp_trailers = ()\<rparr>"
  using admitted_result_stands [OF _ demo_admit_initial, of "demo_inner [1]" "demo_request []"]
  by (simp add: demo_inner_def)

section \<open>Properties of the circuit\<close>

text \<open>C2 (guard_refines_abstract_breaker). With the documented state machine and a valid policy, a
  guarded call from a node whose counters are below their limits is a step of the abstract
  breaker, for whatever the inner call answers: a cooling circuit refuses it and stays as it
  is, otherwise the call is made and its classified outcome moves the circuit, with the u32
  counters never wrapping and again below their limits.\<close>

theorem guard_refines_abstract_breaker:
  assumes "enabled cfg" "documented_breaker bt cfg cooling" "breaker_validate cfg = Inr ()" "wf_node cfg node"
    and "guard bt cfg path call (node, w) = (r, (node', w'))"
  shows "wf_node cfg node' \<and>
    (if \<exists>x. bn_state node = Open x \<and> cooling x w
     then r = Inl (circuit_open path) \<and> node' = node
     else (\<exists>w1 w2. call w1 = (r, w2)) \<and>
       abs_node node' = spec_after (unat (failure_threshold cfg)) (unat (half_open_probe_count cfg))
         (abs_node node) (classify_result r))"
  using guard_refines [OF assms(1,2) _ assms(4,5)] assms(3,4)
  by (auto simp: breaker_validate_iff stepped_def split: if_splits)

theorem guard_refines_abstract_breaker_witness:
  "abs_node (fst (snd (guard demo_transition default_breaker_config ''/s/M'' failing_call (initial_node, 0)))) =
   SClosed 1"
proof -
  obtain r node' w' where g: "guard demo_transition default_breaker_config ''/s/M'' failing_call
      (initial_node, 0) = (r, (node', w'))"
    by (metis prod_cases3)
  have wf: "wf_node default_breaker_config (initial_node :: nat breaker_node)"
    by (simp add: wf_node_def initial_node_def)
  have "r = Inl (Transport ''/s/M'' Unavailable ''refused'')"
    using guard_refines_abstract_breaker [OF _ demo_documented _ wf g]
    by (auto simp: initial_node_def failing_call_def)
  then show ?thesis
    using guard_refines_abstract_breaker [OF _ demo_documented _ wf g] g
    by (auto simp: initial_node_def abs_node_def classify_result_def)
qed

text \<open>C25 (opens_at_threshold). Under the same conditions a new breaker whose inner client keeps
  failing counts the failures one by one, is still closed before \<open>failure_threshold\<close> of them,
  and is open after exactly that many.\<close>

theorem opens_at_threshold:
  assumes "enabled cfg" "documented_breaker bt cfg cooling" "breaker_validate cfg = Inr ()"
    and "\<And>v. is_breaker_failure (fst (call v))" and "n \<le> unat (failure_threshold cfg)"
  shows "abs_node (fst (guarded_calls bt cfg path call n (initial_node, w))) =
    (if n < unat (failure_threshold cfg) then SClosed n else SOpen)"
proof -
  have "valid_breaker_config cfg" "0 < unat (failure_threshold cfg)"
    using assms(3) by (simp_all add: breaker_validate_iff valid_breaker_config_def Suc_le_eq)
  then show ?thesis
    using failing_calls_count [where cfg = cfg and bt = bt and cooling = cooling and call = call, OF assms(1,2) _ assms(4), where node = initial_node and k = 0 and n = n and w = w and path = path] assms(5)
    by (simp add: initial_node_def wf_node_def abs_node_def word_less_nat_alt)
qed

theorem opens_at_threshold_witness:
  "abs_node (fst (guarded_calls demo_transition default_breaker_config ''/s/M'' failing_call 5 (initial_node, 0))) =
   SOpen"
  using opens_at_threshold [of default_breaker_config demo_transition "demo_cooling default_breaker_config"
    failing_call 5 "''/s/M''" 0]
  by (simp add: demo_documented failing_call_def)

text \<open>C26 (closes_after_probes). An open circuit that has cooled down and whose inner client answers
  is closed again after exactly \<open>half_open_probe_count\<close> calls, and half open before.\<close>

theorem closes_after_probes:
  assumes "enabled cfg" "documented_breaker bt cfg cooling" "breaker_validate cfg = Inr ()"
    and "\<And>v. \<not> is_breaker_failure (fst (call v))"
    and "bn_state node = Open x" "\<not> cooling x w"
    and "0 < n" "n \<le> unat (half_open_probe_count cfg)"
  shows "abs_node (fst (guarded_calls bt cfg path call n (node, w))) =
    (if n < unat (half_open_probe_count cfg) then SHalfOpen n else SClosed 0)"
proof -
  have valid: "valid_breaker_config cfg"
    using assms(3) by (simp add: breaker_validate_iff)
  obtain m where m: "n = Suc m" using assms(7) by (cases n) auto
  have wf: "wf_node cfg node" and nc: "\<nexists>y. bn_state node = Open y \<and> cooling y w"
    using assms(5,6) by (simp_all add: wf_node_def)
  obtain w1 r w2 node' w' where step: "call w1 = (r, w2)" "guard bt cfg path call (node, w) = (r, (node', w'))"
      "stepped cfg (abs_node node) (classify_result r) node'"
    by (rule guard_step [OF assms(1,2) valid wf nc])
  have after: "abs_node node' = (if unat (half_open_probe_count cfg) \<le> 1 then SClosed 0 else SHalfOpen 1)"
      "wf_node cfg node'"
    using step(1,3) assms(4) [of w1] assms(5)
    by (simp_all add: classify_result_def stepped_def abs_node_def)
  show ?thesis
  proof (cases "unat (half_open_probe_count cfg) \<le> 1")
    case True
    then have "m = 0" using assms(8) m by simp
    with True after step(2) m show ?thesis by simp
  next
    case False
    then show ?thesis
      using probing_calls_count [where cfg = cfg and bt = bt and cooling = cooling and call = call, OF assms(1,2) valid assms(4), where node = node' and k = 1 and n = m and w = w' and path = path] after step(2) m assms(8)
      by simp
  qed
qed

theorem closes_after_probes_witness:
  "abs_node (fst (guarded_calls demo_transition default_breaker_config ''/s/M'' answering_call 1
     (\<lparr>bn_state = Open 0, bn_consecutive_failures = 0, bn_consecutive_successes = 0\<rparr>, 31))) = SClosed 0"
  using closes_after_probes [of default_breaker_config demo_transition "demo_cooling default_breaker_config"
    answering_call "\<lparr>bn_state = Open 0, bn_consecutive_failures = 0, bn_consecutive_successes = 0\<rparr>" 0 31 1
    "''/s/M''"]
  by (simp add: demo_documented answering_call_def demo_cooling_def)

end
