(* ===== verification/Resilience.thy ===== *)
theory Resilience
  imports Retry_Properties Breaker_Properties
begin

text \<open>
  The composition of \<open>grpc-egress-resilient-api\<close> and \<open>-spi\<close>: one policy value that holds the
  fields of a retry and of a breaker policy, its construction, validation and projections, and
  the factory, which wraps a client with retry inside a circuit breaker.
\<close>

section \<open>The policy value\<close>

record resilience_config =
  rs_max_attempts :: u32
  rs_initial_backoff_ms :: u64
  rs_backoff_multiplier :: f64
  rs_jitter_factor :: f64
  rs_max_backoff_ms :: u64
  rs_rate_limit_max_attempts :: u32
  rs_rate_limit_initial_backoff_ms :: u64
  rs_rate_limit_max_backoff_ms :: u64
  rs_breaker_enabled :: bool
  rs_failure_threshold :: u32
  rs_cool_down_seconds :: u64
  rs_half_open_probe_count :: u32

record resilience_config_data =
  sd_max_attempts :: u32
  sd_initial_backoff_ms :: u64
  sd_backoff_multiplier :: f64
  sd_jitter_factor :: f64
  sd_max_backoff_ms :: u64
  sd_rate_limit_max_attempts :: u32
  sd_rate_limit_initial_backoff_ms :: u64
  sd_rate_limit_max_backoff_ms :: u64
  sd_breaker_enabled :: bool
  sd_failure_threshold :: u32
  sd_cool_down_seconds :: u64
  sd_half_open_probe_count :: u32

datatype resilient_error = InvalidResilience string | Breaker policy_error

definition from_policies :: "grpc_retry_config \<Rightarrow> grpc_breaker_config \<Rightarrow> resilience_config" where
  "from_policies retry breaker =
     \<lparr>rs_max_attempts = max_attempts retry,
      rs_initial_backoff_ms = initial_backoff_ms retry,
      rs_backoff_multiplier = backoff_multiplier retry,
      rs_jitter_factor = jitter_factor retry,
      rs_max_backoff_ms = max_backoff_ms retry,
      rs_rate_limit_max_attempts = rate_limit_max_attempts retry,
      rs_rate_limit_initial_backoff_ms = rate_limit_initial_backoff_ms retry,
      rs_rate_limit_max_backoff_ms = rate_limit_max_backoff_ms retry,
      rs_breaker_enabled = enabled breaker,
      rs_failure_threshold = failure_threshold breaker,
      rs_cool_down_seconds = cool_down_seconds breaker,
      rs_half_open_probe_count = half_open_probe_count breaker\<rparr>"

text \<open>The text of a policy error is its \<open>Display\<close> form, which the shared policy crates define.\<close>

definition resilience_try_from ::
  "(policy_error \<Rightarrow> string) \<Rightarrow> resilience_config_data \<Rightarrow> resilient_error + resilience_config" where
  "resilience_try_from text v =
     bind_result
       (map_err (\<lambda>e. InvalidResilience (text e)) (try_new
          \<lparr>br_max_attempts = sd_max_attempts v,
           br_initial_backoff_ms = sd_initial_backoff_ms v,
           br_backoff_multiplier = sd_backoff_multiplier v,
           br_jitter_factor = sd_jitter_factor v,
           br_max_backoff_ms = sd_max_backoff_ms v,
           br_rate_limit_max_attempts = sd_rate_limit_max_attempts v,
           br_rate_limit_initial_backoff_ms = sd_rate_limit_initial_backoff_ms v,
           br_rate_limit_max_backoff_ms = sd_rate_limit_max_backoff_ms v\<rparr>))
       (\<lambda>retry. bind_result
          (map_err (\<lambda>e. InvalidResilience (text e)) (breaker_try_new
             (sd_breaker_enabled v, sd_failure_threshold v, sd_cool_down_seconds v,
              sd_half_open_probe_count v)))
          (\<lambda>breaker. Inr (from_policies retry breaker)))"

definition default_resilience_config :: resilience_config where
  "default_resilience_config =
     \<lparr>rs_max_attempts = 5,
      rs_initial_backoff_ms = 100,
      rs_backoff_multiplier = F64_Finite 2,
      rs_jitter_factor = f64_one_tenth,
      rs_max_backoff_ms = 5000,
      rs_rate_limit_max_attempts = 2,
      rs_rate_limit_initial_backoff_ms = 1000,
      rs_rate_limit_max_backoff_ms = 10000,
      rs_breaker_enabled = True,
      rs_failure_threshold = 5,
      rs_cool_down_seconds = 30,
      rs_half_open_probe_count = 1\<rparr>"

definition default_resilience_data :: resilience_config_data where
  "default_resilience_data =
     (let v = default_resilience_config in
      \<lparr>sd_max_attempts = rs_max_attempts v,
       sd_initial_backoff_ms = rs_initial_backoff_ms v,
       sd_backoff_multiplier = rs_backoff_multiplier v,
       sd_jitter_factor = rs_jitter_factor v,
       sd_max_backoff_ms = rs_max_backoff_ms v,
       sd_rate_limit_max_attempts = rs_rate_limit_max_attempts v,
       sd_rate_limit_initial_backoff_ms = rs_rate_limit_initial_backoff_ms v,
       sd_rate_limit_max_backoff_ms = rs_rate_limit_max_backoff_ms v,
       sd_breaker_enabled = rs_breaker_enabled v,
       sd_failure_threshold = rs_failure_threshold v,
       sd_cool_down_seconds = rs_cool_down_seconds v,
       sd_half_open_probe_count = rs_half_open_probe_count v\<rparr>)"

text \<open>The derived \<open>PartialEq\<close>; the source declares it an equivalence (\<open>Eq\<close>).\<close>

definition resilience_eq :: "resilience_config \<Rightarrow> resilience_config \<Rightarrow> bool" where
  "resilience_eq a b \<longleftrightarrow>
     rs_max_attempts a = rs_max_attempts b \<and>
     rs_initial_backoff_ms a = rs_initial_backoff_ms b \<and>
     f64_eq (rs_backoff_multiplier a) (rs_backoff_multiplier b) \<and>
     f64_eq (rs_jitter_factor a) (rs_jitter_factor b) \<and>
     rs_max_backoff_ms a = rs_max_backoff_ms b \<and>
     rs_rate_limit_max_attempts a = rs_rate_limit_max_attempts b \<and>
     rs_rate_limit_initial_backoff_ms a = rs_rate_limit_initial_backoff_ms b \<and>
     rs_rate_limit_max_backoff_ms a = rs_rate_limit_max_backoff_ms b \<and>
     rs_breaker_enabled a = rs_breaker_enabled b \<and>
     rs_failure_threshold a = rs_failure_threshold b \<and>
     rs_cool_down_seconds a = rs_cool_down_seconds b \<and>
     rs_half_open_probe_count a = rs_half_open_probe_count b"

section \<open>The provider\<close>

text \<open>\<open>jitter_text\<close> formats the jitter with four decimals.\<close>

definition resilience_validate :: "(f64 \<Rightarrow> string) \<Rightarrow> resilience_config \<Rightarrow> resilient_error + unit" where
  "resilience_validate jitter_text c =
     (if rs_max_attempts c = 0 then Inl (InvalidResilience ''max_attempts must be >= 1'')
      else if rs_rate_limit_max_attempts c = 0
        then Inl (InvalidResilience ''rate_limit_max_attempts must be >= 1'')
      else if f64_lt (rs_jitter_factor c) (F64_Finite 0) \<or> f64_lt (F64_Finite 1) (rs_jitter_factor c)
        then Inl (InvalidResilience
          (''jitter_factor must be in [0.0, 1.0], got '' @ jitter_text (rs_jitter_factor c)))
      else if rs_half_open_probe_count c = 0
        then Inl (InvalidResilience ''half_open_probe_count must be >= 1'')
      else if rs_rate_limit_max_backoff_ms c < rs_rate_limit_initial_backoff_ms c
        then Inl (InvalidResilience
          (''rate_limit_max_backoff_ms ('' @ show_u64 (rs_rate_limit_max_backoff_ms c) @
           '') must be >= rate_limit_initial_backoff_ms ('' @
           show_u64 (rs_rate_limit_initial_backoff_ms c) @ '')''))
      else Inr ())"

definition to_retry_config ::
  "(policy_error \<Rightarrow> string) \<Rightarrow> resilience_config \<Rightarrow> resilient_error + grpc_retry_config" where
  "to_retry_config text c =
     map_err (\<lambda>e. InvalidResilience (text e)) (try_new
       \<lparr>br_max_attempts = rs_max_attempts c,
        br_initial_backoff_ms = rs_initial_backoff_ms c,
        br_backoff_multiplier = rs_backoff_multiplier c,
        br_jitter_factor = rs_jitter_factor c,
        br_max_backoff_ms = rs_max_backoff_ms c,
        br_rate_limit_max_attempts = rs_rate_limit_max_attempts c,
        br_rate_limit_initial_backoff_ms = rs_rate_limit_initial_backoff_ms c,
        br_rate_limit_max_backoff_ms = rs_rate_limit_max_backoff_ms c\<rparr>)"

definition to_breaker_config ::
  "(policy_error \<Rightarrow> string) \<Rightarrow> resilience_config \<Rightarrow> resilient_error + grpc_breaker_config" where
  "to_breaker_config text c =
     map_err (\<lambda>e. InvalidResilience (text e)) (breaker_try_new
       (rs_breaker_enabled c, rs_failure_threshold c, rs_cool_down_seconds c,
        rs_half_open_probe_count c))"

text \<open>The reader's own error names the data error through the \<open>Display\<close> form of the crate's error.\<close>

definition resilient_error_text :: "(policy_error \<Rightarrow> string) \<Rightarrow> resilient_error \<Rightarrow> string" where
  "resilient_error_text text e =
     (case e of
        InvalidResilience s \<Rightarrow> ''invalid resilience config: '' @ s
      | Breaker p \<Rightarrow> text p)"

definition resilience_parse_config ::
  "(resilience_config_data, 'te) toml_reader \<Rightarrow> (policy_error \<Rightarrow> string) \<Rightarrow> (f64 \<Rightarrow> string) \<Rightarrow> string \<Rightarrow>
     resilient_error + resilience_config" where
  "resilience_parse_config tr text jitter_text s =
     bind_result
       (map_err (\<lambda>e. InvalidResilience (''parse failed: '' @ toml_error_text tr e))
          (deserialize_with tr (resilience_try_from text) (resilient_error_text text) s))
       (\<lambda>c. bind_result (resilience_validate jitter_text c) (\<lambda>_. Inr c))"

section \<open>The factory\<close>

definition build_resilient ::
  "('w, 'g, 'u) retry_runtime \<Rightarrow> ('md, 'me) metadata_view \<Rightarrow> 'i payload \<Rightarrow>
     ('w, 'x, 'e) breaker_transition \<Rightarrow> (policy_error \<Rightarrow> string) \<Rightarrow> (f64 \<Rightarrow> string) \<Rightarrow>
     resilience_config \<Rightarrow> ('w, 'i, 'q, 'o, 's, 'bq, 'bs, 'md, 'h) client \<Rightarrow>
     resilient_error +
       ((('w, 'x) guarded_world, 'i, 'q, 'o, 's, 'bq, 'bs, 'md, 'h) client \<times> 'x breaker_node)" where
  "build_resilient rt view pl bt text jitter_text config inner =
     bind_result (resilience_validate jitter_text config)
       (\<lambda>_. bind_result (to_retry_config text config)
          (\<lambda>retry_config. let with_retry = std_retry_client rt view pl retry_config inner in
             bind_result (to_breaker_config text config)
               (\<lambda>breaker_cfg. map_err Breaker (build_breaker bt breaker_cfg with_retry))))"

section \<open>What construction guarantees\<close>

definition valid_resilience :: "resilience_config \<Rightarrow> bool" where
  "valid_resilience c \<longleftrightarrow>
     (\<exists>r b. valid_retry_config r \<and> valid_breaker_config b \<and> c = from_policies r b)"

lemma resilience_try_from_Inr:
  "resilience_try_from text v = Inr c \<Longrightarrow> valid_resilience c"
  unfolding resilience_try_from_def valid_resilience_def
  using retry_cfg.construct_valid breaker_cfg.construct_valid by fastforce

lemma config_input_from_policies:
  "\<lparr>br_max_attempts = rs_max_attempts (from_policies r b),
     br_initial_backoff_ms = rs_initial_backoff_ms (from_policies r b),
     br_backoff_multiplier = rs_backoff_multiplier (from_policies r b),
     br_jitter_factor = rs_jitter_factor (from_policies r b),
     br_max_backoff_ms = rs_max_backoff_ms (from_policies r b),
     br_rate_limit_max_attempts = rs_rate_limit_max_attempts (from_policies r b),
     br_rate_limit_initial_backoff_ms = rs_rate_limit_initial_backoff_ms (from_policies r b),
     br_rate_limit_max_backoff_ms = rs_rate_limit_max_backoff_ms (from_policies r b)\<rparr> = config_input r"
  by (simp add: from_policies_def config_input_def)

lemma breaker_args_from_policies:
  "(rs_breaker_enabled (from_policies r b), rs_failure_threshold (from_policies r b),
    rs_cool_down_seconds (from_policies r b), rs_half_open_probe_count (from_policies r b)) =
   breaker_config_args b"
  by (simp add: from_policies_def breaker_config_args_def)

lemma to_retry_from_policies: "valid_retry_config r \<Longrightarrow> to_retry_config text (from_policies r b) = Inr r"
  unfolding to_retry_config_def config_input_from_policies
  by (simp add: retry_cfg.construct_fields)

lemma to_breaker_from_policies:
  "valid_breaker_config b \<Longrightarrow> to_breaker_config text (from_policies r b) = Inr b"
  unfolding to_breaker_config_def breaker_args_from_policies
  by (simp add: breaker_cfg.construct_fields del: breaker_try_new.simps)

lemma f64_unit_not_outside:
  "f64_le (F64_Finite 0) x \<Longrightarrow> f64_le x (F64_Finite 1) \<Longrightarrow>
   \<not> f64_lt x (F64_Finite 0) \<and> \<not> f64_lt (F64_Finite 1) x"
  by (cases x) auto

lemma resilience_validate_valid: "valid_resilience c \<Longrightarrow> resilience_validate jt c = Inr ()"
  unfolding valid_resilience_def resilience_validate_def
  by (auto simp: valid_retry_config_iff valid_breaker_config_iff from_policies_def in_unit_range_def
    f64_unit_not_outside)

text \<open>The resilience policy keeps the contract of a validated value (its check is weaker than its
  construction).\<close>

interpretation resilience_cfg:
  checked_config "resilience_try_from shown" "resilience_validate jt" valid_resilience for shown jt
  by unfold_locales (auto intro: resilience_try_from_Inr resilience_validate_valid)

lemma valid_resilienceI [intro]:
  "valid_retry_config r \<Longrightarrow> valid_breaker_config b \<Longrightarrow> valid_resilience (from_policies r b)"
  unfolding valid_resilience_def by blast

lemma build_breaker_valid:
  "valid_breaker_config b \<Longrightarrow> build_breaker bt b inner = Inr (breaker_client bt b inner, initial_node)"
  by (simp add: build_breaker_def breaker_validate_iff [THEN iffD2])

lemma build_resilient_from_policies:
  assumes "valid_retry_config r" "valid_breaker_config b"
  shows "build_resilient rt view pl bt text jt (from_policies r b) inner =
    Inr (breaker_client bt b (std_retry_client rt view pl r inner), initial_node)"
proof -
  have "resilience_validate jt (from_policies r b) = Inr ()"
    using assms by (intro resilience_validate_valid) auto
  then show ?thesis
    using assms by (simp add: build_resilient_def to_retry_from_policies to_breaker_from_policies
      build_breaker_valid Let_def)
qed

section \<open>Properties\<close>

text \<open>Two policies that construction accepts survive their
  composition into one: its projections are exactly the two policies again, its own validation
  accepts it, and its declared equality is reflexive on it (no field is a NaN).\<close>

lemma policies_survive_composition:
  assumes "try_new inp = Inr r" "breaker_try_new args = Inr b"
  shows "to_retry_config text (from_policies r b) = Inr r \<and>
    to_breaker_config text (from_policies r b) = Inr b \<and>
    resilience_validate jt (from_policies r b) = Inr () \<and>
    resilience_eq (from_policies r b) (from_policies r b)"
proof -
  have valid: "valid_retry_config r" "valid_breaker_config b"
    using retry_cfg.construct_valid [OF assms(1)] breaker_cfg.construct_valid [OF assms(2)] by simp_all
  then have "valid_resilience (from_policies r b)" by auto
  then have "resilience_validate jt (from_policies r b) = Inr ()"
    by (rule resilience_cfg.check_valid)
  moreover have "resilience_eq (from_policies r b) (from_policies r b)"
    using valid(1) by (auto simp: resilience_eq_def from_policies_def valid_retry_config_def)
  ultimately show ?thesis
    using valid by (simp add: to_retry_from_policies to_breaker_from_policies)
qed

lemma policies_survive_composition_at_work:
  "to_retry_config (\<lambda>e. '''') (from_policies default_retry_config default_breaker_config) =
     Inr default_retry_config"
  using policies_survive_composition [OF demo_default_built, of "(True, 5, 30, 1)" default_breaker_config]
  by (simp add: default_breaker_config_def)

text \<open>C4 (deserialized_policy_always_builds). Every policy that the reader's data can become builds a
  client: the factory's second validation and the two projections never refuse it, and the
  client is a breaker around the retry client, under the two projected policies, with a new
  closed node.\<close>

theorem deserialized_policy_always_builds:
  assumes "resilience_try_from text v = Inr c"
  shows "\<exists>r b. to_retry_config text c = Inr r \<and> to_breaker_config text c = Inr b \<and>
    build_resilient rt view pl bt text jt c inner =
      Inr (breaker_client bt b (std_retry_client rt view pl r inner), initial_node)"
proof -
  obtain r b where "valid_retry_config r" "valid_breaker_config b" "c = from_policies r b"
    using resilience_cfg.construct_valid [OF assms] by (auto simp: valid_resilience_def)
  then show ?thesis
    using build_resilient_from_policies to_retry_from_policies to_breaker_from_policies by blast
qed

text \<open>A client whose calls all fail with an error, for the witnesses.\<close>

definition failing_client :: "unit call_error \<Rightarrow> (nat, u8, unit, u8, unit, unit, unit, unit, unit) client" where
  "failing_client e = \<lparr>typed = failing_transport e, raw = failing_transport e\<rparr>"

lemma default_policies_valid:
  "valid_retry_config default_retry_config" "valid_breaker_config default_breaker_config"
  using retry_cfg.construct_valid [OF demo_default_built]
  by (simp_all add: valid_breaker_config_iff)

lemma default_resilience_composed:
  "default_resilience_config = from_policies default_retry_config default_breaker_config"
  by (simp add: from_policies_def default_retry_config_def default_breaker_config_def
    default_resilience_config_def)

lemma default_resilience_built:
  "resilience_try_from shown default_resilience_data = Inr default_resilience_config"
proof -
  have "\<lparr>br_max_attempts = 5, br_initial_backoff_ms = 100, br_backoff_multiplier = F64_Finite 2,
      br_jitter_factor = f64_one_tenth, br_max_backoff_ms = 5000, br_rate_limit_max_attempts = 2,
      br_rate_limit_initial_backoff_ms = 1000, br_rate_limit_max_backoff_ms = 10000\<rparr> =
      config_input default_retry_config"
    by (simp add: config_input_def default_retry_config_def)
  then show ?thesis
    by (simp add: resilience_try_from_def default_resilience_data_def default_resilience_config_def
      demo_default_built from_policies_def Let_def)
      (simp add: default_retry_config_def)
qed

theorem deserialized_policy_always_builds_witness:
  "\<exists>built. build_resilient demo_runtime demo_view demo_payload demo_transition (\<lambda>e. '''') (\<lambda>x. '''')
     default_resilience_config (failing_client unavailable) = Inr built"
  using deserialized_policy_always_builds [OF default_resilience_built [of "\<lambda>e. ''''"], of demo_runtime demo_view
    demo_payload demo_transition "\<lambda>x. ''''" "failing_client unavailable"]
  by blast

text \<open>Whatever error the retry layer puts on its rate-limit track, or
  stops at as terminal with a code of a credential or of the caller's deadline, does not count
  as a failure of the breaker, and every transport failure the retry layer retries does.\<close>

lemma rate_limits_never_trip:
  "(classify r \<noteq> RetryRateLimit \<or> classify_result r = outcome.Success) \<and>
   (code \<notin> {Unauthenticated, PermissionDenied, DeadlineExceeded} \<or>
     classify (Inl (Status p code m d t) :: 'md call_error + 'r) = Terminal \<and>
     classify_result (Inl (Status p code m d t) :: 'md call_error + 'r) = outcome.Success) \<and>
   (classify (Inl (Transport p c m) :: 'md call_error + 'r) = Retry \<longleftrightarrow>
     classify_result (Inl (Transport p c m) :: 'md call_error + 'r) = outcome.Failure \<and> c \<noteq> Internal)"
proof (intro conjI)
  show "classify r \<noteq> RetryRateLimit \<or> classify_result r = outcome.Success"
    by (cases r rule: is_breaker_failure.cases)
      (auto simp: classify_status_rate_limit_iff std_failures.rate_limit_never_counts classify_result_def)
qed (auto simp: classify_result_def)

lemma rate_limits_never_trip_at_work:
  "classify_result (Inl rate_limited :: unit call_error + nat) = outcome.Success \<and>
   classify_result (Inl (Status ''/s/M'' Unauthenticated '''' [] ()) :: unit call_error + nat) = outcome.Success"
  using rate_limits_never_trip [of "Inl rate_limited :: unit call_error + nat" Unauthenticated "''/s/M''" "''''"
    "[]" "()" Internal]
  by simp

text \<open>C18 (resilient_call_records_once). A resilient raw call that the circuit admits is one retried
  call of the inner client, whatever number of attempts it makes; the state machine is told one
  outcome, that of the result the caller gets.\<close>

theorem resilient_call_records_once:
  assumes "build_resilient rt view pl bt shown jt c inner = Inr (resilient, node0)"
    and "to_retry_config shown c = Inr r" and "to_breaker_config shown c = Inr b" and "enabled b"
    and "bt_admit bt (admit_input b node) w = (Inr a, w1)" and "ad_admission a = Proceed"
    and "retry_call_raw rt (std_retry_classifier view) r (raw inner) request w1 = (result, w2)"
  shows "call_unary (raw resilient) request (node, w) =
    (result, record_outcome bt b (classify_result result) (write_admitted a node, w2))"
proof -
  have "resilient = breaker_client bt b (std_retry_client rt view pl r inner)"
    using assms(1-3) by (auto simp: build_resilient_def Let_def build_breaker_def)
  then show ?thesis
    using assms(4-7)
    by (simp add: breaker_client_def breaker_raw_def raw_guarded_is_guard guard_enabled
      std_retry_client_def retry_raw_def)
qed

lemma demo_resilient_attempts:
  "retry_call_raw demo_runtime (std_retry_classifier demo_view) default_retry_config
     (raw (failing_client rate_limited)) (demo_request []) 3 = (Inl rate_limited, 2000000006)"
  by (simp add: retry_call_raw_def demo_run_simps default_retry_config_def run_attempts_numeral
    failing_client_def failing_transport_def raw_attempt_def demo_request_def)

theorem resilient_call_records_once_witness:
  "call_unary (raw (breaker_client demo_transition default_breaker_config
       (std_retry_client demo_runtime demo_view demo_payload default_retry_config (failing_client rate_limited))))
     (demo_request []) (initial_node, 3) =
   (Inl rate_limited, record_outcome demo_transition default_breaker_config outcome.Success
      (initial_node, 2000000006))"
proof -
  note built = build_resilient_from_policies [OF default_policies_valid, of demo_runtime demo_view
      demo_payload demo_transition "\<lambda>e. ''''" "\<lambda>x. ''''" "failing_client rate_limited"]
  show ?thesis
    using resilient_call_records_once [OF built to_retry_from_policies to_breaker_from_policies _
        demo_admit_initial _ demo_resilient_attempts] default_policies_valid
    by (simp add: write_admitted_def initial_node_def classify_result_def)
qed

end
