(* ===== verification/Breaker_Concurrency.thy ===== *)
theory Breaker_Concurrency
  imports Breaker_Properties
begin

text \<open>
  The guarded calls of one breaker client run concurrently. The mutex of the node is held only
  while the node is read and while it is written: between the two, \<open>admit\<close> and \<open>record\<close> work on a
  snapshot. A task goes through the steps below in order, and the steps of different tasks
  interleave in any way. The first result is that one task alone does what \<open>guard\<close> does; the
  second that every invariant the state machine keeps holds under every interleaving; the third
  is what interleaving does cost: an opened circuit that a stale write closes again.
\<close>

section \<open>Steps\<close>

datatype ('x, 'a) task =
    Idle
  | AdmitRead "'x breaker_node"
  | AdmitComputed "'x admitted"
  | Calling
  | Called 'a
  | RecordRead "'x breaker_node" 'a
  | RecordComputed "'x recorded" 'a
  | Refused
  | Finished 'a

record ('w, 'x, 'a) shared =
  sh_node :: "'x breaker_node"
  sh_world :: 'w
  sh_task :: "nat \<Rightarrow> ('x, 'a) task"

inductive step ::
  "('w, 'x, 'e) breaker_transition \<Rightarrow> grpc_breaker_config \<Rightarrow>
     (nat \<Rightarrow> ('w, 'md call_error + 'r) io) \<Rightarrow>
     ('w, 'x, 'md call_error + 'r) shared \<Rightarrow> ('w, 'x, 'md call_error + 'r) shared \<Rightarrow> bool"
  for bt cfg call where
  admit_read:
    "sh_task s i = Idle \<Longrightarrow>
     step bt cfg call s (s\<lparr>sh_task := (sh_task s)(i := AdmitRead (sh_node s))\<rparr>)"
| admit_compute:
    "sh_task s i = AdmitRead n \<Longrightarrow> bt_admit bt (admit_input cfg n) (sh_world s) = (Inr a, w) \<Longrightarrow>
     step bt cfg call s (s\<lparr>sh_world := w, sh_task := (sh_task s)(i := AdmitComputed a)\<rparr>)"
| admit_fail:
    "sh_task s i = AdmitRead n \<Longrightarrow> bt_admit bt (admit_input cfg n) (sh_world s) = (Inl e, w) \<Longrightarrow>
     step bt cfg call s (s\<lparr>sh_world := w, sh_task := (sh_task s)(i := Refused)\<rparr>)"
| admit_write:
    "sh_task s i = AdmitComputed a \<Longrightarrow>
     step bt cfg call s
       (s\<lparr>sh_node := write_admitted a (sh_node s),
          sh_task := (sh_task s)(i := (case ad_admission a of Proceed \<Rightarrow> Calling | RejectOpen \<Rightarrow> Refused))\<rparr>)"
| make_call:
    "sh_task s i = Calling \<Longrightarrow> call i (sh_world s) = (r, w) \<Longrightarrow>
     step bt cfg call s (s\<lparr>sh_world := w, sh_task := (sh_task s)(i := Called r)\<rparr>)"
| record_read:
    "sh_task s i = Called r \<Longrightarrow>
     step bt cfg call s (s\<lparr>sh_task := (sh_task s)(i := RecordRead (sh_node s) r)\<rparr>)"
| record_compute:
    "sh_task s i = RecordRead n r \<Longrightarrow>
     bt_record bt (record_input cfg (classify_result r) n) (sh_world s) = (Inr m, w) \<Longrightarrow>
     step bt cfg call s (s\<lparr>sh_world := w, sh_task := (sh_task s)(i := RecordComputed m r)\<rparr>)"
| record_fail:
    "sh_task s i = RecordRead n r \<Longrightarrow>
     bt_record bt (record_input cfg (classify_result r) n) (sh_world s) = (Inl e, w) \<Longrightarrow>
     step bt cfg call s (s\<lparr>sh_world := w, sh_task := (sh_task s)(i := Finished r)\<rparr>)"
| record_write:
    "sh_task s i = RecordComputed m r \<Longrightarrow>
     step bt cfg call s
       (s\<lparr>sh_node := write_recorded m (sh_node s), sh_task := (sh_task s)(i := Finished r)\<rparr>)"

inductive reaches ::
  "('w, 'x, 'e) breaker_transition \<Rightarrow> grpc_breaker_config \<Rightarrow>
     (nat \<Rightarrow> ('w, 'md call_error + 'r) io) \<Rightarrow>
     ('w, 'x, 'md call_error + 'r) shared \<Rightarrow> ('w, 'x, 'md call_error + 'r) shared \<Rightarrow> bool"
  for bt cfg call where
  here: "reaches bt cfg call s s"
| next_step: "step bt cfg call s t \<Longrightarrow> reaches bt cfg call t u \<Longrightarrow> reaches bt cfg call s u"

definition start :: "'x breaker_node \<Rightarrow> 'w \<Rightarrow> ('w, 'x, 'a) shared" where
  "start n w = \<lparr>sh_node = n, sh_world = w, sh_task = (\<lambda>i. Idle)\<rparr>"

lemma write_admitted_any: "write_admitted a n = write_admitted a n'"
  by (cases n; cases n') (simp add: write_admitted_def)

lemma write_recorded_any: "write_recorded m n = write_recorded m n'"
  by (cases n; cases n') (simp add: write_recorded_def)

section \<open>Invariants under every interleaving\<close>

text \<open>What the state machine must keep of a property of nodes.\<close>

definition machine_keeps ::
  "('w, 'x, 'e) breaker_transition \<Rightarrow> grpc_breaker_config \<Rightarrow> ('x breaker_node \<Rightarrow> bool) \<Rightarrow> bool" where
  "machine_keeps bt cfg P \<longleftrightarrow>
     (\<forall>n w a w'. P n \<longrightarrow> bt_admit bt (admit_input cfg n) w = (Inr a, w') \<longrightarrow> P (write_admitted a n)) \<and>
     (\<forall>n w q m w'. P n \<longrightarrow> bt_record bt (record_input cfg q n) w = (Inr m, w') \<longrightarrow> P (write_recorded m n))"

fun task_keeps :: "('x breaker_node \<Rightarrow> bool) \<Rightarrow> ('x, 'a) task \<Rightarrow> bool" where
  "task_keeps P (AdmitRead n) = P n"
| "task_keeps P (AdmitComputed a) = P (write_admitted a initial_node)"
| "task_keeps P (RecordRead n r) = P n"
| "task_keeps P (RecordComputed m r) = P (write_recorded m initial_node)"
| "task_keeps P _ = True"

definition all_keep :: "('x breaker_node \<Rightarrow> bool) \<Rightarrow> ('w, 'x, 'a) shared \<Rightarrow> bool" where
  "all_keep P s \<longleftrightarrow> P (sh_node s) \<and> (\<forall>i. task_keeps P (sh_task s i))"

lemma all_keep_step:
  assumes "step bt cfg call s t" "machine_keeps bt cfg P" "all_keep P s"
  shows "all_keep P t"
  using assms(1)
proof cases
  case (admit_compute i n a w)
  then have "P n"
    using assms(3) by (metis all_keep_def task_keeps.simps(1))
  then have "P (write_admitted a n)"
    using assms(2) admit_compute(3) unfolding machine_keeps_def by blast
  then show ?thesis
    using assms(3) admit_compute(1) write_admitted_any [of a n initial_node] by (simp add: all_keep_def)
next
  case (admit_write i a)
  then have "P (write_admitted a initial_node)"
    using assms(3) by (metis all_keep_def task_keeps.simps(2))
  then show ?thesis
    using assms(3) admit_write(1) write_admitted_any [of a initial_node "sh_node s"]
    by (simp add: all_keep_def split: admission.split)
next
  case (record_compute i n r m w)
  then have "P n"
    using assms(3) by (metis all_keep_def task_keeps.simps(3))
  then have "P (write_recorded m n)"
    using assms(2) record_compute(3) unfolding machine_keeps_def by blast
  then show ?thesis
    using assms(3) record_compute(1) write_recorded_any [of m n initial_node] by (simp add: all_keep_def)
next
  case (record_write i m r)
  then have "P (write_recorded m initial_node)"
    using assms(3) by (metis all_keep_def task_keeps.simps(4))
  then show ?thesis
    using assms(3) record_write(1) write_recorded_any [of m initial_node "sh_node s"]
    by (simp add: all_keep_def)
qed (use assms(3) in \<open>simp_all add: all_keep_def\<close>)

lemma all_keep_reaches:
  "reaches bt cfg call s t \<Longrightarrow> machine_keeps bt cfg P \<Longrightarrow> all_keep P s \<Longrightarrow> all_keep P t"
  by (induction rule: reaches.induct) (auto dest: all_keep_step)

lemma all_keep_start: "P n \<Longrightarrow> all_keep P (start n w)"
  by (simp add: all_keep_def start_def)

lemma reaches_trans: "reaches bt cfg call s t \<Longrightarrow> reaches bt cfg call t u \<Longrightarrow> reaches bt cfg call s u"
  by (induction rule: reaches.induct) (auto intro: reaches.next_step)

section \<open>One task alone\<close>

lemma reaches_one: "step bt cfg call s t \<Longrightarrow> reaches bt cfg call s t"
  by (blast intro: reaches.intros)

lemma world_node_update [simp]:
  "s\<lparr>sh_world := w, sh_node := n, sh_task := f\<rparr> = s\<lparr>sh_node := n, sh_world := w, sh_task := f\<rparr>"
  by (cases s) simp

lemma reaches_two: "step bt cfg call s t \<Longrightarrow> step bt cfg call t u \<Longrightarrow> reaches bt cfg call s u"
  by (blast intro: reaches.intros)

lemma reaches_three:
  "step bt cfg call s t \<Longrightarrow> step bt cfg call t u \<Longrightarrow> step bt cfg call u v \<Longrightarrow> reaches bt cfg call s v"
  by (blast intro: reaches.intros)

text \<open>What the end of a task says of its call.\<close>

definition ended :: "('x, 'md call_error + 'r) task \<Rightarrow> 'md call_error + 'r \<Rightarrow> bool" where
  "ended t r \<longleftrightarrow> t = Finished r \<or> t = Refused \<and> (\<exists>e. r = Inl e)"

lemma record_runs:
  assumes "sh_task s i = Called r" "record_outcome bt cfg (classify_result r) (sh_node s, sh_world s) = (node', w')"
  shows "reaches bt cfg call s
    (s\<lparr>sh_node := node', sh_world := w', sh_task := (sh_task s)(i := Finished r)\<rparr>)"
proof -
  let ?s1 = "s\<lparr>sh_task := (sh_task s)(i := RecordRead (sh_node s) r)\<rparr>"
  obtain x w2 where rec: "bt_record bt (record_input cfg (classify_result r) (sh_node s)) (sh_world s) = (x, w2)"
    by fastforce
  have s1: "step bt cfg call s ?s1"
    by (rule step.record_read) (rule assms(1))
  show ?thesis
  proof (cases x)
    case (Inl e)
    have "step bt cfg call ?s1 (?s1\<lparr>sh_world := w2, sh_task := (sh_task ?s1)(i := Finished r)\<rparr>)"
      by (rule step.record_fail) (use rec Inl in simp_all)
    then show ?thesis
      using reaches_two [OF s1] assms(2) rec Inl by (auto simp: record_outcome_def)
  next
    case (Inr m)
    let ?s2 = "?s1\<lparr>sh_world := w2, sh_task := (sh_task ?s1)(i := RecordComputed m r)\<rparr>"
    have s2: "step bt cfg call ?s1 ?s2"
      by (rule step.record_compute) (use rec Inr in simp_all)
    have "step bt cfg call ?s2
        (?s2\<lparr>sh_node := write_recorded m (sh_node ?s2), sh_task := (sh_task ?s2)(i := Finished r)\<rparr>)"
      by (rule step.record_write) simp
    then show ?thesis
      using reaches_three [OF s1 s2] assms(2) rec Inr by (auto simp: record_outcome_def)
  qed
qed

lemma task_alone:
  assumes "enabled cfg" "sh_task s i = Idle"
    and "guard bt cfg path (call i) (sh_node s, sh_world s) = (r, (node', w'))"
  shows "\<exists>p. ended p r \<and> reaches bt cfg call s
    (s\<lparr>sh_node := node', sh_world := w', sh_task := (sh_task s)(i := p)\<rparr>)"
proof -
  let ?s1 = "s\<lparr>sh_task := (sh_task s)(i := AdmitRead (sh_node s))\<rparr>"
  obtain x w1 where adm: "bt_admit bt (admit_input cfg (sh_node s)) (sh_world s) = (x, w1)"
    by fastforce
  have s1: "step bt cfg call s ?s1"
    by (rule step.admit_read) (rule assms(2))
  show ?thesis
  proof (cases x)
    case (Inl e)
    have "step bt cfg call ?s1 (?s1\<lparr>sh_world := w1, sh_task := (sh_task ?s1)(i := Refused)\<rparr>)"
      by (rule step.admit_fail) (use adm Inl in simp_all)
    then show ?thesis
      using reaches_two [OF s1] assms(1,3) adm Inl
      by (intro exI [of _ Refused]) (auto simp: guard_enabled ended_def)
  next
    case (Inr a)
    let ?s2 = "?s1\<lparr>sh_world := w1, sh_task := (sh_task ?s1)(i := AdmitComputed a)\<rparr>"
    let ?n = "write_admitted a (sh_node s)"
    have s2: "step bt cfg call ?s1 ?s2"
      by (rule step.admit_compute) (use adm Inr in simp_all)
    let ?p = "case ad_admission a of Proceed \<Rightarrow> Calling | RejectOpen \<Rightarrow> Refused"
    let ?s3 = "s\<lparr>sh_node := ?n, sh_world := w1, sh_task := (sh_task s)(i := ?p)\<rparr>"
    have "step bt cfg call ?s2
        (?s2\<lparr>sh_node := write_admitted a (sh_node ?s2), sh_task := (sh_task ?s2)(i := ?p)\<rparr>)"
      by (rule step.admit_write) simp
    then have r3: "reaches bt cfg call s ?s3"
      using reaches_three [OF s1 s2] by simp
    show ?thesis
    proof (cases "ad_admission a")
      case RejectOpen
      then show ?thesis
        using r3 assms(1,3) adm Inr by (intro exI [of _ Refused]) (auto simp: guard_enabled ended_def)
    next
      case Proceed
      obtain q w2 where q: "call i w1 = (q, w2)" by fastforce
      let ?s4 = "s\<lparr>sh_node := ?n, sh_world := w2, sh_task := (sh_task s)(i := Called q)\<rparr>"
      have "step bt cfg call ?s3 (?s3\<lparr>sh_world := w2, sh_task := (sh_task ?s3)(i := Called q)\<rparr>)"
        by (rule step.make_call) (use q Proceed in simp_all)
      then have r4: "reaches bt cfg call s ?s4"
        using reaches_trans [OF r3 reaches_one] by simp
      have out: "r = q" "record_outcome bt cfg (classify_result q) (?n, w2) = (node', w')"
        using assms(1,3) adm Inr Proceed q by (auto simp: guard_enabled)
      have "reaches bt cfg call ?s4
          (?s4\<lparr>sh_node := node', sh_world := w', sh_task := (sh_task ?s4)(i := Finished q)\<rparr>)"
        by (rule record_runs) (use out in simp_all)
      then show ?thesis
        using reaches_trans [OF r4] out by (intro exI [of _ "Finished q"]) (simp add: ended_def)
    qed
  qed
qed

section \<open>Properties\<close>

text \<open>C17 (interleaved_invariant). Whatever calls run concurrently and however their steps
  interleave, a property of nodes that a new breaker has and that the state machine keeps holds
  of the node at every moment, although its three fields are written from snapshots: they are
  written together, so the node is never torn.\<close>

theorem interleaved_invariant:
  assumes "machine_keeps bt cfg P" "P initial_node"
    and "reaches bt cfg call (start initial_node w) s"
  shows "P (sh_node s)"
  using all_keep_reaches [OF assms(3,1) all_keep_start [where P = P, OF assms(2)]] by (simp add: all_keep_def)

lemma demo_keeps_wf: "machine_keeps demo_transition default_breaker_config (wf_node default_breaker_config)"
  unfolding machine_keeps_def
  by (auto simp: demo_transition_def demo_admit_def demo_record_def wf_node_def admit_input_def
    record_input_def write_admitted_def write_recorded_def into_breaker_config_def Let_def not_le
    split: breaker_state.splits outcome.splits if_splits)

lemma one_step_reached:
  "reaches demo_transition default_breaker_config (\<lambda>i. failing_call) (start initial_node 0)
     ((start initial_node 0)\<lparr>sh_task := (\<lambda>i. Idle)(0 := AdmitRead initial_node)\<rparr>)"
  using step.admit_read [of "start initial_node 0" 0 demo_transition default_breaker_config "\<lambda>i. failing_call"]
  by (simp add: start_def reaches_one)

theorem interleaved_invariant_witness:
  "wf_node default_breaker_config (sh_node
     ((start initial_node (0 :: nat) :: (nat, nat, unit call_error + nat) shared)
        \<lparr>sh_task := (\<lambda>i. Idle)(0 := AdmitRead initial_node)\<rparr>))"
  by (rule interleaved_invariant [OF demo_keeps_wf _ one_step_reached])
    (simp add: wf_node_def initial_node_def)

text \<open>A task whose steps no other task interrupts does exactly what the
  guarded call does in one piece: the same result, the same node, the same world.\<close>

lemma lone_task_is_guard:
  assumes "enabled cfg" "guard bt cfg path (call i) (node, w) = (r, (node', w'))"
  shows "\<exists>s. reaches bt cfg call (start node w) s \<and> sh_node s = node' \<and> sh_world s = w' \<and>
    ended (sh_task s i) r"
proof -
  obtain p where "ended p r" "reaches bt cfg call (start node w)
      ((start node w)\<lparr>sh_node := node', sh_world := w', sh_task := (sh_task (start node w))(i := p)\<rparr>)"
    using task_alone [of cfg "start node w" i bt path call r node' w'] assms
    by (auto simp: start_def)
  then show ?thesis by force
qed

lemma lone_task_is_guard_at_work:
  "\<exists>s. reaches demo_transition default_breaker_config (\<lambda>i. failing_call) (start initial_node 0) s \<and>
     ended (sh_task s 3) (Inl (Transport ''/s/M'' Unavailable ''refused''))"
proof -
  obtain r node' w' where g: "guard demo_transition default_breaker_config ''/s/M''
      ((\<lambda>i. failing_call) (3 :: nat)) (initial_node, 0) = (r, (node', w'))"
    by (metis prod_cases3)
  moreover have "r = Inl (Transport ''/s/M'' Unavailable ''refused'')"
    using g by (auto simp: failing_call_def guard_enabled demo_transition_def demo_admit_def
      admit_input_def initial_node_def Let_def split: prod.splits)
  ultimately show ?thesis
    using lone_task_is_guard [OF _ g] by auto
qed

text \<open>C27 (stale_admission_closes_circuit). Interleaving does cost something: with the documented
  state machine and a threshold of one, a run reaches a moment where the circuit is open after a
  failure, and the very next step, the write of an admission computed before that failure,
  closes it again with no call having succeeded.\<close>

theorem stale_admission_closes_circuit:
  fixes call :: "nat \<Rightarrow> ('w, 'md call_error + 'r) io" and bt :: "('w, 'x, 'e) breaker_transition"
  assumes "enabled cfg" "documented_breaker bt cfg cooling" "breaker_validate cfg = Inr ()"
    and "failure_threshold cfg = 1" and "\<And>v. is_breaker_failure (fst (call 0 v))"
  shows "\<exists>s t x. reaches bt cfg call (start initial_node w) s \<and> bn_state (sh_node s) = Open x \<and>
    step bt cfg call s t \<and> bn_state (sh_node t) = Closed \<and> (\<forall>i. i \<noteq> 0 \<longrightarrow> (\<nexists>r. sh_task t i = Finished r))"
proof -
  let ?n = "initial_node :: 'x breaker_node"
  have init: "bn_state ?n = Closed" "bn_consecutive_failures ?n = 0"
    by (simp_all add: initial_node_def)
  obtain a w1 where adm: "bt_admit bt (admit_input cfg ?n) w = (Inr a, w1)" "write_admitted a ?n = ?n"
      "ad_admission a = Proceed"
    using documented_admits_closed [OF assms(2) init(1), of w] by (auto simp: admits_def)
  define s0 :: "('w, 'x, 'md call_error + 'r) shared" where "s0 = start ?n w"
  define s1 where "s1 = s0\<lparr>sh_task := (sh_task s0)(1 := AdmitRead (sh_node s0))\<rparr>"
  define s2 where "s2 = s1\<lparr>sh_world := w1, sh_task := (sh_task s1)(1 := AdmitComputed a)\<rparr>"
  have one: "step bt cfg call s0 s1"
    unfolding s1_def by (rule step.admit_read) (simp add: s0_def start_def)
  have two: "step bt cfg call s1 s2"
    unfolding s2_def by (rule step.admit_compute) (use adm(1) in \<open>simp_all add: s1_def s0_def start_def\<close>)
  have s2: "sh_node s2 = ?n" "sh_world s2 = w1" "sh_task s2 = (\<lambda>i. Idle)(1 := AdmitComputed a)"
    by (simp_all add: s2_def s1_def s0_def start_def)
  obtain r node' w' where g: "guard bt cfg [] (call 0) (?n, w1) = (r, (node', w'))"
    by (metis prod_cases3)
  have "wf_node cfg ?n"
    using assms(4) by (simp add: wf_node_def initial_node_def)
  then have st: "stepped cfg (abs_node ?n) (classify_result r) node'" and "\<exists>v1 v2. call 0 v1 = (r, v2)"
    using guard_refines [OF assms(1,2) _ _ g] assms(3) by (simp_all add: breaker_validate_iff init)
  then have "is_breaker_failure r"
    using assms(5) by (metis fst_conv)
  then have "abs_node node' = SOpen"
    using st assms(4) by (simp add: stepped_def classify_result_def abs_node_def [of ?n] init)
  then obtain x where open_now: "bn_state node' = Open x"
    by (cases "bn_state node'") (auto simp: abs_node_def)
  obtain p where p: "reaches bt cfg call s2
      (s2\<lparr>sh_node := node', sh_world := w', sh_task := (sh_task s2)(0 := p)\<rparr>)"
    using task_alone [of cfg s2 0 bt "[]" call r node' w'] assms(1) g s2 by auto
  define s where "s = s2\<lparr>sh_node := node', sh_world := w', sh_task := (sh_task s2)(0 := p)\<rparr>"
  have "reaches bt cfg call (start ?n w) s"
    unfolding s_def s0_def [symmetric] by (rule reaches_trans [OF reaches_two [OF one two] p])
  moreover have "step bt cfg call s (s\<lparr>sh_node := write_admitted a (sh_node s),
      sh_task := (sh_task s)(1 := (case ad_admission a of Proceed \<Rightarrow> Calling | RejectOpen \<Rightarrow> Refused))\<rparr>)"
    by (rule step.admit_write) (simp add: s_def s2)
  moreover have "bn_state (write_admitted a (sh_node s)) = Closed"
    using adm(2) write_admitted_any [of a "sh_node s" ?n] init(1) by simp
  moreover have "bn_state (sh_node s) = Open x"
    by (simp add: s_def open_now)
  ultimately show ?thesis
    by (intro exI conjI) (assumption | simp add: s_def s2 adm(3))+
qed

theorem stale_admission_closes_circuit_witness:
  "\<exists>s t x. reaches demo_transition (default_breaker_config\<lparr>failure_threshold := 1\<rparr>) (\<lambda>i. failing_call)
       (start initial_node 0) s \<and> bn_state (sh_node s) = Open x \<and>
     step demo_transition (default_breaker_config\<lparr>failure_threshold := 1\<rparr>) (\<lambda>i. failing_call) s t \<and>
     bn_state (sh_node t) = Closed \<and> (\<forall>i. i \<noteq> 0 \<longrightarrow> (\<nexists>r. sh_task t i = Finished r))"
  by (rule stale_admission_closes_circuit [OF _ demo_documented])
    (simp_all add: breaker_validate_def failing_call_def)

end
