(* ===== verification/Channel_Config.thy ===== *)
theory Channel_Config
  imports Call_Contract Config_Core
begin

text \<open>
  The values a client is configured with (\<open>grpc-egress-transport-api\<close>, channel and
  loadbalancer themes): keep-alive, mutual TLS, the channel, the backends of a balanced
  client; their errors; the channel builder and the reader of the TLS files
  (\<open>grpc-egress-transport-std\<close>). The file system and the TOML reader are parameters.
  \<open>usize\<close> is taken at 64 bits.
\<close>

type_synonym usize = "64 word"

section \<open>Errors\<close>

datatype channel_config_error =
    PlaintextRejected string
  | UnusableTlsFile string string
  | ConflictingOptions string string string
  | InvalidOptionValue string string
  | TlsOptionOnPlaintextEndpoint string string

definition blank :: "string \<Rightarrow> bool" where
  "blank s \<longleftrightarrow> str_trim s = []"

section \<open>Keep-alive and mutual TLS\<close>

record keep_alive_config =
  ka_interval :: duration
  ka_timeout :: duration
  ka_permit_without_calls :: bool

definition keep_alive_try_new :: "duration \<Rightarrow> duration \<Rightarrow> bool \<Rightarrow> string + keep_alive_config" where
  "keep_alive_try_new interval timeout permit_without_calls =
     (if interval = 0 then Inl ''interval must be positive''
      else if timeout = 0 then Inl ''timeout must be positive''
      else Inr \<lparr>ka_interval = interval, ka_timeout = timeout, ka_permit_without_calls = permit_without_calls\<rparr>)"

definition default_keep_alive :: keep_alive_config where
  "default_keep_alive =
     \<lparr>ka_interval = from_secs 10, ka_timeout = from_secs 20, ka_permit_without_calls = False\<rparr>"

record mtls_config =
  cert_pem_path :: string
  key_pem_path :: string
  ca_pem_path :: "string option"

definition mtls_try_new :: "string \<Rightarrow> string \<Rightarrow> string option \<Rightarrow> channel_config_error + mtls_config" where
  "mtls_try_new cert key ca =
     (if blank cert then Inl (InvalidOptionValue ''mtls'' ''cert_pem_path must not be empty'')
      else if blank key then Inl (InvalidOptionValue ''mtls'' ''key_pem_path must not be empty'')
      else if (case ca of None \<Rightarrow> False | Some path \<Rightarrow> blank path)
      then Inl (InvalidOptionValue ''mtls'' ''ca_pem_path must not be empty when set'')
      else Inr \<lparr>cert_pem_path = cert, key_pem_path = key, ca_pem_path = ca\<rparr>)"

section \<open>The channel\<close>

datatype compression_mode = NoCompression | GzipMode | ZstdMode

definition default_max_message_bytes :: usize where
  "default_max_message_bytes = 4 * 1024 * 1024"

definition default_request_timeout_secs :: u64 where
  "default_request_timeout_secs = 30"

record grpc_channel_config =
  ch_endpoint :: string
  ch_tls_required :: bool
  ch_mtls :: "mtls_config option"
  ch_keep_alive :: "keep_alive_config option"
  ch_max_message_bytes :: usize
  ch_compression :: compression_mode
  ch_request_timeout_secs :: "u64 option"

definition channel_try_new ::
  "string \<Rightarrow> bool \<Rightarrow> mtls_config option \<Rightarrow> keep_alive_config option \<Rightarrow> usize \<Rightarrow> compression_mode \<Rightarrow>
     u64 option \<Rightarrow> string + grpc_channel_config" where
  "channel_try_new endpoint tls_required mtls keep_alive max_message_bytes compression request_timeout_secs =
     (if blank endpoint then Inl ''endpoint must not be empty''
      else if max_message_bytes = 0 then Inl ''max_message_bytes must be >= 1''
      else if request_timeout_secs = Some 0 then Inl ''request_timeout_secs must be >= 1 when set''
      else Inr
        \<lparr>ch_endpoint = endpoint, ch_tls_required = tls_required, ch_mtls = mtls, ch_keep_alive = keep_alive,
         ch_max_message_bytes = max_message_bytes, ch_compression = compression,
         ch_request_timeout_secs = request_timeout_secs\<rparr>)"

definition default_channel_config :: grpc_channel_config where
  "default_channel_config =
     \<lparr>ch_endpoint = [], ch_tls_required = True, ch_mtls = None, ch_keep_alive = None,
      ch_max_message_bytes = default_max_message_bytes, ch_compression = NoCompression,
      ch_request_timeout_secs = None\<rparr>"

text \<open>The plain data a configuration file holds: a field left out has the default's value.\<close>

record grpc_channel_config_data =
  cd_endpoint :: string
  cd_tls_required :: bool
  cd_mtls :: "mtls_config option"
  cd_keep_alive :: "keep_alive_config option"
  cd_max_message_bytes :: usize
  cd_compression :: compression_mode
  cd_request_timeout_secs :: "u64 option"

definition default_channel_data :: grpc_channel_config_data where
  "default_channel_data =
     (let c = default_channel_config in
      \<lparr>cd_endpoint = ch_endpoint c, cd_tls_required = ch_tls_required c, cd_mtls = ch_mtls c,
       cd_keep_alive = ch_keep_alive c, cd_max_message_bytes = ch_max_message_bytes c,
       cd_compression = ch_compression c, cd_request_timeout_secs = ch_request_timeout_secs c\<rparr>)"

definition channel_try_from :: "grpc_channel_config_data \<Rightarrow> string + grpc_channel_config" where
  "channel_try_from c =
     channel_try_new (cd_endpoint c) (cd_tls_required c) (cd_mtls c) (cd_keep_alive c)
       (cd_max_message_bytes c) (cd_compression c) (cd_request_timeout_secs c)"

text \<open>What a channel configuration satisfies.\<close>

definition usable_channel :: "grpc_channel_config \<Rightarrow> bool" where
  "usable_channel c \<longleftrightarrow>
     \<not> blank (ch_endpoint c) \<and> ch_max_message_bytes c \<noteq> 0 \<and> ch_request_timeout_secs c \<noteq> Some 0"

lemma channel_try_new_iff [simp]:
  "channel_try_new ep tls mtls ka bytes mode secs = Inr c \<longleftrightarrow>
     usable_channel c \<and>
     c = \<lparr>ch_endpoint = ep, ch_tls_required = tls, ch_mtls = mtls, ch_keep_alive = ka,
          ch_max_message_bytes = bytes, ch_compression = mode, ch_request_timeout_secs = secs\<rparr>"
  by (auto simp: channel_try_new_def usable_channel_def)

section \<open>The channel builder\<close>

record channel_builder =
  cb_endpoint :: "string option"
  cb_tls_required :: bool
  cb_mtls :: "mtls_config option"
  cb_keep_alive :: "keep_alive_config option"
  cb_max_message_bytes :: "usize option"
  cb_compression :: "compression_mode option"
  cb_request_timeout_secs :: "u64 option"

definition default_channel_builder :: channel_builder where
  "default_channel_builder =
     \<lparr>cb_endpoint = None, cb_tls_required = True, cb_mtls = None, cb_keep_alive = None,
      cb_max_message_bytes = None, cb_compression = None, cb_request_timeout_secs = None\<rparr>"

datatype channel_setting =
    With_endpoint string
  | Allow_plaintext
  | With_mtls mtls_config
  | With_keep_alive keep_alive_config
  | With_max_message_bytes usize
  | With_compression compression_mode
  | With_request_timeout duration

fun apply_channel_setting :: "channel_setting \<Rightarrow> channel_builder \<Rightarrow> channel_builder" where
  "apply_channel_setting (With_endpoint e) b = b\<lparr>cb_endpoint := Some e\<rparr>"
| "apply_channel_setting Allow_plaintext b = b\<lparr>cb_tls_required := False\<rparr>"
| "apply_channel_setting (With_mtls m) b = b\<lparr>cb_mtls := Some m\<rparr>"
| "apply_channel_setting (With_keep_alive k) b = b\<lparr>cb_keep_alive := Some k\<rparr>"
| "apply_channel_setting (With_max_message_bytes n) b = b\<lparr>cb_max_message_bytes := Some n\<rparr>"
| "apply_channel_setting (With_compression c) b = b\<lparr>cb_compression := Some c\<rparr>"
| "apply_channel_setting (With_request_timeout t) b = b\<lparr>cb_request_timeout_secs := Some (max (as_secs t) 1)\<rparr>"

definition unwrap_or :: "'a \<Rightarrow> 'a option \<Rightarrow> 'a" where
  "unwrap_or d x = (case x of None \<Rightarrow> d | Some a \<Rightarrow> a)"

lemma unwrap_or_simps [simp]: "unwrap_or d None = d" "unwrap_or d (Some a) = a"
  by (simp_all add: unwrap_or_def)

definition build_channel :: "channel_builder \<Rightarrow> string + grpc_channel_config" where
  "build_channel b =
     bind_result (ok_or ''endpoint required'' (cb_endpoint b))
       (\<lambda>endpoint. channel_try_new endpoint (cb_tls_required b) (cb_mtls b) (cb_keep_alive b)
          (unwrap_or default_max_message_bytes (cb_max_message_bytes b))
          (unwrap_or NoCompression (cb_compression b)) (cb_request_timeout_secs b))"

section \<open>The TLS files\<close>

text \<open>\<open>String::from_utf8_lossy\<close> of the bytes of a file.\<close>

definition byte_text :: "u8 list \<Rightarrow> string" where
  "byte_text bytes = map char_of (from_utf8_lossy (map unat bytes))"

text \<open>The file system: reading a path gives the bytes or an error with a text.\<close>

record ('w, 'fe) file_system =
  read_file :: "string \<Rightarrow> ('w, 'fe + u8 list) io"
  file_error_text :: "'fe \<Rightarrow> string"

definition certificate_marker :: string where
  "certificate_marker = ''-----BEGIN CERTIFICATE-----''"

definition private_key_marker :: string where
  "private_key_marker = ''PRIVATE KEY-----''"

definition read_pem ::
  "('w, 'fe) file_system \<Rightarrow> string \<Rightarrow> string \<Rightarrow> string \<Rightarrow> ('w, channel_config_error + u8 list) io" where
  "read_pem fs path marker missing w =
     (case read_file fs path w of
        (Inl e, w') \<Rightarrow> (Inl (UnusableTlsFile path (file_error_text fs e)), w')
      | (Inr bytes, w') \<Rightarrow>
          (if \<not> str_contains (byte_text bytes) marker then (Inl (UnusableTlsFile path missing), w')
           else (Inr bytes, w')))"

text \<open>The TLS settings of the contract: server name, roots to trust, identity to present.\<close>

record tls_settings =
  tls_server_name :: "string option"
  tls_roots :: "u8 list list"
  tls_identity :: "(u8 list \<times> u8 list) option"

definition tls_create ::
  "string option \<Rightarrow> u8 list list \<Rightarrow> (u8 list \<times> u8 list) option \<Rightarrow> tls_settings" where
  "tls_create name roots ident = \<lparr>tls_server_name = name, tls_roots = roots, tls_identity = ident\<rparr>"

definition io_bind :: "('w, 'e + 'a) io \<Rightarrow> ('a \<Rightarrow> ('w, 'e + 'b) io) \<Rightarrow> ('w, 'e + 'b) io" where
  "io_bind f g w = (case f w of (Inl e, w') \<Rightarrow> (Inl e, w') | (Inr a, w') \<Rightarrow> g a w')"

lemma io_bind_Inr [simp]:
  "io_bind f g w = (Inr b, w'') \<longleftrightarrow> (\<exists>a w'. f w = (Inr a, w') \<and> g a w' = (Inr b, w''))"
  by (auto simp: io_bind_def split: prod.split sum.split)

definition resolve_tls_files ::
  "('w, 'fe) file_system \<Rightarrow> mtls_config option \<Rightarrow> string option \<Rightarrow> ('w, channel_config_error + tls_settings) io" where
  "resolve_tls_files fs ident root_ca =
     io_bind
       (case root_ca of
          Some path \<Rightarrow> io_bind (read_pem fs path certificate_marker ''no certificate found in the file'')
                        (\<lambda>pem w. (Inr [pem], w))
        | None \<Rightarrow> (\<lambda>w. (Inr [], w)))
       (\<lambda>roots. io_bind
          (case ident of
             Some mtls \<Rightarrow>
               io_bind (read_pem fs (cert_pem_path mtls) certificate_marker ''no certificate found in the file'')
                 (\<lambda>cert. io_bind (read_pem fs (key_pem_path mtls) private_key_marker ''no private key found in the file'')
                    (\<lambda>key w. (Inr (Some (cert, key)), w)))
           | None \<Rightarrow> (\<lambda>w. (Inr None, w)))
          (\<lambda>identity w. (Inr (tls_create None roots identity), w)))"

section \<open>Balanced backends\<close>

datatype balancing_strategy = RoundRobin | Weighted | LeastConnections

record backend_target =
  bt_url :: string
  bt_weight :: u32

definition backend_try_new :: "string \<Rightarrow> u32 \<Rightarrow> string + backend_target" where
  "backend_try_new url weight =
     (if blank url then Inl ''backend url must not be empty''
      else if weight = 0 then Inl ''backend weight must be >= 1''
      else Inr \<lparr>bt_url = url, bt_weight = weight\<rparr>)"

record loadbalancer_settings =
  lb_strategy :: balancing_strategy
  lb_backends :: "backend_target list"

definition loadbalancer_try_new :: "balancing_strategy \<Rightarrow> backend_target list \<Rightarrow> string + loadbalancer_settings" where
  "loadbalancer_try_new strategy backends =
     (if backends = [] then Inl ''backends must contain at least one target''
      else Inr \<lparr>lb_strategy = strategy, lb_backends = backends\<rparr>)"

text \<open>A document holds one \<open>[loadbalancer]\<close> table, whose backends are made first.\<close>

definition target_pairs_try_from :: "(string \<times> u32) list \<Rightarrow> string + backend_target list" where
  "target_pairs_try_from data =
     foldr (\<lambda>(url, weight) rest. bind_result (backend_try_new url weight) (\<lambda>b. bind_result rest (\<lambda>bs. Inr (b # bs))))
       data (Inr [])"

definition loadbalancer_try_from ::
  "balancing_strategy \<times> (string \<times> u32) list \<Rightarrow> string + loadbalancer_settings" where
  "loadbalancer_try_from d = (case d of (strategy, data) \<Rightarrow>
     bind_result (target_pairs_try_from data) (loadbalancer_try_new strategy))"

definition loadbalancer_parse_config ::
  "(balancing_strategy \<times> (string \<times> u32) list, 'te) toml_reader \<Rightarrow> string \<Rightarrow>
     channel_config_error + loadbalancer_settings" where
  "loadbalancer_parse_config tr toml_text =
     map_err (\<lambda>e. InvalidOptionValue ''loadbalancer'' (toml_error_text tr e))
       (deserialize_with tr loadbalancer_try_from (\<lambda>s. s) toml_text)"

end
