(* ===== verification/Endpoint_Transport.thy ===== *)
theory Endpoint_Transport
  imports Channel_Config
begin

text \<open>
  The client of one endpoint, or of several backends behind a load balancer:
  \<open>EndpointTransport\<close> of \<open>grpc-egress-transport-spi\<close>. The pool belongs to another crate and is a
  parameter (\<open>balancer\<close>), as are the clients of the backends; what the pool knows is part of
  the world. Every call asks the pool, is made once, and its outcome is reported.
\<close>

section \<open>The pool, as the endpoint sees it\<close>

datatype pool_strategy = PoolRoundRobin | PoolWeighted | PoolLeastConnections

record pool_backend_config =
  pbc_url :: string
  pbc_weight :: u32

record pool_config =
  pool_strategy :: pool_strategy
  pool_backends :: "pool_backend_config list"

record 'id pool_backend =
  pb_id :: 'id
  pb_url :: string

datatype pool_outcome = PoolSuccess | PoolFailure string

record ('w, 'p, 'id, 'be) balancer =
  bal_build_pool :: "pool_config \<Rightarrow> ('w, 'be + 'p) io"
  bal_select :: "'p \<Rightarrow> ('w, 'be + 'id pool_backend) io"
  bal_report_outcome :: "'p \<Rightarrow> 'id \<Rightarrow> pool_outcome \<Rightarrow> 'w \<Rightarrow> 'w"
  bal_error_text :: "'be \<Rightarrow> string"

section \<open>The endpoint\<close>

record ('c, 'p) endpoint_transport =
  et_clients :: "(string \<times> 'c) list"
  et_pool :: "'p option"

record ('c, 'id) picked =
  pk_client :: 'c
  pk_backend :: "'id pool_backend option"

fun to_pool_strategy :: "balancing_strategy \<Rightarrow> pool_strategy" where
  "to_pool_strategy RoundRobin = PoolRoundRobin"
| "to_pool_strategy Weighted = PoolWeighted"
| "to_pool_strategy LeastConnections = PoolLeastConnections"

definition to_pool_config :: "loadbalancer_settings \<Rightarrow> pool_config" where
  "to_pool_config settings =
     \<lparr>pool_strategy = to_pool_strategy (lb_strategy settings),
      pool_backends = map (\<lambda>b. \<lparr>pbc_url = bt_url b, pbc_weight = bt_weight b\<rparr>) (lb_backends settings)\<rparr>"

definition create_pool ::
  "('w, 'p, 'id, 'be) balancer \<Rightarrow> loadbalancer_settings \<Rightarrow> ('w, channel_config_error + 'p) io" where
  "create_pool bal settings w =
     (case bal_build_pool bal (to_pool_config settings) w of
        (r, w') \<Rightarrow> (map_err (\<lambda>e. InvalidOptionValue ''loadbalancer'' (bal_error_text bal e)) r, w'))"

definition endpoint_try_from ::
  "('w, 'p, 'id, 'be) balancer \<Rightarrow> (string \<times> 'c) list \<Rightarrow> loadbalancer_settings option \<Rightarrow>
     ('w, channel_config_error + ('c, 'p) endpoint_transport) io" where
  "endpoint_try_from bal clients balancing =
     io_bind
       (case balancing of
          Some settings \<Rightarrow> io_bind (create_pool bal settings) (\<lambda>p w. (Inr (Some p), w))
        | None \<Rightarrow> (\<lambda>w. (Inr None, w)))
       (\<lambda>pool w. (Inr \<lparr>et_clients = clients, et_pool = pool\<rparr>, w))"

definition refuse_call :: "string \<Rightarrow> status_code \<Rightarrow> string \<Rightarrow> 'md call_error" where
  "refuse_call path code reason = Transport path code reason"

definition pick ::
  "('w, 'p, 'id, 'be) balancer \<Rightarrow> ('c, 'p) endpoint_transport \<Rightarrow> string \<Rightarrow>
     ('w, 'md call_error + ('c, 'id) picked) io" where
  "pick bal et path w =
     (case et_pool et of
        None \<Rightarrow>
          (case et_clients et of
             [] \<Rightarrow> (Inl (refuse_call path Internal ''the endpoint has no client''), w)
           | (url, client) # rest \<Rightarrow> (Inr \<lparr>pk_client = client, pk_backend = None\<rparr>, w))
      | Some pool \<Rightarrow>
          (case bal_select bal pool w of
             (Inl e, w') \<Rightarrow> (Inl (refuse_call path Unavailable (bal_error_text bal e)), w')
           | (Inr backend, w') \<Rightarrow>
               (case find (\<lambda>(url, client). url = pb_url backend) (et_clients et) of
                  None \<Rightarrow> (Inl (refuse_call path Internal ''the pool picked a backend that has no client''), w')
                | Some (url, client) \<Rightarrow> (Inr \<lparr>pk_client = client, pk_backend = Some backend\<rparr>, w'))))"

text \<open>The text of a call error is written by the crate it belongs to: a parameter.\<close>

fun judge_outcome :: "('md call_error \<Rightarrow> string) \<Rightarrow> 'md call_error + 'r \<Rightarrow> pool_outcome" where
  "judge_outcome show_error (Inl (Transport path code reason)) =
     (if code = Unavailable \<or> code = Unknown then PoolFailure (show_error (Transport path code reason))
      else PoolSuccess)"
| "judge_outcome show_error (Inl (Status path code message details trailers)) =
     (if code = DeadlineExceeded then PoolFailure (show_error (Status path code message details trailers))
      else PoolSuccess)"
| "judge_outcome show_error result = PoolSuccess"

definition report ::
  "('w, 'p, 'id, 'be) balancer \<Rightarrow> ('md call_error \<Rightarrow> string) \<Rightarrow> ('c, 'p) endpoint_transport \<Rightarrow>
     ('c, 'id) picked \<Rightarrow> 'md call_error + 'r \<Rightarrow> 'w \<Rightarrow> 'w" where
  "report bal show_error et pk result w =
     (case (et_pool et, pk_backend pk) of
        (Some pool, Some backend) \<Rightarrow> bal_report_outcome bal pool (pb_id backend) (judge_outcome show_error result) w
      | _ \<Rightarrow> w)"

section \<open>The calls\<close>

text \<open>What each of the eight calls does, for the call \<open>send\<close> of the picked client.\<close>

definition endpoint_call ::
  "('w, 'p, 'id, 'be) balancer \<Rightarrow> ('md call_error \<Rightarrow> string) \<Rightarrow> ('c, 'p) endpoint_transport \<Rightarrow> string \<Rightarrow>
     ('c \<Rightarrow> ('w, 'md call_error + 'r) io) \<Rightarrow> ('w, 'md call_error + 'r) io" where
  "endpoint_call bal show_error et path send w =
     (case pick bal et path w of
        (Inl e, w1) \<Rightarrow> (Inl e, w1)
      | (Inr pk, w1) \<Rightarrow>
          (case send (pk_client pk) w1 of
             (result, w2) \<Rightarrow> (result, report bal show_error et pk result w2)))"

definition endpoint_typed ::
  "('w, 'p, 'id, 'be) balancer \<Rightarrow> ('md call_error \<Rightarrow> string) \<Rightarrow>
     (('w, 'i, 'q, 'o, 's, 'bq, 'bs, 'md, 'h) client, 'p) endpoint_transport \<Rightarrow>
     ('w, 'i, 'q, 'o, 's, 'md, 'h) transport" where
  "endpoint_typed bal show_error et =
     \<lparr>call_unary = (\<lambda>request. endpoint_call bal show_error et (req_path request)
        (\<lambda>c. call_unary (typed c) request)),
      call_server_stream = (\<lambda>request. endpoint_call bal show_error et (req_path request)
        (\<lambda>c. call_server_stream (typed c) request)),
      call_client_stream = (\<lambda>request. endpoint_call bal show_error et (req_path request)
        (\<lambda>c. call_client_stream (typed c) request)),
      call_bidi_stream = (\<lambda>request. endpoint_call bal show_error et (req_path request)
        (\<lambda>c. call_bidi_stream (typed c) request))\<rparr>"

text \<open>A raw call takes the request apart and builds it again.\<close>

definition same_request :: "('i, 'md) call_request \<Rightarrow> ('i, 'md) call_request" where
  "same_request request =
     \<lparr>req_path = req_path request, req_body = req_body request, req_options = req_options request\<rparr>"

definition endpoint_raw ::
  "('w, 'p, 'id, 'be) balancer \<Rightarrow> ('md call_error \<Rightarrow> string) \<Rightarrow>
     (('w, 'i, 'q, 'o, 's, 'bq, 'bs, 'md, 'h) client, 'p) endpoint_transport \<Rightarrow>
     ('w, u8 list, 'bq, u8 list, 'bs, 'md, 'h) transport" where
  "endpoint_raw bal show_error et =
     \<lparr>call_unary = (\<lambda>request. endpoint_call bal show_error et (req_path request)
        (\<lambda>c. call_unary (raw c) (same_request request))),
      call_server_stream = (\<lambda>request. endpoint_call bal show_error et (req_path request)
        (\<lambda>c. call_server_stream (raw c) (same_request request))),
      call_client_stream = (\<lambda>request. endpoint_call bal show_error et (req_path request)
        (\<lambda>c. call_client_stream (raw c) (same_request request))),
      call_bidi_stream = (\<lambda>request. endpoint_call bal show_error et (req_path request)
        (\<lambda>c. call_bidi_stream (raw c) (same_request request)))\<rparr>"

definition endpoint_client ::
  "('w, 'p, 'id, 'be) balancer \<Rightarrow> ('md call_error \<Rightarrow> string) \<Rightarrow>
     (('w, 'i, 'q, 'o, 's, 'bq, 'bs, 'md, 'h) client, 'p) endpoint_transport \<Rightarrow>
     ('w, 'i, 'q, 'o, 's, 'bq, 'bs, 'md, 'h) client" where
  "endpoint_client bal show_error et =
     \<lparr>typed = endpoint_typed bal show_error et, raw = endpoint_raw bal show_error et\<rparr>"

section \<open>The pool's contract\<close>

text \<open>What the endpoint relies on, as the pool's crate documents it: a pool picks the backends it
  was built from.\<close>

definition picks_configured :: "('w, 'p, 'id, 'be) balancer \<Rightarrow> bool" where
  "picks_configured bal \<longleftrightarrow>
     (\<forall>cfg w p w'. bal_build_pool bal cfg w = (Inr p, w') \<longrightarrow>
        (\<forall>v b v'. bal_select bal p v = (Inr b, v') \<longrightarrow> pb_url b \<in> pbc_url ` set (pool_backends cfg)))"

text \<open>An endpoint is complete when its pool can only pick a backend that has a client.\<close>

definition complete_endpoint :: "('w, 'p, 'id, 'be) balancer \<Rightarrow> ('c, 'p) endpoint_transport \<Rightarrow> bool" where
  "complete_endpoint bal et \<longleftrightarrow>
     (case et_pool et of
        None \<Rightarrow> et_clients et \<noteq> []
      | Some pool \<Rightarrow> \<forall>v b v'. bal_select bal pool v = (Inr b, v') \<longrightarrow> pb_url b \<in> fst ` set (et_clients et))"

lemma pool_urls [simp]:
  "pbc_url ` set (pool_backends (to_pool_config settings)) = bt_url ` set (lb_backends settings)"
  by (simp add: to_pool_config_def image_image)

lemma endpoint_try_from_complete:
  assumes "picks_configured bal"
    and "endpoint_try_from bal clients balancing w = (Inr et, w')"
    and "case balancing of None \<Rightarrow> clients \<noteq> []
      | Some settings \<Rightarrow> bt_url ` set (lb_backends settings) \<subseteq> fst ` set clients"
  shows "complete_endpoint bal et"
proof (cases balancing)
  case None
  with assms show ?thesis by (auto simp: endpoint_try_from_def complete_endpoint_def)
next
  case (Some settings)
  with assms(2) obtain p where et: "et = \<lparr>et_clients = clients, et_pool = Some p\<rparr>"
    and p: "bal_build_pool bal (to_pool_config settings) w = (Inr p, w')"
    by (auto simp: endpoint_try_from_def create_pool_def split: prod.splits)
  have "pb_url b \<in> bt_url ` set (lb_backends settings)" if "bal_select bal p v = (Inr b, v')" for v b v'
    using assms(1) p that pool_urls [of settings] unfolding picks_configured_def by metis
  then show ?thesis
    using assms(3) Some et by (auto simp: complete_endpoint_def)
qed

end
