(* ===== verification/Headers.thy ===== *)
theory Headers
  imports Call_Contract
begin

text \<open>
  Request headers: \<open>StdMetadataExtender\<close>, which makes a metadata value from another one with
  entries added, and \<open>PendingCall\<close>, the call an interceptor may read and change. Metadata is a
  type of the call contract, so its view and its builder are parameters; what their users rely
  on is \<open>lawful_metadata\<close>. The trait \<open>OutboundCall\<close> is a record of operations and a contract.
\<close>

section \<open>StdMetadataExtender\<close>

fun append_entries :: "('md, 'mb, 'me) metadata_builder \<Rightarrow> (string \<times> string) list \<Rightarrow> 'mb \<Rightarrow> 'me + 'mb" where
  "append_entries mb [] b = Inr b"
| "append_entries mb ((key, value) # rest) b =
     bind_result (mb_append mb b key value) (append_entries mb rest)"

fun append_binaries ::
  "('md, 'mb, 'me) metadata_builder \<Rightarrow> ('me + string \<times> u8 list) list \<Rightarrow> 'mb \<Rightarrow> 'me + 'mb" where
  "append_binaries mb [] b = Inr b"
| "append_binaries mb (entry # rest) b =
     bind_result entry (\<lambda>(key, value).
       bind_result (mb_append_binary mb b key value) (append_binaries mb rest))"

definition start_builder ::
  "('v, 'me) metadata_view \<Rightarrow> ('md, 'mb, 'me) metadata_builder \<Rightarrow> 'v \<Rightarrow> 'me + 'mb" where
  "start_builder view mb source =
     bind_result (get_entries view source) (\<lambda>entries.
       bind_result (append_entries mb entries (mb_create mb)) (\<lambda>b.
         bind_result (get_binary_entries view source) (\<lambda>binaries.
           append_binaries mb binaries b)))"

definition append_header ::
  "('md, 'me) metadata_view \<Rightarrow> ('md, 'mb, 'me) metadata_builder \<Rightarrow> 'md \<Rightarrow> string \<Rightarrow> string \<Rightarrow> 'me + 'md" where
  "append_header view mb source key value =
     bind_result (start_builder view mb source) (\<lambda>b.
       bind_result (mb_append mb b key value) (\<lambda>b'. Inr (mb_build mb b')))"

fun extend_loop ::
  "('md, 'me) metadata_view \<Rightarrow> ('md, 'mb, 'me) metadata_builder \<Rightarrow> 'md \<Rightarrow>
     (string \<times> string) list \<Rightarrow> 'mb \<Rightarrow> 'me + 'mb" where
  "extend_loop view mb source [] b = Inr b"
| "extend_loop view mb source ((key, value) # rest) b =
     bind_result (get_values view source key) (\<lambda>values.
       if values = []
       then bind_result (mb_append mb b key value) (extend_loop view mb source rest)
       else extend_loop view mb source rest b)"

definition extend_headers ::
  "('md, 'me) metadata_view \<Rightarrow> ('md, 'mb, 'me) metadata_builder \<Rightarrow> 'md \<Rightarrow> (string \<times> string) list \<Rightarrow> 'me + 'md" where
  "extend_headers view mb source added =
     bind_result (start_builder view mb source) (\<lambda>b.
       bind_result (extend_loop view mb source added b) (\<lambda>b'. Inr (mb_build mb b')))"

definition copy_metadata ::
  "('v, 'me) metadata_view \<Rightarrow> ('md, 'mb, 'me) metadata_builder \<Rightarrow> 'v \<Rightarrow> 'me + 'md" where
  "copy_metadata view mb source = bind_result (start_builder view mb source) (\<lambda>b. Inr (mb_build mb b))"

section \<open>PendingCall\<close>

record 'md pending_call =
  pc_path :: string
  pc_timeout :: "duration option"
  pc_metadata :: 'md

definition pending_from :: "string \<Rightarrow> 'md call_options \<Rightarrow> 'md pending_call" where
  "pending_from path options =
     \<lparr>pc_path = path, pc_timeout = opt_timeout options, pc_metadata = opt_metadata options\<rparr>"

definition pending_options :: "'md pending_call \<Rightarrow> 'md call_options" where
  "pending_options call = create_options (pc_timeout call) (pc_metadata call)"

text \<open>The operations of the trait \<open>OutboundCall\<close>.\<close>

record ('c, 'md) outbound_call =
  oc_path :: "'c \<Rightarrow> string"
  oc_timeout :: "'c \<Rightarrow> duration option"
  oc_set_timeout :: "duration option \<Rightarrow> 'c \<Rightarrow> 'c"
  oc_has_header :: "string \<Rightarrow> 'c \<Rightarrow> bool"
  oc_header_values :: "string \<Rightarrow> 'c \<Rightarrow> string list"
  oc_add_header :: "string \<Rightarrow> string \<Rightarrow> 'c \<Rightarrow> 'md call_error + 'c"

definition header_values :: "('md, 'me) metadata_view \<Rightarrow> string \<Rightarrow> 'md pending_call \<Rightarrow> string list" where
  "header_values view key call =
     (case get_values view (pc_metadata call) key of Inl e \<Rightarrow> [] | Inr vs \<Rightarrow> vs)"

definition has_header :: "('md, 'me) metadata_view \<Rightarrow> string \<Rightarrow> 'md pending_call \<Rightarrow> bool" where
  "has_header view key call \<longleftrightarrow>
     \<not> (case get_values view (pc_metadata call) key of Inl e \<Rightarrow> [] | Inr vs \<Rightarrow> vs) = []"

definition set_timeout :: "duration option \<Rightarrow> 'md pending_call \<Rightarrow> 'md pending_call" where
  "set_timeout t call = call\<lparr>pc_timeout := t\<rparr>"

text \<open>\<open>show_me\<close> is the text of a metadata error.\<close>

definition add_header ::
  "('md, 'me) metadata_view \<Rightarrow> ('md, 'mb, 'me) metadata_builder \<Rightarrow> ('me \<Rightarrow> string) \<Rightarrow>
     string \<Rightarrow> string \<Rightarrow> 'md pending_call \<Rightarrow> 'md call_error + 'md pending_call" where
  "add_header view mb show_me key value call =
     bind_result
       (map_err (\<lambda>e. Transport (pc_path call) InvalidArgument (show_me e))
          (append_header view mb (pc_metadata call) key value))
       (\<lambda>m. Inr (call\<lparr>pc_metadata := m\<rparr>))"

definition pending_api ::
  "('md, 'me) metadata_view \<Rightarrow> ('md, 'mb, 'me) metadata_builder \<Rightarrow> ('me \<Rightarrow> string) \<Rightarrow>
     ('md pending_call, 'md) outbound_call" where
  "pending_api view mb show_me =
     \<lparr>oc_path = pc_path, oc_timeout = pc_timeout, oc_set_timeout = set_timeout,
      oc_has_header = has_header view, oc_header_values = header_values view,
      oc_add_header = add_header view mb show_me\<rparr>"

section \<open>The contract of an outbound call\<close>

text \<open>
  What the documentation of the trait promises an interceptor, whatever the metadata is. The
  programs below are what an interceptor can do with it.
\<close>

locale outbound_call_contract =
  fixes api :: "('c, 'md) outbound_call"
  assumes path_set_timeout: "oc_path api (oc_set_timeout api t c) = oc_path api c"
    and timeout_set_timeout: "oc_timeout api (oc_set_timeout api t c) = t"
    and values_set_timeout: "oc_header_values api k (oc_set_timeout api t c) = oc_header_values api k c"
    and has_header_iff: "oc_has_header api k c \<longleftrightarrow> oc_header_values api k c \<noteq> []"
    and path_add_header: "oc_add_header api k v c = Inr c' \<Longrightarrow> oc_path api c' = oc_path api c"
    and timeout_add_header: "oc_add_header api k v c = Inr c' \<Longrightarrow> oc_timeout api c' = oc_timeout api c"
    and add_header_refuses: "oc_add_header api k v c = Inl e \<Longrightarrow>
      \<exists>reason. e = Transport (oc_path api c) InvalidArgument reason"

text \<open>
  What an interceptor does with the call it is given: it asks and changes it through the
  operations of the trait only, any number of times, and ends with a result and the world
  it leaves.
\<close>

datatype ('w, 'md) call_program =
    Finish "'md call_error + unit" 'w
  | AskPath "string \<Rightarrow> ('w, 'md) call_program"
  | AskTimeout "duration option \<Rightarrow> ('w, 'md) call_program"
  | SetTimeout "duration option" "('w, 'md) call_program"
  | HasHeader string "bool \<Rightarrow> ('w, 'md) call_program"
  | HeaderValues string "string list \<Rightarrow> ('w, 'md) call_program"
  | AddHeader string string "('md call_error + unit) \<Rightarrow> ('w, 'md) call_program"

primrec run_program ::
  "('w, 'md) call_program \<Rightarrow> ('c, 'md) outbound_call \<Rightarrow> 'c \<Rightarrow> ('md call_error + unit) \<times> 'c \<times> 'w" where
  "run_program (Finish r w) api c = (r, c, w)"
| "run_program (AskPath k) api c = run_program (k (oc_path api c)) api c"
| "run_program (AskTimeout k) api c = run_program (k (oc_timeout api c)) api c"
| "run_program (SetTimeout t p) api c = run_program p api (oc_set_timeout api t c)"
| "run_program (HasHeader key k) api c = run_program (k (oc_has_header api key c)) api c"
| "run_program (HeaderValues key k) api c = run_program (k (oc_header_values api key c)) api c"
| "run_program (AddHeader key value k) api c =
     (case oc_add_header api key value c of
        Inl e \<Rightarrow> run_program (k (Inl e)) api c
      | Inr c' \<Rightarrow> run_program (k (Inr ())) api c')"

text \<open>A program keeps whatever each change of the call keeps.\<close>

lemma run_program_keeps:
  assumes "\<And>t c. P c \<Longrightarrow> P (oc_set_timeout api t c)"
    and "\<And>k v c c'. P c \<Longrightarrow> oc_add_header api k v c = Inr c' \<Longrightarrow> P c'"
    and "P c"
  shows "P (fst (snd (run_program p api c)))"
  using assms(3)
proof (induction p arbitrary: c)
  case (AddHeader key v k)
  show ?case
    using AddHeader.IH AddHeader.prems assms(2) [OF AddHeader.prems]
    by (cases "oc_add_header api key v c") (auto simp: rangeI)
qed (simp_all add: assms(1) rangeI)

context outbound_call_contract
begin

text \<open>No interceptor changes the path of a call.\<close>

lemma run_program_path: "oc_path api (fst (snd (run_program p api c))) = oc_path api c"
  by (rule run_program_keeps [where P = "\<lambda>d. oc_path api d = oc_path api c"])
    (simp_all add: path_set_timeout path_add_header)

lemma add_header_keeps_timeout:
  "oc_timeout api (case oc_add_header api k v c of Inl e \<Rightarrow> c | Inr c' \<Rightarrow> c') = oc_timeout api c"
  by (cases "oc_add_header api k v c") (simp_all add: timeout_add_header)

end

interpretation pending: outbound_call_contract "pending_api view mb show_me" for view mb show_me
  by unfold_locales
    (auto simp: pending_api_def set_timeout_def header_values_def has_header_def add_header_def
      bind_result_def map_err_def split: sum.splits)

section \<open>Metadata as its users rely on it\<close>

text \<open>
  \<open>form\<close> is the form of a key in a metadata value, \<open>texts\<close> the text entries a builder holds. An
  append that succeeds adds one entry at the end, a binary append no text entry; every value
  can be listed, lists keys in their form, and answers a key with the values of its entries.
\<close>

definition lawful_metadata ::
  "('md, 'me) metadata_view \<Rightarrow> ('md, 'mb, 'me) metadata_builder \<Rightarrow> (string \<Rightarrow> string) \<Rightarrow>
     ('mb \<Rightarrow> (string \<times> string) list) \<Rightarrow> bool" where
  "lawful_metadata view mb form texts \<longleftrightarrow>
     texts (mb_create mb) = [] \<and>
     (\<forall>b k v b'. mb_append mb b k v = Inr b' \<longrightarrow> texts b' = texts b @ [(form k, v)]) \<and>
     (\<forall>b k v b'. mb_append_binary mb b k v = Inr b' \<longrightarrow> texts b' = texts b) \<and>
     (\<forall>b. get_entries view (mb_build mb b) = Inr (texts b)) \<and>
     (\<forall>m. \<exists>es. get_entries view m = Inr es \<and> (\<forall>e \<in> set es. form (fst e) = fst e)) \<and>
     (\<forall>m k vs es. get_values view m k = Inr vs \<longrightarrow> get_entries view m = Inr es \<longrightarrow>
        vs = map snd (filter (\<lambda>e. fst e = form k) es))"

definition entries_of :: "('v, 'me) metadata_view \<Rightarrow> 'v \<Rightarrow> (string \<times> string) list" where
  "entries_of view m = (case get_entries view m of Inl e \<Rightarrow> [] | Inr es \<Rightarrow> es)"

lemma append_entries_texts:
  assumes "lawful_metadata view mb form texts" "append_entries mb es b = Inr b'"
  shows "texts b' = texts b @ map (\<lambda>(k, v). (form k, v)) es"
  using assms(2)
proof (induction es arbitrary: b)
  case (Cons e es)
  then show ?case
    using assms(1) by (cases e) (auto simp: lawful_metadata_def)
qed simp

lemma append_binaries_texts:
  assumes "lawful_metadata view mb form texts" "append_binaries mb es b = Inr b'"
  shows "texts b' = texts b"
  using assms(2)
proof (induction es arbitrary: b)
  case (Cons e es)
  then show ?case
    using assms(1) by (auto simp: lawful_metadata_def)
qed simp

lemma map_form_id: "\<forall>e \<in> set es. form (fst e) = fst e \<Longrightarrow> map (\<lambda>(k, v). (form k, v)) es = es"
  by (induction es) auto

lemma start_builder_texts:
  assumes "lawful_metadata view mb form texts" "start_builder view mb m = Inr b"
  shows "texts b = entries_of view m"
proof -
  obtain es where es: "get_entries view m = Inr es" "\<forall>e \<in> set es. form (fst e) = fst e"
    using assms(1) unfolding lawful_metadata_def by blast
  have "texts (mb_create mb) = []"
    using assms(1) by (simp add: lawful_metadata_def)
  then show ?thesis
    using assms(2) es append_entries_texts [OF assms(1)] append_binaries_texts [OF assms(1)]
    by (fastforce simp: start_builder_def entries_of_def map_form_id)
qed

lemma entries_build: "lawful_metadata view mb form texts \<Longrightarrow> entries_of view (mb_build mb b) = texts b"
  by (simp add: lawful_metadata_def entries_of_def)

lemma append_header_entries:
  assumes "lawful_metadata view mb form texts" "append_header view mb m k v = Inr m'"
  shows "entries_of view m' = entries_of view m @ [(form k, v)]"
proof -
  obtain b b' where "start_builder view mb m = Inr b" "mb_append mb b k v = Inr b'" "m' = mb_build mb b'"
    using assms(2) by (auto simp: append_header_def)
  then show ?thesis
    using assms(1) start_builder_texts [OF assms(1)] entries_build [OF assms(1)]
    by (auto simp: lawful_metadata_def)
qed

lemma copy_metadata_entries:
  assumes "lawful_metadata view mb form texts" "copy_metadata view mb m = Inr m'"
  shows "entries_of view m' = entries_of view m"
  using assms start_builder_texts [OF assms(1)] entries_build [OF assms(1)]
  by (auto simp: copy_metadata_def)

lemma get_values_entries:
  assumes "lawful_metadata view mb form texts" "get_values view m k = Inr vs"
  shows "vs = map snd (filter (\<lambda>e. fst e = form k) (entries_of view m))"
proof -
  obtain es where "get_entries view m = Inr es"
    using assms(1) unfolding lawful_metadata_def by blast
  then show ?thesis
    using assms unfolding lawful_metadata_def entries_of_def by fastforce
qed

definition carries :: "('md, 'me) metadata_view \<Rightarrow> (string \<Rightarrow> string) \<Rightarrow> 'md \<Rightarrow> string \<Rightarrow> bool" where
  "carries view form m k \<longleftrightarrow> form k \<in> fst ` set (entries_of view m)"

lemma extend_loop_texts:
  assumes "lawful_metadata view mb form texts" "extend_loop view mb m added b = Inr b'"
  shows "texts b' = texts b @ map (\<lambda>(k, v). (form k, v)) (filter (\<lambda>(k, v). \<not> carries view form m k) added)"
  using assms(2)
proof (induction added arbitrary: b)
  case (Cons kv added)
  obtain k v where kv: "kv = (k, v)" by fastforce
  obtain vs where vs: "get_values view m k = Inr vs"
    using Cons.prems kv by auto
  have absent: "vs = [] \<longleftrightarrow> \<not> carries view form m k"
    using get_values_entries [OF assms(1) vs] by (auto simp: carries_def filter_empty_conv image_iff)
  show ?case
    using Cons kv vs absent assms(1) by (auto simp: lawful_metadata_def split: if_splits)
qed simp

lemma extend_headers_entries:
  assumes "lawful_metadata view mb form texts" "extend_headers view mb m added = Inr m'"
  shows "entries_of view m' = entries_of view m @
    map (\<lambda>(k, v). (form k, v)) (filter (\<lambda>(k, v). \<not> carries view form m k) added)"
proof -
  obtain b b' where "start_builder view mb m = Inr b" "extend_loop view mb m added b = Inr b'"
      "m' = mb_build mb b'"
    using assms(2) by (auto simp: extend_headers_def)
  then show ?thesis
    using extend_loop_texts [OF assms(1)] start_builder_texts [OF assms(1)] entries_build [OF assms(1)]
    by simp
qed

text \<open>A program run on a pending call only adds headers, after the ones the call carries.\<close>

lemma add_header_entries:
  assumes "lawful_metadata view mb form texts" "add_header view mb show_me k v c = Inr c'"
  shows "entries_of view (pc_metadata c') = entries_of view (pc_metadata c) @ [(form k, v)]"
  using assms append_header_entries [OF assms(1)] by (auto simp: add_header_def)

lemma run_program_appends:
  assumes "lawful_metadata view mb form texts"
  shows "\<exists>added. entries_of view (pc_metadata (fst (snd (run_program p (pending_api view mb show_me) c)))) =
    entries_of view (pc_metadata c) @ added"
  by (rule run_program_keeps [where P = "\<lambda>d. \<exists>added. entries_of view (pc_metadata d) =
      entries_of view (pc_metadata c) @ added"])
    (use add_header_entries [OF assms] in \<open>auto simp: pending_api_def set_timeout_def\<close>)

section \<open>A concrete metadata\<close>

text \<open>For the witnesses: a list of text entries, keys in lower case.\<close>

definition list_view :: "((string \<times> string) list, unit) metadata_view" where
  "list_view =
     \<lparr>get_values = (\<lambda>m k. Inr (map snd (filter (\<lambda>e. to_ascii_lowercase (fst e) = to_ascii_lowercase k) m))),
      get_entries = (\<lambda>m. Inr (map (\<lambda>(k, v). (to_ascii_lowercase k, v)) m)),
      get_binary_entries = (\<lambda>m. Inr [])\<rparr>"

definition list_builder :: "((string \<times> string) list, (string \<times> string) list, unit) metadata_builder" where
  "list_builder =
     \<lparr>mb_create = [], mb_append = (\<lambda>b k v. if k = '''' then Inl () else Inr (b @ [(to_ascii_lowercase k, v)])),
      mb_append_binary = (\<lambda>b k v. Inr b), mb_build = (\<lambda>b. b)\<rparr>"

definition lowered :: "(string \<times> string) list \<Rightarrow> (string \<times> string) list" where
  "lowered b = map (\<lambda>(k, v). (to_ascii_lowercase k, v)) b"

lemma list_lawful: "lawful_metadata list_view list_builder to_ascii_lowercase lowered"
  by (auto simp: lawful_metadata_def list_view_def list_builder_def lowered_def filter_map comp_def
    case_prod_beta split: if_splits)

end
