(* ===== verification/Interceptors.thy ===== *)
theory Interceptors
  imports Headers
begin

text \<open>
  The interceptors of \<open>grpc-egress-transport-api\<close> and \<open>-std\<close>: the trait as a record, what a
  reply shows them, the chain that runs them (\<open>StdGrpcEgressInterceptorChain\<close>) with the contract
  of its trait, and the trace-context interceptor.
\<close>

section \<open>Interceptors\<close>

record 'md inbound_reply =
  ir_path :: string
  ir_headers :: 'md
  ir_trailers :: 'md

record ('w, 'md) interceptor =
  before_call :: "'w \<Rightarrow> ('w, 'md) call_program"
  after_call :: "'md inbound_reply \<Rightarrow> ('w, 'md call_error + unit) io"
  on_event :: "('md, 'md) call_event \<Rightarrow> 'w \<Rightarrow> 'w"

section \<open>The chain\<close>

record ('w, 'md) std_chain =
  interceptors :: "('w, 'md) interceptor list"

definition chain_default :: "('w, 'md) std_chain" where
  "chain_default = \<lparr>interceptors = []\<rparr>"

definition chain_push :: "('w, 'md) interceptor \<Rightarrow> ('w, 'md) std_chain \<Rightarrow> ('w, 'md) std_chain" where
  "chain_push i ch = ch\<lparr>interceptors := interceptors ch @ [i]\<rparr>"

definition chain_len :: "('w, 'md) std_chain \<Rightarrow> nat" where
  "chain_len ch = length (interceptors ch)"

definition chain_is_empty :: "('w, 'md) std_chain \<Rightarrow> bool" where
  "chain_is_empty ch \<longleftrightarrow> interceptors ch = []"

fun before_loop ::
  "('c, 'md) outbound_call \<Rightarrow> ('w, 'md) interceptor list \<Rightarrow> 'c \<Rightarrow> 'w \<Rightarrow>
     ('md call_error + unit) \<times> 'c \<times> 'w" where
  "before_loop api [] c w = (Inr (), c, w)"
| "before_loop api (i # rest) c w =
     (case run_program (before_call i w) api c of
        (Inl e, c', w') \<Rightarrow> (Inl e, c', w')
      | (Inr u, c', w') \<Rightarrow> before_loop api rest c' w')"

definition chain_run_before ::
  "('c, 'md) outbound_call \<Rightarrow> ('w, 'md) std_chain \<Rightarrow> 'c \<Rightarrow> 'w \<Rightarrow>
     ('md call_error + unit) \<times> 'c \<times> 'w" where
  "chain_run_before api ch c w = before_loop api (interceptors ch) c w"

fun after_loop ::
  "('w, 'md) interceptor list \<Rightarrow> 'md inbound_reply \<Rightarrow> ('w, 'md call_error + unit) io" where
  "after_loop [] reply w = (Inr (), w)"
| "after_loop (i # rest) reply w =
     (case after_call i reply w of
        (Inl e, w') \<Rightarrow> (Inl e, w')
      | (Inr u, w') \<Rightarrow> after_loop rest reply w')"

definition chain_run_after ::
  "('w, 'md) std_chain \<Rightarrow> 'md inbound_reply \<Rightarrow> ('w, 'md call_error + unit) io" where
  "chain_run_after ch reply w = after_loop (interceptors ch) reply w"

definition chain_run_event :: "('w, 'md) std_chain \<Rightarrow> ('md, 'md) call_event \<Rightarrow> 'w \<Rightarrow> 'w" where
  "chain_run_event ch ev w = fold (\<lambda>i. on_event i ev) (interceptors ch) w"

section \<open>The contract of a chain\<close>

text \<open>
  The trait \<open>GrpcEgressInterceptorChain\<close> over the list of its members, in the order in which they
  were added: an operation on a chain is that operation of each member in order, until one fails.
\<close>

locale interceptor_chain =
  fixes members :: "'ch \<Rightarrow> ('w, 'md) interceptor list"
    and push :: "('w, 'md) interceptor \<Rightarrow> 'ch \<Rightarrow> 'ch"
    and len :: "'ch \<Rightarrow> nat"
    and is_empty :: "'ch \<Rightarrow> bool"
    and run_before :: "('c, 'md) outbound_call \<Rightarrow> 'ch \<Rightarrow> 'c \<Rightarrow> 'w \<Rightarrow> ('md call_error + unit) \<times> 'c \<times> 'w"
    and run_after :: "'ch \<Rightarrow> 'md inbound_reply \<Rightarrow> ('w, 'md call_error + unit) io"
    and run_event :: "'ch \<Rightarrow> ('md, 'md) call_event \<Rightarrow> 'w \<Rightarrow> 'w"
  assumes members_push: "members (push i ch) = members ch @ [i]"
    and len_members: "len ch = length (members ch)"
    and is_empty_iff: "is_empty ch \<longleftrightarrow> len ch = 0"
    and before_empty: "members ch = [] \<Longrightarrow> run_before api ch c w = (Inr (), c, w)"
    and before_push: "run_before api (push i ch) c w =
      (case run_before api ch c w of
         (Inl e, c', w') \<Rightarrow> (Inl e, c', w')
       | (Inr u, c', w') \<Rightarrow> run_program (before_call i w') api c')"
    and after_empty: "members ch = [] \<Longrightarrow> run_after ch reply w = (Inr (), w)"
    and after_push: "run_after (push i ch) reply w =
      (case run_after ch reply w of
         (Inl e, w') \<Rightarrow> (Inl e, w')
       | (Inr u, w') \<Rightarrow> after_call i reply w')"
    and event_empty: "members ch = [] \<Longrightarrow> run_event ch ev w = w"
    and event_push: "run_event (push i ch) ev w = on_event i ev (run_event ch ev w)"
begin

lemma not_empty_push: "\<not> is_empty (push i ch)"
  by (simp add: is_empty_iff len_members members_push)

lemma len_push: "len (push i ch) = Suc (len ch)"
  by (simp add: len_members members_push)

text \<open>Once a member has failed, an interceptor added later does not run.\<close>

lemma failed_before_stops:
  "run_before api ch c w = (Inl e, c', w') \<Longrightarrow> run_before api (push i ch) c w = (Inl e, c', w')"
  by (simp add: before_push)

lemma failed_after_stops: "run_after ch reply w = (Inl e, w') \<Longrightarrow> run_after (push i ch) reply w = (Inl e, w')"
  by (simp add: after_push)

lemma only_member: "members ch = [] \<Longrightarrow> run_before api (push i ch) c w = run_program (before_call i w) api c"
  by (simp add: before_push before_empty)

end

lemma before_loop_append:
  "before_loop api (is @ [i]) c w =
     (case before_loop api is c w of
        (Inl e, c', w') \<Rightarrow> (Inl e, c', w')
      | (Inr u, c', w') \<Rightarrow> run_program (before_call i w') api c')"
  by (induction "is" arbitrary: c w) (auto split: prod.split sum.split)

lemma after_loop_append:
  "after_loop (is @ [i]) reply w =
     (case after_loop is reply w of
        (Inl e, w') \<Rightarrow> (Inl e, w')
      | (Inr u, w') \<Rightarrow> after_call i reply w')"
  by (induction "is" arbitrary: w) (auto split: prod.split sum.split)

interpretation std_interceptors: interceptor_chain interceptors chain_push chain_len chain_is_empty
  chain_run_before chain_run_after chain_run_event
  by unfold_locales
    (simp_all add: chain_push_def chain_len_def chain_is_empty_def chain_run_before_def
      chain_run_after_def chain_run_event_def before_loop_append after_loop_append)

lemma before_loop_keeps:
  assumes "\<And>t c. P c \<Longrightarrow> P (oc_set_timeout api t c)"
    and "\<And>k v c c'. P c \<Longrightarrow> oc_add_header api k v c = Inr c' \<Longrightarrow> P c'"
    and "P c"
  shows "P (fst (snd (before_loop api is c w)))"
  using assms(3)
proof (induction "is" arbitrary: c w)
  case (Cons i rest)
  obtain r c' w' where run: "run_program (before_call i w) api c = (r, c', w')"
    by (metis prod_cases3)
  have "P c'"
    using run_program_keeps [of P api c "before_call i w"] assms(1,2) Cons.prems run by simp
  then show ?case
    using Cons.IH run by (cases r) simp_all
qed simp

section \<open>Trace context\<close>

datatype trace_context_source = PassThrough | Static string "string option"

definition traceparent_key :: string where
  "traceparent_key = ''traceparent''"

definition tracestate_key :: string where
  "tracestate_key = ''tracestate''"

definition trace_before :: "trace_context_source \<Rightarrow> 'w \<Rightarrow> ('w, 'md) call_program" where
  "trace_before source w =
     HasHeader traceparent_key (\<lambda>present.
       if present then Finish (Inr ()) w
       else
         (case source of
            PassThrough \<Rightarrow> Finish (Inr ()) w
          | Static traceparent tracestate \<Rightarrow>
              AddHeader traceparent_key traceparent (\<lambda>r.
                (case r of
                   Inl e \<Rightarrow> Finish (Inl e) w
                 | Inr u \<Rightarrow>
                     (case tracestate of
                        None \<Rightarrow> Finish (Inr ()) w
                      | Some state \<Rightarrow>
                          AddHeader tracestate_key state (\<lambda>r'.
                            (case r' of Inl e \<Rightarrow> Finish (Inl e) w | Inr u' \<Rightarrow> Finish (Inr ()) w)))))))"

definition trace_interceptor :: "trace_context_source \<Rightarrow> ('w, 'md) interceptor" where
  "trace_interceptor source =
     \<lparr>before_call = trace_before source, after_call = (\<lambda>reply w. (Inr (), w)), on_event = (\<lambda>ev w. w)\<rparr>"

section \<open>Properties\<close>

text \<open>In a chain, the first interceptor that refuses a call decides:
  whatever was added after it never sees the call, and the chain's error is that
  interceptor's.\<close>

lemma failed_interceptor_aborts:
  assumes "chain_run_before api \<lparr>interceptors = before\<rparr> c w = (Inr (), c1, w1)"
    and "run_program (before_call i w1) api c1 = (Inl e, c2, w2)"
  shows "chain_run_before api \<lparr>interceptors = before @ i # later\<rparr> c w = (Inl e, c2, w2)"
  using assms
  by (induction before arbitrary: c w)
    (auto simp: chain_run_before_def split: prod.splits sum.splits)

lemma demo_refused_header:
  "run_program (AddHeader '''' ''v'' (\<lambda>r. Finish r (5 :: nat))) (pending_api list_view list_builder (\<lambda>e. ''bad''))
     \<lparr>pc_path = ''/s/M'', pc_timeout = None, pc_metadata = []\<rparr> =
   (Inl (Transport ''/s/M'' InvalidArgument ''bad''),
    \<lparr>pc_path = ''/s/M'', pc_timeout = None, pc_metadata = []\<rparr>, 5)"
  by code_simp

lemma failed_interceptor_aborts_at_work:
  "chain_run_before (pending_api list_view list_builder (\<lambda>e. ''bad''))
     \<lparr>interceptors = [] @ \<lparr>before_call = (\<lambda>w. AddHeader '''' ''v'' (\<lambda>r. Finish r w)),
        after_call = (\<lambda>reply w. (Inr (), w)), on_event = (\<lambda>ev w. w)\<rparr> # [trace_interceptor PassThrough]\<rparr>
     \<lparr>pc_path = ''/s/M'', pc_timeout = None, pc_metadata = []\<rparr> (5 :: nat) =
   (Inl (Transport ''/s/M'' InvalidArgument ''bad''),
    \<lparr>pc_path = ''/s/M'', pc_timeout = None, pc_metadata = []\<rparr>, 5)"
  by (rule failed_interceptor_aborts [where ?c1.0 = "\<lparr>pc_path = ''/s/M'', pc_timeout = None, pc_metadata = []\<rparr>" and ?w1.0 = 5])
    (simp_all add: chain_run_before_def demo_refused_header del: run_program.simps)

text \<open>Whatever the interceptors of a chain do, through the call they
  are given they can only set the timeout and add headers: the path is the caller's, and every
  header of the caller is still there, first and in order.\<close>

lemma interceptors_only_append:
  assumes "lawful_metadata view mb form texts"
    and "chain_run_before (pending_api view mb show_me) ch c w = (r, c', w')"
  shows "pc_path c' = pc_path c \<and>
    (\<exists>added. entries_of view (pc_metadata c') = entries_of view (pc_metadata c) @ added)"
proof -
  have "(\<lambda>d. pc_path d = pc_path c \<and> (\<exists>added. entries_of view (pc_metadata d) =
      entries_of view (pc_metadata c) @ added)) (fst (snd (chain_run_before (pending_api view mb show_me) ch c w)))"
    unfolding chain_run_before_def
    by (rule before_loop_keeps)
      (use add_header_entries [OF assms(1)] in \<open>auto simp: pending_api_def set_timeout_def add_header_def\<close>)
  then show ?thesis
    by (simp add: assms(2))
qed

lemma demo_traced:
  "run_program (trace_before (Static ''00-1'' (Some ''s'')) (5 :: nat))
     (pending_api list_view list_builder (\<lambda>e. ''bad''))
     \<lparr>pc_path = ''/s/M'', pc_timeout = None, pc_metadata = [(''a'', ''1'')]\<rparr> =
   (Inr (), \<lparr>pc_path = ''/s/M'', pc_timeout = None,
      pc_metadata = [(''a'', ''1''), (''traceparent'', ''00-1''), (''tracestate'', ''s'')]\<rparr>, 5)"
  by code_simp

lemma interceptors_only_append_at_work:
  "\<exists>added. entries_of list_view [(''a'', ''1''), (''traceparent'', ''00-1''), (''tracestate'', ''s'')] =
     entries_of list_view [(''a'', ''1'')] @ added"
proof -
  have "chain_run_before (pending_api list_view list_builder (\<lambda>e. ''bad''))
      \<lparr>interceptors = [trace_interceptor (Static ''00-1'' (Some ''s''))]\<rparr>
      \<lparr>pc_path = ''/s/M'', pc_timeout = None, pc_metadata = [(''a'', ''1'')]\<rparr> (5 :: nat) =
    (Inr (), \<lparr>pc_path = ''/s/M'', pc_timeout = None,
      pc_metadata = [(''a'', ''1''), (''traceparent'', ''00-1''), (''tracestate'', ''s'')]\<rparr>, 5)"
    by (simp add: chain_run_before_def trace_interceptor_def demo_traced)
  then show ?thesis
    using interceptors_only_append [OF list_lawful] by fastforce
qed

text \<open>The trace-context interceptor leaves a call that carries a
  \<open>traceparent\<close> alone; to a call that carries none it adds its \<open>traceparent\<close>, and its
  \<open>tracestate\<close> when it has one; run twice, it adds nothing the second time.\<close>

lemma trace_context_added_once:
  assumes "lawful_metadata view mb form texts"
    and "run_program (trace_before (Static tp ts) w) (pending_api view mb show_me) c = (Inr (), c', w')"
    and "get_values view (pc_metadata c) traceparent_key = Inr vs"
    and "get_values view (pc_metadata c') traceparent_key = Inr vs'"
  shows "entries_of view (pc_metadata c') = entries_of view (pc_metadata c) @
      (if vs \<noteq> [] then []
       else (form traceparent_key, tp) # (case ts of None \<Rightarrow> [] | Some s \<Rightarrow> [(form tracestate_key, s)])) \<and>
    run_program (trace_before (Static tp ts) w) (pending_api view mb show_me) c' = (Inr (), c', w)"
proof -
  note add = add_header_entries [OF assms(1)]
  have entries: "entries_of view (pc_metadata c') = entries_of view (pc_metadata c) @
      (if vs \<noteq> [] then []
       else (form traceparent_key, tp) # (case ts of None \<Rightarrow> [] | Some s \<Rightarrow> [(form tracestate_key, s)]))"
    using assms(2,3) add
    by (fastforce simp: trace_before_def pending_api_def has_header_def split: if_splits sum.splits option.splits)
  have "vs' \<noteq> []"
    using get_values_entries [OF assms(1,3)] get_values_entries [OF assms(1,4)] entries
    by (cases "vs = []") (auto simp: filter_empty_conv)
  then have "run_program (trace_before (Static tp ts) w) (pending_api view mb show_me) c' = (Inr (), c', w)"
    using assms(4) by (simp add: trace_before_def pending_api_def has_header_def)
  with entries show ?thesis by blast
qed

lemma trace_context_added_once_at_work:
  "run_program (trace_before (Static ''00-1'' (Some ''s'')) (5 :: nat))
     (pending_api list_view list_builder (\<lambda>e. ''bad''))
     \<lparr>pc_path = ''/s/M'', pc_timeout = None,
      pc_metadata = [(''a'', ''1''), (''traceparent'', ''00-1''), (''tracestate'', ''s'')]\<rparr> =
   (Inr (), \<lparr>pc_path = ''/s/M'', pc_timeout = None,
      pc_metadata = [(''a'', ''1''), (''traceparent'', ''00-1''), (''tracestate'', ''s'')]\<rparr>, 5)"
  using trace_context_added_once [OF list_lawful demo_traced]
  by (simp add: list_view_def)

end
