(* ===== verification/Intercepted.thy ===== *)
theory Intercepted
  imports Interceptors
begin

text \<open>
  The client that runs a chain of interceptors around every call: \<open>InterceptedTransport\<close>, its
  adapter \<open>PatternEgressInterceptor\<close> and the observed stream \<open>PatternResponseStream\<close> of
  \<open>grpc-egress-transport-spi\<close>. The inner client and the metadata of its responses are
  parameters. An interceptor's state and the inner client share the world.
\<close>

section \<open>The adapter\<close>

text \<open>What the adapter works with: the chain, the view and builder of request metadata, the text of
  their errors, and the view of the metadata a response carries.\<close>

record ('w, 'md, 'mb, 'me, 'h) adapter =
  ad_chain :: "('w, 'md) std_chain"
  ad_view :: "('md, 'me) metadata_view"
  ad_builder :: "('md, 'mb, 'me) metadata_builder"
  ad_show :: "'me \<Rightarrow> string"
  ad_reply_view :: "('h, 'me) metadata_view"

definition adapter_before ::
  "('w, 'md, 'mb, 'me, 'h) adapter \<Rightarrow> string \<Rightarrow> 'md call_options \<Rightarrow> ('w, 'md call_error + 'md call_options) io" where
  "adapter_before ad path options w =
     (if chain_is_empty (ad_chain ad) then (Inr options, w)
      else
        (case chain_run_before (pending_api (ad_view ad) (ad_builder ad) (ad_show ad)) (ad_chain ad)
                (pending_from path options) w of
           (Inl e, call, w') \<Rightarrow> (Inl e, w')
         | (Inr u, call, w') \<Rightarrow> (Inr (pending_options call), w')))"

text \<open>An event over the response's own metadata becomes one over request metadata; when that copy
  fails there is no event.\<close>

definition copy_reply :: "('w, 'md, 'mb, 'me, 'h) adapter \<Rightarrow> 'h \<Rightarrow> 'me + 'md" where
  "copy_reply ad m = copy_metadata (ad_reply_view ad) (ad_builder ad) m"

fun adapt_event ::
  "('w, 'md, 'mb, 'me, 'h) adapter \<Rightarrow> ('md, 'h) call_event \<Rightarrow> ('md, 'md) call_event option" where
  "adapt_event ad (Started call) = Some (Started call)"
| "adapt_event ad (Opened call headers) =
     (case copy_reply ad headers of Inr h \<Rightarrow> Some (Opened call h) | Inl e \<Rightarrow> None)"
| "adapt_event ad (MessageRead call) = Some (MessageRead call)"
| "adapt_event ad (Completed call headers trailers) =
     (case copy_reply ad trailers of
        Inl e \<Rightarrow> None
      | Inr t \<Rightarrow>
          (case headers of
             Some hs \<Rightarrow> (case copy_reply ad hs of Inr h \<Rightarrow> Some (Completed call (Some h) t) | Inl e \<Rightarrow> None)
           | None \<Rightarrow> Some (Completed call None t)))"
| "adapt_event ad (Failed call e) = Some (Failed call e)"
| "adapt_event ad (CancelledEvent call) = Some (CancelledEvent call)"

definition adapter_on_event ::
  "('w, 'md, 'mb, 'me, 'h) adapter \<Rightarrow> ('md, 'h) call_event \<Rightarrow> 'w \<Rightarrow> 'w" where
  "adapter_on_event ad ev w =
     (case adapt_event ad ev of None \<Rightarrow> w | Some ev' \<Rightarrow> chain_run_event (ad_chain ad) ev' w)"

definition identity :: "string \<Rightarrow> call_kind \<Rightarrow> call_identity" where
  "identity path kind = \<lparr>id_path = path, id_kind = kind\<rparr>"

definition adapter_failed ::
  "('w, 'md, 'mb, 'me, 'h) adapter \<Rightarrow> string \<Rightarrow> call_kind \<Rightarrow> 'md call_error \<Rightarrow> 'w \<Rightarrow> 'w" where
  "adapter_failed ad path kind e w = adapter_on_event ad (Failed (identity path kind) e) w"

section \<open>Around a call\<close>

definition run_before ::
  "('w, 'md, 'mb, 'me, 'h) adapter \<Rightarrow> string \<Rightarrow> call_kind \<Rightarrow> 'md call_options \<Rightarrow>
     ('w, 'md call_error + 'md call_options) io" where
  "run_before ad path kind options w =
     (case adapter_before ad path options w of
        (Inl e, w') \<Rightarrow> (Inl e, w')
      | (Inr options', w') \<Rightarrow> (Inr options', adapter_on_event ad (Started (identity path kind)) w'))"

definition run_after_egress ::
  "('w, 'md, 'mb, 'me, 'h) adapter \<Rightarrow> string \<Rightarrow> 'h \<Rightarrow> 'h \<Rightarrow> ('w, 'md call_error + unit) io" where
  "run_after_egress ad path headers trailers w =
     (if chain_is_empty (ad_chain ad) then (Inr (), w)
      else
        (case bind_result
                (map_err (\<lambda>e. Transport path Internal (ad_show ad e)) (copy_reply ad headers))
                (\<lambda>h. map_err (\<lambda>e. Transport path Internal (ad_show ad e))
                   (bind_result (copy_reply ad trailers) (\<lambda>t. Inr (h, t)))) of
           Inl e \<Rightarrow> (Inl e, w)
         | Inr (h, t) \<Rightarrow>
             chain_run_after (ad_chain ad) \<lparr>ir_path = path, ir_headers = h, ir_trailers = t\<rparr> w))"

definition run_after ::
  "('w, 'md, 'mb, 'me, 'h) adapter \<Rightarrow> string \<Rightarrow> call_kind \<Rightarrow> 'h \<Rightarrow> 'h \<Rightarrow> ('w, 'md call_error + unit) io" where
  "run_after ad path kind headers trailers w =
     (case run_after_egress ad path headers trailers w of
        (Inl e, w') \<Rightarrow> (Inl e, adapter_failed ad path kind e w')
      | (Inr u, w') \<Rightarrow>
          (Inr (), adapter_on_event ad (Completed (identity path kind) (Some headers) trailers) w'))"

text \<open>The unary and client-streaming calls, typed and raw.\<close>

definition with_options :: "('i, 'md) call_request \<Rightarrow> 'md call_options \<Rightarrow> ('i, 'md) call_request" where
  "with_options request options =
     \<lparr>req_path = req_path request, req_body = req_body request, req_options = options\<rparr>"

lemma with_own_options [simp]: "with_options request (req_options request) = request"
  by (simp add: with_options_def)

definition intercept_reply ::
  "('w, 'md, 'mb, 'me, 'h) adapter \<Rightarrow> call_kind \<Rightarrow>
     (('i, 'md) call_request \<Rightarrow> ('w, 'md call_error + ('o, 'h) call_response) io) \<Rightarrow>
     ('i, 'md) call_request \<Rightarrow> ('w, 'md call_error + ('o, 'h) call_response) io" where
  "intercept_reply ad kind call request w =
     (let path = req_path request in
      case run_before ad path kind (req_options request) w of
        (Inl e, w1) \<Rightarrow> (Inl e, w1)
      | (Inr options, w1) \<Rightarrow>
          (case call (with_options request options) w1 of
             (Inl e, w2) \<Rightarrow> (Inl e, adapter_failed ad path kind e w2)
           | (Inr response, w2) \<Rightarrow>
               (case run_after ad path kind (resp_headers response) (resp_trailers response) w2 of
                  (Inl e, w3) \<Rightarrow> (Inl e, w3)
                | (Inr u, w3) \<Rightarrow> (Inr response, w3))))"

section \<open>The observed stream\<close>

record 's pattern_stream =
  ps_inner :: 's
  ps_path :: string
  ps_kind :: call_kind
  ps_opened :: bool
  ps_terminal :: bool

definition ps_identity :: "'s pattern_stream \<Rightarrow> call_identity" where
  "ps_identity ps = identity (ps_path ps) (ps_kind ps)"

definition notify_opened ::
  "('w, 'md, 'mb, 'me, 'h) adapter \<Rightarrow> ('w, 's, 'o, 'h, 'md) response_stream \<Rightarrow> 's pattern_stream \<Rightarrow> 'w \<Rightarrow>
     's pattern_stream \<times> 'w" where
  "notify_opened ad ops ps w =
     (case get_headers ops (ps_inner ps) w of
        (Inr headers, s, w') \<Rightarrow>
          (ps\<lparr>ps_inner := s, ps_opened := True\<rparr>, adapter_on_event ad (Opened (ps_identity ps) headers) w')
      | (Inl e, s, w') \<Rightarrow> (ps\<lparr>ps_inner := s\<rparr>, w'))"

definition ps_read_message ::
  "('w, 'md, 'mb, 'me, 'h) adapter \<Rightarrow> ('w, 's, 'o, 'h, 'md) response_stream \<Rightarrow> 's pattern_stream \<Rightarrow> 'w \<Rightarrow>
     ('md call_error + 'o option) \<times> 's pattern_stream \<times> 'w" where
  "ps_read_message ad ops ps w =
     (case read_message ops (ps_inner ps) w of
        (Inr message, s, w') \<Rightarrow>
          (Inr message, ps\<lparr>ps_inner := s\<rparr>,
           if message \<noteq> None then adapter_on_event ad (MessageRead (ps_identity ps)) w' else w')
      | (Inl e, s, w') \<Rightarrow>
          (Inl e, ps\<lparr>ps_inner := s, ps_terminal := True\<rparr>, adapter_failed ad (ps_path ps) (ps_kind ps) e w'))"

definition ps_get_headers ::
  "('w, 'md, 'mb, 'me, 'h) adapter \<Rightarrow> ('w, 's, 'o, 'h, 'md) response_stream \<Rightarrow> 's pattern_stream \<Rightarrow> 'w \<Rightarrow>
     ('md call_error + 'h) \<times> 's pattern_stream \<times> 'w" where
  "ps_get_headers ad ops ps w =
     (case get_headers ops (ps_inner ps) w of
        (Inr headers, s, w') \<Rightarrow>
          (Inr headers, ps\<lparr>ps_inner := s, ps_opened := True\<rparr>,
           if \<not> ps_opened ps then adapter_on_event ad (Opened (ps_identity ps) headers) w' else w')
      | (Inl e, s, w') \<Rightarrow> (Inl e, ps\<lparr>ps_inner := s\<rparr>, w'))"

definition ps_read_trailers ::
  "('w, 'md, 'mb, 'me, 'h) adapter \<Rightarrow> ('w, 's, 'o, 'h, 'md) response_stream \<Rightarrow> 's pattern_stream \<Rightarrow> 'w \<Rightarrow>
     ('md call_error + 'h) \<times> 's pattern_stream \<times> 'w" where
  "ps_read_trailers ad ops ps w =
     (case read_trailers ops (ps_inner ps) w of
        (Inr trailers, s, w') \<Rightarrow>
          (Inr trailers, ps\<lparr>ps_inner := s, ps_terminal := True\<rparr>,
           adapter_on_event ad (Completed (ps_identity ps) None trailers) w')
      | (Inl e, s, w') \<Rightarrow>
          (Inl e, ps\<lparr>ps_inner := s, ps_terminal := True\<rparr>, adapter_failed ad (ps_path ps) (ps_kind ps) e w'))"

text \<open>The observed stream is dropped first, then the stream it holds.\<close>

definition ps_drop ::
  "('w, 'md, 'mb, 'me, 'h) adapter \<Rightarrow> ('w, 's, 'o, 'h, 'md) response_stream \<Rightarrow> 's pattern_stream \<Rightarrow> 'w \<Rightarrow> 'w" where
  "ps_drop ad ops ps w =
     drop_stream ops (ps_inner ps)
       (if \<not> ps_terminal ps then adapter_on_event ad (CancelledEvent (ps_identity ps)) w else w)"

definition pattern_stream_ops ::
  "('w, 'md, 'mb, 'me, 'h) adapter \<Rightarrow> ('w, 's, 'o, 'h, 'md) response_stream \<Rightarrow>
     ('w, 's pattern_stream, 'o, 'h, 'md) response_stream" where
  "pattern_stream_ops ad ops =
     \<lparr>read_message = ps_read_message ad ops, get_headers = ps_get_headers ad ops,
      read_trailers = ps_read_trailers ad ops, drop_stream = ps_drop ad ops\<rparr>"

text \<open>The server- and bidirectional-streaming calls, typed and raw.\<close>

definition intercept_stream ::
  "('w, 'md, 'mb, 'me, 'h) adapter \<Rightarrow> ('w, 's, 'o, 'h, 'md) response_stream \<Rightarrow> call_kind \<Rightarrow>
     (('i, 'md) call_request \<Rightarrow> ('w, 'md call_error + 's) io) \<Rightarrow>
     ('i, 'md) call_request \<Rightarrow> ('w, 'md call_error + 's pattern_stream) io" where
  "intercept_stream ad ops kind call request w =
     (let path = req_path request in
      case run_before ad path kind (req_options request) w of
        (Inl e, w1) \<Rightarrow> (Inl e, w1)
      | (Inr options, w1) \<Rightarrow>
          (case call (with_options request options) w1 of
             (Inl e, w2) \<Rightarrow> (Inl e, adapter_failed ad path kind e w2)
           | (Inr s, w2) \<Rightarrow>
               (case notify_opened ad ops
                       \<lparr>ps_inner = s, ps_path = path, ps_kind = kind, ps_opened = False, ps_terminal = False\<rparr> w2 of
                  (ps, w3) \<Rightarrow> (Inr ps, w3))))"

definition intercepted ::
  "('w, 'md, 'mb, 'me, 'h) adapter \<Rightarrow> ('w, 's, 'o, 'h, 'md) response_stream \<Rightarrow>
     ('w, 'i, 'q, 'o, 's, 'md, 'h) transport \<Rightarrow> ('w, 'i, 'q, 'o, 's pattern_stream, 'md, 'h) transport" where
  "intercepted ad ops inner =
     \<lparr>call_unary = intercept_reply ad Unary (call_unary inner),
      call_server_stream = intercept_stream ad ops ServerStream (call_server_stream inner),
      call_client_stream = intercept_reply ad ClientStream (call_client_stream inner),
      call_bidi_stream = intercept_stream ad ops BidiStream (call_bidi_stream inner)\<rparr>"

text \<open>The raw calls write the same steps out for byte messages and a path chosen at run time.\<close>

definition intercepted_raw ::
  "('w, 'md, 'mb, 'me, 'h) adapter \<Rightarrow> ('w, 's, u8 list, 'h, 'md) response_stream \<Rightarrow>
     ('w, u8 list, 'q, u8 list, 's, 'md, 'h) transport \<Rightarrow>
     ('w, u8 list, 'q, u8 list, 's pattern_stream, 'md, 'h) transport" where
  "intercepted_raw ad ops inner =
     \<lparr>call_unary = intercept_reply ad Unary (call_unary inner),
      call_server_stream = intercept_stream ad ops ServerStream (call_server_stream inner),
      call_client_stream = intercept_reply ad ClientStream (call_client_stream inner),
      call_bidi_stream = intercept_stream ad ops BidiStream (call_bidi_stream inner)\<rparr>"

definition intercepted_client ::
  "('w, 'md, 'mb, 'me, 'h) adapter \<Rightarrow> ('w, 's, 'o, 'h, 'md) response_stream \<Rightarrow>
     ('w, 'bs, u8 list, 'h, 'md) response_stream \<Rightarrow> ('w, 'i, 'q, 'o, 's, 'bq, 'bs, 'md, 'h) client \<Rightarrow>
     ('w, 'i, 'q, 'o, 's pattern_stream, 'bq, 'bs pattern_stream, 'md, 'h) client" where
  "intercepted_client ad ops raw_ops inner =
     \<lparr>typed = intercepted ad ops (typed inner), raw = intercepted_raw ad raw_ops (raw inner)\<rparr>"

end
