(* ===== verification/Client_Builder.thy ===== *)
theory Client_Builder
  imports Endpoint_Transport Intercepted
begin

text \<open>
  The options of a client and the call that builds it: \<open>GrpcEgressBuilderImpl\<close> of
  \<open>grpc-egress-transport-spi\<close>. The engine that makes the client of one URL, the URI parser, the
  file system and the load balancer are parameters. Slicing an endpoint inside a character
  panics in Rust: a build that panics is \<open>None\<close>.
\<close>

section \<open>The builder\<close>

datatype compression = Gzip | Zstd

datatype tls_source = TlsGiven tls_settings | TlsFiles mtls_config

record ('w, 'md) egress_builder =
  eb_endpoint :: string
  eb_endpoint_explicit :: bool
  eb_plaintext_allowed :: bool
  eb_request_timeout :: duration
  eb_max_decoding :: "usize option"
  eb_max_encoding :: "usize option"
  eb_send_compression :: "compression option"
  eb_accept_compression :: "compression list"
  eb_interceptors :: "('w, 'md) interceptor list"
  eb_tls :: "tls_source option"
  eb_keep_alive :: "keep_alive_config option"
  eb_loadbalancer :: "loadbalancer_settings option"

definition builder_from :: "string \<Rightarrow> ('w, 'md) egress_builder" where
  "builder_from endpoint =
     \<lparr>eb_endpoint = endpoint, eb_endpoint_explicit = False, eb_plaintext_allowed = False,
      eb_request_timeout = from_secs default_request_timeout_secs, eb_max_decoding = None,
      eb_max_encoding = None, eb_send_compression = None, eb_accept_compression = [],
      eb_interceptors = [], eb_tls = None, eb_keep_alive = None, eb_loadbalancer = None\<rparr>"

fun read_compression :: "compression_mode \<Rightarrow> compression option" where
  "read_compression NoCompression = None"
| "read_compression GzipMode = Some Gzip"
| "read_compression ZstdMode = Some Zstd"

definition option_or :: "'a option \<Rightarrow> 'a option \<Rightarrow> 'a option" where
  "option_or x y = (case x of None \<Rightarrow> y | Some a \<Rightarrow> Some a)"

definition with_channel_config ::
  "grpc_channel_config \<Rightarrow> ('w, 'md) egress_builder \<Rightarrow> ('w, 'md) egress_builder" where
  "with_channel_config config b =
     (let (send, accept) = (case read_compression (ch_compression config) of
            Some compression \<Rightarrow> (Some compression, [compression])
          | None \<Rightarrow> (eb_send_compression b, eb_accept_compression b))
      in b\<lparr>eb_endpoint := ch_endpoint config,
           eb_endpoint_explicit := eb_endpoint_explicit b \<or> ch_endpoint config \<noteq> [],
           eb_plaintext_allowed := \<not> ch_tls_required config,
           eb_request_timeout := (case ch_request_timeout_secs config of
              None \<Rightarrow> eb_request_timeout b | Some secs \<Rightarrow> from_secs secs),
           eb_max_decoding := Some (ch_max_message_bytes config),
           eb_max_encoding := Some (ch_max_message_bytes config),
           eb_send_compression := send,
           eb_accept_compression := accept,
           eb_tls := option_or (map_option TlsFiles (ch_mtls config)) (eb_tls b),
           eb_keep_alive := option_or (ch_keep_alive config) (eb_keep_alive b)\<rparr>)"

datatype ('w, 'md) builder_option =
    Opt_endpoint string
  | Opt_plaintext_allowed
  | Opt_request_timeout duration
  | Opt_max_decoding usize
  | Opt_max_encoding usize
  | Opt_send_compression compression
  | Opt_accept_compression compression
  | Opt_tls tls_settings
  | Opt_keep_alive keep_alive_config
  | Opt_loadbalancer loadbalancer_settings
  | Opt_interceptor "('w, 'md) interceptor"
  | Opt_trace_context trace_context_source
  | Opt_channel_config grpc_channel_config

fun with_option :: "('w, 'md) builder_option \<Rightarrow> ('w, 'md) egress_builder \<Rightarrow> ('w, 'md) egress_builder" where
  "with_option (Opt_endpoint e) b = b\<lparr>eb_endpoint := e, eb_endpoint_explicit := True\<rparr>"
| "with_option Opt_plaintext_allowed b = b\<lparr>eb_plaintext_allowed := True\<rparr>"
| "with_option (Opt_request_timeout t) b = b\<lparr>eb_request_timeout := t\<rparr>"
| "with_option (Opt_max_decoding n) b = b\<lparr>eb_max_decoding := Some n\<rparr>"
| "with_option (Opt_max_encoding n) b = b\<lparr>eb_max_encoding := Some n\<rparr>"
| "with_option (Opt_send_compression c) b = b\<lparr>eb_send_compression := Some c\<rparr>"
| "with_option (Opt_accept_compression c) b = b\<lparr>eb_accept_compression := eb_accept_compression b @ [c]\<rparr>"
| "with_option (Opt_tls tls) b = b\<lparr>eb_tls := Some (TlsGiven tls)\<rparr>"
| "with_option (Opt_keep_alive k) b = b\<lparr>eb_keep_alive := Some k\<rparr>"
| "with_option (Opt_loadbalancer s) b = b\<lparr>eb_loadbalancer := Some s\<rparr>"
| "with_option (Opt_interceptor i) b = b\<lparr>eb_interceptors := eb_interceptors b @ [i]\<rparr>"
| "with_option (Opt_trace_context source) b = b\<lparr>eb_interceptors := eb_interceptors b @ [trace_interceptor source]\<rparr>"
| "with_option (Opt_channel_config config) b = with_channel_config config b"

section \<open>Checks before building\<close>

definition presents_identity :: "('w, 'md) egress_builder \<Rightarrow> bool" where
  "presents_identity b =
     (case eb_tls b of
        Some (TlsGiven settings) \<Rightarrow> tls_identity settings \<noteq> None
      | Some (TlsFiles mtls) \<Rightarrow> True
      | None \<Rightarrow> False)"

fun check_limits :: "(string \<times> usize option) list \<Rightarrow> channel_config_error + unit" where
  "check_limits [] = Inr ()"
| "check_limits ((option, limit) # rest) =
     (if limit = Some 0
      then Inl (InvalidOptionValue option ''zero would refuse every message; use a positive number of bytes'')
      else check_limits rest)"

definition check_values :: "('w, 'md) egress_builder \<Rightarrow> channel_config_error + unit" where
  "check_values b =
     bind_result
       (check_limits
          [(''max_decoding_message_size'', eb_max_decoding b), (''max_encoding_message_size'', eb_max_encoding b)])
       (\<lambda>_. if eb_request_timeout b = 0
            then Inl (InvalidOptionValue ''request_timeout''
                   ''zero would end every call at once; use a positive duration'')
            else if presents_identity b \<and> eb_plaintext_allowed b
            then Inl (ConflictingOptions ''mtls'' ''plaintext_allowed''
                   ''mutual TLS needs TLS, and plaintext_allowed lets the client fall back to plaintext'')
            else if eb_loadbalancer b \<noteq> None \<and> eb_endpoint_explicit b
            then Inl (ConflictingOptions ''endpoint'' ''loadbalancer''
                   ''the backends of the load balancer carry the URLs; drop the endpoint'')
            else Inr ())"

fun check_urls :: "(string \<Rightarrow> bool) \<Rightarrow> backend_target list \<Rightarrow> channel_config_error + string list" where
  "check_urls valid_uri [] = Inr []"
| "check_urls valid_uri (b # bs) =
     (if \<not> valid_uri (bt_url b)
      then Inl (InvalidOptionValue ''loadbalancer'' (''backend '' @ [CHR 0x27] @ bt_url b @ [CHR 0x27] @ '' is not a valid URL''))
      else bind_result (check_urls valid_uri bs) (\<lambda>urls. Inr (bt_url b # urls)))"

definition list_targets :: "(string \<Rightarrow> bool) \<Rightarrow> ('w, 'md) egress_builder \<Rightarrow> channel_config_error + string list" where
  "list_targets valid_uri b =
     (case eb_loadbalancer b of
        None \<Rightarrow> Inr [eb_endpoint b]
      | Some settings \<Rightarrow>
          (if lb_backends settings = []
           then Inl (InvalidOptionValue ''loadbalancer'' ''no backends; give at least one'')
           else check_urls valid_uri (lb_backends settings)))"

definition name_tls_option :: "('w, 'md) egress_builder \<Rightarrow> string option" where
  "name_tls_option b =
     (case eb_tls b of
        Some (TlsGiven settings) \<Rightarrow> Some ''tls''
      | Some (TlsFiles mtls) \<Rightarrow> Some ''mtls''
      | None \<Rightarrow> None)"

text \<open>\<open>endpoint[..7]\<close> panics (\<open>None\<close>) when byte 7 is inside a character.\<close>

definition is_plaintext_endpoint :: "string \<Rightarrow> bool option" where
  "is_plaintext_endpoint endpoint =
     (if 7 \<le> length endpoint
      then (if is_char_boundary endpoint 7
            then Some (eq_ignore_ascii_case (take 7 endpoint) ''http://'') else None)
      else Some False)"

text \<open>\<open>find\<close> and \<open>all\<close> stop at the first URL that decides; a panic in between is \<open>None\<close>.\<close>

fun find_plaintext :: "string list \<Rightarrow> string option option" where
  "find_plaintext [] = Some None"
| "find_plaintext (url # urls) =
     (case is_plaintext_endpoint url of
        None \<Rightarrow> None
      | Some True \<Rightarrow> Some (Some url)
      | Some False \<Rightarrow> find_plaintext urls)"

fun all_plaintext :: "string list \<Rightarrow> bool option" where
  "all_plaintext [] = Some True"
| "all_plaintext (url # urls) =
     (case is_plaintext_endpoint url of
        None \<Rightarrow> None
      | Some True \<Rightarrow> all_plaintext urls
      | Some False \<Rightarrow> Some False)"

definition resolve_tls ::
  "('w, 'fe) file_system \<Rightarrow> ('w, 'md) egress_builder \<Rightarrow> ('w, channel_config_error + tls_settings) io" where
  "resolve_tls fs b =
     (case eb_tls b of
        Some (TlsGiven settings) \<Rightarrow> (\<lambda>w. (Inr settings, w))
      | Some (TlsFiles mtls) \<Rightarrow> resolve_tls_files fs (Some mtls) (ca_pem_path mtls)
      | None \<Rightarrow> (\<lambda>w. (Inr (tls_create None [] None), w)))"

section \<open>The clients\<close>

text \<open>What the engine is told, in the end, by the chain of its own builder.\<close>

record engine_options =
  eo_endpoint :: string
  eo_timeout :: duration
  eo_max_decoding :: "usize option"
  eo_max_encoding :: "usize option"
  eo_tls :: "tls_settings option"
  eo_send_compression :: "compression option"
  eo_accept_compression :: "compression list"
  eo_keep_alive_interval :: "duration option"
  eo_keep_alive_timeout :: "duration option"
  eo_keep_alive_while_idle :: "bool option"

record ('w, 'c, 'ee) engine =
  en_build :: "engine_options \<Rightarrow> ('w, 'ee + 'c) io"
  en_error_text :: "'ee \<Rightarrow> string"

definition client_options ::
  "('w, 'md) egress_builder \<Rightarrow> string \<Rightarrow> tls_settings option \<Rightarrow> engine_options" where
  "client_options b url tls =
     \<lparr>eo_endpoint = url, eo_timeout = eb_request_timeout b, eo_max_decoding = eb_max_decoding b,
      eo_max_encoding = eb_max_encoding b, eo_tls = tls, eo_send_compression = eb_send_compression b,
      eo_accept_compression = eb_accept_compression b,
      eo_keep_alive_interval = map_option ka_interval (eb_keep_alive b),
      eo_keep_alive_timeout = map_option ka_timeout (eb_keep_alive b),
      eo_keep_alive_while_idle = map_option ka_permit_without_calls (eb_keep_alive b)\<rparr>"

definition create_client ::
  "('w, 'c, 'ee) engine \<Rightarrow> ('w, 'md) egress_builder \<Rightarrow> string \<Rightarrow> tls_settings \<Rightarrow> 'w \<Rightarrow>
     ((channel_config_error + 'c) \<times> 'w) option" where
  "create_client en b url tls w =
     (case is_plaintext_endpoint url of
        None \<Rightarrow> None
      | Some plaintext \<Rightarrow>
          (case en_build en (client_options b url (if plaintext then None else Some tls)) w of
             (r, w') \<Rightarrow> Some (map_err (\<lambda>e. InvalidOptionValue ''endpoint'' (en_error_text en e)) r, w')))"

fun create_clients ::
  "('w, 'c, 'ee) engine \<Rightarrow> ('w, 'md) egress_builder \<Rightarrow> tls_settings \<Rightarrow> string list \<Rightarrow> 'w \<Rightarrow>
     ((channel_config_error + (string \<times> 'c) list) \<times> 'w) option" where
  "create_clients en b tls [] w = Some (Inr [], w)"
| "create_clients en b tls (url # urls) w =
     (case create_client en b url tls w of
        None \<Rightarrow> None
      | Some (Inl e, w') \<Rightarrow> Some (Inl e, w')
      | Some (Inr c, w') \<Rightarrow>
          (case create_clients en b tls urls w' of
             None \<Rightarrow> None
           | Some (Inl e, w'') \<Rightarrow> Some (Inl e, w'')
           | Some (Inr cs, w'') \<Rightarrow> Some (Inr ((url, c) # cs), w'')))"

section \<open>Building\<close>

text \<open>Plaintext is refused first, then a TLS option no target could use.\<close>

definition check_plaintext ::
  "('w, 'md) egress_builder \<Rightarrow> string list \<Rightarrow> (channel_config_error + unit) option" where
  "check_plaintext b targets =
     (if eb_plaintext_allowed b then Some (Inr ())
      else (case find_plaintext targets of
              None \<Rightarrow> None
            | Some (Some url) \<Rightarrow> Some (Inl (PlaintextRejected url))
            | Some None \<Rightarrow> Some (Inr ())))"

definition check_tls_option ::
  "('w, 'md) egress_builder \<Rightarrow> string list \<Rightarrow> (channel_config_error + unit) option" where
  "check_tls_option b targets =
     (case name_tls_option b of
        None \<Rightarrow> Some (Inr ())
      | Some option \<Rightarrow>
          (case all_plaintext targets of
             None \<Rightarrow> None
           | Some True \<Rightarrow> Some (Inl (TlsOptionOnPlaintextEndpoint option (case targets of [] \<Rightarrow> [] | url # urls \<Rightarrow> url)))
           | Some False \<Rightarrow> Some (Inr ())))"

text \<open>\<open>InterceptedTransport::from((endpoint, chain))\<close>: the endpoint and the chain around it.\<close>

definition built_chain :: "('w, 'md) egress_builder \<Rightarrow> ('w, 'md) std_chain" where
  "built_chain b = fold chain_push (eb_interceptors b) chain_default"

definition assemble ::
  "('w, 'c, 'ee) engine \<Rightarrow> ('w, 'p, 'id, 'be) balancer \<Rightarrow> ('w, 'fe) file_system \<Rightarrow> ('w, 'md) egress_builder \<Rightarrow>
     string list \<Rightarrow> 'w \<Rightarrow>
     ((channel_config_error + (('c, 'p) endpoint_transport \<times> ('w, 'md) std_chain)) \<times> 'w) option" where
  "assemble en bal fs b targets w =
     (case resolve_tls fs b w of
        (Inl e, w1) \<Rightarrow> Some (Inl e, w1)
      | (Inr tls, w1) \<Rightarrow>
          (case create_clients en b tls targets w1 of
             None \<Rightarrow> None
           | Some (Inl e, w2) \<Rightarrow> Some (Inl e, w2)
           | Some (Inr clients, w2) \<Rightarrow>
               (case endpoint_try_from bal clients (eb_loadbalancer b) w2 of
                  (Inl e, w3) \<Rightarrow> Some (Inl e, w3)
                | (Inr et, w3) \<Rightarrow> Some (Inr (et, built_chain b), w3))))"

definition build_client ::
  "('w, 'c, 'ee) engine \<Rightarrow> ('w, 'p, 'id, 'be) balancer \<Rightarrow> ('w, 'fe) file_system \<Rightarrow> (string \<Rightarrow> bool) \<Rightarrow>
     ('w, 'md) egress_builder \<Rightarrow> 'w \<Rightarrow>
     ((channel_config_error + (('c, 'p) endpoint_transport \<times> ('w, 'md) std_chain)) \<times> 'w) option" where
  "build_client en bal fs valid_uri b w =
     (case bind_result (check_values b) (\<lambda>_. list_targets valid_uri b) of
        Inl e \<Rightarrow> Some (Inl e, w)
      | Inr targets \<Rightarrow>
          (case check_plaintext b targets of
             None \<Rightarrow> None
           | Some (Inl e) \<Rightarrow> Some (Inl e, w)
           | Some (Inr u) \<Rightarrow>
               (case check_tls_option b targets of
                  None \<Rightarrow> None
                | Some (Inl e) \<Rightarrow> Some (Inl e, w)
                | Some (Inr u) \<Rightarrow> assemble en bal fs b targets w)))"

text \<open>The client a build gives: the chain around the endpoint.\<close>

definition built_client ::
  "('w, 'p, 'id, 'be) balancer \<Rightarrow> ('md call_error \<Rightarrow> string) \<Rightarrow> ('w, 'md, 'mb, 'me, 'h) adapter \<Rightarrow>
     ('w, 's, 'o, 'h, 'md) response_stream \<Rightarrow> ('w, 'bs, u8 list, 'h, 'md) response_stream \<Rightarrow>
     (('w, 'i, 'q, 'o, 's, 'bq, 'bs, 'md, 'h) client, 'p) endpoint_transport \<times> ('w, 'md) std_chain \<Rightarrow>
     ('w, 'i, 'q, 'o, 's pattern_stream, 'bq, 'bs pattern_stream, 'md, 'h) client" where
  "built_client bal show_error ad ops raw_ops built =
     (case built of (et, chain) \<Rightarrow>
        intercepted_client (ad\<lparr>ad_chain := chain\<rparr>) ops raw_ops (endpoint_client bal show_error et))"

end
