(* ===== verification/Endpoint_Properties.thy ===== *)
theory Endpoint_Properties
  imports Endpoint_Transport
begin

text \<open>
  What a call through an endpoint does to the pool and to the clients, seen from outside: every
  question to the pool, every call of a client and every report is recorded beside the world.
\<close>

section \<open>Recording\<close>

datatype ('id, 'be) endpoint_event =
    Asked "'be + 'id pool_backend"
  | Sent string
  | Told 'id pool_outcome

definition recorded_balancer ::
  "('w, 'p, 'id, 'be) balancer \<Rightarrow> (('id, 'be) endpoint_event list \<times> 'w, 'p, 'id, 'be) balancer" where
  "recorded_balancer bal =
     \<lparr>bal_build_pool = (\<lambda>cfg (l, w). case bal_build_pool bal cfg w of (r, w') \<Rightarrow> (r, (l, w'))),
      bal_select = (\<lambda>p (l, w). case bal_select bal p w of (r, w') \<Rightarrow> (r, (l @ [Asked r], w'))),
      bal_report_outcome = (\<lambda>p i out (l, w). (l @ [Told i out], bal_report_outcome bal p i out w)),
      bal_error_text = bal_error_text bal\<rparr>"

text \<open>The client of a URL, with the URL it was built for.\<close>

definition labelled :: "('c, 'p) endpoint_transport \<Rightarrow> (string \<times> 'c, 'p) endpoint_transport" where
  "labelled et = \<lparr>et_clients = map (\<lambda>(url, c). (url, (url, c))) (et_clients et), et_pool = et_pool et\<rparr>"

definition recorded_send ::
  "('c \<Rightarrow> ('w, 'r) io) \<Rightarrow> string \<times> 'c \<Rightarrow> (('id, 'be) endpoint_event list \<times> 'w, 'r) io" where
  "recorded_send send = (\<lambda>(url, c) (l, w). case send c w of (r, w') \<Rightarrow> (r, (l @ [Sent url], w')))"

lemma find_labelled:
  "find (\<lambda>(url, c). url = u) (map (\<lambda>(url, c). (url, (url, c))) cs) =
     map_option (\<lambda>(url, c). (url, (url, c))) (find (\<lambda>(url, c). url = u) cs)"
  by (induction cs) auto

lemma find_client:
  "u \<in> fst ` set cs \<Longrightarrow> \<exists>c. find (\<lambda>(url, c). url = u) cs = Some (u, c) \<and> (u, c) \<in> set cs"
  by (induction cs) (auto split: if_splits)

section \<open>The trace of a call\<close>

text \<open>C10 (endpoint_call_trace). A call through an endpoint built from the settings asks the pool
  once, is made once, by the client of the backend the pool picked, and is reported once, to that
  backend, with the outcome judged from the very result the caller gets; without a pool it is one
  call of the first client. The only error the endpoint adds is the pool's refusal, and then no
  client is called and nothing is reported.\<close>

theorem endpoint_call_trace:
  assumes "complete_endpoint bal et"
    and "endpoint_call (recorded_balancer bal) show_error (labelled et) path (recorded_send send) ([], w) =
      (result, (events, w'))"
  shows "case et_pool et of
      None \<Rightarrow> events = [Sent (fst (hd (et_clients et)))] \<and> send (snd (hd (et_clients et))) w = (result, w')
    | Some pool \<Rightarrow>
        (\<exists>e. events = [Asked (Inl e)] \<and> bal_select bal pool w = (Inl e, w') \<and>
           result = Inl (Transport path Unavailable (bal_error_text bal e))) \<or>
        (\<exists>b c w1 w2. events = [Asked (Inr b), Sent (pb_url b), Told (pb_id b) (judge_outcome show_error result)] \<and>
           bal_select bal pool w = (Inr b, w1) \<and> (pb_url b, c) \<in> set (et_clients et) \<and>
           send c w1 = (result, w2) \<and>
           w' = bal_report_outcome bal pool (pb_id b) (judge_outcome show_error result) w2)"
proof (cases "et_pool et")
  case None
  then obtain url c rest where "et_clients et = (url, c) # rest"
    using assms(1) by (cases "et_clients et") (auto simp: complete_endpoint_def)
  then show ?thesis
    using assms(2) None
    by (auto simp: endpoint_call_def pick_def labelled_def recorded_send_def report_def split: prod.splits)
next
  case (Some pool)
  obtain r w1 where select: "bal_select bal pool w = (r, w1)" by fastforce
  show ?thesis
  proof (cases r)
    case (Inl e)
    then show ?thesis
      using assms(2) Some select
      by (auto simp: endpoint_call_def pick_def labelled_def recorded_balancer_def refuse_call_def)
  next
    case (Inr b)
    with assms(1) Some select have "pb_url b \<in> fst ` set (et_clients et)"
      by (auto simp: complete_endpoint_def)
    then obtain c where c: "find (\<lambda>(url, c). url = pb_url b) (et_clients et) = Some (pb_url b, c)"
      "(pb_url b, c) \<in> set (et_clients et)"
      using find_client [of "pb_url b" "et_clients et"] by blast
    obtain q w2 where "send c w1 = (q, w2)" by fastforce
    then show ?thesis
      using assms(2) Some select Inr c
      by (auto simp: endpoint_call_def pick_def labelled_def recorded_balancer_def recorded_send_def
          report_def find_labelled)
  qed
qed

text \<open>A pool of two backends that takes them in turn and remembers the last report.\<close>

definition turns :: "(nat \<times> (nat \<times> pool_outcome) list, string list, nat, unit) balancer" where
  "turns =
     \<lparr>bal_build_pool = (\<lambda>cfg w. (Inr (map pbc_url (pool_backends cfg)), w)),
      bal_select = (\<lambda>urls (n, log).
        (if urls = [] then Inl () else Inr \<lparr>pb_id = n mod length urls, pb_url = urls ! (n mod length urls)\<rparr>,
         (Suc n, log))),
      bal_report_outcome = (\<lambda>urls i out (n, log). (n, log @ [(i, out)])),
      bal_error_text = (\<lambda>e. ''no healthy backend'')\<rparr>"

lemma turns_picks_configured: "picks_configured turns"
  by (auto simp: picks_configured_def turns_def split: if_splits)

definition demo_endpoint :: "(nat, string list) endpoint_transport" where
  "demo_endpoint = \<lparr>et_clients = [(''https://a'', 1), (''https://b'', 2)], et_pool = Some [''https://a'', ''https://b'']\<rparr>"

lemma demo_endpoint_complete: "complete_endpoint turns demo_endpoint"
proof -
  have "endpoint_try_from turns [(''https://a'', 1 :: nat), (''https://b'', 2)]
      (Some \<lparr>lb_strategy = RoundRobin, lb_backends = [\<lparr>bt_url = ''https://a'', bt_weight = 1\<rparr>, \<lparr>bt_url = ''https://b'', bt_weight = 1\<rparr>]\<rparr>)
      (0, []) = (Inr demo_endpoint, (0, []))"
    by (simp add: endpoint_try_from_def create_pool_def to_pool_config_def turns_def io_bind_def demo_endpoint_def)
  from endpoint_try_from_complete [OF turns_picks_configured this] show ?thesis by simp
qed

lemma demo_endpoint_run:
  "endpoint_call (recorded_balancer turns) (\<lambda>e :: unit call_error. err_reason e) (labelled demo_endpoint) ''/s/M''
     (recorded_send (\<lambda>c w. (Inl (Transport ''/s/M'' Unavailable ''refused'') :: unit call_error + nat, w))) ([], (1, [])) =
   (Inl (Transport ''/s/M'' Unavailable ''refused''),
    ([Asked (Inr \<lparr>pb_id = 1, pb_url = ''https://b''\<rparr>), Sent ''https://b'', Told 1 (PoolFailure ''refused'')],
     (2, [(1, PoolFailure ''refused'')])))"
  by code_simp

theorem endpoint_call_trace_witness:
  "\<exists>c w1 w2. bal_select turns [''https://a'', ''https://b''] (1, []) = (Inr \<lparr>pb_id = 1, pb_url = ''https://b''\<rparr>, w1) \<and>
     (''https://b'', c) \<in> set (et_clients demo_endpoint) \<and>
     (2, [(1, PoolFailure ''refused'')]) = bal_report_outcome turns [''https://a'', ''https://b''] 1 (PoolFailure ''refused'') w2"
  using endpoint_call_trace [OF demo_endpoint_complete demo_endpoint_run]
  by (auto simp: demo_endpoint_def)

end
