(* ===== verification/Builder_Properties.thy ===== *)
theory Builder_Properties
  imports Client_Builder Endpoint_Properties
begin

text \<open>
  What a client that was built guarantees: transport security that fails closed, one set of
  options for every backend, no panic on ASCII endpoints, and the checks a channel configuration
  can never fail.
\<close>

section \<open>Plaintext\<close>

lemma find_plaintext_none:
  "find_plaintext urls = Some None \<Longrightarrow> url \<in> set urls \<Longrightarrow> is_plaintext_endpoint url = Some False"
  by (induction urls) (auto split: option.splits bool.splits)

lemma find_plaintext_total:
  "\<forall>url \<in> set urls. is_plaintext_endpoint url \<noteq> None \<Longrightarrow> find_plaintext urls \<noteq> None"
  by (induction urls) (auto split: option.splits bool.splits)

lemma all_plaintext_total:
  "\<forall>url \<in> set urls. is_plaintext_endpoint url \<noteq> None \<Longrightarrow> all_plaintext urls \<noteq> None"
  by (induction urls) (auto split: option.splits bool.splits)

lemma ascii_endpoint_total: "is_ascii url \<Longrightarrow> is_plaintext_endpoint url \<noteq> None"
  using is_ascii_char_boundary [of url 7]
  by (cases "7 \<le> length url") (simp_all add: is_plaintext_endpoint_def)

section \<open>The clients of a build\<close>

lemma create_clients_urls:
  "create_clients en b tls urls w = Some (Inr clients, w') \<Longrightarrow> map fst clients = urls"
  by (induction urls arbitrary: w clients)
    (auto split: option.splits sum.splits prod.splits)

lemma create_client_Inr:
  assumes "create_client en b url tls w = Some (Inr c, w')"
  shows "\<exists>plaintext. is_plaintext_endpoint url = Some plaintext \<and>
    en_build en (client_options b url (if plaintext then None else Some tls)) w = (Inr c, w')"
proof -
  from assms obtain plaintext where p: "is_plaintext_endpoint url = Some plaintext"
    by (cases "is_plaintext_endpoint url") (auto simp: create_client_def)
  obtain q v where "en_build en (client_options b url (if plaintext then None else Some tls)) w = (q, v)"
    by fastforce
  with assms p show ?thesis by (simp add: create_client_def)
qed

lemma create_clients_Cons:
  assumes "create_clients en b tls (u # urls) w = Some (Inr clients, w')"
  obtains c w1 cs where "create_client en b u tls w = Some (Inr c, w1)"
    "create_clients en b tls urls w1 = Some (Inr cs, w')" "clients = (u, c) # cs"
  using assms by (auto split: option.splits sum.splits prod.splits)

lemma create_clients_from_engine:
  "create_clients en b tls urls w = Some (Inr clients, w') \<Longrightarrow> (url, c) \<in> set clients \<Longrightarrow>
     \<exists>plaintext v v'. is_plaintext_endpoint url = Some plaintext \<and>
       en_build en (client_options b url (if plaintext then None else Some tls)) v = (Inr c, v')"
proof (induction urls arbitrary: w clients)
  case (Cons u urls)
  from Cons.prems(1) obtain c' w1 cs where c': "create_client en b u tls w = Some (Inr c', w1)"
    and cs: "create_clients en b tls urls w1 = Some (Inr cs, w')" "clients = (u, c') # cs"
    by (rule create_clients_Cons)
  from Cons.prems(2) cs(2) have "(url, c) = (u, c') \<or> (url, c) \<in> set cs" by simp
  then show ?case
    using create_client_Inr [OF c'] Cons.IH [OF cs(1)] by blast
qed simp

lemma create_clients_total:
  "\<forall>url \<in> set urls. is_plaintext_endpoint url \<noteq> None \<Longrightarrow> create_clients en b tls urls w \<noteq> None"
proof (induction urls arbitrary: w)
  case (Cons u urls)
  then obtain plaintext where p: "is_plaintext_endpoint u = Some plaintext" by auto
  then obtain r w1 where c: "create_client en b u tls w = Some (r, w1)"
    by (fastforce simp: create_client_def split: prod.split)
  have "create_clients en b tls urls w1 \<noteq> None" using Cons by simp
  then show ?case using c by (auto split: sum.split)
qed simp

lemma check_urls_Inr: "check_urls valid_uri bs = Inr urls \<Longrightarrow> urls = map bt_url bs"
  by (induction bs arbitrary: urls) (auto split: if_splits)

lemma list_targets_Inr:
  "list_targets valid_uri b = Inr targets \<Longrightarrow>
     targets = (case eb_loadbalancer b of None \<Rightarrow> [eb_endpoint b] | Some s \<Rightarrow> map bt_url (lb_backends s)) \<and>
     targets \<noteq> []"
  by (auto simp: list_targets_def split: option.splits if_splits dest: check_urls_Inr)

text \<open>The steps a successful build went through.\<close>

lemma build_client_steps:
  assumes "build_client en bal fs valid_uri b w = Some (Inr (et, chain), w')"
  obtains targets tls w1 clients w2 where "check_values b = Inr ()" "list_targets valid_uri b = Inr targets"
    "check_plaintext b targets = Some (Inr ())" "check_tls_option b targets = Some (Inr ())"
    "resolve_tls fs b w = (Inr tls, w1)" "create_clients en b tls targets w1 = Some (Inr clients, w2)"
    "endpoint_try_from bal clients (eb_loadbalancer b) w2 = (Inr et, w')" "chain = built_chain b"
proof -
  from assms obtain targets where t: "check_values b = Inr ()" "list_targets valid_uri b = Inr targets"
    "check_plaintext b targets = Some (Inr ())" "check_tls_option b targets = Some (Inr ())"
    "assemble en bal fs b targets w = Some (Inr (et, chain), w')"
    by (auto simp: build_client_def bind_result_def split: sum.splits option.splits)
  from t(5) show ?thesis
    by (auto simp: assemble_def split: sum.splits option.splits prod.splits intro!: that [OF t(1-4)])
qed

lemma endpoint_clients:
  "endpoint_try_from bal clients balancing w = (Inr et, w') \<Longrightarrow> et_clients et = clients"
  by (cases balancing) (auto simp: endpoint_try_from_def)

lemma resolved_identity:
  assumes "resolve_tls fs b w = (Inr tls, w')" "presents_identity b"
  shows "tls_identity tls \<noteq> None"
  using assms
  by (auto simp: resolve_tls_def presents_identity_def resolve_tls_files_def tls_create_def
      split: option.splits tls_source.splits)

lemma identity_forbids_plaintext:
  "check_values b = Inr () \<Longrightarrow> presents_identity b \<Longrightarrow> \<not> eb_plaintext_allowed b"
  by (auto simp: check_values_def split: if_splits)

text \<open>A client the engine made from the builder's own options for \<open>url\<close>, secure unless plaintext was
  allowed.\<close>

definition made_securely ::
  "('w, 'c, 'ee) engine \<Rightarrow> ('v, 'md) egress_builder \<Rightarrow> string \<Rightarrow> 'c \<Rightarrow> bool" where
  "made_securely en b url c \<longleftrightarrow>
     (\<exists>tls v v'. en_build en (client_options b url tls) v = (Inr c, v') \<and>
        (tls = None \<longrightarrow> eb_plaintext_allowed b \<and> is_plaintext_endpoint url = Some True) \<and>
        (presents_identity b \<longrightarrow> (\<exists>s. tls = Some s \<and> tls_identity s \<noteq> None)))"

lemma created_securely:
  assumes checked: "check_values b = Inr ()" "check_plaintext b targets = Some (Inr ())"
    and tls: "resolve_tls fs b w = (Inr tls, w1)"
    and created: "create_clients en b tls targets w1 = Some (Inr clients, w2)"
    and mem: "(url, c) \<in> set clients"
  shows "made_securely en b url c"
proof -
  obtain plaintext v v' where c: "is_plaintext_endpoint url = Some plaintext"
    "en_build en (client_options b url (if plaintext then None else Some tls)) v = (Inr c, v')"
    using create_clients_from_engine [OF created mem] by blast
  have target: "url \<in> set targets"
    using imageI [OF mem, of fst] unfolding create_clients_urls [OF created, symmetric] by simp
  have allowed: "plaintext \<longrightarrow> eb_plaintext_allowed b"
    using checked(2) c(1) target find_plaintext_none [of targets url]
    by (cases plaintext) (auto simp: check_plaintext_def split: if_splits option.splits)
  then have ident: "presents_identity b \<longrightarrow> \<not> plaintext \<and> tls_identity tls \<noteq> None"
    using identity_forbids_plaintext [OF checked(1)] resolved_identity [OF tls] by blast
  show ?thesis
    unfolding made_securely_def
    by (rule exI [of _ "if plaintext then None else Some tls"], rule exI [of _ v], rule exI [of _ v'])
      (use c allowed ident in simp)
qed

text \<open>C3 (tls_fails_closed). Every client of a built endpoint was made by the engine from the
  builder's own options, for one of the targets, in order; it speaks plaintext only to an
  \<open>http://\<close> URL and only when plaintext was allowed, otherwise it carries TLS settings; and when
  an identity is to be presented, every client of the endpoint presents one.\<close>

theorem tls_fails_closed:
  assumes "build_client en bal fs valid_uri b w = Some (Inr (et, chain), w')"
  shows "map fst (et_clients et) =
      (case eb_loadbalancer b of None \<Rightarrow> [eb_endpoint b] | Some s \<Rightarrow> map bt_url (lb_backends s)) \<and>
    (\<forall>(url, c) \<in> set (et_clients et). made_securely en b url c)"
proof -
  from assms obtain targets tls w1 clients w2 where s: "check_values b = Inr ()"
    "list_targets valid_uri b = Inr targets" "check_plaintext b targets = Some (Inr ())"
    "resolve_tls fs b w = (Inr tls, w1)" "create_clients en b tls targets w1 = Some (Inr clients, w2)"
    "endpoint_try_from bal clients (eb_loadbalancer b) w2 = (Inr et, w')"
    by (rule build_client_steps)
  show ?thesis
    using endpoint_clients [OF s(6)] create_clients_urls [OF s(5)] list_targets_Inr [OF s(2)]
      created_securely [OF s(1,3,4,5)] by auto
qed

text \<open>C30 (build_panics_inside_a_character). A build never panics when the endpoint and the backend
  URLs are ASCII; but whatever the engine and the pool do, a builder with every other option at its
  default panics on an endpoint whose eighth byte is inside a character, such as \<open>http:/\<close> followed by
  an accented letter: \<open>endpoint[..7]\<close> is sliced before anything has checked the URL.\<close>

theorem build_panics_inside_a_character:
  "((case eb_loadbalancer b of None \<Rightarrow> is_ascii (eb_endpoint b)
       | Some s \<Rightarrow> \<forall>t \<in> set (lb_backends s). is_ascii (bt_url t)) \<longrightarrow>
      build_client en bal fs valid_uri b w \<noteq> None) \<and>
   build_client en bal fs valid_uri (builder_from (''http:/'' @ map char_of [195, 169 :: nat])) w = None"
proof (intro conjI impI)
  assume ascii: "case eb_loadbalancer b of None \<Rightarrow> is_ascii (eb_endpoint b)
      | Some s \<Rightarrow> \<forall>t \<in> set (lb_backends s). is_ascii (bt_url t)"
  show "build_client en bal fs valid_uri b w \<noteq> None"
  proof (cases "bind_result (check_values b) (\<lambda>_. list_targets valid_uri b)")
    case (Inl e)
    then show ?thesis by (simp add: build_client_def)
  next
    case (Inr targets)
    then have "targets = (case eb_loadbalancer b of None \<Rightarrow> [eb_endpoint b] | Some s \<Rightarrow> map bt_url (lb_backends s))"
      using list_targets_Inr [of valid_uri b targets] by auto
    with ascii have total: "\<forall>url \<in> set targets. is_plaintext_endpoint url \<noteq> None"
      by (cases "eb_loadbalancer b") (simp_all add: ascii_endpoint_total del: not_None_eq)
    have "check_plaintext b targets \<noteq> None" "check_tls_option b targets \<noteq> None"
      using find_plaintext_total [OF total] all_plaintext_total [OF total]
      by (auto simp: check_plaintext_def check_tls_option_def split: option.split bool.split)
    moreover have "assemble en bal fs b targets w \<noteq> None"
    proof (cases "resolve_tls fs b w")
      case (Pair r w1)
      show ?thesis
      proof (cases r)
        case (Inr tls)
        obtain q w2 where "create_clients en b tls targets w1 = Some (q, w2)"
          using create_clients_total [OF total, of en b tls w1] by auto
        then show ?thesis using Pair Inr by (auto simp: assemble_def split: sum.split prod.split)
      qed (simp add: assemble_def Pair)
    qed
    ultimately show ?thesis
      using Inr by (fastforce simp: build_client_def split: sum.split option.split)
  qed
next
  have "is_plaintext_endpoint (''http:/'' @ map char_of [195, 169 :: nat]) = None" by code_simp
  then show "build_client en bal fs valid_uri (builder_from (''http:/'' @ map char_of [195, 169 :: nat])) w = None"
    by (simp add: build_client_def builder_from_def check_values_def presents_identity_def list_targets_def
        check_plaintext_def from_secs_def default_request_timeout_secs_def nanos_per_sec_def)
qed

section \<open>A channel configuration applied to a builder\<close>

lemma with_channel_config_fields:
  "eb_plaintext_allowed (with_channel_config c b) = (\<not> ch_tls_required c)"
  "eb_max_decoding (with_channel_config c b) = Some (ch_max_message_bytes c)"
  "eb_max_encoding (with_channel_config c b) = Some (ch_max_message_bytes c)"
  "eb_endpoint_explicit (with_channel_config c b) = (eb_endpoint_explicit b \<or> ch_endpoint c \<noteq> [])"
  "eb_loadbalancer (with_channel_config c b) = eb_loadbalancer b"
  "eb_tls (with_channel_config c b) = option_or (map_option TlsFiles (ch_mtls c)) (eb_tls b)"
  "eb_request_timeout (with_channel_config c b) =
     (case ch_request_timeout_secs c of None \<Rightarrow> eb_request_timeout b | Some secs \<Rightarrow> from_secs secs)"
  by (simp_all add: with_channel_config_def Let_def split: prod.split)

lemma with_channel_config_accept:
  "ch_compression c \<noteq> NoCompression \<Longrightarrow> length (eb_accept_compression (with_channel_config c b)) = 1"
  by (cases "ch_compression c") (simp_all add: with_channel_config_def)

lemma with_channel_config_identity:
  "presents_identity (with_channel_config c b) \<longleftrightarrow> ch_mtls c \<noteq> None \<or> presents_identity b"
  by (cases "ch_mtls c") (simp_all add: presents_identity_def with_channel_config_fields option_or_def)

lemma with_channel_config_timeout:
  "eb_request_timeout b \<noteq> 0 \<Longrightarrow> ch_request_timeout_secs c \<noteq> Some 0 \<Longrightarrow>
     eb_request_timeout (with_channel_config c b) \<noteq> 0"
  by (cases "ch_request_timeout_secs c")
    (auto simp: with_channel_config_fields from_secs_def nanos_per_sec_def unat_eq_zero)

text \<open>C29 (channel_config_checks). A configuration that was constructed can fail the builder's checks
  in two ways only: it names an endpoint, so it excludes a load balancer, and an identity (its own,
  or one the builder has) excludes relaxed TLS. Its limits and its timeout never fail. It replaces the
  accepted compressions when it names one, and withdraws an earlier permission of plaintext.\<close>

theorem channel_config_checks:
  assumes "channel_try_from d = Inr c" "eb_request_timeout b \<noteq> 0"
  shows "check_values (with_channel_config c b) =
      (if (ch_mtls c \<noteq> None \<or> presents_identity b) \<and> \<not> ch_tls_required c
       then Inl (ConflictingOptions ''mtls'' ''plaintext_allowed''
              ''mutual TLS needs TLS, and plaintext_allowed lets the client fall back to plaintext'')
       else if eb_loadbalancer b \<noteq> None
       then Inl (ConflictingOptions ''endpoint'' ''loadbalancer''
              ''the backends of the load balancer carry the URLs; drop the endpoint'')
       else Inr ()) \<and>
    eb_plaintext_allowed (with_channel_config c b) = (\<not> ch_tls_required c) \<and>
    (ch_compression c \<noteq> NoCompression \<longrightarrow> length (eb_accept_compression (with_channel_config c b)) = 1)"
proof -
  from assms(1) have usable: "usable_channel c"
    unfolding channel_try_from_def by (rule channel_try_new_iff [THEN iffD1, THEN conjunct1])
  have "str_trim [] = []" by code_simp
  with usable have "ch_endpoint c \<noteq> []" by (auto simp: usable_channel_def blank_def)
  then show ?thesis
    using usable with_channel_config_timeout [OF assms(2), of c] with_channel_config_accept [of c b]
    by (simp add: check_values_def with_channel_config_fields(1-5) usable_channel_def
        with_channel_config_identity)
qed

section \<open>A concrete build\<close>

type_synonym demo_world = "nat \<times> (nat \<times> pool_outcome) list"

definition demo_engine :: "(demo_world, engine_options, unit) engine" where
  "demo_engine = \<lparr>en_build = (\<lambda>opts w. (Inr opts, w)), en_error_text = (\<lambda>e. ''refused'')\<rparr>"

definition no_files :: "(demo_world, unit) file_system" where
  "no_files = \<lparr>read_file = (\<lambda>path w. (Inl (), w)), file_error_text = (\<lambda>e. ''not found'')\<rparr>"

definition demo_identity :: tls_settings where
  "demo_identity = tls_create None [] (Some ([1], [2]))"

definition demo_balancing :: loadbalancer_settings where
  "demo_balancing =
     \<lparr>lb_strategy = RoundRobin,
      lb_backends = [\<lparr>bt_url = ''https://a'', bt_weight = 1\<rparr>, \<lparr>bt_url = ''https://b'', bt_weight = 1\<rparr>]\<rparr>"

definition demo_builder :: "(demo_world, unit) egress_builder" where
  "demo_builder = with_option (Opt_loadbalancer demo_balancing) (with_option (Opt_tls demo_identity) (builder_from []))"

definition demo_built :: "(engine_options, string list) endpoint_transport" where
  "demo_built =
     \<lparr>et_clients = map (\<lambda>url. (url, client_options demo_builder url (Some demo_identity))) [''https://a'', ''https://b''],
      et_pool = Some [''https://a'', ''https://b'']\<rparr>"

lemma demo_build:
  "build_client demo_engine turns no_files (\<lambda>url. True) demo_builder (0, []) =
     Some (Inr (demo_built, \<lparr>interceptors = []\<rparr>), (0, []))"
proof -
  have "is_plaintext_endpoint ''https://a'' = Some False" "is_plaintext_endpoint ''https://b'' = Some False"
    by code_simp+
  then show ?thesis
    by (simp add: build_client_def check_values_def demo_builder_def builder_from_def presents_identity_def
        demo_identity_def tls_create_def from_secs_def default_request_timeout_secs_def nanos_per_sec_def
        list_targets_def demo_balancing_def check_plaintext_def check_tls_option_def name_tls_option_def
        assemble_def resolve_tls_def create_client_def demo_engine_def endpoint_try_from_def io_bind_def
        create_pool_def to_pool_config_def turns_def built_chain_def chain_default_def demo_built_def)
qed

theorem tls_fails_closed_witness:
  "presents_identity demo_builder \<and> list_all (\<lambda>(url, c). made_securely demo_engine demo_builder url c) (et_clients demo_built)"
proof
  show "presents_identity demo_builder"
    by (simp add: demo_builder_def builder_from_def presents_identity_def demo_identity_def tls_create_def)
  show "list_all (\<lambda>(url, c). made_securely demo_engine demo_builder url c) (et_clients demo_built)"
    unfolding list_all_iff by (rule tls_fails_closed [OF demo_build, THEN conjunct2])
qed

theorem build_panics_inside_a_character_witness:
  "build_client demo_engine turns no_files (\<lambda>url. True) demo_builder (0, []) \<noteq> None"
proof -
  have "is_ascii ''https://a''" "is_ascii ''https://b''" by (simp_all add: is_ascii_def)
  then have "case eb_loadbalancer demo_builder of None \<Rightarrow> is_ascii (eb_endpoint demo_builder)
      | Some s \<Rightarrow> \<forall>t \<in> set (lb_backends s). is_ascii (bt_url t)"
    by (simp add: demo_builder_def demo_balancing_def)
  then show ?thesis
    using build_panics_inside_a_character [of demo_builder demo_engine turns no_files "\<lambda>url. True" "(0, [])"]
    by blast
qed

definition demo_channel_data :: grpc_channel_config_data where
  "demo_channel_data = default_channel_data\<lparr>cd_endpoint := ''https://a'', cd_compression := ZstdMode\<rparr>"

definition demo_channel :: grpc_channel_config where
  "demo_channel = default_channel_config\<lparr>ch_endpoint := ''https://a'', ch_compression := ZstdMode\<rparr>"

theorem channel_config_checks_witness:
  "check_values (with_channel_config demo_channel demo_builder) =
     Inl (ConflictingOptions ''endpoint'' ''loadbalancer''
       ''the backends of the load balancer carry the URLs; drop the endpoint'')"
proof -
  have "channel_try_from demo_channel_data = Inr demo_channel" by code_simp
  moreover have "eb_request_timeout demo_builder \<noteq> 0"
    by (simp add: demo_builder_def builder_from_def from_secs_def default_request_timeout_secs_def nanos_per_sec_def)
  ultimately show ?thesis
    using channel_config_checks [of demo_channel_data demo_channel demo_builder]
    by (simp add: demo_channel_def default_channel_config_def demo_builder_def builder_from_def)
qed

end
