(* ===== verification/Intercepted_Properties.thy ===== *)
theory Intercepted_Properties
  imports Intercepted
begin

text \<open>
  What a caller and an observer see of an intercepted call. A client with an empty chain is its
  inner client. For the events, an observer that records every event stands at the end of an
  arbitrary chain: the others keep their world, the log is beside it.
\<close>

section \<open>An empty chain\<close>

lemma run_event_empty: "chain_is_empty (ad_chain ad) \<Longrightarrow> adapter_on_event ad ev w = w"
  by (auto simp: adapter_on_event_def chain_run_event_def chain_is_empty_def split: option.split)

text \<open>A transport forwards as it is: replies are those of the inner one; a stream is the inner stream,
  wrapped and asked once for its headers.\<close>

definition same_stream ::
  "('w, 's, 'o, 'h, 'md) response_stream \<Rightarrow> ('w, 'md call_error + 's) io \<Rightarrow>
     ('w, 'md call_error + 's pattern_stream) io \<Rightarrow> bool" where
  "same_stream ops f g \<longleftrightarrow>
     (\<forall>w. case f w of
        (Inl e, w') \<Rightarrow> g w = (Inl e, w')
      | (Inr s, w') \<Rightarrow> (case get_headers ops s w' of
          (h, s', w'') \<Rightarrow> (\<exists>ps. g w = (Inr ps, w'') \<and> ps_inner ps = s')))"

definition forwards_as_is ::
  "('w, 's, 'o, 'h, 'md) response_stream \<Rightarrow> ('w, 'i, 'q, 'o, 's, 'md, 'h) transport \<Rightarrow>
     ('w, 'i, 'q, 'o, 's pattern_stream, 'md, 'h) transport \<Rightarrow> bool" where
  "forwards_as_is ops inner outer \<longleftrightarrow>
     call_unary outer = call_unary inner \<and> call_client_stream outer = call_client_stream inner \<and>
     (\<forall>request. same_stream ops (call_server_stream inner request) (call_server_stream outer request)) \<and>
     (\<forall>request. same_stream ops (call_bidi_stream inner request) (call_bidi_stream outer request))"

lemma empty_chain_reply:
  "chain_is_empty (ad_chain ad) \<Longrightarrow> intercept_reply ad kind call = call"
  by (auto simp: intercept_reply_def run_before_def adapter_before_def run_event_empty adapter_failed_def
      run_after_def run_after_egress_def Let_def fun_eq_iff split: prod.split sum.split)

lemma empty_chain_stream:
  "chain_is_empty (ad_chain ad) \<Longrightarrow>
     same_stream ops (call request) (intercept_stream ad ops kind call request)"
  by (auto simp: same_stream_def intercept_stream_def run_before_def adapter_before_def run_event_empty
      adapter_failed_def notify_opened_def Let_def split: prod.split sum.split)

text \<open>With no interceptor in the chain an intercepted client forwards
  every call, typed or raw, as it is: the replies are those of the inner client, and the streams are
  its streams, only wrapped.\<close>

lemma empty_chain_is_transparent:
  assumes "chain_is_empty (ad_chain ad)"
  shows "forwards_as_is ops (typed inner) (typed (intercepted_client ad ops raw_ops inner)) \<and>
    forwards_as_is raw_ops (raw inner) (raw (intercepted_client ad ops raw_ops inner))"
  using assms
  by (simp add: forwards_as_is_def intercepted_client_def intercepted_def intercepted_raw_def
      empty_chain_reply empty_chain_stream)

section \<open>Recording the events\<close>

definition lift_interceptor :: "('w, 'md) interceptor \<Rightarrow> ('l \<times> 'w, 'md) interceptor" where
  "lift_interceptor i =
     \<lparr>before_call = (\<lambda>(l, w). map_call_program (Pair l) (before_call i w)),
      after_call = (\<lambda>reply (l, w). case after_call i reply w of (r, w') \<Rightarrow> (r, (l, w'))),
      on_event = (\<lambda>ev (l, w). (l, on_event i ev w))\<rparr>"

definition recorder :: "(('md, 'md) call_event list \<times> 'w, 'md) interceptor" where
  "recorder =
     \<lparr>before_call = (\<lambda>w. Finish (Inr ()) w), after_call = (\<lambda>reply w. (Inr (), w)),
      on_event = (\<lambda>ev (l, w). (l @ [ev], w))\<rparr>"

definition recording ::
  "('w, 'md, 'mb, 'me, 'h) adapter \<Rightarrow> (('md, 'md) call_event list \<times> 'w, 'md, 'mb, 'me, 'h) adapter" where
  "recording ad =
     \<lparr>ad_chain = \<lparr>interceptors = map lift_interceptor (interceptors (ad_chain ad)) @ [recorder]\<rparr>,
      ad_view = ad_view ad, ad_builder = ad_builder ad, ad_show = ad_show ad,
      ad_reply_view = ad_reply_view ad\<rparr>"

definition lift_io :: "('w, 'a) io \<Rightarrow> ('l \<times> 'w, 'a) io" where
  "lift_io f = (\<lambda>(l, w). case f w of (r, w') \<Rightarrow> (r, (l, w')))"

lemma run_program_lifted:
  "run_program (map_call_program (Pair l) p) api c =
     (case run_program p api c of (r, c', w') \<Rightarrow> (r, c', (l, w')))"
  by (induction p arbitrary: c) (auto split: sum.split)

lemma before_loop_lifted:
  "before_loop api (map lift_interceptor is @ [recorder]) c (l, w) =
     (case before_loop api is c w of (r, c', w') \<Rightarrow> (r, c', (l, w')))"
  by (induction "is" arbitrary: c w)
    (auto simp: lift_interceptor_def recorder_def run_program_lifted split: prod.split sum.split)

lemma after_loop_lifted:
  "after_loop (map lift_interceptor is @ [recorder]) reply (l, w) =
     (case after_loop is reply w of (r, w') \<Rightarrow> (r, (l, w')))"
  by (induction "is" arbitrary: w)
    (auto simp: lift_interceptor_def recorder_def split: prod.split sum.split)

lemma fold_events_lifted:
  "fold (\<lambda>i. on_event i ev) (map lift_interceptor is) (l, w) = (l, fold (\<lambda>i. on_event i ev) is w)"
  by (induction "is" arbitrary: w) (auto simp: lift_interceptor_def)

lemma recording_simps [simp]:
  "ad_chain (recording ad) = \<lparr>interceptors = map lift_interceptor (interceptors (ad_chain ad)) @ [recorder]\<rparr>"
  "ad_view (recording ad) = ad_view ad" "ad_builder (recording ad) = ad_builder ad"
  "ad_show (recording ad) = ad_show ad" "ad_reply_view (recording ad) = ad_reply_view ad"
  by (simp_all add: recording_def)

lemma copy_recording [simp]: "copy_reply (recording ad) m = copy_reply ad m"
  by (simp add: copy_reply_def)

lemma adapt_recording [simp]: "adapt_event (recording ad) ev = adapt_event ad ev"
  by (cases ev) (simp_all split: sum.split option.split)

text \<open>An event is recorded once, when it can be adapted.\<close>

lemma recorded_event:
  "adapter_on_event (recording ad) ev (l, w) =
     (l @ (case adapt_event ad ev of None \<Rightarrow> [] | Some ev' \<Rightarrow> [ev']), adapter_on_event ad ev w)"
  by (simp add: adapter_on_event_def chain_run_event_def fold_events_lifted recorder_def
      split: option.split)

lemma recorded_failed:
  "adapter_failed (recording ad) path kind e (l, w) =
     (l @ [Failed (identity path kind) e], adapter_failed ad path kind e w)"
  by (simp add: adapter_failed_def recorded_event)

lemma recorded_before:
  "\<exists>r w'. run_before (recording ad) path kind options (l, w) =
     (r, (l @ (case r of Inl e \<Rightarrow> [] | Inr opts \<Rightarrow> [Started (identity path kind)]), w'))"
  by (auto simp: run_before_def adapter_before_def chain_is_empty_def chain_run_before_def recorded_event
      before_loop_lifted split: prod.split sum.split)

lemma recorded_after:
  "(\<exists>e w'. run_after (recording ad) path kind headers trailers (l, w) =
     (Inl e, (l @ [Failed (identity path kind) e], w'))) \<or>
   (\<exists>h t w'. copy_reply ad headers = Inr h \<and> copy_reply ad trailers = Inr t \<and>
     run_after (recording ad) path kind headers trailers (l, w) =
     (Inr (), (l @ [Completed (identity path kind) (Some h) t], w')))"
proof -
  obtain r v where egress: "run_after_egress (recording ad) path headers trailers (l, w) = (r, (l, v))"
    and copies: "r = Inr () \<Longrightarrow> (\<exists>h. copy_reply ad headers = Inr h) \<and> (\<exists>t. copy_reply ad trailers = Inr t)"
    by (cases "copy_reply ad headers"; cases "copy_reply ad trailers")
      (auto simp: run_after_egress_def chain_run_after_def after_loop_lifted chain_is_empty_def
        case_prod_beta)
  show ?thesis
  proof (cases r)
    case (Inl e)
    then show ?thesis
      using egress by (simp add: run_after_def recorded_failed)
  next
    case (Inr u)
    then show ?thesis
      using egress copies by (auto simp: run_after_def recorded_event)
  qed
qed

lemma recorded_io: "lift_io f (l, w) = (fst (f w), (l, snd (f w)))"
  by (simp add: lift_io_def split: prod.split)

text \<open>C14 (reply_events). Whatever the interceptors do, an observer sees of a call with a reply either
  nothing, when an interceptor refuses it before it starts, or exactly \<open>Started\<close> and then one
  terminal event that tells the caller's own result: \<open>Failed\<close> with the error the caller gets,
  or \<open>Completed\<close> with copies of the headers and trailers of the response the caller gets.\<close>

theorem reply_events:
  assumes "intercept_reply (recording ad) kind (\<lambda>r. lift_io (call r)) request ([], w) = (result, (events, w'))"
  shows "(events = [] \<and> (\<exists>e. result = Inl e)) \<or>
    (\<exists>e. result = Inl e \<and>
       events = [Started (identity (req_path request) kind), Failed (identity (req_path request) kind) e]) \<or>
    (\<exists>response h t. result = Inr response \<and> copy_reply ad (resp_headers response) = Inr h \<and>
       copy_reply ad (resp_trailers response) = Inr t \<and>
       events = [Started (identity (req_path request) kind),
                 Completed (identity (req_path request) kind) (Some h) t])"
proof -
  let ?p = "req_path request"
  obtain r w1 where before: "run_before (recording ad) ?p kind (req_options request) ([], w) =
      (r, ((case r of Inl e \<Rightarrow> [] | Inr opts \<Rightarrow> [Started (identity ?p kind)]), w1))"
    using recorded_before [of ad ?p kind "req_options request" "[]" w] by auto
  show ?thesis
  proof (cases r)
    case (Inl e)
    then show ?thesis
      using assms before by (auto simp: intercept_reply_def Let_def)
  next
    case (Inr opts)
    obtain q w2 where q: "call (with_options request opts) w1 = (q, w2)" by fastforce
    show ?thesis
    proof (cases q)
      case (Inl e)
      then show ?thesis
        using assms before Inr q by (auto simp: intercept_reply_def Let_def recorded_io recorded_failed)
    next
      case reply: (Inr response)
      show ?thesis
        using recorded_after [of ad ?p kind "resp_headers response" "resp_trailers response"
            "[Started (identity ?p kind)]" w2]
          assms before Inr q reply
        by (auto simp: intercept_reply_def Let_def recorded_io)
    qed
  qed
qed

section \<open>The events of a stream\<close>

text \<open>What a caller does with an opened stream, before dropping it.\<close>

datatype stream_op = Read_Message | Get_Headers | Read_Trailers

fun run_op ::
  "('w, 'md, 'mb, 'me, 'h) adapter \<Rightarrow> ('w, 's, 'o, 'h, 'md) response_stream \<Rightarrow> stream_op \<Rightarrow>
     's pattern_stream \<times> 'w \<Rightarrow> 's pattern_stream \<times> 'w" where
  "run_op ad ops Read_Message (ps, w) = snd (ps_read_message ad ops ps w)"
| "run_op ad ops Get_Headers (ps, w) = snd (ps_get_headers ad ops ps w)"
| "run_op ad ops Read_Trailers (ps, w) = snd (ps_read_trailers ad ops ps w)"

definition run_ops ::
  "('w, 'md, 'mb, 'me, 'h) adapter \<Rightarrow> ('w, 's, 'o, 'h, 'md) response_stream \<Rightarrow> stream_op list \<Rightarrow>
     's pattern_stream \<times> 'w \<Rightarrow> 's pattern_stream \<times> 'w" where
  "run_ops ad ops = fold (run_op ad ops)"

definition lift_ops ::
  "('w, 's, 'o, 'h, 'md) response_stream \<Rightarrow> ('l \<times> 'w, 's, 'o, 'h, 'md) response_stream" where
  "lift_ops ops =
     \<lparr>read_message = (\<lambda>s (l, w). case read_message ops s w of (r, s', w') \<Rightarrow> (r, s', (l, w'))),
      get_headers = (\<lambda>s (l, w). case get_headers ops s w of (r, s', w') \<Rightarrow> (r, s', (l, w'))),
      read_trailers = (\<lambda>s (l, w). case read_trailers ops s w of (r, s', w') \<Rightarrow> (r, s', (l, w'))),
      drop_stream = (\<lambda>s (l, w). (l, drop_stream ops s w))\<rparr>"

fun is_opened :: "('md, 'h) call_event \<Rightarrow> bool" where
  "is_opened (Opened c h) = True"
| "is_opened _ = False"

fun is_terminal :: "('md, 'h) call_event \<Rightarrow> bool" where
  "is_terminal (Completed c h t) = True"
| "is_terminal (Failed c e) = True"
| "is_terminal _ = False"

fun is_cancelled :: "('md, 'h) call_event \<Rightarrow> bool" where
  "is_cancelled (CancelledEvent c) = True"
| "is_cancelled _ = False"

text \<open>The end that a reading meets, as the caller sees it: a failure, or the trailers. It is an event over the
  reply's own metadata, which has still to be copied for the observers.\<close>

fun end_met ::
  "('w, 'md, 'mb, 'me, 'h) adapter \<Rightarrow> ('w, 's, 'o, 'h, 'md) response_stream \<Rightarrow> stream_op \<Rightarrow>
     's pattern_stream \<times> 'w \<Rightarrow> ('md, 'h) call_event list" where
  "end_met ad ops Read_Message (ps, w) =
     (case fst (ps_read_message ad ops ps w) of Inl e \<Rightarrow> [Failed (ps_identity ps) e] | Inr m \<Rightarrow> [])"
| "end_met ad ops Get_Headers (ps, w) = []"
| "end_met ad ops Read_Trailers (ps, w) =
     (case fst (ps_read_trailers ad ops ps w) of
        Inl e \<Rightarrow> [Failed (ps_identity ps) e]
      | Inr t \<Rightarrow> [Completed (ps_identity ps) None t])"

fun ends_met ::
  "('w, 'md, 'mb, 'me, 'h) adapter \<Rightarrow> ('w, 's, 'o, 'h, 'md) response_stream \<Rightarrow> stream_op list \<Rightarrow>
     's pattern_stream \<times> 'w \<Rightarrow> ('md, 'h) call_event list" where
  "ends_met ad ops [] pw = []"
| "ends_met ad ops (op # todo) pw = end_met ad ops op pw @ ends_met ad ops todo (run_op ad ops op pw)"

text \<open>What holds of an observed stream, of the events recorded since it was made and of the ends it met.\<close>

definition stream_inv ::
  "('w, 'md, 'mb, 'me, 'h) adapter \<Rightarrow> 's pattern_stream \<Rightarrow> ('md, 'md) call_event list \<Rightarrow> ('md, 'h) call_event list \<Rightarrow> bool" where
  "stream_inv ad ps l ends \<longleftrightarrow>
     length (filter is_opened l) \<le> (if ps_opened ps then 1 else 0) \<and>
     (ps_terminal ps \<longleftrightarrow> ends \<noteq> []) \<and>
     filter is_terminal l = List.map_filter (adapt_event ad) ends \<and>
     (\<forall>ev \<in> set l. \<not> is_cancelled ev)"

lemma map_filter_append: "List.map_filter f (xs @ ys) = List.map_filter f xs @ List.map_filter f ys"
  by (simp add: List.map_filter_def)

lemma map_filter_one: "List.map_filter f [x] = (case f x of None \<Rightarrow> [] | Some y \<Rightarrow> [y])"
  by (simp add: List.map_filter_def split: option.split)

lemma notify_opened_inv:
  assumes "notify_opened (recording ad) (lift_ops ops)
      \<lparr>ps_inner = s, ps_path = path, ps_kind = kind, ps_opened = False, ps_terminal = False\<rparr> ([], w) = (ps, (l, w'))"
  shows "stream_inv ad ps l [] \<and> ps_path ps = path \<and> ps_kind ps = kind"
proof -
  obtain r s1 w1 where h: "get_headers ops s w = (r, s1, w1)" by (metis prod_cases3)
  then show ?thesis
    using assms by (cases r)
      (auto simp: notify_opened_def lift_ops_def recorded_event stream_inv_def List.map_filter_def split: option.splits sum.splits)
qed

lemma run_op_inv:
  assumes "stream_inv ad ps l ends"
    and "run_op (recording ad) (lift_ops ops) op (ps, (l, w)) = (ps', (l', w'))"
  shows "stream_inv ad ps' l' (ends @ end_met (recording ad) (lift_ops ops) op (ps, (l, w))) \<and>
    ps_identity ps' = ps_identity ps"
proof (cases op)
  case Read_Message
  obtain r s w1 where r: "read_message ops (ps_inner ps) w = (r, s, w1)" by (metis prod_cases3)
  then show ?thesis
    using assms Read_Message
    by (cases r) (auto simp: ps_read_message_def lift_ops_def recorded_event recorded_failed stream_inv_def
      map_filter_append map_filter_one ps_identity_def split: if_splits)
next
  case Get_Headers
  obtain r s w1 where r: "get_headers ops (ps_inner ps) w = (r, s, w1)" by (metis prod_cases3)
  then show ?thesis
    using assms Get_Headers
    by (cases r) (auto simp: ps_get_headers_def lift_ops_def recorded_event stream_inv_def ps_identity_def
      split: if_splits option.splits sum.splits)
next
  case Read_Trailers
  obtain r s w1 where r: "read_trailers ops (ps_inner ps) w = (r, s, w1)" by (metis prod_cases3)
  then show ?thesis
    using assms Read_Trailers
    by (cases r) (auto simp: ps_read_trailers_def lift_ops_def recorded_event recorded_failed stream_inv_def
      map_filter_append map_filter_one ps_identity_def split: option.splits sum.splits)
qed

lemma run_ops_inv:
  assumes "stream_inv ad ps l ends"
    and "run_ops (recording ad) (lift_ops ops) todo (ps, (l, w)) = (ps', (l', w'))"
  shows "stream_inv ad ps' l' (ends @ ends_met (recording ad) (lift_ops ops) todo (ps, (l, w))) \<and>
    ps_identity ps' = ps_identity ps"
  using assms
proof (induction todo arbitrary: ps l w ends)
  case Nil
  then show ?case by (simp add: run_ops_def)
next
  case (Cons op todo)
  obtain ps1 l1 w1 where step: "run_op (recording ad) (lift_ops ops) op (ps, (l, w)) = (ps1, (l1, w1))"
    by (metis prod_cases3)
  note one = run_op_inv [OF Cons.prems(1) step]
  show ?case
    using Cons.IH [OF one [THEN conjunct1], of w1] Cons.prems(2) step one by (simp add: run_ops_def)
qed

text \<open>C15 (stream_events). However a caller reads an opened stream before dropping it, its observers
  see \<open>Opened\<close> at most once; of the ends that the caller's readings met, failures and trailers, they see each that can
  be copied for them, in order, and no other; and \<open>Cancelled\<close> comes exactly when no reading met an end, once and last.
  Trailers that cannot be copied (a binary entry that does not decode) are an end that no observer is told of:
  neither \<open>Completed\<close> nor \<open>Cancelled\<close> is seen then.\<close>

theorem stream_events:
  assumes "notify_opened (recording ad) (lift_ops ops)
      \<lparr>ps_inner = s, ps_path = path, ps_kind = kind, ps_opened = False, ps_terminal = False\<rparr> ([], w) = (ps0, lw0)"
    and "run_ops (recording ad) (lift_ops ops) todo (ps0, lw0) = (ps, (l, w'))"
    and "ps_drop (recording ad) (lift_ops ops) ps (l, w') = (events, w'')"
    and "ends = ends_met (recording ad) (lift_ops ops) todo (ps0, lw0)"
  shows "length (filter is_opened events) \<le> 1 \<and>
    filter is_terminal events = List.map_filter (adapt_event ad) ends \<and>
    events = (if ends = [] then l @ [CancelledEvent (identity path kind)] else l) \<and>
    (\<forall>ev \<in> set l. \<not> is_cancelled ev)"
proof -
  obtain l0 w0 where lw0: "lw0 = (l0, w0)" by fastforce
  have start: "stream_inv ad ps0 l0 [] \<and> ps_path ps0 = path \<and> ps_kind ps0 = kind"
    by (rule notify_opened_inv) (use assms(1) lw0 in simp)
  have "stream_inv ad ps l ends \<and> ps_identity ps = identity path kind"
    using run_ops_inv [OF start [THEN conjunct1] assms(2) [unfolded lw0]] start by (simp add: assms(4) lw0 ps_identity_def)
  then show ?thesis
    using assms(3)
    by (auto simp: ps_drop_def lift_ops_def recorded_event stream_inv_def split: if_splits)
qed

text \<open>C28 (failures_reported_again). The adapter does not remember that it has reported the end of a
  stream: each reading of a stream that has failed and fails again reports \<open>Failed\<close> again, so
  a stream can show several terminal events.\<close>

theorem failures_reported_again:
  assumes "\<And>s w. read_message ops s w = (Inl e, s, w)" and "\<And>s w. read_trailers ops s w = (Inl e, s, w)"
    and "Get_Headers \<notin> set todo"
    and "run_ops (recording ad) (lift_ops ops) todo (ps, ([], w)) = (ps', (events, w'))"
  shows "events = replicate (length todo) (Failed (ps_identity ps) e)"
proof -
  have "events = l @ replicate (length todo) (Failed (ps_identity ps) e)"
    if "run_ops (recording ad) (lift_ops ops) todo (ps, (l, w)) = (ps', (events, w'))"
      "Get_Headers \<notin> set todo" for todo ps l w
    using that
  proof (induction todo arbitrary: ps l w)
    case Nil
    then show ?case by (simp add: run_ops_def)
  next
    case (Cons op todo)
    have "run_op (recording ad) (lift_ops ops) op (ps, (l, w)) =
        (ps\<lparr>ps_terminal := True\<rparr>,
         (l @ [Failed (ps_identity ps) e], adapter_failed ad (ps_path ps) (ps_kind ps) e w))"
      using assms(1,2) Cons.prems(2)
      by (cases op) (auto simp: ps_read_message_def ps_read_trailers_def lift_ops_def
        recorded_failed ps_identity_def)
    then have "run_ops (recording ad) (lift_ops ops) todo (ps\<lparr>ps_terminal := True\<rparr>,
         (l @ [Failed (ps_identity ps) e], adapter_failed ad (ps_path ps) (ps_kind ps) e w)) =
        (ps', (events, w'))"
      using Cons.prems(1) by (simp add: run_ops_def)
    from Cons.IH [OF this] Cons.prems(2) show ?case
      by (simp add: ps_identity_def)
  qed
  then show ?thesis
    using assms(3,4) by fastforce
qed

section \<open>A concrete client\<close>

definition plain_adapter :: "(nat, unit, unit, unit, unit) adapter" where
  "plain_adapter =
     \<lparr>ad_chain = chain_default,
      ad_view = \<lparr>get_values = (\<lambda>m k. Inr []), get_entries = (\<lambda>m. Inr []), get_binary_entries = (\<lambda>m. Inr [])\<rparr>,
      ad_builder = \<lparr>mb_create = (), mb_append = (\<lambda>b k v. Inr ()), mb_append_binary = (\<lambda>b k v. Inr ()),
        mb_build = (\<lambda>b. ())\<rparr>,
      ad_show = (\<lambda>e. ''bad''),
      ad_reply_view = \<lparr>get_values = (\<lambda>m k. Inr []), get_entries = (\<lambda>m. Inr []), get_binary_entries = (\<lambda>m. Inr [])\<rparr>\<rparr>"

lemma plain_copies: "copy_reply plain_adapter m = Inr ()"
  by (simp add: copy_reply_def plain_adapter_def copy_metadata_def start_builder_def)

definition broken_stream :: "(nat, nat, nat, unit, unit) response_stream" where
  "broken_stream =
     \<lparr>read_message = (\<lambda>s w. (Inl (Transport ''/s/M'' Unavailable ''reset''), s, w)),
      get_headers = (\<lambda>s w. (Inr (), s, w)),
      read_trailers = (\<lambda>s w. (Inl (Transport ''/s/M'' Unavailable ''reset''), s, w)),
      drop_stream = (\<lambda>s w. w)\<rparr>"

definition demo_stream :: "nat pattern_stream" where
  "demo_stream = \<lparr>ps_inner = 0, ps_path = ''/s/M'', ps_kind = ServerStream, ps_opened = False, ps_terminal = False\<rparr>"

definition plain_inner :: "(nat, nat, unit, nat, nat, unit, unit) transport" where
  "plain_inner =
     \<lparr>call_unary = (\<lambda>r w. (Inr \<lparr>resp_message = req_body r, resp_headers = (), resp_trailers = ()\<rparr>, Suc w)),
      call_server_stream = (\<lambda>r w. (Inr 0, Suc w)),
      call_client_stream = (\<lambda>r w. (Inl (Transport ''/s/M'' Unavailable ''reset''), Suc w)),
      call_bidi_stream = (\<lambda>r w. (Inr 0, Suc w))\<rparr>"

definition plain_request :: "(nat, unit) call_request" where
  "plain_request = \<lparr>req_path = ''/s/M'', req_body = 7, req_options = create_options None ()\<rparr>"

definition plain_raw :: "(nat, u8 list, unit, u8 list, nat, unit, unit) transport" where
  "plain_raw =
     \<lparr>call_unary = (\<lambda>r w. (Inr \<lparr>resp_message = req_body r, resp_headers = (), resp_trailers = ()\<rparr>, Suc w)),
      call_server_stream = (\<lambda>r w. (Inr 0, Suc w)),
      call_client_stream = (\<lambda>r w. (Inl (Transport ''/s/M'' Unavailable ''reset''), Suc w)),
      call_bidi_stream = (\<lambda>r w. (Inr 0, Suc w))\<rparr>"

definition broken_raw_stream :: "(nat, nat, u8 list, unit, unit) response_stream" where
  "broken_raw_stream =
     \<lparr>read_message = (\<lambda>s w. (Inl (Transport ''/s/M'' Unavailable ''reset''), s, w)),
      get_headers = (\<lambda>s w. (Inr (), s, w)),
      read_trailers = (\<lambda>s w. (Inl (Transport ''/s/M'' Unavailable ''reset''), s, w)),
      drop_stream = (\<lambda>s w. w)\<rparr>"

lemma empty_chain_is_transparent_at_work:
  "call_unary (typed (intercepted_client plain_adapter broken_stream broken_raw_stream
     \<lparr>typed = plain_inner, raw = plain_raw\<rparr>)) plain_request 0 =
   (Inr \<lparr>resp_message = 7, resp_headers = (), resp_trailers = ()\<rparr>, 1)"
  using empty_chain_is_transparent [of plain_adapter broken_stream "\<lparr>typed = plain_inner, raw = plain_raw\<rparr>"
      broken_raw_stream]
  by (simp add: plain_adapter_def chain_is_empty_def chain_default_def plain_inner_def plain_request_def
      forwards_as_is_def)

lemma demo_reply:
  "intercept_reply (recording plain_adapter) Unary (\<lambda>r. lift_io (call_unary plain_inner r)) plain_request ([], 0) =
   (Inr \<lparr>resp_message = 7, resp_headers = (), resp_trailers = ()\<rparr>,
    ([Started (identity ''/s/M'' Unary), Completed (identity ''/s/M'' Unary) (Some ()) ()], 1))"
  by code_simp

theorem reply_events_witness:
  "\<exists>h t. copy_reply plain_adapter () = Inr h \<and> copy_reply plain_adapter () = Inr t \<and>
     intercept_reply (recording plain_adapter) Unary (\<lambda>r. lift_io (call_unary plain_inner r)) plain_request ([], 0) =
       (Inr \<lparr>resp_message = 7, resp_headers = (), resp_trailers = ()\<rparr>,
        ([Started (identity ''/s/M'' Unary), Completed (identity ''/s/M'' Unary) (Some h) t], 1))"
  using reply_events [OF demo_reply] demo_reply by (auto simp: plain_request_def)

lemma demo_opening:
  "notify_opened (recording plain_adapter) (lift_ops broken_stream) demo_stream ([], 0) =
     (demo_stream\<lparr>ps_opened := True\<rparr>, ([Opened (identity ''/s/M'' ServerStream) ()], 0))"
  by code_simp

lemma demo_reading:
  "run_ops (recording plain_adapter) (lift_ops broken_stream) [Read_Message]
     (demo_stream\<lparr>ps_opened := True\<rparr>, ([Opened (identity ''/s/M'' ServerStream) ()], 0)) =
   (demo_stream\<lparr>ps_opened := True, ps_terminal := True\<rparr>,
    ([Opened (identity ''/s/M'' ServerStream) (),
      Failed (identity ''/s/M'' ServerStream) (Transport ''/s/M'' Unavailable ''reset'')], 0))"
  by code_simp

theorem stream_events_witness:
  "fst (ps_drop (recording plain_adapter) (lift_ops broken_stream)
      (demo_stream\<lparr>ps_opened := True, ps_terminal := True\<rparr>)
      ([Opened (identity ''/s/M'' ServerStream) (),
        Failed (identity ''/s/M'' ServerStream) (Transport ''/s/M'' Unavailable ''reset'')], 0)) =
   [Opened (identity ''/s/M'' ServerStream) (),
    Failed (identity ''/s/M'' ServerStream) (Transport ''/s/M'' Unavailable ''reset'')]"
proof -
  obtain events w where drop: "ps_drop (recording plain_adapter) (lift_ops broken_stream)
      (demo_stream\<lparr>ps_opened := True, ps_terminal := True\<rparr>)
      ([Opened (identity ''/s/M'' ServerStream) (),
        Failed (identity ''/s/M'' ServerStream) (Transport ''/s/M'' Unavailable ''reset'')], 0) = (events, w)"
    by fastforce
  have "ends_met (recording plain_adapter) (lift_ops broken_stream) [Read_Message]
      (demo_stream\<lparr>ps_opened := True\<rparr>, ([Opened (identity ''/s/M'' ServerStream) ()], 0)) \<noteq> []"
    by (simp add: ps_read_message_def lift_ops_def broken_stream_def)
  then show ?thesis
    using stream_events [OF demo_opening [unfolded demo_stream_def]
        demo_reading [unfolded demo_stream_def] drop [unfolded demo_stream_def] refl] drop
    by (auto simp: demo_stream_def)
qed

text \<open>A stream whose trailers do not decode: it ends, and its observers are not told.\<close>

definition undecoded_adapter :: "(nat, unit, unit, unit, unit) adapter" where
  "undecoded_adapter = plain_adapter\<lparr>ad_reply_view := (ad_reply_view plain_adapter)
     \<lparr>get_binary_entries := (\<lambda>m. Inr [Inl ()])\<rparr>\<rparr>"

definition ended_stream :: "(nat, nat, nat, unit, unit) response_stream" where
  "ended_stream =
     \<lparr>read_message = (\<lambda>s w. (Inr None, s, w)), get_headers = (\<lambda>s w. (Inr (), s, w)),
      read_trailers = (\<lambda>s w. (Inr (), s, w)), drop_stream = (\<lambda>s w. w)\<rparr>"

lemma uncopied_end_unseen:
  "run_ops (recording undecoded_adapter) (lift_ops ended_stream) [Read_Message, Read_Trailers] (demo_stream, ([], 0)) =
     (demo_stream\<lparr>ps_terminal := True\<rparr>, ([], 0))"
  "fst (ps_drop (recording undecoded_adapter) (lift_ops ended_stream) (demo_stream\<lparr>ps_terminal := True\<rparr>) ([], 0)) = []"
  by code_simp+

theorem failures_reported_again_witness:
  "fst (snd (run_ops (recording plain_adapter) (lift_ops broken_stream) [Read_Message, Read_Trailers]
      (demo_stream, ([], 0)))) =
   replicate 2 (Failed (identity ''/s/M'' ServerStream) (Transport ''/s/M'' Unavailable ''reset''))"
proof -
  obtain ps events w where run: "run_ops (recording plain_adapter) (lift_ops broken_stream)
      [Read_Message, Read_Trailers] (demo_stream, ([], 0)) = (ps, (events, w))"
    by (metis prod_cases3)
  show ?thesis
    using failures_reported_again [OF _ _ _ run, of "Transport ''/s/M'' Unavailable ''reset''"] run
    by (simp add: broken_stream_def demo_stream_def ps_identity_def numeral_2_eq_2)
qed

end
