(* ===== verification/Bearer_Auth.thy ===== *)
theory Bearer_Auth
  imports Interceptors Config_Core
begin

text \<open>
  Bearer authentication (\<open>grpc-egress-auth-bearer-api\<close>, \<open>-std\<close>, \<open>-spi\<close>): the secret, the signing
  configuration with its builder, the claims builder, the guard of secrets, and the interceptor
  that mints a token per call. The clock, the token library and its keys are parameters.
\<close>

section \<open>Errors and secrets\<close>

text \<open>\<open>'x\<close> is the source of a signing failure, which its text does not show.\<close>

datatype 'x bearer_auth_error = SignFailed 'x | InvalidSystemTime | ValidationFailed string

fun bearer_error_text :: "'x bearer_auth_error \<Rightarrow> string" where
  "bearer_error_text (SignFailed x) = ''failed to mint bearer token''"
| "bearer_error_text InvalidSystemTime = ''system clock is before Unix epoch''"
| "bearer_error_text (ValidationFailed s) = ''validation error: '' @ s"

datatype secret_material = Hs256 "u8 list" | Rs256 "u8 list"

datatype bearer_secret = BearerSecret secret_material

definition secret_try_from :: "secret_material \<Rightarrow> 'x bearer_auth_error + bearer_secret" where
  "secret_try_from material =
     (case material of
        Hs256 secret \<Rightarrow>
          (if secret = [] then Inl (ValidationFailed ''HS256 secret must not be empty'') else Inr (BearerSecret material))
      | Rs256 private_pem \<Rightarrow>
          (if private_pem = [] then Inl (ValidationFailed ''RS256 private PEM must not be empty'')
           else Inr (BearerSecret material)))"

definition hs256 :: "u8 list \<Rightarrow> 'x bearer_auth_error + bearer_secret" where
  "hs256 secret = secret_try_from (Hs256 secret)"

definition rs256 :: "u8 list \<Rightarrow> 'x bearer_auth_error + bearer_secret" where
  "rs256 private_pem = secret_try_from (Rs256 private_pem)"

fun hs256_secret :: "bearer_secret \<Rightarrow> u8 list option" where
  "hs256_secret (BearerSecret (Hs256 secret)) = Some secret"
| "hs256_secret (BearerSecret (Rs256 private_pem)) = None"

fun rs256_private_pem :: "bearer_secret \<Rightarrow> u8 list option" where
  "rs256_private_pem (BearerSecret (Hs256 secret)) = None"
| "rs256_private_pem (BearerSecret (Rs256 private_pem)) = Some private_pem"

text \<open>The guard compares in constant time; the result is equality of the bytes.\<close>

definition ct_eq_hs256 :: "bearer_secret \<Rightarrow> bearer_secret \<Rightarrow> bool" where
  "ct_eq_hs256 left right =
     (case (hs256_secret left, hs256_secret right) of (Some a, Some b) \<Rightarrow> a = b | _ \<Rightarrow> False)"

section \<open>The signing configuration\<close>

record bearer_egress_config =
  be_secret :: bearer_secret
  be_issuer :: string
  be_audience :: string
  be_subject :: string
  be_lifetime_seconds :: u64

definition bearer_validate :: "bearer_egress_config \<Rightarrow> 'x bearer_auth_error + unit" where
  "bearer_validate c =
     (if be_issuer c = [] then Inl (ValidationFailed ''issuer must not be empty'')
      else if be_audience c = [] then Inl (ValidationFailed ''audience must not be empty'')
      else if be_subject c = [] then Inl (ValidationFailed ''subject must not be empty'')
      else if be_lifetime_seconds c = 0 then Inl (ValidationFailed ''lifetime_seconds must be >= 1'')
      else Inr ())"

definition bearer_try_new ::
  "bearer_secret \<Rightarrow> string \<Rightarrow> string \<Rightarrow> string \<Rightarrow> u64 \<Rightarrow> 'x bearer_auth_error + bearer_egress_config" where
  "bearer_try_new secret issuer audience subject lifetime_seconds =
     (let c = \<lparr>be_secret = secret, be_issuer = issuer, be_audience = audience, be_subject = subject,
               be_lifetime_seconds = lifetime_seconds\<rparr>
      in bind_result (bearer_validate c) (\<lambda>_. Inr c))"

text \<open>The data of a document; its secret is checked when it is read.\<close>

type_synonym bearer_config_data = "secret_material \<times> string \<times> string \<times> string \<times> u64"

definition bearer_config_try_from :: "bearer_config_data \<Rightarrow> 'x bearer_auth_error + bearer_egress_config" where
  "bearer_config_try_from d = (case d of (material, issuer, audience, subject, lifetime_seconds) \<Rightarrow>
     bind_result (secret_try_from material)
       (\<lambda>secret. bearer_try_new secret issuer audience subject lifetime_seconds))"

record bearer_config_builder =
  bb_secret :: "bearer_secret option"
  bb_issuer :: "string option"
  bb_audience :: "string option"
  bb_subject :: "string option"
  bb_lifetime_seconds :: "u64 option"

definition default_bearer_builder :: bearer_config_builder where
  "default_bearer_builder =
     \<lparr>bb_secret = None, bb_issuer = None, bb_audience = None, bb_subject = None, bb_lifetime_seconds = None\<rparr>"

datatype bearer_setting =
    Bearer_secret bearer_secret
  | Bearer_issuer string
  | Bearer_audience string
  | Bearer_subject string
  | Bearer_lifetime_seconds u64

fun apply_bearer_setting :: "bearer_setting \<Rightarrow> bearer_config_builder \<Rightarrow> bearer_config_builder" where
  "apply_bearer_setting (Bearer_secret s) b = b\<lparr>bb_secret := Some s\<rparr>"
| "apply_bearer_setting (Bearer_issuer s) b = b\<lparr>bb_issuer := Some s\<rparr>"
| "apply_bearer_setting (Bearer_audience s) b = b\<lparr>bb_audience := Some s\<rparr>"
| "apply_bearer_setting (Bearer_subject s) b = b\<lparr>bb_subject := Some s\<rparr>"
| "apply_bearer_setting (Bearer_lifetime_seconds n) b = b\<lparr>bb_lifetime_seconds := Some n\<rparr>"

definition build_bearer_config :: "bearer_config_builder \<Rightarrow> string + bearer_egress_config" where
  "build_bearer_config b =
     bind_result (ok_or ''secret is required'' (bb_secret b)) (\<lambda>secret.
     bind_result (ok_or ''issuer is required'' (bb_issuer b)) (\<lambda>issuer.
     bind_result (ok_or ''audience is required'' (bb_audience b)) (\<lambda>audience.
     bind_result (ok_or ''subject is required'' (bb_subject b)) (\<lambda>subject.
     bind_result (ok_or ''lifetime_seconds is required'' (bb_lifetime_seconds b)) (\<lambda>lifetime.
       map_err (\<lambda>e :: unit bearer_auth_error. bearer_error_text e)
         (bearer_try_new secret issuer audience subject lifetime))))))"

section \<open>Claims\<close>

record jwt_claims =
  jc_iss :: string
  jc_aud :: string
  jc_sub :: string
  jc_exp :: u64
  jc_iat :: u64

record jwt_claims_builder =
  jb_iss :: "string option"
  jb_aud :: "string option"
  jb_sub :: "string option"
  jb_exp :: "u64 option"
  jb_iat :: "u64 option"

definition default_claims_builder :: jwt_claims_builder where
  "default_claims_builder = \<lparr>jb_iss = None, jb_aud = None, jb_sub = None, jb_exp = None, jb_iat = None\<rparr>"

datatype claim_setting = Claim_iss string | Claim_aud string | Claim_subject string | Claim_exp u64 | Claim_iat u64

fun apply_claim :: "claim_setting \<Rightarrow> jwt_claims_builder \<Rightarrow> jwt_claims_builder" where
  "apply_claim (Claim_iss s) b = b\<lparr>jb_iss := Some s\<rparr>"
| "apply_claim (Claim_aud s) b = b\<lparr>jb_aud := Some s\<rparr>"
| "apply_claim (Claim_subject s) b = b\<lparr>jb_sub := Some s\<rparr>"
| "apply_claim (Claim_exp n) b = b\<lparr>jb_exp := Some n\<rparr>"
| "apply_claim (Claim_iat n) b = b\<lparr>jb_iat := Some n\<rparr>"

definition build_claims :: "jwt_claims_builder \<Rightarrow> string + jwt_claims" where
  "build_claims b =
     bind_result (ok_or ''iss is required'' (jb_iss b)) (\<lambda>iss.
     bind_result (ok_or ''aud is required'' (jb_aud b)) (\<lambda>aud.
     bind_result (ok_or ''sub is required'' (jb_sub b)) (\<lambda>sub.
     bind_result (ok_or ''exp is required'' (jb_exp b)) (\<lambda>exp_at.
     bind_result (ok_or ''iat is required'' (jb_iat b)) (\<lambda>iat.
       Inr \<lparr>jc_iss = iss, jc_aud = aud, jc_sub = sub, jc_exp = exp_at, jc_iat = iat\<rparr>)))))"

section \<open>The interceptor\<close>

datatype jwt_algorithm = HS256 | RS256

text \<open>The clock tells the time since the epoch, or that it is before it.\<close>

record ('w, 'k, 'je) jwt_library =
  jl_now :: "('w, unit + duration) io"
  jl_from_secret :: "u8 list \<Rightarrow> 'k"
  jl_from_rsa_pem :: "u8 list \<Rightarrow> 'je + 'k"
  jl_encode :: "jwt_algorithm \<Rightarrow> jwt_claims \<Rightarrow> 'k \<Rightarrow> 'je + string"

definition saturating_add_u64 :: "u64 \<Rightarrow> u64 \<Rightarrow> u64" where
  "saturating_add_u64 a b = (if a + b < a then - 1 else a + b)"

text \<open>The last case of the source, no usable key, has no key material to come from; its error is a
  text of its own (\<open>None\<close>).\<close>

definition signing_key ::
  "('w, 'k, 'je) jwt_library \<Rightarrow> bearer_secret \<Rightarrow> 'je option bearer_auth_error + jwt_algorithm \<times> 'k" where
  "signing_key jl secret =
     (case hs256_secret secret of
        Some bytes \<Rightarrow> Inr (HS256, jl_from_secret jl bytes)
      | None \<Rightarrow>
          (case rs256_private_pem secret of
             Some pem \<Rightarrow> bind_result (map_err (\<lambda>e. SignFailed (Some e)) (jl_from_rsa_pem jl pem)) (\<lambda>key. Inr (RS256, key))
           | None \<Rightarrow> Inl (SignFailed None)))"

definition token_claims :: "bearer_egress_config \<Rightarrow> u64 \<Rightarrow> jwt_claims" where
  "token_claims cfg now =
     \<lparr>jc_iss = be_issuer cfg, jc_aud = be_audience cfg, jc_sub = be_subject cfg,
      jc_exp = saturating_add_u64 now (be_lifetime_seconds cfg), jc_iat = now\<rparr>"

definition sign_token ::
  "('w, 'k, 'je) jwt_library \<Rightarrow> bearer_egress_config \<Rightarrow> ('w, 'je option bearer_auth_error + string) io" where
  "sign_token jl cfg w =
     (case jl_now jl w of
        (Inl e, w') \<Rightarrow> (Inl InvalidSystemTime, w')
      | (Inr d, w') \<Rightarrow>
          (bind_result (signing_key jl (be_secret cfg)) (\<lambda>(alg, key).
             map_err (\<lambda>e. SignFailed (Some e)) (jl_encode jl alg (token_claims cfg (as_secs d)) key)), w'))"

definition authorization_header :: string where
  "authorization_header = ''authorization''"

definition bearer_before :: "('w, 'k, 'je) jwt_library \<Rightarrow> bearer_egress_config \<Rightarrow> 'w \<Rightarrow> ('w, 'md) call_program" where
  "bearer_before jl cfg w =
     HasHeader authorization_header (\<lambda>present.
       if present then Finish (Inr ()) w
       else
         (case sign_token jl cfg w of
            (Inl e, w') \<Rightarrow>
              AskPath (\<lambda>path. Finish (Inl (Transport path Internal ''failed to mint bearer token'')) w')
          | (Inr token, w') \<Rightarrow>
              AddHeader authorization_header (''Bearer '' @ token) (\<lambda>r. Finish r w')))"

definition bearer_interceptor :: "('w, 'k, 'je) jwt_library \<Rightarrow> bearer_egress_config \<Rightarrow> ('w, 'md) interceptor" where
  "bearer_interceptor jl cfg =
     \<lparr>before_call = bearer_before jl cfg, after_call = (\<lambda>reply w. (Inr (), w)), on_event = (\<lambda>ev w. w)\<rparr>"

section \<open>The contract of the configuration\<close>

definition valid_bearer_config :: "bearer_egress_config \<Rightarrow> bool" where
  "valid_bearer_config c \<longleftrightarrow>
     be_issuer c \<noteq> [] \<and> be_audience c \<noteq> [] \<and> be_subject c \<noteq> [] \<and> be_lifetime_seconds c \<noteq> 0"

definition bearer_construct ::
  "bearer_secret \<times> string \<times> string \<times> string \<times> u64 \<Rightarrow> unit bearer_auth_error + bearer_egress_config" where
  "bearer_construct x = (case x of (s, i, a, sub, n) \<Rightarrow> bearer_try_new s i a sub n)"

definition bearer_fields :: "bearer_egress_config \<Rightarrow> bearer_secret \<times> string \<times> string \<times> string \<times> u64" where
  "bearer_fields c = (be_secret c, be_issuer c, be_audience c, be_subject c, be_lifetime_seconds c)"

lemma bearer_validate_iff: "bearer_validate c = Inr () \<longleftrightarrow> valid_bearer_config c"
  by (simp add: bearer_validate_def valid_bearer_config_def)

lemma bearer_try_new_Inr:
  "bearer_try_new s i a sub n = Inr c \<longleftrightarrow> valid_bearer_config c \<and> bearer_fields c = (s, i, a, sub, n)"
  by (cases c) (auto simp: bearer_try_new_def Let_def bearer_validate_iff bearer_fields_def)

interpretation bearer_cfg: constructible_config bearer_construct
  "bearer_validate :: _ \<Rightarrow> unit bearer_auth_error + unit" valid_bearer_config bearer_fields
  by unfold_locales
    (auto simp: bearer_construct_def bearer_validate_iff bearer_try_new_Inr bearer_fields_def split: prod.splits)

end
