(* ===== verification/Context_Transport.thy ===== *)
theory Context_Transport
  imports Intercepted
begin

text \<open>
  A view of a client whose calls carry the headers of a caller's identity: \<open>ContextHeaders\<close> and
  \<open>ContextTransport\<close> of \<open>grpc-egress-transport-spi\<close>. The identity is what the caller's own
  \<open>CallerIdentity\<close> answers.
\<close>

section \<open>The headers of an identity\<close>

record caller_identity =
  ci_trace_id :: "string option"
  ci_tenant_id :: "string option"
  ci_bearer_token :: "string option"
  ci_headers :: "(string \<times> string) list"

definition header_of :: "string \<Rightarrow> string \<Rightarrow> string option \<Rightarrow> (string \<times> string) list" where
  "header_of key lead x = (case x of None \<Rightarrow> [] | Some s \<Rightarrow> [(key, lead @ s)])"

definition context_headers :: "caller_identity \<Rightarrow> (string \<times> string) list" where
  "context_headers ident =
     header_of ''x-trace-id'' [] (ci_trace_id ident) @
     header_of ''x-tenant-id'' [] (ci_tenant_id ident) @
     header_of ''authorization'' ''Bearer '' (ci_bearer_token ident) @
     ci_headers ident"

section \<open>The view\<close>

text \<open>What the view works with: how metadata is read, built and how its errors read, and the headers
  derived when the view was made.\<close>

record ('md, 'mb, 'me) context_view =
  cx_view :: "('md, 'me) metadata_view"
  cx_builder :: "('md, 'mb, 'me) metadata_builder"
  cx_show :: "'me \<Rightarrow> string"
  cx_headers :: "(string \<times> string) list"

definition context_view_from ::
  "('md, 'me) metadata_view \<Rightarrow> ('md, 'mb, 'me) metadata_builder \<Rightarrow> ('me \<Rightarrow> string) \<Rightarrow> caller_identity \<Rightarrow>
     ('md, 'mb, 'me) context_view" where
  "context_view_from view mb show_me ident =
     \<lparr>cx_view = view, cx_builder = mb, cx_show = show_me, cx_headers = context_headers ident\<rparr>"

definition context_add_headers ::
  "('md, 'mb, 'me) context_view \<Rightarrow> string \<Rightarrow> 'md call_options \<Rightarrow> 'md call_error + 'md call_options" where
  "context_add_headers cx path options =
     (if cx_headers cx = [] then Inr options
      else bind_result
        (map_err (\<lambda>e. Transport path InvalidArgument (''the identity holds a header that is not valid: '' @ cx_show cx e))
           (extend_headers (cx_view cx) (cx_builder cx) (opt_metadata options) (cx_headers cx)))
        (\<lambda>metadata. Inr (create_options (opt_timeout options) metadata)))"

text \<open>What each of the eight calls does, for the call \<open>send\<close> of the inner client.\<close>

definition context_call ::
  "('md, 'mb, 'me) context_view \<Rightarrow> (('i, 'md) call_request \<Rightarrow> ('w, 'md call_error + 'r) io) \<Rightarrow>
     ('i, 'md) call_request \<Rightarrow> ('w, 'md call_error + 'r) io" where
  "context_call cx send request w =
     (case context_add_headers cx (req_path request) (req_options request) of
        Inl e \<Rightarrow> (Inl e, w)
      | Inr options \<Rightarrow> send (with_options request options) w)"

definition context_typed ::
  "('md, 'mb, 'me) context_view \<Rightarrow> ('w, 'i, 'q, 'o, 's, 'md, 'h) transport \<Rightarrow>
     ('w, 'i, 'q, 'o, 's, 'md, 'h) transport" where
  "context_typed cx inner =
     \<lparr>call_unary = context_call cx (call_unary inner),
      call_server_stream = context_call cx (call_server_stream inner),
      call_client_stream = context_call cx (call_client_stream inner),
      call_bidi_stream = context_call cx (call_bidi_stream inner)\<rparr>"

definition context_raw ::
  "('md, 'mb, 'me) context_view \<Rightarrow> ('w, u8 list, 'q, u8 list, 's, 'md, 'h) transport \<Rightarrow>
     ('w, u8 list, 'q, u8 list, 's, 'md, 'h) transport" where
  "context_raw cx inner =
     \<lparr>call_unary = context_call cx (call_unary inner),
      call_server_stream = context_call cx (call_server_stream inner),
      call_client_stream = context_call cx (call_client_stream inner),
      call_bidi_stream = context_call cx (call_bidi_stream inner)\<rparr>"

definition context_client ::
  "('md, 'mb, 'me) context_view \<Rightarrow> ('w, 'i, 'q, 'o, 's, 'bq, 'bs, 'md, 'h) client \<Rightarrow>
     ('w, 'i, 'q, 'o, 's, 'bq, 'bs, 'md, 'h) client" where
  "context_client cx inner = \<lparr>typed = context_typed cx (typed inner), raw = context_raw cx (raw inner)\<rparr>"

section \<open>What a call carries\<close>

text \<open>The headers an identity adds to a call with the metadata \<open>m\<close>: those whose key \<open>m\<close> does not
  have.\<close>

definition added_headers ::
  "('md, 'me) metadata_view \<Rightarrow> (string \<Rightarrow> string) \<Rightarrow> caller_identity \<Rightarrow> 'md \<Rightarrow> (string \<times> string) list" where
  "added_headers view form ident m =
     map (\<lambda>(k, v). (form k, v)) (filter (\<lambda>(k, v). \<not> carries view form m k) (context_headers ident))"

text \<open>A call through the view is refused before anything is sent, or is one call of the inner client:
  the same path, message and timeout, and the caller's headers first.\<close>

definition carries_identity ::
  "('md, 'me) metadata_view \<Rightarrow> (string \<Rightarrow> string) \<Rightarrow> caller_identity \<Rightarrow>
     (('i, 'md) call_request \<Rightarrow> ('w, 'md call_error + 'r) io) \<Rightarrow>
     (('i, 'md) call_request \<Rightarrow> ('w, 'md call_error + 'r) io) \<Rightarrow> bool" where
  "carries_identity view form ident inner outer \<longleftrightarrow>
     (\<forall>request w.
        (\<exists>reason. outer request w = (Inl (Transport (req_path request) InvalidArgument reason), w)) \<or>
        (\<exists>m. outer request w =
              inner (with_options request (create_options (opt_timeout (req_options request)) m)) w \<and>
             entries_of view m = entries_of view (opt_metadata (req_options request)) @
               added_headers view form ident (opt_metadata (req_options request))))"

lemma context_call_carries:
  fixes send :: "('i, 'md) call_request \<Rightarrow> ('w, 'md call_error + 'r) io"
  assumes "lawful_metadata view mb form texts"
  shows "carries_identity view form ident send (context_call (context_view_from view mb show_me ident) send)"
  unfolding carries_identity_def
proof (intro allI)
  fix request :: "('i, 'md) call_request" and w :: 'w
  let ?cx = "context_view_from view mb show_me ident"
  let ?m = "opt_metadata (req_options request)"
  show "(\<exists>reason. context_call ?cx send request w = (Inl (Transport (req_path request) InvalidArgument reason), w)) \<or>
    (\<exists>m. context_call ?cx send request w =
          send (with_options request (create_options (opt_timeout (req_options request)) m)) w \<and>
         entries_of view m = entries_of view ?m @ added_headers view form ident ?m)"
  proof (cases "context_headers ident = []")
    case True
    then show ?thesis
      by (auto intro!: disjI2 exI [of _ ?m]
          simp: context_call_def context_add_headers_def context_view_from_def added_headers_def)
  next
    case False
    show ?thesis
    proof (cases "extend_headers view mb ?m (context_headers ident)")
      case (Inl e)
      with False show ?thesis
        by (simp add: context_call_def context_add_headers_def context_view_from_def)
    next
      case (Inr m)
      with False extend_headers_entries [OF assms Inr] show ?thesis
        by (auto intro!: disjI2 exI [of _ m]
            simp: context_call_def context_add_headers_def context_view_from_def added_headers_def)
    qed
  qed
qed

text \<open>C16 (identity_headers_carried). Every call of a client bound to an identity, typed or raw, of any
  shape, is refused with \<open>InvalidArgument\<close> before anything is sent, or is the caller's own call with
  the identity's headers added after the caller's, in order, except those the caller has set: an
  identity never replaces a header of the call, and is never dropped silently.\<close>

theorem identity_headers_carried:
  assumes "lawful_metadata view mb form texts"
    and "bound = context_client (context_view_from view mb show_me ident) inner"
  shows "carries_identity view form ident (call_unary (typed inner)) (call_unary (typed bound)) \<and>
    carries_identity view form ident (call_server_stream (typed inner)) (call_server_stream (typed bound)) \<and>
    carries_identity view form ident (call_client_stream (typed inner)) (call_client_stream (typed bound)) \<and>
    carries_identity view form ident (call_bidi_stream (typed inner)) (call_bidi_stream (typed bound)) \<and>
    carries_identity view form ident (call_unary (raw inner)) (call_unary (raw bound)) \<and>
    carries_identity view form ident (call_server_stream (raw inner)) (call_server_stream (raw bound)) \<and>
    carries_identity view form ident (call_client_stream (raw inner)) (call_client_stream (raw bound)) \<and>
    carries_identity view form ident (call_bidi_stream (raw inner)) (call_bidi_stream (raw bound))"
  using assms by (simp add: context_client_def context_typed_def context_raw_def context_call_carries)

definition demo_caller :: caller_identity where
  "demo_caller = \<lparr>ci_trace_id = Some ''t'', ci_tenant_id = None, ci_bearer_token = Some ''b'', ci_headers = []\<rparr>"

definition echo_transport :: "(nat, 'i, 'q, (string \<times> string) list, nat, (string \<times> string) list, unit) transport" where
  "echo_transport =
     \<lparr>call_unary = (\<lambda>r w. (Inr \<lparr>resp_message = opt_metadata (req_options r), resp_headers = (), resp_trailers = ()\<rparr>, w)),
      call_server_stream = (\<lambda>r w. (Inr 0, w)),
      call_client_stream = (\<lambda>r w. (Inr \<lparr>resp_message = opt_metadata (req_options r), resp_headers = (), resp_trailers = ()\<rparr>, w)),
      call_bidi_stream = (\<lambda>r w. (Inr 0, w))\<rparr>"

definition silent_raw :: "(nat, u8 list, nat, u8 list, nat, (string \<times> string) list, unit) transport" where
  "silent_raw =
     \<lparr>call_unary = (\<lambda>r w. (Inr \<lparr>resp_message = [], resp_headers = (), resp_trailers = ()\<rparr>, w)),
      call_server_stream = (\<lambda>r w. (Inr 0, w)),
      call_client_stream = (\<lambda>r w. (Inr \<lparr>resp_message = [], resp_headers = (), resp_trailers = ()\<rparr>, w)),
      call_bidi_stream = (\<lambda>r w. (Inr 0, w))\<rparr>"

definition echo_client ::
  "(nat, nat, nat, (string \<times> string) list, nat, nat, nat, (string \<times> string) list, unit) client" where
  "echo_client = \<lparr>typed = echo_transport, raw = silent_raw\<rparr>"

theorem identity_headers_carried_witness:
  "carries_identity list_view to_ascii_lowercase demo_caller (call_unary (typed echo_client))
     (call_unary (typed (context_client (context_view_from list_view list_builder (\<lambda>e. ''bad'') demo_caller) echo_client)))"
  using identity_headers_carried [OF list_lawful refl] by blast

end
