(* ===== verification/Bearer_Properties.thy ===== *)
theory Bearer_Properties
  imports Bearer_Auth Context_Transport
begin

text \<open>
  What bearer authentication promises: which configurations there are, what a call that passes the
  interceptor carries, and that a caller's own credential, or the one of the identity a client is
  bound to, is kept and costs no token.
\<close>

section \<open>The values of a configuration\<close>

fun key_material :: "bearer_secret \<Rightarrow> u8 list" where
  "key_material (BearerSecret (Hs256 secret)) = secret"
| "key_material (BearerSecret (Rs256 private_pem)) = private_pem"

definition well_formed_bearer :: "bearer_egress_config \<Rightarrow> bool" where
  "well_formed_bearer c \<longleftrightarrow> valid_bearer_config c \<and> key_material (be_secret c) \<noteq> []"

fun secret_of :: "bearer_secret \<Rightarrow> secret_material" where
  "secret_of (BearerSecret material) = material"

lemma secret_try_from_Inr:
  "secret_try_from material = Inr s \<longleftrightarrow> s = BearerSecret material \<and> key_material (BearerSecret material) \<noteq> []"
  by (cases material) (auto simp: secret_try_from_def)

lemma bearer_config_try_from_Inr:
  "bearer_config_try_from d = Inr c \<longleftrightarrow>
     well_formed_bearer c \<and>
     d = (secret_of (be_secret c), be_issuer c, be_audience c, be_subject c, be_lifetime_seconds c)"
proof -
  obtain material i a s n where d: "d = (material, i, a, s, n)"
    by (cases d)
  obtain m where m: "be_secret c = BearerSecret m"
    by (cases "be_secret c")
  show ?thesis
    unfolding d bearer_config_try_from_def
    by (auto simp: secret_try_from_Inr bearer_try_new_Inr well_formed_bearer_def bearer_fields_def m)
qed

text \<open>The secrets given to the builder: each can only have come from its own check.\<close>

definition checked_secret :: "bearer_secret \<Rightarrow> bool" where
  "checked_secret s \<longleftrightarrow> secret_try_from (secret_of s) = (Inr s :: unit bearer_auth_error + bearer_secret)"

fun given_secret :: "bearer_setting \<Rightarrow> bearer_secret option" where
  "given_secret (Bearer_secret s) = Some s"
| "given_secret _ = None"

definition given_secrets :: "bearer_setting list \<Rightarrow> bearer_secret set" where
  "given_secrets settings = set (List.map_filter given_secret settings)"

abbreviation with_settings :: "bearer_setting list \<Rightarrow> bearer_config_builder" where
  "with_settings settings \<equiv> foldl (\<lambda>b x. apply_bearer_setting x b) default_bearer_builder settings"

lemma checked_secret_iff: "checked_secret s \<longleftrightarrow> key_material s \<noteq> []"
  by (cases s) (auto simp: checked_secret_def secret_try_from_Inr)

lemma builder_secret_given:
  "bb_secret (foldl (\<lambda>b x. apply_bearer_setting x b) b settings) = Some s \<Longrightarrow>
     bb_secret b = Some s \<or> s \<in> given_secrets settings"
proof (induction settings arbitrary: b)
  case (Cons x settings)
  then show ?case
    by (cases x) (fastforce simp: given_secrets_def map_filter_simps)+
qed simp

lemma build_bearer_config_Inr:
  "build_bearer_config b = Inr c \<longleftrightarrow>
     valid_bearer_config c \<and>
     b = \<lparr>bb_secret = Some (be_secret c), bb_issuer = Some (be_issuer c), bb_audience = Some (be_audience c),
          bb_subject = Some (be_subject c), bb_lifetime_seconds = Some (be_lifetime_seconds c)\<rparr>"
  by (cases b) (auto simp: build_bearer_config_def bearer_try_new_Inr bearer_fields_def)

lemma built_well_formed:
  assumes "build_bearer_config (with_settings settings) = Inr c" "given_secrets settings \<subseteq> Collect checked_secret"
  shows "well_formed_bearer c"
proof -
  have "bb_secret (with_settings settings) = Some (be_secret c)"
    using assms(1) by (simp add: build_bearer_config_Inr)
  then have "be_secret c \<in> given_secrets settings"
    using builder_secret_given by (fastforce simp: default_bearer_builder_def)
  with assms show ?thesis
    by (auto simp: well_formed_bearer_def build_bearer_config_Inr checked_secret_iff)
qed

lemma well_formed_built:
  assumes "well_formed_bearer c"
  shows "\<exists>settings. given_secrets settings \<subseteq> Collect checked_secret \<and>
    build_bearer_config (with_settings settings) = Inr c"
  using assms
  by (intro exI [of _ "[Bearer_secret (be_secret c), Bearer_issuer (be_issuer c), Bearer_audience (be_audience c),
      Bearer_subject (be_subject c), Bearer_lifetime_seconds (be_lifetime_seconds c)]"])
    (simp add: build_bearer_config_Inr default_bearer_builder_def given_secrets_def map_filter_simps
      checked_secret_iff well_formed_bearer_def)

text \<open>C31 (bearer_config_well_formed). The signing configurations a document can hold and those the
  builder can make, given secrets that were themselves checked, are the same values: an issuer, an
  audience, a subject and key material that are not empty, and a lifetime of a second at least.\<close>

theorem bearer_config_well_formed:
  "(\<exists>d. (bearer_config_try_from d :: unit bearer_auth_error + bearer_egress_config) = Inr c) = well_formed_bearer c \<and>
   (\<exists>settings. given_secrets settings \<subseteq> Collect checked_secret \<and>
      build_bearer_config (with_settings settings) = Inr c) = well_formed_bearer c"
  using built_well_formed well_formed_built by (auto simp: bearer_config_try_from_Inr)

section \<open>The token of a call\<close>

text \<open>A token minted at \<open>now\<close>: signed with the configured key under its own algorithm, issued now and
  expiring after the configured lifetime, or at the last second there is.\<close>

definition token_for ::
  "('w, 'k, 'je) jwt_library \<Rightarrow> bearer_egress_config \<Rightarrow> u64 \<Rightarrow> string \<Rightarrow> bool" where
  "token_for jl cfg now token \<longleftrightarrow>
     (\<exists>alg key claims. jl_encode jl alg claims key = Inr token \<and>
        jc_iss claims = be_issuer cfg \<and> jc_aud claims = be_audience cfg \<and> jc_sub claims = be_subject cfg \<and>
        jc_iat claims = now \<and>
        unat (jc_exp claims) = min (unat now + unat (be_lifetime_seconds cfg)) (2 ^ 64 - 1) \<and>
        (case be_secret cfg of
           BearerSecret (Hs256 secret) \<Rightarrow> alg = HS256 \<and> key = jl_from_secret jl secret
         | BearerSecret (Rs256 pem) \<Rightarrow> alg = RS256 \<and> jl_from_rsa_pem jl pem = Inr key))"

lemma unat_max_word_u64: "unat (- 1 :: u64) = 18446744073709551615"
  by (simp add: unsigned_minus_1_eq_mask mask_eq_exp_minus_1)

lemma unat_saturating_add: "unat (saturating_add_u64 a b) = min (unat a + unat b) (2 ^ 64 - 1)"
proof (cases "unat a + unat b < 2 ^ 64")
  case True
  then have "unat (a + b) = unat a + unat b"
    by (simp add: unat_add_lem [THEN iffD1])
  with True show ?thesis
    by (simp add: saturating_add_u64_def word_less_nat_alt)
next
  case False
  then have "unat (a + b) = unat a + unat b - 2 ^ 64"
    using unat_u64_less [of a] unat_u64_less [of b] by (simp add: unat_word_ariths le_mod_geq)
  with False show ?thesis
    using unat_u64_less [of b] by (simp add: saturating_add_u64_def word_less_nat_alt unat_max_word_u64)
qed

lemma sign_token_Inr:
  assumes "sign_token jl cfg w = (Inr token, w')"
  shows "\<exists>d. jl_now jl w = (Inr d, w') \<and> token_for jl cfg (as_secs d) token"
proof -
  obtain d where d: "jl_now jl w = (Inr d, w')"
    using assms by (auto simp: sign_token_def split: prod.splits sum.splits)
  obtain alg key where key: "signing_key jl (be_secret cfg) = Inr (alg, key)"
      and token: "jl_encode jl alg (token_claims cfg (as_secs d)) key = Inr token"
    using assms d by (auto simp: sign_token_def)
  obtain material where m: "be_secret cfg = BearerSecret material"
    by (cases "be_secret cfg")
  have "case be_secret cfg of
       BearerSecret (Hs256 secret) \<Rightarrow> alg = HS256 \<and> key = jl_from_secret jl secret
     | BearerSecret (Rs256 pem) \<Rightarrow> alg = RS256 \<and> jl_from_rsa_pem jl pem = Inr key"
    using key m by (cases material) (auto simp: signing_key_def)
  with d token show ?thesis
    by (auto simp: token_for_def token_claims_def unat_saturating_add
        intro!: exI [of _ alg] exI [of _ key] exI [of _ "token_claims cfg (as_secs d)"])
qed

lemma has_header_carries:
  assumes "lawful_metadata view mb form texts" "get_values view (pc_metadata call) key = Inr vs"
  shows "has_header view key call \<longleftrightarrow> carries view form (pc_metadata call) key"
proof -
  have "has_header view key call \<longleftrightarrow> (\<exists>e \<in> set (entries_of view (pc_metadata call)). fst e = form key)"
    using get_values_entries [OF assms] assms(2) by (simp add: has_header_def filter_empty_conv)
  then show ?thesis
    by (auto simp: carries_def image_iff eq_commute [of "form key"])
qed

lemma add_header_result:
  assumes "lawful_metadata view mb form texts"
  shows "case add_header view mb show_me k v c of
      Inl e \<Rightarrow> \<exists>reason. e = Transport (pc_path c) InvalidArgument reason
    | Inr c' \<Rightarrow> pc_path c' = pc_path c \<and> pc_timeout c' = pc_timeout c \<and>
        entries_of view (pc_metadata c') = entries_of view (pc_metadata c) @ [(form k, v)]"
proof (cases "add_header view mb show_me k v c")
  case (Inl e)
  then show ?thesis
    by (cases "append_header view mb (pc_metadata c) k v") (auto simp: add_header_def)
next
  case (Inr c')
  with add_header_entries [OF assms Inr] show ?thesis
    by (auto simp: add_header_def)
qed

text \<open>The two ways through the interceptor.\<close>

lemma bearer_present:
  assumes "lawful_metadata view mb form texts" "get_values view (pc_metadata call) authorization_header = Inr vs"
    and "carries view form (pc_metadata call) authorization_header"
  shows "run_program (bearer_before jl cfg w) (pending_api view mb show_me) call = (Inr (), call, w)"
  using has_header_carries [OF assms(1,2)] assms(3) by (simp add: bearer_before_def pending_api_def)

lemma bearer_absent:
  assumes "lawful_metadata view mb form texts" "get_values view (pc_metadata call) authorization_header = Inr vs"
    and "\<not> carries view form (pc_metadata call) authorization_header"
  shows "run_program (bearer_before jl cfg w) (pending_api view mb show_me) call =
    (case sign_token jl cfg w of
       (Inl e, w1) \<Rightarrow> (Inl (Transport (pc_path call) Internal ''failed to mint bearer token''), call, w1)
     | (Inr token, w1) \<Rightarrow>
         (case add_header view mb show_me authorization_header (''Bearer '' @ token) call of
            Inl e \<Rightarrow> (Inl e, call, w1)
          | Inr call' \<Rightarrow> (Inr (), call', w1)))"
  using has_header_carries [OF assms(1,2)] assms(3)
  by (auto simp: bearer_before_def pending_api_def split: prod.split sum.split)

text \<open>C12 (bearer_token_added). A call with no \<open>authorization\<close> header of its own leaves the bearer
  interceptor with one more header, the last, holding a token minted for it, and otherwise as it came;
  or it is refused as it came, with \<open>Internal\<close> when no token could be minted and \<open>InvalidArgument\<close> when
  the header cannot be added. A call that has the header leaves as it came, and no token is minted.\<close>

theorem bearer_token_added:
  assumes "lawful_metadata view mb form texts"
    and "get_values view (pc_metadata call) authorization_header = Inr vs"
    and "run_program (bearer_before jl cfg w) (pending_api view mb show_me) call = (r, call', w')"
  shows "if carries view form (pc_metadata call) authorization_header
    then r = Inr () \<and> call' = call \<and> w' = w
    else w' = snd (jl_now jl w) \<and>
      (case r of
         Inl e \<Rightarrow> call' = call \<and>
           (if isl (fst (sign_token jl cfg w))
            then e = Transport (pc_path call) Internal ''failed to mint bearer token''
            else \<exists>reason. e = Transport (pc_path call) InvalidArgument reason)
       | Inr u \<Rightarrow> pc_path call' = pc_path call \<and> pc_timeout call' = pc_timeout call \<and>
           (\<exists>d token. jl_now jl w = (Inr d, w') \<and> token_for jl cfg (as_secs d) token \<and>
              entries_of view (pc_metadata call') =
                entries_of view (pc_metadata call) @ [(form authorization_header, ''Bearer '' @ token)]))"
proof (cases "carries view form (pc_metadata call) authorization_header")
  case True
  show ?thesis
    using bearer_present [OF assms(1,2) True, of jl cfg w show_me] True assms(3) by simp
next
  case False
  obtain s where s: "sign_token jl cfg w = (s, snd (jl_now jl w))"
    by (cases "jl_now jl w", cases "fst (jl_now jl w)") (simp_all add: sign_token_def)
  note run = bearer_absent [OF assms(1,2) False, of jl cfg w show_me, unfolded assms(3) s, symmetric]
  show ?thesis
  proof (cases s)
    case (Inl e)
    with False s run show ?thesis
      by auto
  next
    case (Inr token)
    obtain d where d: "jl_now jl w = (Inr d, snd (jl_now jl w))" "token_for jl cfg (as_secs d) token"
      using sign_token_Inr [OF s [unfolded Inr]] by blast
    note res = add_header_result [OF assms(1), where show_me = show_me and k = authorization_header
      and v = "''Bearer '' @ token" and c = call]
    show ?thesis
    proof (cases "add_header view mb show_me authorization_header (''Bearer '' @ token) call")
      case Inl': (Inl e)
      with False run s Inr res show ?thesis
        by auto
    next
      case Inr': (Inr c')
      with False run d Inr res show ?thesis
        by auto
    qed
  qed
qed

text \<open>A signing library for the witnesses: it always knows the time, and a token spells its claims out.\<close>

definition demo_jwt :: "(nat, u8 list, unit) jwt_library" where
  "demo_jwt =
     \<lparr>jl_now = (\<lambda>w. (Inr (from_secs 7), w + 1)), jl_from_secret = (\<lambda>bytes. bytes),
      jl_from_rsa_pem = (\<lambda>pem. Inl ()),
      jl_encode = (\<lambda>alg claims key. Inr (jc_iss claims @ jc_sub claims))\<rparr>"

definition demo_bearer :: bearer_egress_config where
  "demo_bearer =
     \<lparr>be_secret = BearerSecret (Hs256 [1]), be_issuer = ''i'', be_audience = ''a'', be_subject = ''s'',
      be_lifetime_seconds = 60\<rparr>"

definition plain_call :: "(string \<times> string) list pending_call" where
  "plain_call = \<lparr>pc_path = ''/s/m'', pc_timeout = None, pc_metadata = [(''a'', ''b'')]\<rparr>"

theorem bearer_token_added_witness:
  "run_program (bearer_before demo_jwt demo_bearer 3) (pending_api list_view list_builder (\<lambda>e. ''bad'')) plain_call =
     (Inr (), plain_call\<lparr>pc_metadata := [(''a'', ''b''), (''authorization'', ''Bearer is'')]\<rparr>, 4) \<and>
   (\<exists>d token. token_for demo_jwt demo_bearer (as_secs d) token)"
proof -
  have run: "run_program (bearer_before demo_jwt demo_bearer 3) (pending_api list_view list_builder (\<lambda>e. ''bad'')) plain_call =
     (Inr (), plain_call\<lparr>pc_metadata := [(''a'', ''b''), (''authorization'', ''Bearer is'')]\<rparr>, 4)"
    by (simp add: bearer_before_def pending_api_def has_header_def list_view_def list_builder_def plain_call_def
        authorization_header_def to_ascii_lowercase_def sign_token_def demo_jwt_def demo_bearer_def signing_key_def
        token_claims_def add_header_def append_header_def start_builder_def ascii_lower_def)
  have absent_value: "get_values list_view (pc_metadata plain_call) authorization_header = Inr []"
    by code_simp
  have absent: "\<not> carries list_view to_ascii_lowercase (pc_metadata plain_call) authorization_header"
    by code_simp
  show ?thesis
    using bearer_token_added [OF list_lawful absent_value run] run absent by auto
qed

section \<open>A caller's own credential\<close>

text \<open>Every metadata value can be asked for the \<open>authorization\<close> header, whose name is a valid key.\<close>

definition reads_authorization :: "('md, 'me) metadata_view \<Rightarrow> bool" where
  "reads_authorization view \<longleftrightarrow> (\<forall>m. \<not> isl (get_values view m authorization_header))"

lemma list_reads_authorization: "reads_authorization list_view"
  by (simp add: reads_authorization_def list_view_def)

lemma context_add_headers_entries:
  assumes "lawful_metadata view mb form texts"
    and "context_add_headers (context_view_from view mb show_me ident) path options = Inr options'"
  shows "entries_of view (opt_metadata options') =
    entries_of view (opt_metadata options) @ added_headers view form ident (opt_metadata options)"
proof (cases "context_headers ident = []")
  case True
  with assms(2) show ?thesis
    by (simp add: context_add_headers_def context_view_from_def added_headers_def)
next
  case False
  then obtain m where m: "extend_headers view mb (opt_metadata options) (context_headers ident) = Inr m"
      and o: "options' = create_options (opt_timeout options) m"
    using assms(2) by (auto simp: context_add_headers_def context_view_from_def)
  show ?thesis
    unfolding o added_headers_def using extend_headers_entries [OF assms(1) m] by simp
qed

lemma added_not_carried:
  "(k, v) \<in> set (added_headers view form ident m) \<Longrightarrow> k \<notin> fst ` set (entries_of view m)"
  by (auto simp: added_headers_def carries_def)

text \<open>On a client bound to an identity that has a bearer token, the bearer
  interceptor finds a credential on every call: it mints none and changes nothing, and the call goes
  out with the caller's own \<open>authorization\<close> headers where it set any, and the identity's token where it
  did not.\<close>

lemma caller_credential_wins:
  assumes "lawful_metadata view mb form texts" and "reads_authorization view"
    and "ci_bearer_token ident = Some token"
    and "context_add_headers (context_view_from view mb show_me ident) path options = Inr options'"
  shows "run_program (bearer_before jl cfg w) (pending_api view mb show_me) (pending_from path options') =
      (Inr (), pending_from path options', w) \<and>
    (let sent = filter (\<lambda>e. fst e = form authorization_header) (entries_of view (opt_metadata options'));
         own = filter (\<lambda>e. fst e = form authorization_header) (entries_of view (opt_metadata options))
     in if own = [] then (form authorization_header, ''Bearer '' @ token) \<in> set sent else sent = own)"
proof -
  define auth where "auth = form authorization_header"
  define m where "m = opt_metadata options"
  note entries = context_add_headers_entries [OF assms(1,4), folded m_def]
  have headed: "(authorization_header, ''Bearer '' @ token) \<in> set (context_headers ident)"
    using assms(3) by (simp add: context_headers_def header_of_def authorization_header_def)
  have mine: "(auth, ''Bearer '' @ token) \<in> set (added_headers view form ident m)"
    if "\<not> carries view form m authorization_header"
    unfolding added_headers_def auth_def using headed that by (force simp: image_iff)
  have not_replaced: "filter (\<lambda>e. fst e = auth) (added_headers view form ident m) = []"
    if "carries view form m authorization_header"
  using that added_not_carried [of _ _ view form ident m]
    by (fastforce simp: filter_empty_conv carries_def auth_def)
  have own: "carries view form m authorization_header \<longleftrightarrow> filter (\<lambda>e. fst e = auth) (entries_of view m) \<noteq> []"
    unfolding carries_def auth_def filter_empty_conv image_iff by metis
  have "carries view form (opt_metadata options') authorization_header"
    using mine own entries by (force simp: carries_def auth_def image_iff)
  moreover obtain vs where "get_values view (opt_metadata options') authorization_header = Inr vs"
    using assms(2) unfolding reads_authorization_def by (metis sum.collapse(2))
  ultimately have "run_program (bearer_before jl cfg w) (pending_api view mb show_me) (pending_from path options') =
      (Inr (), pending_from path options', w)"
    using bearer_present [OF assms(1), of "pending_from path options'" vs jl cfg w show_me]
    by (simp add: pending_from_def)
  then show ?thesis
    using mine not_replaced own entries by (auto simp: Let_def auth_def [symmetric] m_def [symmetric])
qed

lemma caller_credential_wins_at_work:
  "run_program (bearer_before demo_jwt demo_bearer 3) (pending_api list_view list_builder (\<lambda>e. ''bad''))
     (pending_from ''/s/m'' (create_options None [(''x-trace-id'', ''t''), (''authorization'', ''Bearer b'')])) =
     (Inr (), pending_from ''/s/m'' (create_options None [(''x-trace-id'', ''t''), (''authorization'', ''Bearer b'')]), 3)"
proof -
  have token: "ci_bearer_token demo_caller = Some ''b''"
    by (simp add: demo_caller_def)
  have added: "context_add_headers (context_view_from list_view list_builder (\<lambda>e. ''bad'') demo_caller) ''/s/m''
      (create_options None []) =
      Inr (create_options None [(''x-trace-id'', ''t''), (''authorization'', ''Bearer b'')])"
    by code_simp
  show ?thesis
    using caller_credential_wins [OF list_lawful list_reads_authorization token added, THEN conjunct1] .
qed

end
