(* ===== verification/Client_Stack.thy ===== *)
theory Client_Stack
  imports Resilience Bearer_Properties
begin

text \<open>
  The layers together: the breaker around the retry loop around the interceptors. What the whole client
  sends is stated by what it cannot see: two inner clients that answer alike to the requests the client is
  allowed to send are the same to the caller.
\<close>

section \<open>What may reach the wire\<close>

text \<open>The caller's own call as it arrives in the world \<open>w\<close>, with its credential or one token. The token was minted
  from the clock reading that left the world as the call finds it: nothing happened between the minting and the
  sending, no pause and no earlier attempt.\<close>

definition signed_once ::
  "('md, 'me) metadata_view \<Rightarrow> (string \<Rightarrow> string) \<Rightarrow> ('w, 'k, 'je) jwt_library \<Rightarrow> bearer_egress_config \<Rightarrow>
     ('i, 'md) call_request \<Rightarrow> ('i, 'md) call_request \<Rightarrow> 'w \<Rightarrow> bool" where
  "signed_once view form jl cfg request sent w \<longleftrightarrow>
     req_path sent = req_path request \<and> req_body sent = req_body request \<and>
     (let own = opt_metadata (req_options request); md = opt_metadata (req_options sent) in
      if carries view form own authorization_header then entries_of view md = entries_of view own
      else \<exists>v d token. jl_now jl v = (Inr d, w) \<and> token_for jl cfg (as_secs d) token \<and>
        entries_of view md = entries_of view own @ [(form authorization_header, ''Bearer '' @ token)])"

text \<open>The adapter of a client whose only interceptor is the bearer interceptor.\<close>

definition bearer_adapter ::
  "('w, 'md, 'mb, 'me, 'h) adapter \<Rightarrow> ('w, 'k, 'je) jwt_library \<Rightarrow> bearer_egress_config \<Rightarrow> bool" where
  "bearer_adapter ad jl cfg \<longleftrightarrow> interceptors (ad_chain ad) = [bearer_interceptor jl cfg]"

lemma bearer_adapter_before:
  assumes "lawful_metadata (ad_view ad) (ad_builder ad) form texts" "reads_authorization (ad_view ad)"
    and "bearer_adapter ad jl cfg" and "run_before ad (req_path request) kind (req_options request) w = (Inr options', w')"
  shows "signed_once (ad_view ad) form jl cfg request (with_options request options') w'"
proof -
  let ?call = "pending_from (req_path request) (req_options request)"
  let ?api = "pending_api (ad_view ad) (ad_builder ad) (ad_show ad)"
  obtain vs where vs: "get_values (ad_view ad) (pc_metadata ?call) authorization_header = Inr vs"
    using assms(2) unfolding reads_authorization_def by (metis sum.collapse(2))
  have quiet: "adapter_on_event ad ev v = v" for ev v
    using assms(3) by (simp add: adapter_on_event_def chain_run_event_def bearer_adapter_def bearer_interceptor_def split: option.split)
  obtain call' where run: "run_program (bearer_before jl cfg w) ?api ?call = (Inr (), call', w')"
      and out: "options' = pending_options call'"
    using assms(3,4)
    by (auto simp: run_before_def adapter_before_def bearer_adapter_def chain_is_empty_def chain_run_before_def
        bearer_interceptor_def quiet split: prod.splits sum.splits)
  show ?thesis
  proof (cases "carries (ad_view ad) form (pc_metadata ?call) authorization_header")
    case True
    then show ?thesis
      using bearer_present [OF assms(1) vs True, of jl cfg w "ad_show ad"] run out
      by (auto simp: signed_once_def with_options_def pending_options_def pending_from_def)
  next
    case False
    then obtain token where token: "sign_token jl cfg w = (Inr token, w')"
        "add_header (ad_view ad) (ad_builder ad) (ad_show ad) authorization_header (''Bearer '' @ token) ?call = Inr call'"
      using bearer_absent [OF assms(1) vs False, of jl cfg w "ad_show ad"] run
      by (auto split: prod.splits sum.splits)
    then show ?thesis
      using False sign_token_Inr [OF token(1)] add_header_entries [OF assms(1) token(2)] out
      by (auto simp: signed_once_def with_options_def pending_options_def pending_from_def)
  qed
qed

section \<open>Calls that cannot tell inner clients apart\<close>

definition alike_on ::
  "(('i, 'md) call_request \<Rightarrow> 'w \<Rightarrow> bool) \<Rightarrow> (('i, 'md) call_request \<Rightarrow> ('w, 'r) io) \<Rightarrow>
     (('i, 'md) call_request \<Rightarrow> ('w, 'r) io) \<Rightarrow> bool" where
  "alike_on P f g \<longleftrightarrow> (\<forall>sent w. P sent w \<longrightarrow> f sent w = g sent w)"

lemma intercept_reply_alike:
  assumes "lawful_metadata (ad_view ad) (ad_builder ad) form texts" "reads_authorization (ad_view ad)"
    and "bearer_adapter ad jl cfg" and "alike_on (signed_once (ad_view ad) form jl cfg request) call call'"
  shows "intercept_reply ad kind call request w = intercept_reply ad kind call' request w"
proof (cases "run_before ad (req_path request) kind (req_options request) w")
  case (Pair r w1)
  show ?thesis
  proof (cases r)
    case (Inl e)
    with Pair show ?thesis
      by (simp add: intercept_reply_def)
  next
    case (Inr options')
    then have "call (with_options request options') w1 = call' (with_options request options') w1"
      using bearer_adapter_before [OF assms(1-3), where request = request and kind = kind and w = w
          and options' = options' and w' = w1] assms(4) Pair
      by (simp add: alike_on_def)
    with Pair Inr show ?thesis
      by (simp add: intercept_reply_def)
  qed
qed

text \<open>An attempt differs from the call it repeats in its timeout only.\<close>

lemma signed_once_attempt:
  "signed_once view form jl cfg (make_request path body (create_options t md)) =
     signed_once view form jl cfg (make_request path body (create_options t' md))"
  by (simp add: signed_once_def fun_eq_iff)

lemma raw_attempts_alike:
  assumes "lawful_metadata (ad_view ad) (ad_builder ad) form texts" "reads_authorization (ad_view ad)"
    and "bearer_adapter ad jl cfg"
    and "alike_on (signed_once (ad_view ad) form jl cfg (make_request path body options))
      (call_unary inner) (call_unary inner')"
  shows "raw_attempt (intercepted_raw ad ops inner) path (opt_metadata options) body =
    raw_attempt (intercepted_raw ad ops inner') path (opt_metadata options) body"
proof (intro ext)
  fix t c w
  have "alike_on (signed_once (ad_view ad) form jl cfg (make_request path body (create_options t (opt_metadata options))))
      (call_unary inner) (call_unary inner')"
    using assms(4) signed_once_attempt [of "ad_view ad" form jl cfg path body t "opt_metadata options" "opt_timeout options"]
    by simp
  from intercept_reply_alike [OF assms(1-3) this]
  show "raw_attempt (intercepted_raw ad ops inner) path (opt_metadata options) body t c w =
      raw_attempt (intercepted_raw ad ops inner') path (opt_metadata options) body t c w"
    by (simp add: raw_attempt_def intercepted_raw_def)
qed

lemma build_resilient_client:
  assumes "build_resilient rt view pl bt shown jt c inner = Inr (resilient, node)"
  obtains r b where "to_retry_config shown c = Inr r" "to_breaker_config shown c = Inr b"
    "resilient = breaker_client bt b (std_retry_client rt view pl r inner)"
  using assms by (auto simp: build_resilient_def Let_def build_breaker_def)

text \<open>C6 (every_attempt_signed_once). Whatever a resilient raw call through the bearer interceptor
  retries, each request that reaches the wire is the caller's own, with the credential the caller gave it,
  or with one more header holding one token minted for this very attempt, from the clock reading right before
  it is sent: nothing accumulates from attempt to attempt, and no token is used for a second one. A
  client behind it that answers alike to such requests, and as it likes to any other, makes no difference
  to a result, to the state of the circuit or to the world.\<close>

theorem every_attempt_signed_once:
  assumes "lawful_metadata (ad_view ad) (ad_builder ad) form texts" and "reads_authorization (ad_view ad)"
    and "bearer_adapter ad jl cfg"
    and "alike_on (signed_once (ad_view ad) form jl cfg request) (call_unary (raw inner)) (call_unary (raw inner'))"
    and "build_resilient rt view pl bt shown jt c (intercepted_client ad ops raw_ops inner) = Inr (resilient, node)"
    and "build_resilient rt view pl bt shown jt c (intercepted_client ad ops raw_ops inner') = Inr (resilient', node')"
  shows "call_unary (raw resilient) request nw = call_unary (raw resilient') request nw"
proof -
  obtain r b where rb: "to_retry_config shown c = Inr r" "to_breaker_config shown c = Inr b"
      "resilient = breaker_client bt b (std_retry_client rt view pl r (intercepted_client ad ops raw_ops inner))"
    using assms(5) by (rule build_resilient_client)
  have same: "resilient' = breaker_client bt b (std_retry_client rt view pl r (intercepted_client ad ops raw_ops inner'))"
    using assms(6) rb(1,2) by (auto elim: build_resilient_client)
  have "raw_attempt (intercepted_raw ad raw_ops (raw inner)) (req_path request) (opt_metadata (req_options request)) (req_body request) =
      raw_attempt (intercepted_raw ad raw_ops (raw inner')) (req_path request) (opt_metadata (req_options request)) (req_body request)"
    by (rule raw_attempts_alike [OF assms(1-3)]) (use assms(4) in simp)
  then have "call_unary (raw (std_retry_client rt view pl r (intercepted_client ad ops raw_ops inner))) request =
      call_unary (raw (std_retry_client rt view pl r (intercepted_client ad ops raw_ops inner'))) request"
    by (intro ext) (simp add: std_retry_client_def retry_raw_def intercepted_client_def retry_call_raw_def Let_def)
  then show ?thesis
    unfolding rb(3) same by (simp add: breaker_client_def breaker_raw_def raw_guarded_is_guard)
qed

text \<open>A client that refuses every path but one when it is strict.\<close>

definition stack_adapter :: "(nat, (string \<times> string) list, (string \<times> string) list, unit, unit) adapter" where
  "stack_adapter =
     \<lparr>ad_chain = \<lparr>interceptors = [bearer_interceptor demo_jwt demo_bearer]\<rparr>, ad_view = list_view,
      ad_builder = list_builder, ad_show = (\<lambda>e. ''bad''), ad_reply_view = demo_view\<rparr>"

definition stack_transport :: "bool \<Rightarrow> 'o \<Rightarrow> (nat, 'i, 'q, 'o, unit, (string \<times> string) list, unit) transport" where
  "stack_transport strict answer =
     (let reply = (\<lambda>path w.
        if strict \<and> path \<noteq> ''/s/M'' then (Inl (Transport path Internal ''unknown''), w)
        else (Inr \<lparr>resp_message = answer, resp_headers = (), resp_trailers = ()\<rparr>, w + 1))
      in \<lparr>call_unary = (\<lambda>r. reply (req_path r)), call_server_stream = (\<lambda>r w. (Inr (), w)),
          call_client_stream = (\<lambda>r. reply (req_path r)), call_bidi_stream = (\<lambda>r w. (Inr (), w))\<rparr>)"

definition stack_client ::
  "bool \<Rightarrow> (nat, u8, unit, u8, unit, unit, unit, (string \<times> string) list, unit) client" where
  "stack_client strict = \<lparr>typed = stack_transport strict 7, raw = stack_transport strict [7]\<rparr>"

definition idle_stream :: "(nat, unit, 'o, unit, 'md) response_stream" where
  "idle_stream =
     \<lparr>read_message = (\<lambda>s w. (Inr None, s, w)), get_headers = (\<lambda>s w. (Inr (), s, w)),
      read_trailers = (\<lambda>s w. (Inr (), s, w)), drop_stream = (\<lambda>s w. w)\<rparr>"

definition demo_resilient ::
  "bool \<Rightarrow> ((nat, nat) guarded_world, u8, unit, u8, unit pattern_stream, unit, unit pattern_stream, (string \<times> string) list, unit) client" where
  "demo_resilient strict = breaker_client demo_transition default_breaker_config
     (std_retry_client demo_runtime list_view demo_payload default_retry_config
        (intercepted_client stack_adapter idle_stream idle_stream (stack_client strict)))"

definition stack_request :: "(u8 list, (string \<times> string) list) call_request" where
  "stack_request = \<lparr>req_path = ''/s/M'', req_body = [1], req_options = create_options None [(''a'', ''b'')]\<rparr>"

theorem every_attempt_signed_once_witness:
  "call_unary (raw (demo_resilient True)) stack_request (initial_node, 3) =
     call_unary (raw (demo_resilient False)) stack_request (initial_node, 3)"
proof -
  have ad: "lawful_metadata (ad_view stack_adapter) (ad_builder stack_adapter) to_ascii_lowercase lowered"
      "reads_authorization (ad_view stack_adapter)" "bearer_adapter stack_adapter demo_jwt demo_bearer"
    by (simp_all add: stack_adapter_def list_lawful list_reads_authorization bearer_adapter_def)
  have alike: "alike_on (signed_once (ad_view stack_adapter) to_ascii_lowercase demo_jwt demo_bearer stack_request)
      (call_unary (raw (stack_client True))) (call_unary (raw (stack_client False)))"
    by (simp add: alike_on_def signed_once_def stack_client_def stack_transport_def stack_request_def)
  note built = build_resilient_from_policies [OF default_policies_valid, of demo_runtime list_view demo_payload
      demo_transition "\<lambda>e. []" "\<lambda>x. []"]
  show ?thesis
    unfolding demo_resilient_def by (rule every_attempt_signed_once [OF ad alike built built])
qed

end
