(* ===== verification/Futures.thy ===== *)
theory Futures
  imports Egress_Prelude
begin

text \<open>
  Asynchronous calls. A future is what an executor polls: a poll either gives the result or leaves the
  rest of the work, and a future that is not needed any more is dropped where it stands. Between two polls
  other tasks may change the world. Besides the executor with a given number of polls (\<open>drive\<close>) there are two
  relations that compose: \<open>ends\<close>, the worlds and results with which a future completes, and \<open>abandoned\<close>, the
  worlds that are left when it is dropped after a poll that found it pending.
\<close>

section \<open>Polling and dropping\<close>

text \<open>A poll gives the rest of the future or its result; dropping an unfinished future may have an
  effect (a call in flight is reset).\<close>

codatatype ('w, 'r) future =
  Future (poll: "'w \<Rightarrow> (('w, 'r) future + 'r) \<times> 'w") (drop_future: "'w \<Rightarrow> 'w")

text \<open>\<open>f.map(g)\<close> of the result, in an \<open>async\<close> block.\<close>

primcorec map_future :: "('a \<Rightarrow> 'b) \<Rightarrow> ('w, 'a) future \<Rightarrow> ('w, 'b) future" where
  "map_future g fut =
     Future (\<lambda>w. map_prod (map_sum (map_future g) g) id (poll fut w)) (drop_future fut)"

text \<open>The executor: poll, up to \<open>n\<close> times, the environment acting before each poll. A future may
  stay pending for ever, so the number of polls is a parameter; \<open>None\<close> is still pending.\<close>

fun drive :: "(nat \<Rightarrow> 'w \<Rightarrow> 'w) \<Rightarrow> nat \<Rightarrow> nat \<Rightarrow> ('w, 'r) future \<Rightarrow> 'w \<Rightarrow> ('r \<times> 'w) option" where
  "drive env k 0 fut w = None"
| "drive env k (Suc n) fut w =
     (case poll fut (env k w) of
        (Inl fut', w') \<Rightarrow> drive env (Suc k) n fut' w'
      | (Inr r, w') \<Rightarrow> Some (r, w'))"

lemma drive_map_future:
  "drive env k n (map_future g fut) w = map_option (map_prod g id) (drive env k n fut w)"
proof (induction n arbitrary: k fut w)
  case (Suc n)
  obtain q w' where "poll fut (env k w) = (q, w')" by fastforce
  with Suc show ?case by (cases q) simp_all
qed simp

section \<open>Async blocks\<close>

text \<open>A statement without an \<open>await\<close>: it runs when the block reaches it.\<close>

definition sync :: "('w, 'r) io \<Rightarrow> ('w, 'r) future" where
  "sync f = Future (\<lambda>w. (case f w of (r, w') \<Rightarrow> (Inr r, w'))) (\<lambda>w. w)"

text \<open>\<open>let x = f.await; rest\<close>: the state of the block is the future it awaits, before or after \<open>x\<close> is known;
  the rest is polled by the poll that found the result.\<close>

fun advance :: "('a \<Rightarrow> ('w, 'r) future) \<Rightarrow> ('w, 'a) future + ('w, 'r) future \<Rightarrow> 'w \<Rightarrow>
    ((('w, 'a) future + ('w, 'r) future) + 'r) \<times> 'w" where
  "advance rest (Inl f) w =
     (case poll f w of
        (Inl f', w') \<Rightarrow> (Inl (Inl f'), w')
      | (Inr x, w') \<Rightarrow> map_prod (map_sum Inr id) id (poll (rest x) w'))"
| "advance rest (Inr g) w = map_prod (map_sum Inr id) id (poll g w)"

fun drop_awaited :: "('w, 'a) future + ('w, 'r) future \<Rightarrow> 'w \<Rightarrow> 'w" where
  "drop_awaited (Inl f) w = drop_future f w"
| "drop_awaited (Inr g) w = drop_future g w"

primcorec await_state ::
  "('a \<Rightarrow> ('w, 'r) future) \<Rightarrow> ('w, 'a) future + ('w, 'r) future \<Rightarrow> ('w, 'r) future" where
  "await_state rest st =
     Future (\<lambda>w. map_prod (map_sum (await_state rest) id) id (advance rest st w)) (drop_awaited st)"

definition await :: "('w, 'a) future \<Rightarrow> ('a \<Rightarrow> ('w, 'r) future) \<Rightarrow> ('w, 'r) future" where
  "await f rest = await_state rest (Inl f)"

lemma await_state_Inr: "await_state rest (Inr g) = g"
proof (coinduction arbitrary: g)
  case Eq_future
  have "rel_prod (rel_sum (\<lambda>f g. f = await_state rest (Inr g)) (=)) (=)
      (poll (await_state rest (Inr g)) w) (poll g w)" for w
    by (cases "poll g w"; cases "fst (poll g w)") auto
  then show ?case
    by (auto simp: rel_fun_def)
qed

lemma poll_await [simp]:
  "poll (await f rest) w =
     (case poll f w of
        (Inl f', w') \<Rightarrow> (Inl (await f' rest), w')
      | (Inr x, w') \<Rightarrow> poll (rest x) w')"
proof (cases "poll f w")
  case (Pair q w')
  then show ?thesis
    by (cases q) (auto simp: await_def await_state_Inr sum.map_comp comp_def sum.map_ident prod.map_comp
        intro: prod_eqI)
qed

lemma drop_await [simp]: "drop_future (await f rest) = drop_future f"
  by (simp add: await_def fun_eq_iff)

lemma poll_sync [simp]: "poll (sync f) w = (case f w of (r, w') \<Rightarrow> (Inr r, w'))"
  by (simp add: sync_def)

lemma drop_sync [simp]: "drop_future (sync f) w = w"
  by (simp add: sync_def)

section \<open>How a future ends\<close>

text \<open>\<open>env w w'\<close> says what other tasks can make of the world between two polls.\<close>

inductive ends :: "('w \<Rightarrow> 'w \<Rightarrow> bool) \<Rightarrow> ('w, 'r) future \<Rightarrow> 'w \<Rightarrow> 'r \<Rightarrow> 'w \<Rightarrow> bool" for env where
  ready: "poll f w = (Inr r, w') \<Longrightarrow> ends env f w r w'"
| pending: "poll f w = (Inl f', w1) \<Longrightarrow> env w1 w2 \<Longrightarrow> ends env f' w2 r w' \<Longrightarrow> ends env f w r w'"

inductive abandoned :: "('w \<Rightarrow> 'w \<Rightarrow> bool) \<Rightarrow> ('w, 'r) future \<Rightarrow> 'w \<Rightarrow> 'w \<Rightarrow> bool" for env where
  dropped: "poll f w = (Inl f', w1) \<Longrightarrow> env w1 w2 \<Longrightarrow> abandoned env f w (drop_future f' w2)"
| polled: "poll f w = (Inl f', w1) \<Longrightarrow> env w1 w2 \<Longrightarrow> abandoned env f' w2 w' \<Longrightarrow> abandoned env f w w'"

inductive_simps ends_step: "ends env f w r w'"
inductive_simps abandoned_step: "abandoned env f w w'"

lemma ends_sync [simp]: "ends env (sync f) w r w' \<longleftrightarrow> f w = (r, w')"
  by (auto simp: ends_step [of env "sync f"] split: prod.splits)

lemma abandoned_sync [simp]: "\<not> abandoned env (sync f) w w'"
  by (simp add: abandoned_step [of env "sync f"] split: prod.splits)

lemma ends_await_then:
  "ends env f w x w1 \<Longrightarrow> ends env (rest x) w1 r w' \<Longrightarrow> ends env (await f rest) w r w'"
proof (induction rule: ends.induct)
  case (ready f w x w1)
  then show ?case
    by (subst ends_step) (auto elim: ends.cases)
next
  case (pending f w f' w1 w2 x w3)
  then show ?case
    by (subst ends_step) auto
qed

lemma ends_await_split:
  assumes "ends env g w r w'" "g = await f rest"
  shows "\<exists>x w1. ends env f w x w1 \<and> ends env (rest x) w1 r w'"
  using assms
proof (induction arbitrary: f rule: ends.induct)
  case (ready g w r w')
  then show ?case
    by (auto split: prod.splits sum.splits intro: ends.ready)
next
  case (pending g w g' w1 w2 r w')
  obtain q v where q: "poll f w = (q, v)" by fastforce
  show ?case
  proof (cases q)
    case (Inl f')
    with pending q have parts: "poll f w = (Inl f', w1)" "g' = await f' rest" by auto
    from pending.IH [OF parts(2)] parts(1) pending(2) show ?thesis
      by (blast intro: ends.pending)
  next
    case (Inr x)
    with pending q have "poll (rest x) v = (Inl g', w1)" by simp
    with pending q Inr show ?thesis
      by (blast intro: ends.ready ends.pending)
  qed
qed

lemma ends_await [simp]:
  "ends env (await f rest) w r w' \<longleftrightarrow> (\<exists>x w1. ends env f w x w1 \<and> ends env (rest x) w1 r w')"
  by (metis ends_await_then ends_await_split)

text \<open>A block is abandoned while it awaits its first future, or later.\<close>

lemma abandoned_await_first:
  "abandoned env f w w' \<Longrightarrow> abandoned env (await f rest) w w'"
proof (induction rule: abandoned.induct)
  case (dropped f w f' w1 w2)
  then show ?case
    using abandoned.dropped [of "await f rest" w "await f' rest" w1 env w2] by simp
next
  case (polled f w f' w1 w2 w')
  then show ?case
    using abandoned.polled [of "await f rest" w "await f' rest" w1 env w2 w'] by simp
qed

lemma abandoned_await_later:
  "ends env f w x w1 \<Longrightarrow> abandoned env (rest x) w1 w' \<Longrightarrow> abandoned env (await f rest) w w'"
proof (induction rule: ends.induct)
  case (ready f w x w1)
  from ready(2) show ?case
    by (cases rule: abandoned.cases)
      (use ready(1) in \<open>auto intro: abandoned.dropped [of "await f rest"] abandoned.polled [of "await f rest"]\<close>)
next
  case (pending f w f' w1 w2 x w3)
  then show ?case
    using abandoned.polled [of "await f rest" w "await f' rest" w1 env w2 w'] by simp
qed

lemma abandoned_await_split:
  assumes "abandoned env g w w'" "g = await f rest"
  shows "abandoned env f w w' \<or> (\<exists>x w1. ends env f w x w1 \<and> abandoned env (rest x) w1 w')"
  using assms
proof (induction arbitrary: f rule: abandoned.induct)
  case (dropped g w g' w1 w2)
  obtain q v where q: "poll f w = (q, v)" by fastforce
  then show ?case
    using dropped by (cases q) (auto intro: abandoned.dropped ends.ready)
next
  case (polled g w g' w1 w2 w')
  obtain q v where q: "poll f w = (q, v)" by fastforce
  show ?case
  proof (cases q)
    case (Inl f')
    with polled q have "g' = await f' rest" "v = w1" by auto
    from polled.IH [OF this(1)] polled(2) q Inl this(2) show ?thesis
      by (auto intro: abandoned.polled ends.pending)
  next
    case (Inr x)
    with polled q have "poll (rest x) v = (Inl g', w1)" by simp
    with polled q Inr show ?thesis
      by (blast intro: ends.ready abandoned.polled)
  qed
qed

lemma abandoned_await [simp]:
  "abandoned env (await f rest) w w' \<longleftrightarrow>
     abandoned env f w w' \<or> (\<exists>x w1. ends env f w x w1 \<and> abandoned env (rest x) w1 w')"
  by (metis abandoned_await_first abandoned_await_later abandoned_await_split)

text \<open>\<open>let x = f.await?; rest\<close>: an error is the result of the block.\<close>

definition await_try ::
  "('w, 'e + 'a) future \<Rightarrow> ('a \<Rightarrow> ('w, 'e + 'r) future) \<Rightarrow> ('w, 'e + 'r) future" where
  "await_try f rest =
     await f (\<lambda>r. case r of Inl e \<Rightarrow> sync (\<lambda>w. (Inl e, w)) | Inr x \<Rightarrow> rest x)"

lemma ex_sum: "(\<exists>x. P x) \<longleftrightarrow> (\<exists>e. P (Inl e)) \<or> (\<exists>y. P (Inr y))"
  by (metis sum.exhaust)

lemma ends_await_try [simp]:
  "ends env (await_try f rest) w r w' \<longleftrightarrow>
     (\<exists>e. r = Inl e \<and> ends env f w (Inl e) w') \<or>
     (\<exists>x w1. ends env f w (Inr x) w1 \<and> ends env (rest x) w1 r w')"
  by (auto simp: await_try_def ex_sum)

lemma abandoned_await_try [simp]:
  "abandoned env (await_try f rest) w w' \<longleftrightarrow>
     abandoned env f w w' \<or> (\<exists>x w1. ends env f w (Inr x) w1 \<and> abandoned env (rest x) w1 w')"
  by (auto simp: await_try_def ex_sum)

lemma poll_await_try:
  "poll (await_try f rest) w =
     (case poll f w of
        (Inl f', w') \<Rightarrow> (Inl (await_try f' rest), w')
      | (Inr (Inl e), w') \<Rightarrow> (Inr (Inl e), w')
      | (Inr (Inr x), w') \<Rightarrow> poll (rest x) w')"
  by (simp add: await_try_def split: prod.split sum.split)

lemma drop_await_try [simp]: "drop_future (await_try f rest) = drop_future f"
  by (simp add: await_try_def)

text \<open>A drive is one of the ways a future ends, when the environment acts as the relation allows.\<close>

lemma drive_ends:
  assumes "\<And>k w. env_of w (env k w)" "drive env k n f w = Some (r, w')"
  shows "ends env_of f (env k w) r w'"
  using assms(2)
proof (induction n arbitrary: k f w)
  case (Suc n)
  obtain q v where q: "poll f (env k w) = (q, v)" by fastforce
  show ?case
  proof (cases q)
    case (Inl f')
    with q Suc(2) have "drive env (Suc k) n f' v = Some (r, w')" by simp
    from Suc(1) [OF this] q Inl assms(1) show ?thesis
      by (blast intro: ends.pending)
  next
    case (Inr x)
    with q Suc(2) show ?thesis
      by (auto intro: ends.ready)
  qed
qed simp

section \<open>Futures that run as an effect\<close>

text \<open>A future stands for an effect when it can end from every world, always as the effect says.\<close>

definition runs_as :: "('w \<Rightarrow> 'w \<Rightarrow> bool) \<Rightarrow> ('w, 'r) future \<Rightarrow> ('w, 'r) io \<Rightarrow> bool" where
  "runs_as env f g \<longleftrightarrow> (\<forall>w r w'. ends env f w r w' \<longleftrightarrow> g w = (r, w'))"

lemma runs_as_sync: "runs_as env (sync f) f"
  by (simp add: runs_as_def)

lemma runs_as_await:
  assumes "runs_as env f g" "\<And>x. runs_as env (rest x) (after x)"
  shows "runs_as env (await f rest) (\<lambda>w. case g w of (x, w1) \<Rightarrow> after x w1)"
  using assms by (auto simp: runs_as_def split: prod.splits)

lemma runs_asD: "runs_as env f g \<Longrightarrow> ends env f w r w' \<longleftrightarrow> g w = (r, w')"
  by (simp add: runs_as_def)

end
