(* ===== verification/Cancellation.thy ===== *)
theory Cancellation
  imports Intercepted Futures
begin

text \<open>
  A view of a client whose calls, and whose reads of the streams they open, end when a signal
  fires: \<open>CancellableTransport\<close> and \<open>CancellableResponseStream\<close> of
  \<open>grpc-egress-transport-spi\<close>. A call is a future (\<open>Futures\<close>). The signal is a predicate of the world: what
  \<open>wait_cancelled\<close> answers when it is polled.
\<close>

section \<open>The race\<close>

definition cancelled :: "string \<Rightarrow> 'md call_error" where
  "cancelled path = Transport path Cancelled ''the caller cancelled the call''"

text \<open>\<open>tokio::select!\<close> with \<open>biased\<close>: each poll asks the signal first; when it has fired the call is
  dropped, otherwise the call is polled.\<close>

primcorec race :: "('w \<Rightarrow> bool) \<Rightarrow> 'e \<Rightarrow> ('w, 'e + 'r) future \<Rightarrow> ('w, 'e + 'r) future" where
  "race fired e fut =
     Future
       (\<lambda>w. if fired w then (Inr (Inl e), drop_future fut w)
             else map_prod (map_sum (race fired e) id) id (poll fut w))
       (drop_future fut)"

section \<open>The view of a client\<close>

record ('w, 'i, 'q, 'o, 's, 'md, 'h) async_transport =
  async_unary :: "('i, 'md) call_request \<Rightarrow> ('w, 'md call_error + ('o, 'h) call_response) future"
  async_server_stream :: "('i, 'md) call_request \<Rightarrow> ('w, 'md call_error + 's) future"
  async_client_stream :: "('q, 'md) call_request \<Rightarrow> ('w, 'md call_error + ('o, 'h) call_response) future"
  async_bidi_stream :: "('q, 'md) call_request \<Rightarrow> ('w, 'md call_error + 's) future"

record 's cancellable_stream =
  cs_inner :: 's
  cs_path :: string

definition cancellable_stream_from :: "string \<Rightarrow> 's \<Rightarrow> 's cancellable_stream" where
  "cancellable_stream_from path s = \<lparr>cs_inner = s, cs_path = path\<rparr>"

definition race_call ::
  "('w \<Rightarrow> bool) \<Rightarrow> string \<Rightarrow> ('w, 'md call_error + 'r) future \<Rightarrow> ('w, 'md call_error + 'r) future" where
  "race_call fired path fut = race fired (cancelled path) fut"

definition race_stream ::
  "('w \<Rightarrow> bool) \<Rightarrow> string \<Rightarrow> ('w, 'md call_error + 's) future \<Rightarrow>
     ('w, 'md call_error + 's cancellable_stream) future" where
  "race_stream fired path fut = map_future (map_sum id (cancellable_stream_from path)) (race_call fired path fut)"

definition cancellable_typed ::
  "('w \<Rightarrow> bool) \<Rightarrow> ('w, 'i, 'q, 'o, 's, 'md, 'h) async_transport \<Rightarrow>
     ('w, 'i, 'q, 'o, 's cancellable_stream, 'md, 'h) async_transport" where
  "cancellable_typed fired inner =
     \<lparr>async_unary = (\<lambda>request. race_call fired (req_path request) (async_unary inner request)),
      async_server_stream = (\<lambda>request. race_stream fired (req_path request) (async_server_stream inner request)),
      async_client_stream = (\<lambda>request. race_call fired (req_path request) (async_client_stream inner request)),
      async_bidi_stream = (\<lambda>request. race_stream fired (req_path request) (async_bidi_stream inner request))\<rparr>"

text \<open>A raw call takes the request apart and builds it again.\<close>

definition cancellable_raw ::
  "('w \<Rightarrow> bool) \<Rightarrow> ('w, u8 list, 'q, u8 list, 's, 'md, 'h) async_transport \<Rightarrow>
     ('w, u8 list, 'q, u8 list, 's cancellable_stream, 'md, 'h) async_transport" where
  "cancellable_raw fired inner =
     \<lparr>async_unary = (\<lambda>request. race_call fired (req_path request)
        (async_unary inner (with_options request (req_options request)))),
      async_server_stream = (\<lambda>request. race_stream fired (req_path request)
        (async_server_stream inner (with_options request (req_options request)))),
      async_client_stream = (\<lambda>request. race_call fired (req_path request)
        (async_client_stream inner (with_options request (req_options request)))),
      async_bidi_stream = (\<lambda>request. race_stream fired (req_path request)
        (async_bidi_stream inner (with_options request (req_options request))))\<rparr>"

section \<open>The view of a stream\<close>

record ('w, 's, 'o, 'h, 'md) async_stream =
  async_read_message :: "'s \<Rightarrow> ('w, 'md call_error + 'o option) future"
  sync_get_headers :: "'s \<Rightarrow> ('w, 'md call_error + 'h) io"
  async_read_trailers :: "'s \<Rightarrow> ('w, 'md call_error + 'h) future"

definition cancellable_stream_ops ::
  "('w \<Rightarrow> bool) \<Rightarrow> ('w, 's, 'o, 'h, 'md) async_stream \<Rightarrow>
     ('w, 's cancellable_stream, 'o, 'h, 'md) async_stream" where
  "cancellable_stream_ops fired ops =
     \<lparr>async_read_message = (\<lambda>cs. race fired (cancelled (cs_path cs)) (async_read_message ops (cs_inner cs))),
      sync_get_headers = (\<lambda>cs. sync_get_headers ops (cs_inner cs)),
      async_read_trailers = (\<lambda>cs. race fired (cancelled (cs_path cs)) (async_read_trailers ops (cs_inner cs)))\<rparr>"

section \<open>What the race decides\<close>

text \<open>The future and the world of poll \<open>j\<close>, when no earlier poll gave a result.\<close>

fun pending_at ::
  "(nat \<Rightarrow> 'w \<Rightarrow> 'w) \<Rightarrow> nat \<Rightarrow> nat \<Rightarrow> ('w, 'r) future \<Rightarrow> 'w \<Rightarrow> (('w, 'r) future \<times> 'w) option" where
  "pending_at env k 0 fut w = Some (fut, env k w)"
| "pending_at env k (Suc j) fut w =
     (case poll fut (env k w) of
        (Inl fut', w') \<Rightarrow> pending_at env (Suc k) j fut' w'
      | (Inr r, w') \<Rightarrow> None)"

text \<open>The first of the first \<open>n\<close> polls that finds the signal fired.\<close>

definition first_fired ::
  "('w \<Rightarrow> bool) \<Rightarrow> (nat \<Rightarrow> 'w \<Rightarrow> 'w) \<Rightarrow> nat \<Rightarrow> nat \<Rightarrow> ('w, 'r) future \<Rightarrow> 'w \<Rightarrow> (('w, 'r) future \<times> 'w) option" where
  "first_fired fired env k n fut w =
     find (\<lambda>(f, v). fired v) (List.map_filter (\<lambda>j. pending_at env k j fut w) [0..<n])"

lemma map_filter_image: "List.map_filter f (map g xs) = List.map_filter (\<lambda>x. f (g x)) xs"
  by (induction xs) (auto simp: map_filter_simps split: option.split)

lemma map_filter_none: "List.map_filter (\<lambda>x. None) xs = []"
  by (induction xs) (simp_all add: map_filter_simps)

lemma first_fired_0 [simp]: "first_fired fired env k 0 fut w = None"
  by (simp add: first_fired_def map_filter_def)

lemma first_fired_Suc:
  "first_fired fired env k (Suc n) fut w =
     (if fired (env k w) then Some (fut, env k w)
      else (case poll fut (env k w) of
              (Inl fut', w') \<Rightarrow> first_fired fired env (Suc k) n fut' w'
            | (Inr r, w') \<Rightarrow> None))"
proof -
  have upt: "[0..<Suc n] = 0 # map Suc [0..<n]" by (simp add: map_Suc_upt upt_conv_Cons del: upt_Suc)
  obtain q w' where poll: "poll fut (env k w) = (q, w')" by fastforce
  show ?thesis
  proof (cases q)
    case (Inl fut')
    then show ?thesis
      using poll by (simp add: first_fired_def upt map_filter_simps map_filter_image map_filter_none del: upt_Suc)
  next
    case (Inr r)
    then show ?thesis
      using poll Inr by (simp add: first_fired_def upt map_filter_simps map_filter_image map_filter_none del: upt_Suc)
  qed
qed

text \<open>C11 (race_decided). A cancellable call gives exactly what the call itself would give, poll for
  poll, unless a poll finds the signal fired before the call has its result: then the result is
  \<open>Cancelled\<close> at the first such poll, the call is not polled again, and is dropped where it was. A
  signal that fires after the result is known changes nothing, and a signal that does not fire
  delays nothing.\<close>

theorem race_decided:
  "drive env k n (race fired e fut) w =
     (case first_fired fired env k n fut w of
        Some (f, v) \<Rightarrow> Some (Inl e, drop_future f v)
      | None \<Rightarrow> drive env k n fut w)"
proof (induction n arbitrary: k fut w)
  case (Suc n)
  obtain q w' where "poll fut (env k w) = (q, w')" by fastforce
  with Suc show ?case
    by (cases q) (simp_all add: first_fired_Suc split: option.split)
qed simp

lemma fired_race: "fired (env k w) \<Longrightarrow> drive env k (Suc n) (race fired e fut) w = Some (Inl e, drop_future fut (env k w))"
  by simp

text \<open>A future that, driven once, is refused: nothing but dropping it happens.\<close>

definition refused_at_once ::
  "(nat \<Rightarrow> 'w \<Rightarrow> 'w) \<Rightarrow> 'w \<Rightarrow> string \<Rightarrow> ('w, 'a) future \<Rightarrow> ('w, 'md call_error + 'r) future \<Rightarrow> bool" where
  "refused_at_once env w path inner outer \<longleftrightarrow>
     (\<forall>k n. drive env k (Suc n) outer w =
        (let v = env k w in Some (Inl (cancelled path), drop_future inner v)))"

lemma fired_race_call:
  "(\<And>k. fired (env k w)) \<Longrightarrow> refused_at_once env w path fut (race_call fired path fut)"
  by (simp add: refused_at_once_def race_call_def)

lemma fired_race_stream:
  "(\<And>k. fired (env k w)) \<Longrightarrow> refused_at_once env w path fut (race_stream fired path fut)"
  unfolding refused_at_once_def race_stream_def drive_map_future race_call_def
  by (simp add: fired_race)

text \<open>Once the signal has fired, every call of the view, typed or
  raw, of any shape, and every read of a message or of the trailers of a stream it opened, ends with
  \<open>Cancelled\<close> and the path of its call at its first poll, without a single poll of the inner client.\<close>

lemma cancelled_view_reaches_nothing:
  assumes "\<And>k. fired (env k w)"
  shows "refused_at_once env w (req_path r) (async_unary inner r) (async_unary (cancellable_typed fired inner) r) \<and>
    refused_at_once env w (req_path r) (async_server_stream inner r) (async_server_stream (cancellable_typed fired inner) r) \<and>
    refused_at_once env w (req_path q) (async_client_stream inner q) (async_client_stream (cancellable_typed fired inner) q) \<and>
    refused_at_once env w (req_path q) (async_bidi_stream inner q) (async_bidi_stream (cancellable_typed fired inner) q) \<and>
    refused_at_once env w (req_path b) (async_unary raw_inner b) (async_unary (cancellable_raw fired raw_inner) b) \<and>
    refused_at_once env w (req_path b) (async_server_stream raw_inner b) (async_server_stream (cancellable_raw fired raw_inner) b) \<and>
    refused_at_once env w (req_path p) (async_client_stream raw_inner p) (async_client_stream (cancellable_raw fired raw_inner) p) \<and>
    refused_at_once env w (req_path p) (async_bidi_stream raw_inner p) (async_bidi_stream (cancellable_raw fired raw_inner) p) \<and>
    refused_at_once env w (cs_path cs) (async_read_message ops (cs_inner cs))
      (async_read_message (cancellable_stream_ops fired ops) cs) \<and>
    refused_at_once env w (cs_path cs) (async_read_trailers ops (cs_inner cs))
      (async_read_trailers (cancellable_stream_ops fired ops) cs)"
  by (simp add: cancellable_typed_def cancellable_raw_def cancellable_stream_ops_def
      race_call_def [symmetric] fired_race_call fired_race_stream assms)

definition ready :: "'r \<Rightarrow> (nat, 'r) future" where
  "ready r = Future (\<lambda>w. (Inr r, Suc w)) (\<lambda>w. w)"

definition ready_transport :: "(nat, 'i, 'q, 'o, nat, unit, unit) async_transport" where
  "ready_transport =
     \<lparr>async_unary = (\<lambda>r. ready (Inl (Encode (CodecError ''m'' ''r'')))), async_server_stream = (\<lambda>r. ready (Inr 0)),
      async_client_stream = (\<lambda>r. ready (Inl (Encode (CodecError ''m'' ''r'')))), async_bidi_stream = (\<lambda>r. ready (Inr 0))\<rparr>"

definition ready_stream :: "(nat, nat, nat, unit, unit) async_stream" where
  "ready_stream =
     \<lparr>async_read_message = (\<lambda>s. ready (Inr None)), sync_get_headers = (\<lambda>s w. (Inr (), w)),
      async_read_trailers = (\<lambda>s. ready (Inr ()))\<rparr>"

definition ready_typed :: "(nat, nat, nat, nat, nat, unit, unit) async_transport" where
  "ready_typed = ready_transport"

definition ready_raw :: "(nat, u8 list, nat, u8 list, nat, unit, unit) async_transport" where
  "ready_raw = ready_transport"

lemma cancelled_view_at_work:
  "drive (\<lambda>k w. w) 0 1 (async_server_stream (cancellable_typed (\<lambda>w. w = 7) ready_typed)
     \<lparr>req_path = ''/s/M'', req_body = 3, req_options = create_options None ()\<rparr>) 7 =
   Some (Inl (cancelled ''/s/M''), 7)"
proof -
  let ?r = "\<lparr>req_path = ''/s/M'', req_body = (3 :: nat), req_options = create_options None ()\<rparr>"
  have "refused_at_once (\<lambda>k w. w) 7 (req_path ?r)
      (async_server_stream ready_typed ?r)
      (async_server_stream (cancellable_typed (\<lambda>w. w = 7) ready_typed) ?r)"
    using cancelled_view_reaches_nothing [where fired = "\<lambda>w. w = 7" and env = "\<lambda>k w. w" and w = 7 and r = ?r
        and inner = ready_typed and q = ?r
        and raw_inner = ready_raw
        and b = "\<lparr>req_path = ''/s/M'', req_body = [], req_options = create_options None ()\<rparr>" and p = ?r
        and cs = "\<lparr>cs_inner = 0, cs_path = ''/s/M''\<rparr>" and ops = ready_stream, OF refl]
    by (elim conjE)
  then show ?thesis
    by (simp add: refused_at_once_def ready_typed_def ready_transport_def ready_def Let_def
        numeral_nat(7) del: drive.simps)
qed

end
