(* ===== verification/Async_Layers.thy ===== *)
theory Async_Layers
  imports Resilience Intercepted_Properties Cancellation
begin

text \<open>
  The calls of the layers as the source writes them: \<open>async\<close> functions, futures that other tasks run
  beside and that their caller may drop. The theories of the layers treat a call as one effect; here each
  call is the future its \<open>await\<close>s make of it, and two things are shown. Run to its end, the future of a
  layer is the effect of the model. Dropped half way, it stops at the \<open>await\<close> it stands at: what the code
  writes after that point does not happen.
\<close>

section \<open>The guarded call\<close>

text \<open>The inner client does not hold the breaker's node.\<close>

definition lift_poll :: "('w, 'r) future \<Rightarrow> 'n \<times> 'w \<Rightarrow> (('w, 'r) future + 'r) \<times> ('n \<times> 'w)" where
  "lift_poll f nw = (case poll f (snd nw) of (q, w') \<Rightarrow> (q, (fst nw, w')))"

primcorec lift_future :: "('w, 'r) future \<Rightarrow> ('n \<times> 'w, 'r) future" where
  "lift_future f =
     Future (\<lambda>nw. map_prod (map_sum lift_future id) id (lift_poll f nw)) (\<lambda>nw. (fst nw, drop_future f (snd nw)))"

text \<open>The mutex of the node is \<open>tokio\<close>'s: \<open>lock\<close> is the future of acquiring it. The guard is let go at the end
  of the statement.\<close>

definition read_node :: "(('w, 'x) guarded_world, 'x breaker_node) io" where
  "read_node nw = (fst nw, nw)"

definition async_admit ::
  "(('w, 'x) guarded_world, unit) future \<Rightarrow> ('w, 'x, 'e) breaker_transition \<Rightarrow> grpc_breaker_config \<Rightarrow> string \<Rightarrow>
     (('w, 'x) guarded_world, 'md call_error + unit) future" where
  "async_admit lock bt cfg path =
     await lock (\<lambda>_. await (sync read_node) (\<lambda>snapshot.
     await (sync (inner_call (bt_admit bt (admit_input cfg snapshot)))) (\<lambda>res.
       case res of
         Inl e \<Rightarrow> sync (\<lambda>nw. (Inl (refuse path Internal
           (log_prefix @ '': admit failed unexpectedly: '' @ bt_error_text bt e)), nw))
       | Inr a \<Rightarrow> await lock (\<lambda>_. sync (\<lambda>nw.
           (admission_result path (ad_admission a), (write_admitted a (fst nw), snd nw)))))))"

definition async_record ::
  "(('w, 'x) guarded_world, unit) future \<Rightarrow> ('w, 'x, 'e) breaker_transition \<Rightarrow> grpc_breaker_config \<Rightarrow> outcome \<Rightarrow>
     (('w, 'x) guarded_world, unit) future" where
  "async_record lock bt cfg result =
     await lock (\<lambda>_. await (sync read_node) (\<lambda>snapshot.
     await (sync (inner_call (bt_record bt (record_input cfg result snapshot)))) (\<lambda>res.
       case res of
         Inr r \<Rightarrow> await lock (\<lambda>_. sync (\<lambda>nw. ((), (write_recorded r (fst nw), snd nw))))
       | Inl e \<Rightarrow> sync (\<lambda>nw. ((), nw)))))"

definition async_guard ::
  "(('w, 'x) guarded_world, unit) future \<Rightarrow> ('w, 'x, 'e) breaker_transition \<Rightarrow> grpc_breaker_config \<Rightarrow> string \<Rightarrow>
     ('w, 'md call_error + 'r) future \<Rightarrow> (('w, 'x) guarded_world, 'md call_error + 'r) future" where
  "async_guard lock bt cfg path call =
     (if \<not> enabled cfg then lift_future call
      else await_try (async_admit lock bt cfg path) (\<lambda>_.
        await (lift_future call) (\<lambda>result.
        await (async_record lock bt cfg (classify_result result)) (\<lambda>_. sync (\<lambda>nw. (result, nw))))))"

text \<open>Other tasks leave the node alone: the calls of one client one after the other. The calls that contend
  for it are the step relation of \<open>Breaker_Concurrency\<close>.\<close>

definition beside :: "('w \<Rightarrow> 'w \<Rightarrow> bool) \<Rightarrow> 'n \<times> 'w \<Rightarrow> 'n \<times> 'w \<Rightarrow> bool" where
  "beside env nw nw' \<longleftrightarrow> fst nw' = fst nw \<and> env (snd nw) (snd nw')"

definition uncontended :: "('v, unit) future \<Rightarrow> bool" where
  "uncontended lock \<longleftrightarrow> (\<forall>v. poll lock v = (Inr (), v) \<and> drop_future lock v = v)"

lemma uncontended_lock [simp]:
  assumes "uncontended lock"
  shows "ends env lock v u v' \<longleftrightarrow> v' = v" and "\<not> abandoned env lock v v'"
  using assms by (auto simp: uncontended_def ends_step [of env lock] abandoned_step [of env lock])

lemma poll_lift [simp]:
  "poll (lift_future f) (n, w) =
     (case poll f w of (Inl f', w') \<Rightarrow> (Inl (lift_future f'), (n, w')) | (Inr r, w') \<Rightarrow> (Inr r, (n, w')))"
  by (simp add: lift_poll_def split: prod.split sum.split)

lemma drop_lift [simp]: "drop_future (lift_future f) (n, w) = (n, drop_future f w)"
  by simp

lemma ends_lift_from: "ends env f w r w' \<Longrightarrow> ends (beside env) (lift_future f) (n, w) r (n, w')"
proof (induction rule: ends.induct)
  case (ready f w r w')
  then show ?case by (auto intro: ends.ready simp del: lift_future.sel)
next
  case (pending f w f' w1 w2 r w')
  then have "poll (lift_future f) (n, w) = (Inl (lift_future f'), (n, w1))" "beside env (n, w1) (n, w2)"
    by (simp_all add: beside_def del: lift_future.sel)
  then show ?case using pending.IH by (rule ends.pending)
qed

lemma ends_lift_to:
  assumes "ends (beside env) g nw r nw'" "g = lift_future f"
  shows "fst nw' = fst nw \<and> ends env f (snd nw) r (snd nw')"
  using assms
proof (induction arbitrary: f rule: ends.induct)
  case (ready g nw r nw')
  then show ?case
    by (cases nw) (auto intro: ends.ready simp del: lift_future.sel split: prod.splits sum.splits)
next
  case (pending g nw g' nw1 nw2 r nw')
  then obtain f' where "poll f (snd nw) = (Inl f', snd nw1)" "g' = lift_future f'" "fst nw1 = fst nw"
    by (cases nw) (auto simp del: lift_future.sel split: prod.splits sum.splits)
  with pending show ?case
    by (auto simp: beside_def intro: ends.pending)
qed

lemma ends_lift [simp]:
  "ends (beside env) (lift_future f) (n, w) r nw' \<longleftrightarrow> (\<exists>w'. nw' = (n, w') \<and> ends env f w r w')"
  using ends_lift_from [of env f w r _ n] ends_lift_to [of env "lift_future f" "(n, w)" r nw' f] by (cases nw') auto

lemma runs_as_lift: "runs_as env f g \<Longrightarrow> runs_as (beside env) (lift_future f) (inner_call g)"
  by (auto simp: runs_as_def inner_call_def split: prod.splits)

lemma abandoned_lift:
  assumes "abandoned (beside env) g nw nw'" "g = lift_future f"
  shows "fst nw' = fst nw \<and> abandoned env f (snd nw) (snd nw')"
  using assms
proof (induction arbitrary: f rule: abandoned.induct)
  case (dropped g nw g' nw1 nw2)
  then obtain f' where "poll f (snd nw) = (Inl f', snd nw1)" "g' = lift_future f'" "fst nw1 = fst nw"
    by (cases nw) (auto simp del: lift_future.sel split: prod.splits sum.splits)
  with dropped show ?case
    by (auto simp: beside_def intro: abandoned.dropped)
next
  case (polled g nw g' nw1 nw2 nw')
  then obtain f' where "poll f (snd nw) = (Inl f', snd nw1)" "g' = lift_future f'" "fst nw1 = fst nw"
    by (cases nw) (auto simp del: lift_future.sel split: prod.splits sum.splits)
  with polled show ?case
    by (auto simp: beside_def intro: abandoned.polled)
qed

lemma abandoned_lift_from: "abandoned env f w w' \<Longrightarrow> abandoned (beside env) (lift_future f) (n, w) (n, w')"
proof (induction rule: abandoned.induct)
  case (dropped f w f' w1 w2)
  then have "poll (lift_future f) (n, w) = (Inl (lift_future f'), (n, w1))" "beside env (n, w1) (n, w2)"
    by (simp_all add: beside_def del: lift_future.sel)
  then show ?case
    using abandoned.dropped by fastforce
next
  case (polled f w f' w1 w2 w')
  then have "poll (lift_future f) (n, w) = (Inl (lift_future f'), (n, w1))" "beside env (n, w1) (n, w2)"
    by (simp_all add: beside_def del: lift_future.sel)
  then show ?case using polled.IH by (rule abandoned.polled)
qed

lemma ends_async_admit [simp]:
  assumes "uncontended lock"
  shows "ends env (async_admit lock bt cfg path) nw r nw' \<longleftrightarrow> admit bt cfg path nw = (r, nw')"
  using assms
  by (cases nw) (auto simp: async_admit_def admit_def read_node_def inner_call_def split: prod.splits sum.splits)

lemma ends_async_record [simp]:
  assumes "uncontended lock"
  shows "ends env (async_record lock bt cfg out) nw u nw' \<longleftrightarrow> nw' = record_outcome bt cfg out nw"
  using assms
  by (cases nw)
    (auto simp: async_record_def record_outcome_def read_node_def inner_call_def split: prod.splits sum.splits)

lemma not_abandoned_admit [simp]:
  "uncontended lock \<Longrightarrow> \<not> abandoned env (async_admit lock bt cfg path) nw nw'"
  by (auto simp: async_admit_def split: sum.splits)

lemma not_abandoned_record [simp]:
  "uncontended lock \<Longrightarrow> \<not> abandoned env (async_record lock bt cfg out) nw nw'"
  by (auto simp: async_record_def split: sum.splits)

lemma poll_async_admit [simp]:
  "uncontended lock \<Longrightarrow>
     poll (async_admit lock bt cfg path) nw = (case admit bt cfg path nw of (r, nw') \<Rightarrow> (Inr r, nw'))"
  by (cases nw) (simp add: uncontended_def async_admit_def admit_def read_node_def inner_call_def
      split: prod.split sum.split)

lemma poll_admitted:
  fixes f :: "('w, 'md call_error + 'r) future"
  assumes "uncontended lock" "enabled cfg" "admit bt cfg path nw = (Inr () :: 'md call_error + unit, nw1)"
    and "poll (lift_future f) nw1 = (Inl g, nw2)"
  shows "poll (async_guard lock bt cfg path f) nw =
    (Inl (await g (\<lambda>result. await (async_record lock bt cfg (classify_result result)) (\<lambda>_. sync (\<lambda>nw. (result, nw))))), nw2)"
  using assms by (simp add: async_guard_def poll_await_try del: lift_future.sel)

text \<open>A guarded call that completes: admitted, called, recorded.\<close>

lemma ends_async_guard:
  fixes f :: "('w, 'md call_error + 'r) future"
  assumes "uncontended lock" "enabled cfg"
  shows "ends env (async_guard lock bt cfg path f) nw r nw' \<longleftrightarrow>
    (\<exists>e. r = Inl e \<and> admit bt cfg path nw = (Inl e, nw')) \<or>
    (\<exists>nw1 nw2. admit bt cfg path nw = (Inr () :: 'md call_error + unit, nw1) \<and> ends env (lift_future f) nw1 r nw2 \<and>
      nw' = record_outcome bt cfg (classify_result r) nw2)"
  using assms by (simp add: async_guard_def) blast

lemma abandoned_async_guard:
  fixes f :: "('w, 'md call_error + 'r) future"
  assumes "uncontended lock" "enabled cfg"
  shows "abandoned env (async_guard lock bt cfg path f) nw nw' \<longleftrightarrow>
    (\<exists>nw1. admit bt cfg path nw = (Inr () :: 'md call_error + unit, nw1) \<and> abandoned env (lift_future f) nw1 nw')"
  using assms by (auto simp: async_guard_def)

lemma runs_as_guard:
  assumes "uncontended lock" "runs_as env f call"
  shows "runs_as (beside env) (async_guard lock bt cfg path f) (guard bt cfg path call)"
proof (cases "enabled cfg")
  case True
  have "ends (beside env) (async_guard lock bt cfg path f) nw r nw' \<longleftrightarrow> guard bt cfg path call nw = (r, nw')" for nw r nw'
    by (subst ends_async_guard [OF assms(1) True])
      (use True in \<open>auto simp: guard_def runs_asD [OF runs_as_lift [OF assms(2)]] split: prod.splits sum.splits\<close>)
  then show ?thesis
    by (simp add: runs_as_def)
next
  case False
  then show ?thesis
    using runs_as_lift [OF assms(2)] by (simp add: async_guard_def guard_disabled)
qed

section \<open>The intercepted call\<close>

definition async_intercept_reply ::
  "('w, 'md, 'mb, 'me, 'h) adapter \<Rightarrow> call_kind \<Rightarrow>
     (('i, 'md) call_request \<Rightarrow> ('w, 'md call_error + ('o, 'h) call_response) future) \<Rightarrow>
     ('i, 'md) call_request \<Rightarrow> ('w, 'md call_error + ('o, 'h) call_response) future" where
  "async_intercept_reply ad kind call request =
     (let path = req_path request in
      await_try (sync (run_before ad path kind (req_options request))) (\<lambda>options.
      await (call (with_options request options)) (\<lambda>result.
        case result of
          Inl e \<Rightarrow> sync (\<lambda>w. (Inl e, adapter_failed ad path kind e w))
        | Inr response \<Rightarrow>
            await_try (sync (run_after ad path kind (resp_headers response) (resp_trailers response)))
              (\<lambda>_. sync (\<lambda>w. (Inr response, w))))))"

definition async_intercept_stream ::
  "('w, 'md, 'mb, 'me, 'h) adapter \<Rightarrow> ('w, 's, 'o, 'h, 'md) response_stream \<Rightarrow> call_kind \<Rightarrow>
     (('i, 'md) call_request \<Rightarrow> ('w, 'md call_error + 's) future) \<Rightarrow>
     ('i, 'md) call_request \<Rightarrow> ('w, 'md call_error + 's pattern_stream) future" where
  "async_intercept_stream ad ops kind call request =
     (let path = req_path request in
      await_try (sync (run_before ad path kind (req_options request))) (\<lambda>options.
      await (call (with_options request options)) (\<lambda>result.
        case result of
          Inl e \<Rightarrow> sync (\<lambda>w. (Inl e, adapter_failed ad path kind e w))
        | Inr s \<Rightarrow>
            await (sync (notify_opened ad ops
                \<lparr>ps_inner = s, ps_path = path, ps_kind = kind, ps_opened = False, ps_terminal = False\<rparr>))
              (\<lambda>ps. sync (\<lambda>w. (Inr ps, w))))))"

lemma runs_as_intercept_reply:
  assumes "\<And>r. runs_as env (call r) (io r)"
  shows "runs_as env (async_intercept_reply ad kind call request) (intercept_reply ad kind io request)"
proof -
  have "ends env (async_intercept_reply ad kind call request) w r w' \<longleftrightarrow>
      intercept_reply ad kind io request w = (r, w')" for w r w'
    by (auto simp: async_intercept_reply_def intercept_reply_def Let_def ex_sum runs_asD [OF assms]
        split: prod.splits sum.splits)
  then show ?thesis
    by (simp add: runs_as_def)
qed

lemma runs_as_intercept_stream:
  assumes "\<And>r. runs_as env (call r) (io r)"
  shows "runs_as env (async_intercept_stream ad ops kind call request) (intercept_stream ad ops kind io request)"
proof -
  have "ends env (async_intercept_stream ad ops kind call request) w r w' \<longleftrightarrow>
      intercept_stream ad ops kind io request w = (r, w')" for w r w'
    by (auto simp: async_intercept_stream_def intercept_stream_def Let_def ex_sum runs_asD [OF assms]
        split: prod.splits sum.splits)
  then show ?thesis
    by (simp add: runs_as_def)
qed

text \<open>A call that is dropped stands at the \<open>await\<close> of the inner client: it has run the interceptors and told
  them that it started.\<close>

lemma abandoned_intercept_reply:
  "abandoned env (async_intercept_reply ad kind call request) w w' \<longleftrightarrow>
     (\<exists>options w1. run_before ad (req_path request) kind (req_options request) w = (Inr options, w1) \<and>
        abandoned env (call (with_options request options)) w1 w')"
  by (auto simp: async_intercept_reply_def Let_def ex_sum)

lemma abandoned_intercept_stream:
  "abandoned env (async_intercept_stream ad ops kind call request) w w' \<longleftrightarrow>
     (\<exists>options w1. run_before ad (req_path request) kind (req_options request) w = (Inr options, w1) \<and>
        abandoned env (call (with_options request options)) w1 w')"
  by (auto simp: async_intercept_stream_def Let_def ex_sum)

section \<open>The retry loop\<close>

text \<open>The two tracks up to their \<open>sleep(..).await\<close>: the pause, or none when the loop breaks.\<close>

definition standard_pause ::
  "('w, 'g, 'u) retry_runtime \<Rightarrow> grpc_retry_config \<Rightarrow> nat \<Rightarrow> duration option \<Rightarrow>
     'md call_error + 'r \<Rightarrow> ('md, 'g) retry_state \<Rightarrow> ('w, duration option \<times> ('md, 'g) retry_state) io" where
  "standard_pause rt cfg started total_budget result st w =
     (let st1 = st\<lparr>last_error := result_err result\<rparr> in
      if max_attempts cfg \<le> standard_attempt st1 + 1 then ((None, st1), w)
      else
        (let (unit, g) = rt_next_unit rt (rng st1);
             sleep_for = rt_next_backoff rt (as_backoff_policy cfg) (standard_attempt st1) unit;
             st2 = st1\<lparr>rng := g, standard_attempt := standard_attempt st1 + 1\<rparr>;
             (fits, w1) = budget_allows_sleep rt started total_budget sleep_for w
         in ((if fits then Some sleep_for else None, st2), w1)))"

definition rate_limit_pause ::
  "('w, 'g, 'u) retry_runtime \<Rightarrow> ('md, 'r) retry_classifier \<Rightarrow> grpc_retry_config \<Rightarrow> nat \<Rightarrow>
     duration option \<Rightarrow> 'md call_error + 'r \<Rightarrow> ('md, 'g) retry_state \<Rightarrow>
     ('w, duration option \<times> ('md, 'g) retry_state) io" where
  "rate_limit_pause rt cls cfg started total_budget result st w =
     (let st1 = st\<lparr>last_error := result_err result\<rparr> in
      if rate_limit_max_attempts cfg < rate_lim_attempt st1 + 1 then ((None, st1), w)
      else
        (let hint = Option.bind (last_error st1) (rc_read_retry_after cls);
             (unit, g) = rt_next_unit rt (rng st1);
             sleep_for = rt_rate_limit_backoff rt (as_rate_limit_policy cfg) (as_backoff_policy cfg)
               (rate_lim_attempt st1) hint unit;
             st2 = st1\<lparr>rng := g, rate_lim_attempt := rate_lim_attempt st1 + 1\<rparr>;
             (fits, w1) = budget_allows_sleep rt started total_budget sleep_for w
         in ((if fits then Some sleep_for else None, st2), w1)))"

text \<open>The \<open>match\<close> on the decision: the result of the call, or the pause before the next attempt.\<close>

definition after_attempt ::
  "('w, 'g, 'u) retry_runtime \<Rightarrow> ('md, 'r) retry_classifier \<Rightarrow> grpc_retry_config \<Rightarrow> string \<Rightarrow> nat \<Rightarrow>
     duration option \<Rightarrow> ('md, 'g) retry_state \<Rightarrow> 'md call_error + 'r \<Rightarrow>
     ('w, ('md call_error + 'r) + duration \<times> ('md, 'g) retry_state) io" where
  "after_attempt rt cls cfg path started total_budget st result w =
     (let broken = (\<lambda>((pause, st'), w').
        case pause of
          Some d \<Rightarrow> (Inr (d, st'), w')
        | None \<Rightarrow> (Inl (Inl (unwrap_or (no_recorded_error path) (last_error st'))), w'))
      in case rc_classify cls result of
        retry_decision.Success \<Rightarrow> (Inl result, w)
      | Terminal \<Rightarrow> (Inl result, w)
      | Retry \<Rightarrow> broken (standard_pause rt cfg started total_budget result st w)
      | RetryRateLimit \<Rightarrow> broken (rate_limit_pause rt cls cfg started total_budget result st w))"

type_synonym ('w, 'c, 'md, 'r) async_attempt_fn =
  "duration option \<Rightarrow> 'c \<Rightarrow> ('w, ('md call_error + 'r) \<times> 'c) future"

primrec async_attempts ::
  "nat \<Rightarrow> (duration \<Rightarrow> ('w, unit) future) \<Rightarrow> ('w, 'g, 'u) retry_runtime \<Rightarrow> ('md, 'r) retry_classifier \<Rightarrow>
     grpc_retry_config \<Rightarrow> string \<Rightarrow> nat \<Rightarrow> duration option \<Rightarrow> ('w, 'c, 'md, 'r) async_attempt_fn \<Rightarrow>
     ('md, 'g) retry_state \<Rightarrow> 'c \<Rightarrow> ('w, ('md call_error + 'r) \<times> 'c) future" where
  "async_attempts 0 sleep rt cls cfg path started total_budget attempt st c =
     sync (\<lambda>w. ((Inl (unwrap_or (no_recorded_error path) (last_error st)), c), w))"
| "async_attempts (Suc n) sleep rt cls cfg path started total_budget attempt st c =
     await (sync (remaining rt started total_budget)) (\<lambda>left.
       case left of
         None \<Rightarrow> sync (\<lambda>w. ((Inl (unwrap_or (deadline_before_retry path) (last_error st)), c), w))
       | Some timeout \<Rightarrow>
           await (attempt timeout c) (\<lambda>rc.
           await (sync (after_attempt rt cls cfg path started total_budget st (fst rc))) (\<lambda>next.
             case next of
               Inl r \<Rightarrow> sync (\<lambda>w. ((r, snd rc), w))
             | Inr dst \<Rightarrow> await (sleep (fst dst)) (\<lambda>_.
                 async_attempts n sleep rt cls cfg path started total_budget attempt (snd dst) (snd rc)))))"

definition async_retry ::
  "(duration \<Rightarrow> ('w, unit) future) \<Rightarrow> ('w, 'g, 'u) retry_runtime \<Rightarrow> ('md, 'r) retry_classifier \<Rightarrow>
     grpc_retry_config \<Rightarrow> string \<Rightarrow> duration option \<Rightarrow> ('w, 'c, 'md, 'r) async_attempt_fn \<Rightarrow> 'c \<Rightarrow>
     ('w, ('md call_error + 'r) \<times> 'c) future" where
  "async_retry sleep rt cls cfg path total_budget attempt c =
     await (sync (rt_now rt)) (\<lambda>started.
     await (sync (rt_jitter_from_clock rt)) (\<lambda>g.
       async_attempts (unat (max_attempts cfg)) sleep rt cls cfg path started total_budget attempt
         (initial_retry_state g) c))"

text \<open>The timer of \<open>tokio\<close> and the effect that stands for it.\<close>

definition timer_of :: "('w \<Rightarrow> 'w \<Rightarrow> bool) \<Rightarrow> (duration \<Rightarrow> ('w, unit) future) \<Rightarrow> ('w, 'g, 'u) retry_runtime \<Rightarrow> bool" where
  "timer_of env sleep rt \<longleftrightarrow> (\<forall>d. runs_as env (sleep d) (\<lambda>w. ((), rt_sleep rt d w)))"

definition attempt_io :: "('w, 'c, 'md, 'r) attempt_fn \<Rightarrow> duration option \<Rightarrow> 'c \<Rightarrow>
    ('w, ('md call_error + 'r) \<times> 'c) io" where
  "attempt_io attempt t c w = (case attempt t c w of (r, c', w') \<Rightarrow> ((r, c'), w'))"

lemma standard_track_pause:
  "standard_track rt cfg started budget result st w =
     (case standard_pause rt cfg started budget result st w of
        ((Some d, st'), w') \<Rightarrow> (True, st', rt_sleep rt d w')
      | ((None, st'), w') \<Rightarrow> (False, st', w'))"
  by (simp add: standard_track_def standard_pause_def Let_def split: prod.split)

lemma rate_limit_track_pause:
  "rate_limit_track rt cls cfg started budget result st w =
     (case rate_limit_pause rt cls cfg started budget result st w of
        ((Some d, st'), w') \<Rightarrow> (True, st', rt_sleep rt d w')
      | ((None, st'), w') \<Rightarrow> (False, st', w'))"
  by (simp add: rate_limit_track_def rate_limit_pause_def Let_def split: prod.split)

lemma run_attempts_after:
  "run_attempts (Suc n) rt cls cfg path started budget attempt st c w =
     (case remaining rt started budget w of
        (None, w1) \<Rightarrow> (Inl (unwrap_or (deadline_before_retry path) (last_error st)), c, w1)
      | (Some timeout, w1) \<Rightarrow>
          (case attempt timeout c w1 of (result, c', w2) \<Rightarrow>
             (case after_attempt rt cls cfg path started budget st result w2 of
                (Inl r, w3) \<Rightarrow> (r, c', w3)
              | (Inr (d, st'), w3) \<Rightarrow>
                  run_attempts n rt cls cfg path started budget attempt st' c' (rt_sleep rt d w3))))"
  by (simp add: after_attempt_def standard_track_pause rate_limit_track_pause Let_def
      split: prod.split option.split retry_decision.split)

text \<open>The loop as a future runs as the loop.\<close>

lemma runs_as_attempts:
  assumes timer: "timer_of env sleep rt" and attempts: "\<And>t c. runs_as env (aattempt t c) (attempt_io attempt t c)"
  shows "ends env (async_attempts n sleep rt cls cfg path started budget aattempt st c) w rc w' \<longleftrightarrow>
    run_attempts n rt cls cfg path started budget attempt st c w = (fst rc, snd rc, w')"
proof (induction n arbitrary: st c w rc w')
  case 0
  show ?case by (cases rc) auto
next
  case (Suc n)
  have sleeps: "ends env (sleep d) v u v' \<longleftrightarrow> v' = rt_sleep rt d v" for d v u v'
    using timer runs_asD [of env "sleep d" "\<lambda>w. ((), rt_sleep rt d w)"] by (auto simp: timer_of_def)
  have tries: "ends env (aattempt t c) v x v' \<longleftrightarrow> attempt t c v = (fst x, snd x, v')" for t c v x v'
    using runs_asD [OF attempts] by (cases x) (auto simp: attempt_io_def split: prod.splits)
  obtain left w1 where left: "remaining rt started budget w = (left, w1)" by fastforce
  show ?case
  proof (cases left)
    case None
    then show ?thesis
      unfolding run_attempts_after using left by (cases rc) auto
  next
    case (Some timeout)
    obtain result c' w2 where result: "attempt timeout c w1 = (result, c', w2)" by (cases "attempt timeout c w1")
    obtain q w3 where q: "after_attempt rt cls cfg path started budget st result w2 = (q, w3)" by fastforce
    have tried: "ends env (aattempt timeout c) w1 x v \<longleftrightarrow> x = (result, c') \<and> v = w2" for x v
      using tries result by (cases x) auto
    show ?thesis
      unfolding run_attempts_after
      by (cases rc; cases q) (auto simp: left Some result q tried sleeps Suc)
  qed
qed

lemma runs_as_retry:
  assumes "timer_of env sleep rt" "\<And>t c. runs_as env (aattempt t c) (attempt_io attempt t c)"
  shows "runs_as env (async_retry sleep rt cls cfg path budget aattempt c)
    (\<lambda>w. case run_with_retry rt cls cfg path budget attempt c w of (r, c', w') \<Rightarrow> ((r, c'), w'))"
proof -
  have "ends env (async_retry sleep rt cls cfg path budget aattempt c) w rc w' \<longleftrightarrow>
      run_with_retry rt cls cfg path budget attempt c w = (fst rc, snd rc, w')" for w rc w'
    by (auto simp: async_retry_def run_with_retry_def Let_def runs_as_attempts [OF assms] split: prod.splits)
  then show ?thesis
    by (auto simp: runs_as_def split: prod.splits)
qed

definition async_typed_attempt ::
  "('w, 'i, 'q, 'o, 's, 'md, 'h) async_transport \<Rightarrow> 'i payload \<Rightarrow> string \<Rightarrow> 'md \<Rightarrow> u8 list \<Rightarrow>
     ('w, 'i option, 'md, ('o, 'h) call_response) async_attempt_fn" where
  "async_typed_attempt inner pl path md encoded attempt_timeout first =
     (case (case first of
              Some message \<Rightarrow> Inr message
            | None \<Rightarrow> map_err Decode (decode_from pl encoded)) of
        Inl e \<Rightarrow> sync (\<lambda>w. ((Inl e, None), w))
      | Inr message \<Rightarrow>
          await (async_unary inner (make_request path message (create_options attempt_timeout md)))
            (\<lambda>r. sync (\<lambda>w. ((r, None), w))))"

definition async_retry_call ::
  "(duration \<Rightarrow> ('w, unit) future) \<Rightarrow> ('w, 'g, 'u) retry_runtime \<Rightarrow>
     ('md, ('o, 'h) call_response) retry_classifier \<Rightarrow> grpc_retry_config \<Rightarrow>
     ('w, 'i, 'q, 'o, 's, 'md, 'h) async_transport \<Rightarrow> 'i payload \<Rightarrow>
     ('i, 'md) call_request \<Rightarrow> ('w, 'md call_error + ('o, 'h) call_response) future" where
  "async_retry_call sleep rt cls cfg inner pl request =
     (let path = req_path request; message = req_body request; options = req_options request in
      if max_attempts cfg \<le> 1 then async_unary inner (make_request path message options)
      else
        (case encode_into pl message of
           Inl e \<Rightarrow> sync (\<lambda>w. (Inl (Encode e), w))
         | Inr encoded \<Rightarrow>
             await (async_retry sleep rt cls cfg path (opt_timeout options)
                 (async_typed_attempt inner pl path (opt_metadata options) encoded) (Some message))
               (\<lambda>rc. sync (\<lambda>w. (fst rc, w)))))"

definition async_raw_attempt ::
  "('w, u8 list, 'q, u8 list, 's, 'md, 'h) async_transport \<Rightarrow> string \<Rightarrow> 'md \<Rightarrow> u8 list \<Rightarrow>
     ('w, unit, 'md, (u8 list, 'h) call_response) async_attempt_fn" where
  "async_raw_attempt inner path md body attempt_timeout c =
     await (async_unary inner (make_request path body (create_options attempt_timeout md)))
       (\<lambda>r. sync (\<lambda>w. ((r, ()), w)))"

definition async_retry_call_raw ::
  "(duration \<Rightarrow> ('w, unit) future) \<Rightarrow> ('w, 'g, 'u) retry_runtime \<Rightarrow>
     ('md, (u8 list, 'h) call_response) retry_classifier \<Rightarrow> grpc_retry_config \<Rightarrow>
     ('w, u8 list, 'q, u8 list, 's, 'md, 'h) async_transport \<Rightarrow>
     (u8 list, 'md) call_request \<Rightarrow> ('w, 'md call_error + (u8 list, 'h) call_response) future" where
  "async_retry_call_raw sleep rt cls cfg inner request =
     (let path = req_path request; body = req_body request; options = req_options request in
      await (async_retry sleep rt cls cfg path (opt_timeout options)
          (async_raw_attempt inner path (opt_metadata options) body) ())
        (\<lambda>rc. sync (\<lambda>w. (fst rc, w))))"

lemma runs_as_typed_attempt:
  assumes "\<And>r. runs_as env (async_unary inner r) (call_unary t r)"
  shows "runs_as env (async_typed_attempt inner pl path md encoded timeout first)
    (attempt_io (typed_attempt t pl path md encoded) timeout first)"
proof -
  have "ends env (async_typed_attempt inner pl path md encoded timeout first) w rc w' \<longleftrightarrow>
      attempt_io (typed_attempt t pl path md encoded) timeout first w = (rc, w')" for w rc w'
    by (auto simp: async_typed_attempt_def typed_attempt_def attempt_io_def Let_def runs_asD [OF assms]
        split: prod.splits sum.splits option.splits)
  then show ?thesis
    by (simp add: runs_as_def)
qed

lemma runs_as_raw_attempt:
  assumes "\<And>r. runs_as env (async_unary inner r) (call_unary t r)"
  shows "runs_as env (async_raw_attempt inner path md body timeout c) (attempt_io (raw_attempt t path md body) timeout c)"
proof -
  have "ends env (async_raw_attempt inner path md body timeout c) w rc w' \<longleftrightarrow>
      attempt_io (raw_attempt t path md body) timeout c w = (rc, w')" for w rc w'
    by (auto simp: async_raw_attempt_def raw_attempt_def attempt_io_def Let_def runs_asD [OF assms] split: prod.splits)
  then show ?thesis
    by (simp add: runs_as_def)
qed

lemma runs_as_retry_call:
  assumes "timer_of env sleep rt" "\<And>r. runs_as env (async_unary inner r) (call_unary t r)"
  shows "runs_as env (async_retry_call sleep rt cls cfg inner pl request) (retry_call rt cls cfg t pl request)"
proof -
  note loop = runs_asD [OF runs_as_retry [OF assms(1) runs_as_typed_attempt [OF assms(2)]]]
  have "ends env (async_retry_call sleep rt cls cfg inner pl request) w r w' \<longleftrightarrow>
      retry_call rt cls cfg t pl request w = (r, w')" for w r w'
    by (auto simp: async_retry_call_def retry_call_def Let_def loop runs_asD [OF assms(2)] split: prod.splits sum.splits)
  then show ?thesis
    by (simp add: runs_as_def)
qed

lemma runs_as_retry_call_raw:
  assumes "timer_of env sleep rt" "\<And>r. runs_as env (async_unary inner r) (call_unary t r)"
  shows "runs_as env (async_retry_call_raw sleep rt cls cfg inner request) (retry_call_raw rt cls cfg t request)"
proof -
  note loop = runs_asD [OF runs_as_retry [OF assms(1) runs_as_raw_attempt [OF assms(2)]]]
  have "ends env (async_retry_call_raw sleep rt cls cfg inner request) w r w' \<longleftrightarrow>
      retry_call_raw rt cls cfg t request w = (r, w')" for w r w'
    by (auto simp: async_retry_call_raw_def retry_call_raw_def Let_def loop split: prod.splits)
  then show ?thesis
    by (simp add: runs_as_def)
qed

end
