(* ===== verification/Async_Client.thy ===== *)
theory Async_Client
  imports Async_Layers
begin

text \<open>
  The asynchronous client: the eight calls of each layer as futures, put together as the factories do. The
  first property says that the effects of the other theories are these futures run to their end; the others
  say what is left when a future is not run to its end.
\<close>

section \<open>The clients\<close>

record ('w, 'i, 'q, 'o, 's, 'bq, 'bs, 'md, 'h) async_client =
  async_typed :: "('w, 'i, 'q, 'o, 's, 'md, 'h) async_transport"
  async_raw :: "('w, u8 list, 'bq, u8 list, 'bs, 'md, 'h) async_transport"

definition async_intercepted ::
  "('w, 'md, 'mb, 'me, 'h) adapter \<Rightarrow> ('w, 's, 'o, 'h, 'md) response_stream \<Rightarrow>
     ('w, 'i, 'q, 'o, 's, 'md, 'h) async_transport \<Rightarrow> ('w, 'i, 'q, 'o, 's pattern_stream, 'md, 'h) async_transport" where
  "async_intercepted ad ops inner =
     \<lparr>async_unary = async_intercept_reply ad Unary (async_unary inner),
      async_server_stream = async_intercept_stream ad ops ServerStream (async_server_stream inner),
      async_client_stream = async_intercept_reply ad ClientStream (async_client_stream inner),
      async_bidi_stream = async_intercept_stream ad ops BidiStream (async_bidi_stream inner)\<rparr>"

definition async_intercepted_client ::
  "('w, 'md, 'mb, 'me, 'h) adapter \<Rightarrow> ('w, 's, 'o, 'h, 'md) response_stream \<Rightarrow>
     ('w, 'bs, u8 list, 'h, 'md) response_stream \<Rightarrow> ('w, 'i, 'q, 'o, 's, 'bq, 'bs, 'md, 'h) async_client \<Rightarrow>
     ('w, 'i, 'q, 'o, 's pattern_stream, 'bq, 'bs pattern_stream, 'md, 'h) async_client" where
  "async_intercepted_client ad ops raw_ops inner =
     \<lparr>async_typed = async_intercepted ad ops (async_typed inner),
      async_raw = async_intercepted ad raw_ops (async_raw inner)\<rparr>"

definition async_retry_typed ::
  "(duration \<Rightarrow> ('w, unit) future) \<Rightarrow> ('w, 'g, 'u) retry_runtime \<Rightarrow>
     ('md, ('o, 'h) call_response) retry_classifier \<Rightarrow> grpc_retry_config \<Rightarrow> 'i payload \<Rightarrow>
     ('w, 'i, 'q, 'o, 's, 'md, 'h) async_transport \<Rightarrow> ('w, 'i, 'q, 'o, 's, 'md, 'h) async_transport" where
  "async_retry_typed sleep rt cls cfg pl inner =
     \<lparr>async_unary = async_retry_call sleep rt cls cfg inner pl,
      async_server_stream = (\<lambda>request. async_server_stream inner request),
      async_client_stream = (\<lambda>request. async_client_stream inner request),
      async_bidi_stream = (\<lambda>request. async_bidi_stream inner request)\<rparr>"

definition async_retry_raw ::
  "(duration \<Rightarrow> ('w, unit) future) \<Rightarrow> ('w, 'g, 'u) retry_runtime \<Rightarrow>
     ('md, (u8 list, 'h) call_response) retry_classifier \<Rightarrow> grpc_retry_config \<Rightarrow>
     ('w, u8 list, 'q, u8 list, 's, 'md, 'h) async_transport \<Rightarrow>
     ('w, u8 list, 'q, u8 list, 's, 'md, 'h) async_transport" where
  "async_retry_raw sleep rt cls cfg inner =
     \<lparr>async_unary = async_retry_call_raw sleep rt cls cfg inner,
      async_server_stream = (\<lambda>request. async_server_stream inner
        (make_request (req_path request) (req_body request) (req_options request))),
      async_client_stream = (\<lambda>request. async_client_stream inner
        (make_request (req_path request) (req_body request) (req_options request))),
      async_bidi_stream = (\<lambda>request. async_bidi_stream inner
        (make_request (req_path request) (req_body request) (req_options request)))\<rparr>"

definition async_retry_client ::
  "(duration \<Rightarrow> ('w, unit) future) \<Rightarrow> ('w, 'g, 'u) retry_runtime \<Rightarrow> ('md, 'me) metadata_view \<Rightarrow> 'i payload \<Rightarrow>
     grpc_retry_config \<Rightarrow> ('w, 'i, 'q, 'o, 's, 'bq, 'bs, 'md, 'h) async_client \<Rightarrow>
     ('w, 'i, 'q, 'o, 's, 'bq, 'bs, 'md, 'h) async_client" where
  "async_retry_client sleep rt view pl cfg inner =
     \<lparr>async_typed = async_retry_typed sleep rt (std_retry_classifier view) cfg pl (async_typed inner),
      async_raw = async_retry_raw sleep rt (std_retry_classifier view) cfg (async_raw inner)\<rparr>"

definition async_breaker_typed ::
  "(('w, 'x) guarded_world, unit) future \<Rightarrow> ('w, 'x, 'e) breaker_transition \<Rightarrow> grpc_breaker_config \<Rightarrow>
     ('w, 'i, 'q, 'o, 's, 'md, 'h) async_transport \<Rightarrow>
     (('w, 'x) guarded_world, 'i, 'q, 'o, 's, 'md, 'h) async_transport" where
  "async_breaker_typed lock bt cfg inner =
     \<lparr>async_unary = (\<lambda>request. async_guard lock bt cfg (req_path request) (async_unary inner request)),
      async_server_stream = (\<lambda>request. async_guard lock bt cfg (req_path request) (async_server_stream inner request)),
      async_client_stream = (\<lambda>request. async_guard lock bt cfg (req_path request) (async_client_stream inner request)),
      async_bidi_stream = (\<lambda>request. async_guard lock bt cfg (req_path request) (async_bidi_stream inner request))\<rparr>"

text \<open>A raw call writes the guard out.\<close>

definition async_raw_guarded ::
  "(('w, 'x) guarded_world, unit) future \<Rightarrow> ('w, 'x, 'e) breaker_transition \<Rightarrow> grpc_breaker_config \<Rightarrow>
     (('i, 'md) call_request \<Rightarrow> ('w, 'md call_error + 'r) future) \<Rightarrow> ('i, 'md) call_request \<Rightarrow>
     (('w, 'x) guarded_world, 'md call_error + 'r) future" where
  "async_raw_guarded lock bt cfg call request =
     await_try (if enabled cfg then async_admit lock bt cfg (req_path request) else sync (\<lambda>nw. (Inr (), nw))) (\<lambda>_.
     await (lift_future (call (rebuild_request request))) (\<lambda>result.
     await (if enabled cfg then async_record lock bt cfg (classify_result result) else sync (\<lambda>nw. ((), nw)))
       (\<lambda>_. sync (\<lambda>nw. (result, nw)))))"

definition async_breaker_raw ::
  "(('w, 'x) guarded_world, unit) future \<Rightarrow> ('w, 'x, 'e) breaker_transition \<Rightarrow> grpc_breaker_config \<Rightarrow>
     ('w, u8 list, 'q, u8 list, 's, 'md, 'h) async_transport \<Rightarrow>
     (('w, 'x) guarded_world, u8 list, 'q, u8 list, 's, 'md, 'h) async_transport" where
  "async_breaker_raw lock bt cfg inner =
     \<lparr>async_unary = async_raw_guarded lock bt cfg (async_unary inner),
      async_server_stream = async_raw_guarded lock bt cfg (async_server_stream inner),
      async_client_stream = async_raw_guarded lock bt cfg (async_client_stream inner),
      async_bidi_stream = async_raw_guarded lock bt cfg (async_bidi_stream inner)\<rparr>"

definition async_breaker_client ::
  "(('w, 'x) guarded_world, unit) future \<Rightarrow> ('w, 'x, 'e) breaker_transition \<Rightarrow> grpc_breaker_config \<Rightarrow>
     ('w, 'i, 'q, 'o, 's, 'bq, 'bs, 'md, 'h) async_client \<Rightarrow>
     (('w, 'x) guarded_world, 'i, 'q, 'o, 's, 'bq, 'bs, 'md, 'h) async_client" where
  "async_breaker_client lock bt cfg inner =
     \<lparr>async_typed = async_breaker_typed lock bt cfg (async_typed inner),
      async_raw = async_breaker_raw lock bt cfg (async_raw inner)\<rparr>"

section \<open>Run to the end\<close>

definition runs_as_transport ::
  "('w \<Rightarrow> 'w \<Rightarrow> bool) \<Rightarrow> ('w, 'i, 'q, 'o, 's, 'md, 'h) async_transport \<Rightarrow>
     ('w, 'i, 'q, 'o, 's, 'md, 'h) transport \<Rightarrow> bool" where
  "runs_as_transport env a t \<longleftrightarrow>
     (\<forall>r. runs_as env (async_unary a r) (call_unary t r)) \<and>
     (\<forall>r. runs_as env (async_server_stream a r) (call_server_stream t r)) \<and>
     (\<forall>r. runs_as env (async_client_stream a r) (call_client_stream t r)) \<and>
     (\<forall>r. runs_as env (async_bidi_stream a r) (call_bidi_stream t r))"

definition runs_as_client ::
  "('w \<Rightarrow> 'w \<Rightarrow> bool) \<Rightarrow> ('w, 'i, 'q, 'o, 's, 'bq, 'bs, 'md, 'h) async_client \<Rightarrow>
     ('w, 'i, 'q, 'o, 's, 'bq, 'bs, 'md, 'h) client \<Rightarrow> bool" where
  "runs_as_client env ac c \<longleftrightarrow>
     runs_as_transport env (async_typed ac) (typed c) \<and> runs_as_transport env (async_raw ac) (raw c)"

lemma runs_as_intercepted:
  "runs_as_transport env a t \<Longrightarrow> runs_as_transport env (async_intercepted ad ops a) (intercepted ad ops t)"
  by (auto simp: runs_as_transport_def async_intercepted_def intercepted_def
      intro!: runs_as_intercept_reply runs_as_intercept_stream)

lemma runs_as_intercepted_client:
  "runs_as_client env ac c \<Longrightarrow>
     runs_as_client env (async_intercepted_client ad ops raw_ops ac) (intercepted_client ad ops raw_ops c)"
  by (auto simp: runs_as_client_def async_intercepted_client_def intercepted_client_def
      intercepted_raw_def intercepted_def [symmetric] runs_as_intercepted)

lemma runs_as_retry_client:
  assumes "timer_of env sleep rt" "runs_as_client env ac c"
  shows "runs_as_client env (async_retry_client sleep rt view pl cfg ac) (std_retry_client rt view pl cfg c)"
  using assms(2)
  by (auto simp: runs_as_client_def runs_as_transport_def async_retry_client_def std_retry_client_def
      async_retry_typed_def retry_typed_def async_retry_raw_def retry_raw_def
      intro!: runs_as_retry_call [OF assms(1)] runs_as_retry_call_raw [OF assms(1)])

lemma async_raw_guarded_enabled:
  "enabled cfg \<Longrightarrow> async_raw_guarded lock bt cfg call request = async_guard lock bt cfg (req_path request) (call request)"
  by (simp add: async_raw_guarded_def async_guard_def rebuild_request_def)

lemma runs_as_raw_guarded:
  assumes "uncontended lock" "runs_as env (call request) (io request)"
  shows "runs_as (beside env) (async_raw_guarded lock bt cfg call request) (raw_guarded bt cfg io request)"
proof (cases "enabled cfg")
  case True
  then show ?thesis
    by (simp add: async_raw_guarded_enabled raw_guarded_is_guard runs_as_guard [where f = "call request", OF assms])
next
  case False
  have "rebuild_request request = request"
    by (simp add: rebuild_request_def)
  with False show ?thesis
    using runs_as_lift [OF assms(2), unfolded runs_as_def]
    unfolding runs_as_def
    by (simp add: async_raw_guarded_def raw_guarded_is_guard guard_disabled del: ends_lift split_paired_All split_paired_Ex)
qed

lemma runs_as_breaker_client:
  assumes "uncontended lock" "runs_as_client env ac c"
  shows "runs_as_client (beside env) (async_breaker_client lock bt cfg ac) (breaker_client bt cfg c)"
  using assms(2)
  by (auto simp: runs_as_client_def runs_as_transport_def async_breaker_client_def breaker_client_def
      async_breaker_typed_def breaker_typed_def async_breaker_raw_def breaker_raw_def
      intro!: runs_as_guard [OF assms(1)] runs_as_raw_guarded [OF assms(1)])

text \<open>C5 (async_client_is_model). The breaker around the retry loop around the interceptors, as the
  \<open>async\<close> functions of the source: polled to its end, each of its eight calls always ends, with the result and
  the world of the composed effects of the model, whatever inner client it wraps, as long as the inner
  client's futures end as effects do, the timer's futures end, and no other call of the client is in flight.\<close>

theorem async_client_is_model:
  assumes "uncontended lock" and "timer_of env sleep rt" and "runs_as_client env ac c"
  shows "runs_as_client (beside env)
    (async_breaker_client lock bt bcfg (async_retry_client sleep rt view pl rcfg
       (async_intercepted_client ad ops raw_ops ac)))
    (breaker_client bt bcfg (std_retry_client rt view pl rcfg (intercepted_client ad ops raw_ops c)))"
  by (rule runs_as_breaker_client [OF assms(1) runs_as_retry_client [OF assms(2)
        runs_as_intercepted_client [OF assms(3)]]])

section \<open>Dropped half way\<close>

text \<open>C9 (dropped_call_reports_no_end). A call whose future is dropped while the inner client is at work has
  told its observers \<open>Started\<close> and tells them nothing else: neither \<open>Completed\<close>, \<open>Failed\<close> nor \<open>Cancelled\<close>.
  That is so for a call with a reply and for one that was opening a stream; the stream itself, once it is
  open, does report \<open>Cancelled\<close> when it is dropped.\<close>

theorem dropped_call_reports_no_end:
  "(abandoned (beside env) (async_intercept_reply (recording ad) kind (\<lambda>r. lift_future (call r)) request)
      ([], w) (events, w') \<longrightarrow> events = [Started (identity (req_path request) kind)]) \<and>
   (abandoned (beside env) (async_intercept_stream (recording ad) ops kind (\<lambda>r. lift_future (opening r)) request)
      ([], w) (events, w') \<longrightarrow> events = [Started (identity (req_path request) kind)])"
proof -
  have started: "fst v = [Started (identity (req_path request) kind)]"
    if "run_before (recording ad) (req_path request) kind (req_options request) ([], w) = (Inr options, v)"
    for options v
    using that recorded_before [of ad "req_path request" kind "req_options request" "[]" w] by auto
  then show ?thesis
    by (auto simp: abandoned_intercept_reply abandoned_intercept_stream dest!: abandoned_lift [OF _ refl])
qed

text \<open>How a race with the signal can end.\<close>

lemma ends_race:
  assumes "ends env g w r w'" "g = race fired e f"
  shows "ends env f w r w' \<or> r = Inl e \<and> (fired w \<and> w' = drop_future f w \<or> abandoned env f w w')"
  using assms
proof (induction arbitrary: f rule: ends.induct)
  case (ready g w r w')
  then show ?case
    by (cases "poll f w"; cases "fst (poll f w)") (auto intro: ends.ready split: if_splits)
next
  case (pending g w g' w1 w2 r w')
  then have "poll g w = (Inl g', w1)" "g = race fired e f" by simp_all
  then obtain f' where f': "poll f w = (Inl f', w1)" "g' = race fired e f'"
    by (cases "poll f w"; cases "fst (poll f w)") (auto split: if_splits)
  from pending.IH [OF f'(2)] show ?case
    using f'(1) pending(2) by (auto intro: ends.pending abandoned.intros)
qed

text \<open>C8 (cancelled_call_leaves_circuit). A cancellable call through the breaker that does not run to its end
  gives \<open>Cancelled\<close> with the path of the call, and leaves the circuit either untouched, when the signal had
  fired before the call was polled, or exactly as its admission left it: no outcome is recorded for it, so
  neither counter moves, and a trial call of a half-open circuit that is cancelled neither closes nor opens
  it.\<close>

theorem cancelled_call_leaves_circuit:
  fixes f :: "('w, 'md call_error + 'r) future"
  assumes "uncontended lock" and "enabled cfg"
    and "ends (beside env) (race_call fired path (async_guard lock bt cfg path f)) (node, w) r (node', w')"
  shows "ends (beside env) (async_guard lock bt cfg path f) (node, w) r (node', w') \<or>
    r = Inl (cancelled path) \<and>
      (fired (node, w) \<and> node' = node \<or>
       (\<exists>w1. admit bt cfg path (node, w) = (Inr () :: 'md call_error + unit, (node', w1)) \<and>
          abandoned env f w1 w'))"
proof -
  have unlocked: "drop_future (async_guard lock bt cfg path f) (node, w) = (node, w)"
    using assms(1,2) by (simp add: async_guard_def async_admit_def uncontended_def)
  have left: "\<exists>w1. admit bt cfg path (node, w) = (Inr () :: 'md call_error + unit, (node', w1)) \<and> abandoned env f w1 w'"
    if dropped: "abandoned (beside env) (async_guard lock bt cfg path f) (node, w) (node', w')"
  proof -
    obtain nw1 where "admit bt cfg path (node, w) = (Inr () :: 'md call_error + unit, nw1)"
        "abandoned (beside env) (lift_future f) nw1 (node', w')"
      using dropped abandoned_async_guard [OF assms(1,2)] by blast
    with abandoned_lift [OF this(2) refl] show ?thesis
      by (cases nw1) auto
  qed
  from ends_race [OF assms(3) [unfolded race_call_def] refl] show ?thesis
    using left unlocked by auto
qed

section \<open>At work\<close>

text \<open>A future that lets the other tasks run once before it does its work.\<close>

definition yielding :: "('v, unit) future" where
  "yielding = Future (\<lambda>v. (Inl (sync (\<lambda>v. ((), v))), v)) (\<lambda>v. v)"

definition slowly :: "('v, 'r) io \<Rightarrow> ('v, 'r) future" where
  "slowly f = await yielding (\<lambda>_. sync f)"

lemma ends_yielding [simp]: "ends env yielding v u v' \<longleftrightarrow> env v v'"
  by (simp add: ends_step [of env yielding]) (simp add: yielding_def)

lemma abandoned_yielding [simp]: "abandoned env yielding v v' \<longleftrightarrow> env v v'"
  by (simp add: abandoned_step [of env yielding]) (auto simp: yielding_def)

lemma runs_as_slowly: "runs_as (=) (slowly f) f"
  by (auto simp: runs_as_def slowly_def)

definition free_lock :: "('v, unit) future" where
  "free_lock = sync (\<lambda>v. ((), v))"

lemma free_lock_uncontended: "uncontended free_lock"
  by (simp add: uncontended_def free_lock_def)

definition slow_transport :: "('w, 'i, 'q, 'o, 's, 'md, 'h) transport \<Rightarrow> ('w, 'i, 'q, 'o, 's, 'md, 'h) async_transport" where
  "slow_transport t =
     \<lparr>async_unary = (\<lambda>r. slowly (call_unary t r)), async_server_stream = (\<lambda>r. slowly (call_server_stream t r)),
      async_client_stream = (\<lambda>r. slowly (call_client_stream t r)), async_bidi_stream = (\<lambda>r. slowly (call_bidi_stream t r))\<rparr>"

lemma runs_as_slow: "runs_as_transport (=) (slow_transport t) t"
  by (simp add: runs_as_transport_def slow_transport_def runs_as_slowly)

definition plain_payload :: "nat payload" where
  "plain_payload = \<lparr>encode_into = (\<lambda>i. Inr [1]), decode_from = (\<lambda>bs. Inr 5)\<rparr>"

definition plain_client :: "(nat, nat, unit, nat, nat, unit, nat, unit, unit) client" where
  "plain_client = \<lparr>typed = plain_inner, raw = plain_raw\<rparr>"

definition slow_client :: "(nat, nat, unit, nat, nat, unit, nat, unit, unit) async_client" where
  "slow_client = \<lparr>async_typed = slow_transport plain_inner, async_raw = slow_transport plain_raw\<rparr>"

definition slow_timer :: "duration \<Rightarrow> (nat, unit) future" where
  "slow_timer d = slowly (\<lambda>w. ((), w + d))"

lemma slow_parts:
  "timer_of (=) slow_timer demo_runtime" "runs_as_client (=) slow_client plain_client"
  by (simp_all add: timer_of_def slow_timer_def demo_runtime_def runs_as_slowly runs_as_client_def slow_client_def
      plain_client_def runs_as_slow)

lemma plain_resilient_answer:
  "fst (call_unary (typed (breaker_client demo_transition default_breaker_config
      (std_retry_client demo_runtime demo_view plain_payload default_retry_config
        (intercepted_client plain_adapter broken_stream broken_raw_stream plain_client)))) plain_request (initial_node, 0)) =
    Inr \<lparr>resp_message = 7, resp_headers = (), resp_trailers = ()\<rparr>"
proof -
  have inner: "call_unary (intercepted plain_adapter broken_stream plain_inner) r w =
      (Inr \<lparr>resp_message = req_body r, resp_headers = (), resp_trailers = ()\<rparr>, Suc w)" for r w
    by (simp add: intercepted_def empty_chain_reply plain_adapter_def chain_is_empty_def chain_default_def plain_inner_def)
  have "fst (retry_call demo_runtime (std_retry_classifier demo_view) default_retry_config
      (intercepted plain_adapter broken_stream plain_inner) plain_payload plain_request 0) =
      Inr \<lparr>resp_message = 7, resp_headers = (), resp_trailers = ()\<rparr>"
    by (simp add: retry_call_def demo_run_simps default_retry_config_def run_attempts_numeral typed_attempt_def
        plain_payload_def inner plain_request_def make_request_def std_retry_classifier_def)
  then show ?thesis
    by (simp add: breaker_client_def breaker_typed_def guard_enabled std_retry_client_def retry_typed_def
        intercepted_client_def plain_client_def demo_transition_def demo_admit_def admit_input_def initial_node_def
        Let_def) (auto split: prod.split)
qed

theorem async_client_is_model_witness:
  "\<exists>v. ends (beside (=)) (async_unary (async_typed
      (async_breaker_client free_lock demo_transition default_breaker_config
        (async_retry_client slow_timer demo_runtime demo_view plain_payload default_retry_config
          (async_intercepted_client plain_adapter broken_stream broken_raw_stream slow_client)))) plain_request)
    (initial_node, 0) (Inr \<lparr>resp_message = 7, resp_headers = (), resp_trailers = ()\<rparr>) v"
  using async_client_is_model [OF free_lock_uncontended slow_parts, of demo_transition default_breaker_config demo_view
      plain_payload default_retry_config plain_adapter broken_stream broken_raw_stream]
    plain_resilient_answer
  by (auto simp: runs_as_client_def runs_as_transport_def runs_as_def prod_eq_iff simp del: split_paired_All split_paired_Ex)

lemma plain_started:
  "run_before (recording plain_adapter) ''/s/M'' Unary (req_options plain_request) ([], 0) =
     (Inr (req_options plain_request), ([Started (identity ''/s/M'' Unary)], 0))"
  by code_simp

lemma dropped_while_slow: "env w w' \<Longrightarrow> abandoned (beside env) (lift_future (slowly f)) (l, w) (l, w')"
  by (rule abandoned_lift_from) (simp add: slowly_def)

theorem dropped_call_reports_no_end_witness:
  "\<exists>w'. abandoned (beside (=)) (async_intercept_reply (recording plain_adapter) Unary
       (\<lambda>r. lift_future (slowly (call_unary plain_inner r))) plain_request)
     ([], 0) ([Started (identity ''/s/M'' Unary)], w')"
proof -
  have path: "req_path plain_request = ''/s/M''"
    by (simp add: plain_request_def)
  obtain events w' where dropped: "abandoned (beside (=)) (async_intercept_reply (recording plain_adapter) Unary
      (\<lambda>r. lift_future (slowly (call_unary plain_inner r))) plain_request) ([], 0) (events, w')"
  proof -
    have "abandoned (beside (=)) (async_intercept_reply (recording plain_adapter) Unary
        (\<lambda>r. lift_future (slowly (call_unary plain_inner r))) plain_request) ([], 0)
        ([Started (identity ''/s/M'' Unary)], 0)"
      unfolding abandoned_intercept_reply path
      by (intro exI conjI, rule plain_started, rule dropped_while_slow, rule refl)
    then show thesis by (rule that)
  qed
  with dropped_call_reports_no_end [where ad = plain_adapter and kind = Unary and request = plain_request
      and call = "\<lambda>r. slowly (call_unary plain_inner r)" and events = events and w = 0 and w' = w'] show ?thesis
    by (auto simp: path)
qed

text \<open>The signal fires while the inner client is at work.\<close>

definition late_call :: "((nat, nat) guarded_world, unit call_error + nat) future" where
  "late_call = async_guard free_lock demo_transition default_breaker_config ''/s/M'' (slowly answering_call)"

definition after_start :: "(nat, nat) guarded_world \<Rightarrow> bool" where
  "after_start nw \<longleftrightarrow> 0 < snd nw"

lemma initial_admitted:
  "admit demo_transition default_breaker_config ''/s/M'' (initial_node, w) = (Inr () :: unit call_error + unit, (initial_node, w))"
  by (simp add: admit_def demo_transition_def demo_admit_def admit_input_def initial_node_def Let_def
      admission_result_def write_admitted_def)

lemma late_call_cancelled:
  "ends (beside (\<lambda>w w'. w' = Suc w)) (race_call after_start ''/s/M'' late_call) (initial_node, 0)
     (Inl (cancelled ''/s/M'')) (initial_node, 1)"
proof -
  have admitted: "admit demo_transition default_breaker_config ''/s/M'' (initial_node, 0) =
      (Inr () :: unit call_error + unit, (initial_node :: nat breaker_node, 0))"
    by (rule initial_admitted)
  have pends: "poll (lift_future (slowly answering_call)) (initial_node :: nat breaker_node, 0) =
      (Inl (lift_future (await (sync (\<lambda>v. ((), v))) (\<lambda>_. sync answering_call))), (initial_node, 0))"
    by (simp add: slowly_def yielding_def del: lift_future.sel)
  obtain g where first: "poll late_call (initial_node, 0) = (Inl g, (initial_node, 0))"
      and left: "drop_future g (initial_node, 1) = (initial_node, 1)"
    using poll_admitted [OF free_lock_uncontended default_breaker_fields(1) admitted pends]
    by (simp add: late_call_def del: lift_future.sel)
  have "poll (race_call after_start ''/s/M'' late_call) (initial_node, 0) =
      (Inl (race after_start (cancelled ''/s/M'') g), (initial_node, 0))"
    by (simp add: race_call_def first after_start_def)
  moreover have "ends (beside (\<lambda>w w'. w' = Suc w)) (race after_start (cancelled ''/s/M'') g) (initial_node, 1)
      (Inl (cancelled ''/s/M'')) (initial_node, 1)"
    by (rule ends.ready) (use left in \<open>simp add: after_start_def\<close>)
  moreover have "beside (\<lambda>w w'. w' = Suc w) (initial_node :: nat breaker_node, 0) (initial_node, 1)"
    by (simp add: beside_def)
  ultimately show ?thesis
    by (blast intro: ends.pending)
qed

theorem cancelled_call_leaves_circuit_witness:
  "\<exists>w1 :: nat. admit demo_transition default_breaker_config ''/s/M'' (initial_node, 0) =
      (Inr () :: unit call_error + unit, (initial_node, w1))"
proof -
  have "\<not> ends (beside (\<lambda>w w'. w' = Suc w)) late_call (initial_node, 0) (Inl (cancelled ''/s/M'')) (initial_node, 1)"
    by (auto simp: late_call_def ends_async_guard [OF free_lock_uncontended] initial_admitted slowly_def
        answering_call_def)
  then show ?thesis
    using cancelled_call_leaves_circuit [OF free_lock_uncontended _ late_call_cancelled [unfolded late_call_def]]
    by (auto simp: late_call_def after_start_def)
qed

end
