(* ===== verification/Health_Codec.thy ===== *)
theory Health_Codec
  imports Call_Contract Rust_Str
begin

text \<open>
  The standard health check messages and their protobuf codec (\<open>grpc-egress-transport-api\<close>,
  client theme): varints, the reader of fields, the request and the response. An \<open>i32\<close> is a
  32-bit word read as signed; an offset is a \<open>usize\<close> of 64 bits, kept as a number with its
  overflow checks written out.
\<close>

section \<open>Varints\<close>

lemma drop_bit_smaller: "128 \<le> v \<Longrightarrow> unat (drop_bit 7 v) < unat (v :: u64)"
  by (simp add: drop_bit_eq_div word_le_nat_alt unat_div_distrib)

function write_varint :: "u64 \<Rightarrow> u8 list" where
  "write_varint v =
     (if 128 \<le> v then or (and (ucast v) 127) 128 # write_varint (drop_bit 7 v) else [ucast v])"
  by pat_completeness auto

termination
  by (relation "measure unat") (simp_all add: drop_bit_smaller)

function varint_len :: "u64 \<Rightarrow> nat" where
  "varint_len v = (if 128 \<le> v then Suc (varint_len (drop_bit 7 v)) else 1)"
  by pat_completeness auto

termination
  by (relation "measure unat") (simp_all add: drop_bit_smaller)

declare write_varint.simps [simp del] varint_len.simps [simp del]

lemma length_write_varint: "length (write_varint v) = varint_len v"
proof (induction v rule: write_varint.induct)
  case (1 v)
  then show ?case by (simp add: write_varint.simps [of v] varint_len.simps [of v])
qed

section \<open>The reader\<close>

record proto_reader =
  rd_bytes :: "u8 list"
  rd_offset :: nat
  rd_message :: string

definition reader :: "u8 list \<Rightarrow> string \<Rightarrow> proto_reader" where
  "reader bytes message = \<lparr>rd_bytes = bytes, rd_offset = 0, rd_message = message\<rparr>"

definition reader_error :: "proto_reader \<Rightarrow> string \<Rightarrow> codec_error" where
  "reader_error r reason = CodecError (rd_message r) reason"

definition usize_checked_add :: "nat \<Rightarrow> nat \<Rightarrow> nat option" where
  "usize_checked_add a b = (if a + b < 2 ^ 64 then Some (a + b) else None)"

text \<open>One round of the loop per index.\<close>

fun varint_rounds :: "nat list \<Rightarrow> u64 \<Rightarrow> proto_reader \<Rightarrow> (codec_error + u64) \<times> proto_reader" where
  "varint_rounds [] acc r = (Inl (reader_error r ''protobuf varint exceeds 10 bytes''), r)"
| "varint_rounds (index # rest) acc r =
     (if length (rd_bytes r) \<le> rd_offset r then (Inl (reader_error r ''truncated protobuf varint''), r)
      else
        (let byte = rd_bytes r ! rd_offset r;
             r' = r\<lparr>rd_offset := rd_offset r + 1\<rparr>;
             acc' = or acc (push_bit (index * 7) (ucast (and byte 127)))
         in if index = 9 \<and> 1 < byte then (Inl (reader_error r' ''protobuf varint overflows 64 bits''), r')
            else if and byte 128 = 0 then (Inr acc', r')
            else varint_rounds rest acc' r'))"

definition read_varint :: "proto_reader \<Rightarrow> (codec_error + u64) \<times> proto_reader" where
  "read_varint r = varint_rounds [0..<10] 0 r"

definition next_field :: "proto_reader \<Rightarrow> (codec_error + (u32 \<times> u8) option) \<times> proto_reader" where
  "next_field r =
     (if rd_offset r = length (rd_bytes r) then (Inr None, r)
      else
        (case read_varint r of
           (Inl e, r') \<Rightarrow> (Inl e, r')
         | (Inr key, r') \<Rightarrow>
             (let field = drop_bit 3 key; wire_type = ucast (and key 7) :: u8
              in if field = 0 \<or> 0x1fffffff < field \<or> wire_type \<in> {3, 4, 6, 7}
                 then (Inl (reader_error r' ''invalid protobuf field key''), r')
                 else (Inr (Some (ucast field, wire_type)), r'))))"

text \<open>Every \<open>u64\<close> fits a \<open>usize\<close> of 64 bits.\<close>

definition read_length_delimited :: "proto_reader \<Rightarrow> (codec_error + u8 list) \<times> proto_reader" where
  "read_length_delimited r =
     (case read_varint r of
        (Inl e, r') \<Rightarrow> (Inl e, r')
      | (Inr len, r') \<Rightarrow>
          (case usize_checked_add (rd_offset r') (unat len) of
             None \<Rightarrow> (Inl (reader_error r' ''protobuf length overflows''), r')
           | Some stop \<Rightarrow>
               (if length (rd_bytes r') < stop
                then (Inl (reader_error r' ''truncated length-delimited protobuf field''), r')
                else (Inr (take (unat len) (drop (rd_offset r') (rd_bytes r'))), r'\<lparr>rd_offset := stop\<rparr>))))"

definition skip_bytes :: "nat \<Rightarrow> proto_reader \<Rightarrow> (codec_error + unit) \<times> proto_reader" where
  "skip_bytes len r =
     (case usize_checked_add (rd_offset r) len of
        None \<Rightarrow> (Inl (reader_error r ''protobuf field length overflows''), r)
      | Some stop \<Rightarrow>
          (if length (rd_bytes r) < stop
           then (Inl (reader_error r ''truncated fixed-width protobuf field''), r)
           else (Inr (), r\<lparr>rd_offset := stop\<rparr>)))"

definition forget :: "(codec_error + 'a) \<times> proto_reader \<Rightarrow> (codec_error + unit) \<times> proto_reader" where
  "forget x = (case x of (Inl e, r) \<Rightarrow> (Inl e, r) | (Inr a, r) \<Rightarrow> (Inr (), r))"

definition skip_field :: "u8 \<Rightarrow> proto_reader \<Rightarrow> (codec_error + unit) \<times> proto_reader" where
  "skip_field wire_type r =
     (if wire_type = 0 then forget (read_varint r)
      else if wire_type = 1 then skip_bytes 8 r
      else if wire_type = 2 then forget (read_length_delimited r)
      else if wire_type = 5 then skip_bytes 4 r
      else (Inl (reader_error r ''unsupported protobuf wire type''), r))"

section \<open>Decoding a message\<close>

text \<open>The loop both messages have: fields are read until the end; \<open>known\<close> reads the field the message
  knows, every other field is skipped. It is a \<open>while let\<close>: not returning would be \<open>None\<close>.\<close>

partial_function (option) decode_fields ::
  "(u32 \<times> u8 \<Rightarrow> 'a \<Rightarrow> proto_reader \<Rightarrow> ((codec_error + 'a) \<times> proto_reader) option) \<Rightarrow> 'a \<Rightarrow> proto_reader \<Rightarrow>
     (codec_error + 'a) option" where
  "decode_fields known x r =
     (case next_field r of
        (Inl e, r1) \<Rightarrow> Some (Inl e)
      | (Inr None, r1) \<Rightarrow> Some (Inr x)
      | (Inr (Some (field, wire_type)), r1) \<Rightarrow>
          (case known (field, wire_type) x r1 of
             Some (Inl e, r2) \<Rightarrow> Some (Inl e)
           | Some (Inr x', r2) \<Rightarrow> decode_fields known x' r2
           | None \<Rightarrow>
               (case skip_field wire_type r1 of
                  (Inl e, r2) \<Rightarrow> Some (Inl e)
                | (Inr u, r2) \<Rightarrow> decode_fields known x r2)))"

declare decode_fields.simps [code]

section \<open>The request\<close>

record health_check_request =
  hr_service :: string

definition request_name :: string where
  "request_name = ''grpc.health.v1.HealthCheckRequest''"

definition encode_request :: "health_check_request \<Rightarrow> u8 list" where
  "encode_request m =
     (if hr_service m = [] then []
      else write_varint 0x0a @ write_varint (of_nat (length (hr_service m))) @ as_bytes (hr_service m))"

definition estimate_request_len :: "health_check_request \<Rightarrow> nat" where
  "estimate_request_len m =
     (if hr_service m = [] then 0
      else 1 + varint_len (of_nat (length (hr_service m))) + length (hr_service m))"

definition known_request_field ::
  "u32 \<times> u8 \<Rightarrow> string \<Rightarrow> proto_reader \<Rightarrow> ((codec_error + string) \<times> proto_reader) option" where
  "known_request_field key service r =
     (if key \<noteq> (1, 2) then None
      else Some
        (case read_length_delimited r of
           (Inl e, r') \<Rightarrow> (Inl e, r')
         | (Inr bytes, r') \<Rightarrow>
             (ok_or (CodecError request_name ''service is not valid UTF-8'') (from_utf8 bytes), r')))"

definition decode_request :: "u8 list \<Rightarrow> (codec_error + health_check_request) option" where
  "decode_request bytes =
     map_option (\<lambda>x. bind_result x (\<lambda>service. Inr \<lparr>hr_service = service\<rparr>))
       (decode_fields known_request_field [] (reader bytes request_name))"

section \<open>The response\<close>

type_synonym i32 = "32 word"

record health_check_response =
  hp_status :: i32

datatype health_status = UnknownStatus | Serving | NotServing | ServiceUnknown

definition health_status_from :: "i32 \<Rightarrow> health_status" where
  "health_status_from v =
     (if v = 1 then Serving else if v = 2 then NotServing else if v = 3 then ServiceUnknown else UnknownStatus)"

definition response_status :: "health_check_response \<Rightarrow> health_status" where
  "response_status m = health_status_from (hp_status m)"

definition response_name :: string where
  "response_name = ''grpc.health.v1.HealthCheckResponse''"

text \<open>\<open>status as i64 as u64\<close> extends the sign.\<close>

definition encode_response :: "health_check_response \<Rightarrow> u8 list" where
  "encode_response m =
     (if hp_status m = 0 then [] else write_varint 0x08 @ write_varint (scast (hp_status m)))"

definition estimate_response_len :: "health_check_response \<Rightarrow> nat" where
  "estimate_response_len m = (if hp_status m = 0 then 0 else 1 + varint_len (scast (hp_status m)))"

definition known_response_field ::
  "u32 \<times> u8 \<Rightarrow> i32 \<Rightarrow> proto_reader \<Rightarrow> ((codec_error + i32) \<times> proto_reader) option" where
  "known_response_field key status r =
     (if key \<noteq> (1, 0) then None
      else Some
        (case read_varint r of
           (Inl e, r') \<Rightarrow> (Inl e, r')
         | (Inr v, r') \<Rightarrow> (Inr (ucast v), r')))"

definition decode_response :: "u8 list \<Rightarrow> (codec_error + health_check_response) option" where
  "decode_response bytes =
     map_option (\<lambda>x. bind_result x (\<lambda>status. Inr \<lparr>hp_status = status\<rparr>))
       (decode_fields known_response_field 0 (reader bytes response_name))"

definition health_check_path :: string where
  "health_check_path = ''/grpc.health.v1.Health/Check''"

end
