(* ===== verification/Health_Properties.thy ===== *)
theory Health_Properties
  imports Health_Codec
begin

text \<open>
  The health codec is right: a varint is read back whatever follows it, a message is read back from
  its encoding, also behind fields the reader does not know, the estimated length is the length, and
  decoding ends on every input.
\<close>

section \<open>Varints are read back\<close>

lemma and_127 [simp]: "and x 127 = take_bit 7 (x :: 'a::len word)"
  by (simp add: take_bit_eq_mask mask_eq_exp_minus_1)

lemma continue_byte_low: "take_bit 7 (or (take_bit 7 x) 128) = take_bit 7 (x :: u8)"
  by (simp add: take_bit_or)

lemma continue_byte_high: "and (or x 128) 128 \<noteq> (0 :: u8)"
proof -
  have "bit (and (or x 128) 128 :: u8) 7" by (simp add: bit_and_iff bit_or_iff)
  then show ?thesis by auto
qed

lemma bit_128 [simp]:
  "bit (128 :: u8) n \<longleftrightarrow> n = 7" "bit (128 :: u64) n \<longleftrightarrow> n = 7"
proof -
  have u8: "(128 :: u8) = push_bit 7 1" and u64: "(128 :: u64) = push_bit 7 1" by simp_all
  have "bit (128 :: u8) n \<longleftrightarrow> 7 \<le> n \<and> n < 8 \<and> n - 7 = 0"
    unfolding u8 by (simp only: bit_push_bit_iff bit_1_iff) auto
  then show "bit (128 :: u8) n \<longleftrightarrow> n = 7" by auto
  have "bit (128 :: u64) n \<longleftrightarrow> 7 \<le> n \<and> n < 64 \<and> n - 7 = 0"
    unfolding u64 by (simp only: bit_push_bit_iff bit_1_iff) auto
  then show "bit (128 :: u64) n \<longleftrightarrow> n = 7" by auto
qed

lemma small_take_bit: "v < 128 \<Longrightarrow> take_bit 7 v = v" for v :: u64
  by (simp add: take_bit_eq_mod word_unat_eq_iff unat_mod_distrib word_less_nat_alt)

lemma last_byte_high:
  fixes v :: u64
  assumes "v < 128"
  shows "and (ucast v) 128 = (0 :: u8)"
proof (rule bit_word_eqI)
  fix n
  have "\<not> bit (take_bit 7 v) 7" by (simp add: bit_take_bit_iff)
  then show "bit (and (ucast v) 128 :: u8) n = bit 0 n"
    unfolding bit_and_iff bit_128 bit_ucast_iff using small_take_bit [OF assms] by auto
qed

lemma drop_bit_0_take_bit: "drop_bit n v = 0 \<Longrightarrow> take_bit n v = v" for v :: u64
  using bits_ident [of n v] by simp

lemma drop_bit_63: "drop_bit 63 v \<le> 1" for v :: u64
proof -
  have "unat v div 2 ^ 63 \<le> 1" using unat_u64_less [of v] by (simp add: div_le_mono less_mult_imp_div_less)
  then show ?thesis by (simp add: word_le_nat_alt drop_bit_eq_div unat_div_distrib)
qed

text \<open>The bits a round adds.\<close>

lemma round_bits:
  "or (take_bit (7 * i) v) (push_bit (i * 7) (ucast (take_bit 7 (ucast (drop_bit (7 * i) v)) :: u8))) =
     take_bit (7 * Suc i) v" for v :: u64
proof (rule bit_word_eqI)
  fix n assume "n < LENGTH(64)"
  then show "bit (or (take_bit (7 * i) v) (push_bit (i * 7) (ucast (take_bit 7 (ucast (drop_bit (7 * i) v)) :: u8)))) n =
      bit (take_bit (7 * Suc i) v) n"
    by (auto simp: bit_or_iff bit_take_bit_iff bit_push_bit_iff bit_ucast_iff bit_drop_bit_eq
        dest: bit_imp_le_length)
qed

lemma nth_of_drop: "drop n xs = y # ys \<Longrightarrow> n < length xs \<and> xs ! n = y \<and> drop (Suc n) xs = ys"
  by (metis Cons_nth_drop_Suc drop_eq_Nil list.inject list.simps(3) not_less)

lemma drop_bit_7: "drop_bit (7 * Suc i) v = drop_bit 7 (drop_bit (7 * i) v)" for v :: u64
  by (simp add: drop_bit_drop_bit)

lemma drop_bit_small: "v < 128 \<Longrightarrow> drop_bit 7 v = 0" for v :: u64
  by (simp add: drop_bit_eq_div word_unat_eq_iff unat_div_distrib word_less_nat_alt)

lemma last_round:
  assumes "drop_bit (7 * i) v < 128" "i = 9 \<longrightarrow> drop_bit (7 * i) v \<le> 1"
    and "drop (rd_offset r) (rd_bytes r) = ucast (drop_bit (7 * i) v) # rest"
  shows "varint_rounds (i # later) (take_bit (7 * i) v) r = (Inr v, r\<lparr>rd_offset := rd_offset r + 1\<rparr>)"
proof -
  have "drop_bit (7 * Suc i) v = 0" using drop_bit_small [OF assms(1)] unfolding drop_bit_7 .
  then have v: "take_bit (7 * Suc i) v = v" by (rule drop_bit_0_take_bit)
  have "\<not> 1 < (ucast (drop_bit (7 * i) v) :: u8)" if "i = 9"
  proof -
    have "unat (drop_bit (7 * i) v) \<le> 1" using assms(2) that by (simp add: word_le_nat_alt)
    then have "unat (ucast (drop_bit (7 * i) v) :: u8) \<le> 1"
      by (simp add: unsigned_ucast_eq take_bit_eq_mod le_trans [OF mod_less_eq_dividend])
    then show ?thesis by (simp add: word_less_nat_alt)
  qed
  then show ?thesis
    using nth_of_drop [OF assms(3)] last_byte_high [OF assms(1)] round_bits [of i v] v
    by (simp add: Let_def not_le)
qed

lemma more_round:
  assumes "i < 9" "drop (rd_offset r) (rd_bytes r) = or (take_bit 7 (ucast (drop_bit (7 * i) v))) 128 # rest"
  shows "varint_rounds (i # later) (take_bit (7 * i) v) r =
    varint_rounds later (take_bit (7 * Suc i) v) (r\<lparr>rd_offset := rd_offset r + 1\<rparr>)"
  using nth_of_drop [OF assms(2)] assms(1) round_bits [of i v]
  by (simp add: Let_def not_le continue_byte_low continue_byte_high)

lemma varint_rounds_write:
  assumes "i \<le> 9" "drop (rd_offset r) (rd_bytes r) = write_varint (drop_bit (7 * i) v) @ rest"
  shows "varint_rounds [i..<10] (take_bit (7 * i) v) r =
    (Inr v, r\<lparr>rd_offset := rd_offset r + length (write_varint (drop_bit (7 * i) v))\<rparr>)"
  using assms
proof (induction "9 - i" arbitrary: i r)
  case (0 i r)
  then have i: "i = 9" by simp
  then have le: "drop_bit (7 * i) v \<le> 1" using drop_bit_63 [of v] by simp
  then have small: "drop_bit (7 * i) v < 128" by (simp add: word_le_nat_alt word_less_nat_alt)
  then have "write_varint (drop_bit (7 * i) v) = [ucast (drop_bit (7 * i) v)]"
    by (simp add: write_varint.simps [of "drop_bit (7 * i) v"] not_le)
  with last_round [OF small, of r rest "[]"] le 0(3) i show ?case by (simp add: upt_conv_Cons)
next
  case (Suc k i r)
  then have i: "i < 9" and upt: "[i..<10] = i # [Suc i..<10]" by (simp_all add: upt_conv_Cons)
  show ?case
  proof (cases "128 \<le> drop_bit (7 * i) v")
    case True
    then have w: "write_varint (drop_bit (7 * i) v) =
        or (take_bit 7 (ucast (drop_bit (7 * i) v))) 128 # write_varint (drop_bit (7 * Suc i) v)"
      unfolding drop_bit_7 by (simp add: write_varint.simps [of "drop_bit (7 * i) v"])
    let ?r = "r\<lparr>rd_offset := rd_offset r + 1\<rparr>"
    have d: "drop (rd_offset r) (rd_bytes r) =
        or (take_bit 7 (ucast (drop_bit (7 * i) v))) 128 # (write_varint (drop_bit (7 * Suc i) v) @ rest)"
      using Suc.prems(2) w by simp
    then have "drop (rd_offset ?r) (rd_bytes ?r) = write_varint (drop_bit (7 * Suc i) v) @ rest"
      using nth_of_drop [OF d] by simp
    with Suc.hyps(1) [of "Suc i" ?r] Suc.hyps(2) i
    have "varint_rounds [Suc i..<10] (take_bit (7 * Suc i) v) ?r =
        (Inr v, ?r\<lparr>rd_offset := rd_offset ?r + length (write_varint (drop_bit (7 * Suc i) v))\<rparr>)"
      by (simp del: mult_Suc_right)
    then show ?thesis unfolding upt more_round [OF i d] by (simp add: w)
  next
    case False
    then have "write_varint (drop_bit (7 * i) v) = [ucast (drop_bit (7 * i) v)]"
      by (simp add: write_varint.simps [of "drop_bit (7 * i) v"])
    with last_round [of i v r rest "[Suc i..<10]"] False Suc.prems(2) i show ?thesis
      by (simp add: upt not_le)
  qed
qed

lemma read_varint_write:
  assumes "drop (rd_offset r) (rd_bytes r) = write_varint v @ rest"
  shows "read_varint r = (Inr v, r\<lparr>rd_offset := rd_offset r + varint_len v\<rparr>)"
  using varint_rounds_write [of 0 r v rest] assms
  by (simp add: read_varint_def length_write_varint del: upt_Suc)

section \<open>Reading ends\<close>

text \<open>A reader after some reading: the same bytes, not behind, and inside the bytes.\<close>

definition advanced :: "proto_reader \<Rightarrow> proto_reader \<Rightarrow> bool" where
  "advanced r r' \<longleftrightarrow>
     rd_bytes r' = rd_bytes r \<and> rd_message r' = rd_message r \<and> rd_offset r \<le> rd_offset r' \<and>
     (rd_offset r \<le> length (rd_bytes r) \<longrightarrow> rd_offset r' \<le> length (rd_bytes r))"

lemma advanced_refl [simp]: "advanced r r"
  by (simp add: advanced_def)

lemma advanced_trans: "advanced r r' \<Longrightarrow> advanced r' r'' \<Longrightarrow> advanced r r''"
  by (auto simp: advanced_def)

lemma varint_rounds_advanced: "advanced r (snd (varint_rounds is acc r))"
proof (induction "is" acc r rule: varint_rounds.induct)
  case (2 index rest acc r)
  show ?case
  proof (cases "length (rd_bytes r) \<le> rd_offset r")
    case False
    let ?r = "r\<lparr>rd_offset := rd_offset r + 1\<rparr>"
    have "advanced r ?r" using False by (simp add: advanced_def)
    with 2 [OF False refl refl refl] show ?thesis
      using False by (auto simp: Let_def intro: advanced_trans)
  qed simp
qed simp

lemma read_varint_advanced: "advanced r (snd (read_varint r))"
  by (simp add: read_varint_def varint_rounds_advanced)

text \<open>What a varint was read from is at least one byte long.\<close>

lemma read_varint_progress:
  assumes "read_varint r = (Inr v, r')"
  shows "rd_offset r < rd_offset r' \<and> rd_offset r' \<le> length (rd_bytes r)"
proof -
  have upt: "[0..<10] = 0 # [Suc 0..<10]" by (simp add: upt_conv_Cons)
  have inside: "rd_offset r < length (rd_bytes r)"
    using assms by (auto simp: read_varint_def upt split: if_splits)
  let ?r = "r\<lparr>rd_offset := rd_offset r + 1\<rparr>"
  have "advanced ?r r'"
    using assms inside varint_rounds_advanced [of ?r "[Suc 0..<10]"]
    by (auto simp: read_varint_def upt Let_def split: if_splits) (metis snd_conv)
  then show ?thesis using inside by (auto simp: advanced_def)
qed

lemma read_varint_error:
  "read_varint r = (Inl e, r') \<Longrightarrow> codec_message e = rd_message r"
proof -
  have "varint_rounds is acc r = (Inl e, r') \<Longrightarrow> codec_message e = rd_message r" for "is" acc r
    by (induction "is" acc r rule: varint_rounds.induct)
      (auto simp: Let_def reader_error_def split: if_splits)
  then show "read_varint r = (Inl e, r') \<Longrightarrow> codec_message e = rd_message r"
    by (simp add: read_varint_def)
qed

lemma next_field_progress:
  assumes "next_field r = (Inr (Some key), r')"
  shows "advanced r r' \<and> rd_offset r < rd_offset r' \<and> rd_offset r' \<le> length (rd_bytes r)"
proof -
  obtain v r1 where v: "read_varint r = (Inr v, r1)" "r' = r1"
    using assms by (auto simp: next_field_def Let_def split: if_splits prod.splits sum.splits)
  then show ?thesis
    using read_varint_progress [of r v r1] read_varint_advanced [of r] by simp
qed

lemma next_field_error: "next_field r = (Inl e, r') \<Longrightarrow> codec_message e = rd_message r"
  using read_varint_error [of r] read_varint_advanced [of r]
  by (auto simp: next_field_def Let_def reader_error_def advanced_def split: if_splits prod.splits sum.splits)

lemma read_length_delimited_advanced:
  "advanced r (snd (read_length_delimited r)) \<and>
   (\<forall>e. fst (read_length_delimited r) = Inl e \<longrightarrow> codec_message e = rd_message r)"
proof -
  obtain q r1 where q: "read_varint r = (q, r1)" by fastforce
  have "advanced r r1" using read_varint_advanced [of r] q by simp
  then show ?thesis
    using q read_varint_error [of r]
    by (cases q)
      (auto simp: read_length_delimited_def usize_checked_add_def advanced_def reader_error_def
        split: option.splits if_splits)
qed

lemma skip_bytes_advanced:
  "advanced r (snd (skip_bytes n r)) \<and> (\<forall>e. fst (skip_bytes n r) = Inl e \<longrightarrow> codec_message e = rd_message r)"
  by (auto simp: skip_bytes_def usize_checked_add_def advanced_def reader_error_def)

lemma skip_field_advanced:
  "advanced r (snd (skip_field w r)) \<and> (\<forall>e. fst (skip_field w r) = Inl e \<longrightarrow> codec_message e = rd_message r)"
proof -
  obtain q r1 q' r2 where q: "read_varint r = (q, r1)" "read_length_delimited r = (q', r2)" by fastforce
  then show ?thesis
    using read_varint_advanced [of r] read_varint_error [of r] read_length_delimited_advanced [of r]
      skip_bytes_advanced [of r 8] skip_bytes_advanced [of r 4]
    by (cases q; cases q') (auto simp: skip_field_def forget_def reader_error_def)
qed

text \<open>A known field keeps the reader in order, and its errors name the message.\<close>

definition well_read ::
  "string \<Rightarrow> (u32 \<times> u8 \<Rightarrow> 'a \<Rightarrow> proto_reader \<Rightarrow> ((codec_error + 'a) \<times> proto_reader) option) \<Rightarrow> bool" where
  "well_read name known \<longleftrightarrow>
     (\<forall>key x r q r'. rd_message r = name \<longrightarrow> known key x r = Some (q, r') \<longrightarrow>
        advanced r r' \<and> (\<forall>e. q = Inl e \<longrightarrow> codec_message e = name))"

lemma decode_fields_ends:
  assumes "well_read name known" "rd_message r = name" "rd_offset r \<le> length (rd_bytes r)"
  shows "\<exists>result. decode_fields known x r = Some result \<and> (\<forall>e. result = Inl e \<longrightarrow> codec_message e = name)"
  using assms(2,3)
proof (induction "length (rd_bytes r) - rd_offset r" arbitrary: x r rule: less_induct)
  case less
  obtain q r1 where q: "next_field r = (q, r1)" by fastforce
  consider (error) e where "q = Inl e" | (stop) "q = Inr None" | (field) f w where "q = Inr (Some (f, w))"
    by (cases q) (auto split: option.splits, metis option.exhaust surj_pair)
  then show ?case
  proof cases
    case error
    then show ?thesis using q next_field_error [of r e r1] less.prems by (subst decode_fields.simps) simp
  next
    case stop
    then show ?thesis using q by (subst decode_fields.simps) simp
  next
    case field
    then have step: "advanced r r1" "rd_offset r < rd_offset r1" "rd_offset r1 \<le> length (rd_bytes r)"
      using q next_field_progress [of r] by auto
    then have name: "rd_message r1 = name" using less.prems by (simp add: advanced_def)
    have again: "\<exists>result. decode_fields known y r2 = Some result \<and> (\<forall>e. result = Inl e \<longrightarrow> codec_message e = name)"
      if "advanced r1 r2" for y r2
      using that step less.prems name
      by (intro less.hyps) (auto simp: advanced_def)
    show ?thesis
    proof (cases "known (f, w) x r1")
      case None
      obtain s r2 where s: "skip_field w r1 = (s, r2)" by fastforce
      then have "advanced r1 r2" using skip_field_advanced [of r1 w] by simp
      moreover have "codec_message e = name" if "s = Inl e" for e
        using skip_field_advanced [of r1 w] s that name by simp
      ultimately show ?thesis
        using again None q field s by (subst decode_fields.simps) (cases s; simp)
    next
      case (Some p)
      obtain s r2 where p: "p = (s, r2)" by fastforce
      then have "advanced r1 r2" "\<And>e. s = Inl e \<Longrightarrow> codec_message e = name"
        using assms(1) Some name unfolding well_read_def by blast+
      then show ?thesis
        using again Some q field p by (subst decode_fields.simps) (cases s; simp)
    qed
  qed
qed

lemma known_request_well_read: "well_read request_name known_request_field"
  unfolding well_read_def
proof (intro allI impI)
  fix key service r q r'
  assume "rd_message r = request_name" and known: "known_request_field key service r = Some (q, r')"
  moreover obtain s r1 where "read_length_delimited r = (s, r1)" by fastforce
  ultimately show "advanced r r' \<and> (\<forall>e. q = Inl e \<longrightarrow> codec_message e = request_name)"
    using read_length_delimited_advanced [of r]
    by (cases s) (auto simp: known_request_field_def ok_or_def split: if_splits option.splits)
qed

lemma known_response_well_read: "well_read response_name known_response_field"
  unfolding well_read_def
proof (intro allI impI)
  fix key status r q r'
  assume "rd_message r = response_name" and known: "known_response_field key status r = Some (q, r')"
  moreover obtain s r1 where "read_varint r = (s, r1)" by fastforce
  ultimately show "advanced r r' \<and> (\<forall>e. q = Inl e \<longrightarrow> codec_message e = response_name)"
    using read_varint_advanced [of r] read_varint_error [of r]
    by (cases s) (auto simp: known_response_field_def split: if_splits)
qed

lemma named_error: "codec_message e = name \<Longrightarrow> \<exists>reason. e = CodecError name reason"
  by (cases e) auto

lemma reader_start:
  "rd_message (reader bytes name) = name" "rd_offset (reader bytes name) \<le> length (rd_bytes (reader bytes name))"
  by (simp_all add: reader_def)

text \<open>C20 (decoding_ends). Decoding a health message ends on every input, however malformed, with a
  message or with an error that names the message: each round of its loop reads at least one byte.\<close>

theorem decoding_ends:
  "((\<exists>m. decode_request bytes = Some (Inr m)) \<or>
    (\<exists>reason. decode_request bytes = Some (Inl (CodecError request_name reason)))) \<and>
   ((\<exists>m. decode_response bytes = Some (Inr m)) \<or>
    (\<exists>reason. decode_response bytes = Some (Inl (CodecError response_name reason))))"
proof
  obtain q where "decode_fields known_request_field [] (reader bytes request_name) = Some q"
    "\<forall>e. q = Inl e \<longrightarrow> codec_message e = request_name"
    using decode_fields_ends [OF known_request_well_read reader_start] by blast
  then show "(\<exists>m. decode_request bytes = Some (Inr m)) \<or>
      (\<exists>reason. decode_request bytes = Some (Inl (CodecError request_name reason)))"
    by (cases q) (auto simp: decode_request_def dest: named_error)
  obtain p where "decode_fields known_response_field 0 (reader bytes response_name) = Some p"
    "\<forall>e. p = Inl e \<longrightarrow> codec_message e = response_name"
    using decode_fields_ends [OF known_response_well_read reader_start] by blast
  then show "(\<exists>m. decode_response bytes = Some (Inr m)) \<or>
      (\<exists>reason. decode_response bytes = Some (Inl (CodecError response_name reason)))"
    by (cases p) (auto simp: decode_response_def dest: named_error)
qed

section \<open>Round trips\<close>

text \<open>The fields of the wire format that a reader skips when it does not know them.\<close>

datatype proto_field =
    Varint_field u32 u64
  | Fixed64_field u32 "u8 list"
  | Bytes_field u32 "u8 list"
  | Fixed32_field u32 "u8 list"

fun field_key :: "proto_field \<Rightarrow> u32 \<times> u8" where
  "field_key (Varint_field n v) = (n, 0)"
| "field_key (Fixed64_field n bs) = (n, 1)"
| "field_key (Bytes_field n bs) = (n, 2)"
| "field_key (Fixed32_field n bs) = (n, 5)"

fun field_payload :: "proto_field \<Rightarrow> u8 list" where
  "field_payload (Varint_field n v) = write_varint v"
| "field_payload (Fixed64_field n bs) = bs"
| "field_payload (Bytes_field n bs) = write_varint (of_nat (length bs)) @ bs"
| "field_payload (Fixed32_field n bs) = bs"

definition encode_key :: "u32 \<times> u8 \<Rightarrow> u8 list" where
  "encode_key key = write_varint (or (push_bit 3 (ucast (fst key))) (ucast (snd key)))"

definition encode_field :: "proto_field \<Rightarrow> u8 list" where
  "encode_field f = encode_key (field_key f) @ field_payload f"

fun well_formed_field :: "proto_field \<Rightarrow> bool" where
  "well_formed_field (Varint_field n v) = (0 < n \<and> n \<le> 0x1fffffff)"
| "well_formed_field (Fixed64_field n bs) = (0 < n \<and> n \<le> 0x1fffffff \<and> length bs = 8)"
| "well_formed_field (Bytes_field n bs) = (0 < n \<and> n \<le> 0x1fffffff)"
| "well_formed_field (Fixed32_field n bs) = (0 < n \<and> n \<le> 0x1fffffff \<and> length bs = 4)"

lemma key_wire:
  fixes n :: u32 and w :: u8
  assumes "w \<in> {0, 1, 2, 5}"
  shows "drop_bit 3 (or (push_bit 3 (ucast n)) (ucast w) :: u64) = ucast n"
    and "(ucast (and (or (push_bit 3 (ucast n)) (ucast w) :: u64) 7) :: u8) = w"
proof -
  have low: "drop_bit 3 (ucast w :: u64) = 0" "take_bit 3 (ucast w :: u64) = ucast w"
    using assms by (auto simp: drop_bit_eq_div take_bit_eq_mod)
  have "drop_bit 3 (push_bit 3 (ucast n) :: u64) = ucast n"
    by (rule bit_word_eqI) (auto simp: bit_drop_bit_eq bit_push_bit_iff bit_ucast_iff dest: bit_imp_le_length)
  with low show "drop_bit 3 (or (push_bit 3 (ucast n)) (ucast w) :: u64) = ucast n" by simp
  have "and x 7 = take_bit 3 x" for x :: u64 by (simp add: take_bit_eq_mask mask_eq_exp_minus_1)
  moreover have "take_bit 3 (push_bit 3 (ucast n) :: u64) = 0" by (simp add: take_bit_push_bit)
  ultimately show "(ucast (and (or (push_bit 3 (ucast n)) (ucast w) :: u64) 7) :: u8) = w"
    using low assms by auto
qed

lemma next_field_key:
  assumes "drop (rd_offset r) (rd_bytes r) = encode_key (n, w) @ rest"
    and "0 < n" "n \<le> 0x1fffffff" "w \<in> {0, 1, 2, 5}"
  shows "next_field r = (Inr (Some (n, w)), r\<lparr>rd_offset := rd_offset r + length (encode_key (n, w))\<rparr>)"
proof -
  let ?key = "or (push_bit 3 (ucast n)) (ucast w) :: u64"
  have read: "read_varint r = (Inr ?key, r\<lparr>rd_offset := rd_offset r + length (encode_key (n, w))\<rparr>)"
    using read_varint_write [of r ?key rest] assms(1) by (simp add: encode_key_def length_write_varint)
  have "encode_key (n, w) \<noteq> []" by (simp add: encode_key_def write_varint.simps [of ?key])
  then have "rd_offset r \<noteq> length (rd_bytes r)" using assms(1) by auto
  moreover have "(ucast n :: u64) \<noteq> 0" "\<not> 0x1fffffff < (ucast n :: u64)"
    using assms(2,3) by (simp_all add: word_less_nat_alt word_le_nat_alt unsigned_ucast_eq word_unat_eq_iff take_bit_eq_mod)
  moreover have "w \<notin> {3, 4, 6, 7}" using assms(4) by auto
  moreover have "ucast (ucast n :: u64) = n" by (rule bit_word_eqI) (auto simp: bit_ucast_iff)
  ultimately show ?thesis
    using read key_wire [OF assms(4), of n] by (simp add: next_field_def Let_def)
qed

lemma read_length_delimited_write:
  assumes "drop (rd_offset r) (rd_bytes r) = write_varint (of_nat (length bs)) @ bs @ rest"
    and "length (rd_bytes r) < 2 ^ 64" "rd_offset r \<le> length (rd_bytes r)"
  shows "read_length_delimited r =
    (Inr bs, r\<lparr>rd_offset := rd_offset r + varint_len (of_nat (length bs)) + length bs\<rparr>)"
proof -
  let ?n = "varint_len (of_nat (length bs))"
  have len: "length (rd_bytes r) = rd_offset r + ?n + length bs + length rest"
    using arg_cong [OF assms(1), of length] assms(3) by (simp add: length_write_varint)
  then have small: "unat (of_nat (length bs) :: u64) = length bs"
    using assms(2) by (simp add: unat_of_nat take_bit_eq_mod)
  have "drop (rd_offset r + ?n) (rd_bytes r) = bs @ rest"
    using arg_cong [OF assms(1), of "drop ?n"]
    by (simp add: length_write_varint add.commute [of "rd_offset r"])
  then show ?thesis
    using read_varint_write [OF assms(1)] small len assms(2)
    by (simp add: read_length_delimited_def usize_checked_add_def)
qed

lemma skip_payload:
  assumes "drop (rd_offset r) (rd_bytes r) = field_payload f @ rest" "well_formed_field f"
    and "length (rd_bytes r) < 2 ^ 64" "rd_offset r \<le> length (rd_bytes r)"
  shows "skip_field (snd (field_key f)) r = (Inr (), r\<lparr>rd_offset := rd_offset r + length (field_payload f)\<rparr>)"
proof -
  have len: "length (rd_bytes r) = rd_offset r + length (field_payload f) + length rest"
    using arg_cong [OF assms(1), of length] assms(4) by simp
  show ?thesis
  proof (cases f)
    case (Varint_field n v)
    then show ?thesis
      using read_varint_write [of r v rest] assms(1)
      by (simp add: skip_field_def forget_def length_write_varint)
  next
    case (Bytes_field n bs)
    then show ?thesis
      using read_length_delimited_write [of r bs rest] assms
      by (simp add: skip_field_def forget_def length_write_varint add.assoc)
  qed (use assms len in \<open>auto simp: skip_field_def skip_bytes_def usize_checked_add_def\<close>)
qed

text \<open>A field the message does not know is passed over.\<close>

lemma decode_unknown_field:
  assumes "drop (rd_offset r) (rd_bytes r) = encode_field f @ rest" "well_formed_field f"
    and "length (rd_bytes r) < 2 ^ 64" "rd_offset r \<le> length (rd_bytes r)"
    and unknown: "\<And>x r. known (field_key f) x r = None"
  shows "decode_fields known x r = decode_fields known x (r\<lparr>rd_offset := rd_offset r + length (encode_field f)\<rparr>)"
proof -
  obtain n w where key: "field_key f = (n, w)" by fastforce
  have wire: "w \<in> {0, 1, 2, 5}" and n: "0 < n" "n \<le> 0x1fffffff"
    using key assms(2) by (cases f; auto)+
  let ?k = "length (encode_key (n, w))"
  let ?r = "r\<lparr>rd_offset := rd_offset r + ?k\<rparr>"
  have bytes: "drop (rd_offset r) (rd_bytes r) = encode_key (n, w) @ (field_payload f @ rest)"
    using assms(1) key by (simp add: encode_field_def)
  have nf: "next_field r = (Inr (Some (n, w)), ?r)" by (rule next_field_key [OF bytes n wire])
  have "drop (rd_offset ?r) (rd_bytes ?r) = field_payload f @ rest"
    using arg_cong [OF bytes, of "drop ?k"] by (simp add: add.commute [of "rd_offset r"])
  moreover have "rd_offset ?r \<le> length (rd_bytes ?r)"
    using arg_cong [OF bytes, of length] assms(4) by simp
  ultimately have "skip_field w ?r = (Inr (), ?r\<lparr>rd_offset := rd_offset ?r + length (field_payload f)\<rparr>)"
    using skip_payload [of ?r f rest] assms(2,3) key by simp
  then show ?thesis
    using nf unknown key by (subst decode_fields.simps) (simp add: encode_field_def add.assoc)
qed

definition encode_fields :: "proto_field list \<Rightarrow> u8 list" where
  "encode_fields fs = concat (map encode_field fs)"

lemma decode_unknown_fields:
  assumes "\<forall>f \<in> set fs. well_formed_field f \<and> (\<forall>x r. known (field_key f) x r = None)"
    and "drop (rd_offset r) (rd_bytes r) = encode_fields fs @ rest"
    and "length (rd_bytes r) < 2 ^ 64" "rd_offset r \<le> length (rd_bytes r)"
  shows "decode_fields known x r = decode_fields known x (r\<lparr>rd_offset := rd_offset r + length (encode_fields fs)\<rparr>)"
  using assms
proof (induction fs arbitrary: r)
  case Nil
  then show ?case by (simp add: encode_fields_def)
next
  case (Cons f fs)
  let ?r = "r\<lparr>rd_offset := rd_offset r + length (encode_field f)\<rparr>"
  have bytes: "drop (rd_offset r) (rd_bytes r) = encode_field f @ (encode_fields fs @ rest)"
    using Cons.prems(2) by (simp add: encode_fields_def)
  have "drop (rd_offset ?r) (rd_bytes ?r) = encode_fields fs @ rest"
    using arg_cong [OF bytes, of "drop (length (encode_field f))"] by (simp add: add.commute [of "rd_offset r"])
  moreover have "rd_offset ?r \<le> length (rd_bytes ?r)"
    using arg_cong [OF bytes, of length] Cons.prems(4) by simp
  ultimately have "decode_fields known x ?r =
      decode_fields known x (?r\<lparr>rd_offset := rd_offset ?r + length (encode_fields fs)\<rparr>)"
    using Cons.prems(1,3) by (intro Cons.IH) simp_all
  moreover have "decode_fields known x r = decode_fields known x ?r"
    by (rule decode_unknown_field [OF bytes]) (use Cons.prems in simp_all)
  ultimately show ?case by (simp add: encode_fields_def add.assoc)
qed

text \<open>At the end of the bytes the fields read so far are the message.\<close>

lemma decode_end: "rd_offset r = length (rd_bytes r) \<Longrightarrow> decode_fields known x r = Some (Inr x)"
  by (subst decode_fields.simps) (simp add: next_field_def)

lemma request_key: "write_varint 10 = encode_key (1, 2)" and response_key: "write_varint 8 = encode_key (1, 0)"
  by (simp_all add: encode_key_def)

lemma decode_known_field:
  assumes "next_field r = (Inr (Some key), r1)" "known key x r1 = Some (Inr x', r2)"
  shows "decode_fields known x r = decode_fields known x' r2"
  using assms by (cases key) (subst decode_fields.simps, simp)

text \<open>A message between fields it does not know: \<open>body\<close> reads as \<open>x'\<close>.\<close>

lemma decode_between:
  assumes unknown: "\<forall>f \<in> set (before @ after). well_formed_field f \<and> (\<forall>x r. known (field_key f) x r = None)"
    and size: "length (encode_fields before @ body @ encode_fields after) < 2 ^ 64"
    and body: "\<And>r rest. drop (rd_offset r) (rd_bytes r) = body @ rest \<Longrightarrow> length (rd_bytes r) < 2 ^ 64 \<Longrightarrow>
      rd_offset r \<le> length (rd_bytes r) \<Longrightarrow>
      decode_fields known x r = decode_fields known x' (r\<lparr>rd_offset := rd_offset r + length body\<rparr>)"
  shows "decode_fields known x (reader (encode_fields before @ body @ encode_fields after) name) = Some (Inr x')"
proof -
  let ?bytes = "encode_fields before @ body @ encode_fields after"
  let ?at = "\<lambda>n. (reader ?bytes name)\<lparr>rd_offset := n\<rparr>"
  have "decode_fields known x (reader ?bytes name) = decode_fields known x (?at (length (encode_fields before)))"
    using decode_unknown_fields [of before known "reader ?bytes name" "body @ encode_fields after" x] unknown size
    by (simp add: reader_def)
  also have "\<dots> = decode_fields known x' (?at (length (encode_fields before) + length body))"
    using body [of "?at (length (encode_fields before))" "encode_fields after"] size by (simp add: reader_def)
  also have "\<dots> = decode_fields known x' (?at (length ?bytes))"
    using decode_unknown_fields [of after known "?at (length (encode_fields before) + length body)" "[]" x']
      unknown size
    by (simp add: reader_def add.assoc)
  also have "\<dots> = Some (Inr x')" by (rule decode_end) (simp add: reader_def)
  finally show ?thesis .
qed

lemma decode_request_body:
  assumes "is_str service" "service \<noteq> []"
    and bytes: "drop (rd_offset r) (rd_bytes r) = encode_request \<lparr>hr_service = service\<rparr> @ rest"
    and r: "length (rd_bytes r) < 2 ^ 64" "rd_offset r \<le> length (rd_bytes r)"
  shows "decode_fields known_request_field x r =
    decode_fields known_request_field service
      (r\<lparr>rd_offset := rd_offset r + length (encode_request \<lparr>hr_service = service\<rparr>)\<rparr>)"
proof -
  let ?k = "length (encode_key (1, 2))"
  let ?r = "r\<lparr>rd_offset := rd_offset r + ?k\<rparr>"
  have b: "drop (rd_offset r) (rd_bytes r) =
      encode_key (1, 2) @ (write_varint (of_nat (length (as_bytes service))) @ as_bytes service @ rest)"
    using bytes assms(2) by (simp add: encode_request_def request_key)
  have nf: "next_field r = (Inr (Some (1, 2)), ?r)" by (rule next_field_key [OF b]) simp_all
  have "drop (rd_offset ?r) (rd_bytes ?r) =
      write_varint (of_nat (length (as_bytes service))) @ as_bytes service @ rest"
    using arg_cong [OF b, of "drop ?k"] by (simp add: add.commute [of "rd_offset r"])
  moreover have "rd_offset ?r \<le> length (rd_bytes ?r)"
    using arg_cong [OF b, of length] r by simp
  ultimately have "read_length_delimited ?r =
      (Inr (as_bytes service), ?r\<lparr>rd_offset := rd_offset ?r + varint_len (of_nat (length (as_bytes service))) + length (as_bytes service)\<rparr>)"
    using r by (intro read_length_delimited_write) simp_all
  then have "known_request_field (1, 2) x ?r =
      Some (Inr service, ?r\<lparr>rd_offset := rd_offset ?r + varint_len (of_nat (length service)) + length service\<rparr>)"
    using assms(1) by (simp add: known_request_field_def)
  then show ?thesis
    using decode_known_field [OF nf] assms(2)
    by (simp add: encode_request_def request_key length_write_varint add.assoc)
qed

lemma decode_response_body:
  assumes "status \<noteq> 0"
    and bytes: "drop (rd_offset r) (rd_bytes r) = encode_response \<lparr>hp_status = status\<rparr> @ rest"
  shows "decode_fields known_response_field x r =
    decode_fields known_response_field status
      (r\<lparr>rd_offset := rd_offset r + length (encode_response \<lparr>hp_status = status\<rparr>)\<rparr>)"
proof -
  let ?k = "length (encode_key (1, 0))"
  let ?r = "r\<lparr>rd_offset := rd_offset r + ?k\<rparr>"
  have b: "drop (rd_offset r) (rd_bytes r) = encode_key (1, 0) @ (write_varint (scast status) @ rest)"
    using bytes assms(1) by (simp add: encode_response_def response_key)
  have nf: "next_field r = (Inr (Some (1, 0)), ?r)" by (rule next_field_key [OF b]) simp_all
  have "drop (rd_offset ?r) (rd_bytes ?r) = write_varint (scast status) @ rest"
    using arg_cong [OF b, of "drop ?k"] by (simp add: add.commute [of "rd_offset r"])
  then have "read_varint ?r = (Inr (scast status), ?r\<lparr>rd_offset := rd_offset ?r + varint_len (scast status)\<rparr>)"
    by (rule read_varint_write)
  moreover have "ucast (scast status :: u64) = status"
    by (rule bit_word_eqI) (simp add: bit_ucast_iff bit_signed_iff)
  ultimately have "known_response_field (1, 0) x ?r =
      Some (Inr status, ?r\<lparr>rd_offset := rd_offset ?r + varint_len (scast status)\<rparr>)"
    by (simp add: known_response_field_def)
  then show ?thesis
    using decode_known_field [OF nf] assms(1)
    by (simp add: encode_response_def response_key length_write_varint add.assoc)
qed

lemma decode_request_between:
  assumes "\<forall>f \<in> set (before @ after). well_formed_field f \<and> field_key f \<noteq> (1, 2)"
    and "is_str (hr_service m)"
    and "length (encode_fields before @ encode_request m @ encode_fields after) < 2 ^ 64"
  shows "decode_request (encode_fields before @ encode_request m @ encode_fields after) = Some (Inr m)"
proof -
  have "decode_fields known_request_field [] (reader (encode_fields before @ encode_request m @ encode_fields after) request_name) =
      Some (Inr (hr_service m))"
  proof (rule decode_between [OF _ assms(3)])
    show "\<forall>f \<in> set (before @ after). well_formed_field f \<and> (\<forall>x r. known_request_field (field_key f) x r = None)"
      using assms(1) by (simp add: known_request_field_def)
  next
    fix r :: proto_reader and rest
    assume r: "drop (rd_offset r) (rd_bytes r) = encode_request m @ rest" "length (rd_bytes r) < 2 ^ 64"
      "rd_offset r \<le> length (rd_bytes r)"
    obtain service where m: "m = \<lparr>hr_service = service\<rparr>" by (cases m)
    show "decode_fields known_request_field [] r =
        decode_fields known_request_field (hr_service m) (r\<lparr>rd_offset := rd_offset r + length (encode_request m)\<rparr>)"
      using decode_request_body [of service r rest "[]"] assms(2) r m
      by (cases "service = []") (simp_all add: encode_request_def)
  qed
  then show ?thesis
    by (simp add: decode_request_def)
qed

lemma decode_response_between:
  assumes "\<forall>f \<in> set (before @ after). well_formed_field f \<and> field_key f \<noteq> (1, 0)"
    and "length (encode_fields before @ encode_response p @ encode_fields after) < 2 ^ 64"
  shows "decode_response (encode_fields before @ encode_response p @ encode_fields after) = Some (Inr p)"
proof -
  have "decode_fields known_response_field 0 (reader (encode_fields before @ encode_response p @ encode_fields after) response_name) =
      Some (Inr (hp_status p))"
  proof (rule decode_between [OF _ assms(2)])
    show "\<forall>f \<in> set (before @ after). well_formed_field f \<and> (\<forall>x r. known_response_field (field_key f) x r = None)"
      using assms(1) by (simp add: known_response_field_def)
  next
    fix r :: proto_reader and rest
    assume r: "drop (rd_offset r) (rd_bytes r) = encode_response p @ rest"
    obtain status where p: "p = \<lparr>hp_status = status\<rparr>" by (cases p)
    show "decode_fields known_response_field 0 r =
        decode_fields known_response_field (hp_status p) (r\<lparr>rd_offset := rd_offset r + length (encode_response p)\<rparr>)"
      using decode_response_body [of status r rest 0] r p
      by (cases "status = 0") (simp_all add: encode_response_def)
  qed
  then show ?thesis
    by (simp add: decode_response_def)
qed

lemma estimates_exact:
  "estimate_request_len m = length (encode_request m)"
  "estimate_response_len p = length (encode_response p)"
proof -
  have "varint_len 10 = 1" "varint_len 8 = 1" by (simp_all add: varint_len.simps)
  then show "estimate_request_len m = length (encode_request m)" "estimate_response_len p = length (encode_response p)"
    by (simp_all add: estimate_request_len_def encode_request_def estimate_response_len_def encode_response_def
        length_write_varint)
qed

text \<open>C13 (health_messages_read_back). A health request or response is read back from its encoding,
  every status of an \<open>i32\<close> included, also between any well-formed fields that the message does not
  know; and the length each message announces is the length of its encoding.\<close>

theorem health_messages_read_back:
  assumes "\<forall>f \<in> set (before @ after). well_formed_field f \<and> field_key f \<noteq> (1, 2) \<and> field_key f \<noteq> (1, 0)"
    and "is_str (hr_service m)"
    and "length (encode_fields before @ encode_request m @ encode_fields after) < 2 ^ 64"
    and "length (encode_fields before @ encode_response p @ encode_fields after) < 2 ^ 64"
  shows "decode_request (encode_fields before @ encode_request m @ encode_fields after) = Some (Inr m) \<and>
    decode_response (encode_fields before @ encode_response p @ encode_fields after) = Some (Inr p) \<and>
    estimate_request_len m = length (encode_request m) \<and> estimate_response_len p = length (encode_response p)"
  using assms by (simp add: decode_request_between decode_response_between estimates_exact del: length_append set_append)

lemma varint_len_bound: "varint_len v \<le> 10"
proof -
  have "varint_len v \<le> k" if "unat v < 2 ^ (7 * k)" "0 < k" for k v
    using that
  proof (induction k arbitrary: v)
    case (Suc k)
    show ?case
    proof (cases "128 \<le> v")
      case True
      then have "0 < k" using Suc.prems by (cases k) (simp_all add: word_le_nat_alt)
      moreover have "unat (drop_bit 7 v) < 2 ^ (7 * k)"
        using Suc.prems by (simp add: drop_bit_eq_div unat_div_distrib less_mult_imp_div_less mult.commute power_add)
      ultimately have "varint_len (drop_bit 7 v) \<le> k" by (rule Suc.IH [rotated])
      then show ?thesis using True by (simp add: varint_len.simps [of v])
    qed (simp add: varint_len.simps [of v])
  qed simp
  from this [of v 10] show ?thesis using unat_u64_less [of v] by simp
qed

lemma demo_field_lengths:
  "length (encode_fields [Varint_field 7 300, Bytes_field 2 [1, 2]]) \<le> 50"
  "length (encode_request \<lparr>hr_service = ''db''\<rparr>) \<le> 50" "length (encode_response p) \<le> 50"
proof -
  have len: "length (write_varint v) \<le> 10" for v by (simp add: length_write_varint varint_len_bound)
  show "length (encode_fields [Varint_field 7 300, Bytes_field 2 [1, 2]]) \<le> 50"
    using len [of "or (push_bit 3 (ucast (7 :: u32))) (ucast (0 :: u8))"] len [of 300] len [of 2]
      len [of "or (push_bit 3 (ucast (2 :: u32))) (ucast (2 :: u8))"]
    by (simp add: encode_fields_def encode_field_def encode_key_def)
  show "length (encode_request \<lparr>hr_service = ''db''\<rparr>) \<le> 50"
    using len [of 10] len [of 2] by (simp add: encode_request_def)
  show "length (encode_response p) \<le> 50"
    using len [of 8] len [of "scast (hp_status p)"] by (simp add: encode_response_def)
qed

theorem health_messages_read_back_witness:
  "decode_request (encode_fields [Varint_field 7 300, Bytes_field 2 [1, 2]] @ encode_request \<lparr>hr_service = ''db''\<rparr> @ encode_fields []) =
     Some (Inr \<lparr>hr_service = ''db''\<rparr>) \<and>
   decode_response (encode_fields [Varint_field 7 300, Bytes_field 2 [1, 2]] @ encode_response \<lparr>hp_status = - 5\<rparr> @ encode_fields []) =
     Some (Inr \<lparr>hp_status = - 5\<rparr>)"
proof -
  have "length (encode_fields [Varint_field 7 300, Bytes_field 2 [1, 2]] @ encode_request \<lparr>hr_service = ''db''\<rparr> @ encode_fields []) < 2 ^ 64"
    "length (encode_fields [Varint_field 7 300, Bytes_field 2 [1, 2]] @ encode_response \<lparr>hp_status = - 5\<rparr> @ encode_fields []) < 2 ^ 64"
    using demo_field_lengths(1,2) demo_field_lengths(3) [of "\<lparr>hp_status = - 5\<rparr>"] by (simp_all add: encode_fields_def)
  moreover have "is_str ''db''" by (simp add: is_ascii_str is_ascii_def)
  ultimately show ?thesis
    using health_messages_read_back [of "[Varint_field 7 300, Bytes_field 2 [1, 2]]" "[]"
        "\<lparr>hr_service = ''db''\<rparr>" "\<lparr>hp_status = - 5\<rparr>"]
    by simp
qed

end
