(* ===== verification/Test_Call.thy ===== *)
theory Test_Call
  imports Headers
begin

text \<open>
  \<open>OutboundCallFixture\<close> of \<open>grpc-egress-test-support\<close>: the second implementation of \<open>OutboundCall\<close>,
  which the tests hand to an interceptor in place of the library's \<open>PendingCall\<close>. It keeps the same
  contract, and wherever metadata can be rebuilt from its own entries an interceptor cannot tell the two
  apart; elsewhere the fixture drops the entries that \<open>PendingCall\<close> refuses.
\<close>

section \<open>The fixture\<close>

record 'md call_fixture =
  cf_path :: string
  cf_timeout :: "duration option"
  cf_metadata :: 'md

text \<open>\<open>no_headers\<close> is \<open>Metadata::default()\<close>.\<close>

definition create_fixture :: "'md \<Rightarrow> string \<Rightarrow> 'md call_fixture" where
  "create_fixture no_headers path = \<lparr>cf_path = path, cf_timeout = None, cf_metadata = no_headers\<rparr>"

definition fixture_with_timeout :: "duration option \<Rightarrow> 'md call_fixture \<Rightarrow> 'md call_fixture" where
  "fixture_with_timeout t c = c\<lparr>cf_timeout := t\<rparr>"

definition fixture_with_metadata :: "'md \<Rightarrow> 'md call_fixture \<Rightarrow> 'md call_fixture" where
  "fixture_with_metadata m c = c\<lparr>cf_metadata := m\<rparr>"

definition fixture_header_values :: "('md, 'me) metadata_view \<Rightarrow> string \<Rightarrow> 'md call_fixture \<Rightarrow> string list" where
  "fixture_header_values view key c = (case get_values view (cf_metadata c) key of Inl e \<Rightarrow> [] | Inr vs \<Rightarrow> vs)"

definition fixture_has_header :: "('md, 'me) metadata_view \<Rightarrow> string \<Rightarrow> 'md call_fixture \<Rightarrow> bool" where
  "fixture_has_header view key c \<longleftrightarrow>
     (case get_values view (cf_metadata c) key of Inl e \<Rightarrow> [] | Inr vs \<Rightarrow> vs) \<noteq> []"

text \<open>\<open>let _ = builder.append(..)\<close>: an append that is refused leaves the builder as it was.\<close>

definition or_else_keep :: "'me + 'mb \<Rightarrow> 'mb \<Rightarrow> 'mb" where
  "or_else_keep r b = (case r of Inl e \<Rightarrow> b | Inr b' \<Rightarrow> b')"

fun keep_entries :: "('md, 'mb, 'me) metadata_builder \<Rightarrow> (string \<times> string) list \<Rightarrow> 'mb \<Rightarrow> 'mb" where
  "keep_entries mb [] b = b"
| "keep_entries mb ((key, value) # rest) b = keep_entries mb rest (or_else_keep (mb_append mb b key value) b)"

text \<open>\<open>flatten\<close> skips the entries that do not decode.\<close>

fun keep_binaries :: "('md, 'mb, 'me) metadata_builder \<Rightarrow> ('me + string \<times> u8 list) list \<Rightarrow> 'mb \<Rightarrow> 'mb" where
  "keep_binaries mb [] b = b"
| "keep_binaries mb (Inl e # rest) b = keep_binaries mb rest b"
| "keep_binaries mb (Inr (key, value) # rest) b =
     keep_binaries mb rest (or_else_keep (mb_append_binary mb b key value) b)"

definition fixture_add_header ::
  "('md, 'me) metadata_view \<Rightarrow> ('md, 'mb, 'me) metadata_builder \<Rightarrow> ('me \<Rightarrow> string) \<Rightarrow>
     string \<Rightarrow> string \<Rightarrow> 'md call_fixture \<Rightarrow> 'md call_error + 'md call_fixture" where
  "fixture_add_header view mb show_me key value c =
     bind_result (map_err (\<lambda>e. Transport (cf_path c) InvalidArgument (show_me e))
          (get_entries view (cf_metadata c))) (\<lambda>entries.
      bind_result (map_err (\<lambda>e. Transport (cf_path c) InvalidArgument (show_me e))
          (get_binary_entries view (cf_metadata c))) (\<lambda>binaries.
      bind_result (map_err (\<lambda>e. Transport (cf_path c) InvalidArgument (show_me e))
          (mb_append mb (keep_binaries mb binaries (keep_entries mb entries (mb_create mb))) key value)) (\<lambda>b.
        Inr (c\<lparr>cf_metadata := mb_build mb b\<rparr>))))"

definition fixture_api ::
  "('md, 'me) metadata_view \<Rightarrow> ('md, 'mb, 'me) metadata_builder \<Rightarrow> ('me \<Rightarrow> string) \<Rightarrow>
     ('md call_fixture, 'md) outbound_call" where
  "fixture_api view mb show_me =
     \<lparr>oc_path = cf_path, oc_timeout = cf_timeout, oc_set_timeout = fixture_with_timeout,
      oc_has_header = fixture_has_header view, oc_header_values = fixture_header_values view,
      oc_add_header = fixture_add_header view mb show_me\<rparr>"

interpretation fixture: outbound_call_contract "fixture_api view mb show_me" for view mb show_me
  by unfold_locales
    (auto simp: fixture_api_def fixture_with_timeout_def fixture_header_values_def fixture_has_header_def
      fixture_add_header_def bind_result_def map_err_def split: sum.splits)

section \<open>The fixture stands for the call\<close>

text \<open>Metadata that can be rebuilt: its entries are listed, decode and are accepted again.\<close>

definition rebuildable :: "('md, 'me) metadata_view \<Rightarrow> ('md, 'mb, 'me) metadata_builder \<Rightarrow> bool" where
  "rebuildable view mb \<longleftrightarrow> (\<forall>m. \<not> isl (start_builder view mb m))"

definition as_fixture :: "'md pending_call \<Rightarrow> 'md call_fixture" where
  "as_fixture c = \<lparr>cf_path = pc_path c, cf_timeout = pc_timeout c, cf_metadata = pc_metadata c\<rparr>"

lemma as_fixture_simps [simp]:
  "cf_path (as_fixture c) = pc_path c"
  "cf_timeout (as_fixture c) = pc_timeout c"
  "cf_metadata (as_fixture c) = pc_metadata c"
  "fixture_with_timeout t (as_fixture c) = as_fixture (set_timeout t c)"
  by (simp_all add: as_fixture_def fixture_with_timeout_def set_timeout_def)

lemma keep_entries_append: "append_entries mb es b = Inr b' \<Longrightarrow> keep_entries mb es b = b'"
  by (induction mb es b rule: append_entries.induct) (auto simp: or_else_keep_def)

lemma keep_binaries_append: "append_binaries mb es b = Inr b' \<Longrightarrow> keep_binaries mb es b = b'"
  by (induction mb es b rule: append_binaries.induct) (auto simp: or_else_keep_def)

lemma fixture_adds_alike:
  assumes "rebuildable view mb"
  shows "fixture_add_header view mb show_me key val (as_fixture c) =
    (case add_header view mb show_me key val c of Inl e \<Rightarrow> Inl e | Inr c' \<Rightarrow> Inr (as_fixture c'))"
proof -
  obtain b where b: "start_builder view mb (pc_metadata c) = Inr b"
    using assms unfolding rebuildable_def by (metis sum.collapse(2))
  then obtain es b1 bs where "get_entries view (pc_metadata c) = Inr es" "append_entries mb es (mb_create mb) = Inr b1"
      "get_binary_entries view (pc_metadata c) = Inr bs" "append_binaries mb bs b1 = Inr b"
    by (auto simp: start_builder_def)
  then show ?thesis
    using b by (cases "mb_append mb b key val")
      (auto simp: fixture_add_header_def add_header_def append_header_def as_fixture_def
        dest!: keep_entries_append keep_binaries_append)
qed

lemma run_program_map:
  assumes "\<And>c. oc_path api' (f c) = oc_path api c" "\<And>c. oc_timeout api' (f c) = oc_timeout api c"
    and "\<And>t c. oc_set_timeout api' t (f c) = f (oc_set_timeout api t c)"
    and "\<And>k c. oc_has_header api' k (f c) = oc_has_header api k c"
    and "\<And>k c. oc_header_values api' k (f c) = oc_header_values api k c"
    and "\<And>k v c. oc_add_header api' k v (f c) =
      (case oc_add_header api k v c of Inl e \<Rightarrow> Inl e | Inr c' \<Rightarrow> Inr (f c'))"
  shows "run_program p api' (f c) = (case run_program p api c of (r, c', w) \<Rightarrow> (r, f c', w))"
proof (induction p arbitrary: c)
  case (AddHeader key val k)
  then show ?case
    by (cases "oc_add_header api key val c") (simp_all add: assms(6) rangeI)
qed (simp_all add: assms(1-5) rangeI)

text \<open>C32 (fixture_stands_for_call). Where metadata can be rebuilt from its own entries, every
  interceptor does to the fixture what it does to the call of the library: the same result, the same
  world, and the same path, timeout and metadata at the end.\<close>

theorem fixture_stands_for_call:
  assumes "rebuildable view mb"
  shows "run_program p (fixture_api view mb show_me) (as_fixture c) =
    (case run_program p (pending_api view mb show_me) c of (r, c', w) \<Rightarrow> (r, as_fixture c', w))"
  by (rule run_program_map)
    (simp_all add: fixture_api_def pending_api_def fixture_has_header_def has_header_def
      fixture_header_values_def header_values_def fixture_adds_alike [OF assms])

text \<open>A metadata whose keys are never empty: lists with a non-empty first character beside the rest.\<close>

definition pair_view :: "((char \<times> string \<times> string) list, unit) metadata_view" where
  "pair_view =
     \<lparr>get_values = (\<lambda>m k. Inr (map (snd \<circ> snd) (filter (\<lambda>(c, s, v). c # s = k) m))),
      get_entries = (\<lambda>m. Inr (map (\<lambda>(c, s, v). (c # s, v)) m)),
      get_binary_entries = (\<lambda>m. Inr [])\<rparr>"

definition pair_builder :: "((char \<times> string \<times> string) list, (char \<times> string \<times> string) list, unit) metadata_builder" where
  "pair_builder =
     \<lparr>mb_create = [], mb_append = (\<lambda>b k v. case k of [] \<Rightarrow> Inl () | c # s \<Rightarrow> Inr (b @ [(c, s, v)])),
      mb_append_binary = (\<lambda>b k v. Inr b), mb_build = (\<lambda>b. b)\<rparr>"

lemma pair_entries_append: "append_entries pair_builder (map (\<lambda>(c, s, v). (c # s, v)) m) b = Inr (b @ m)"
  by (induction m arbitrary: b) (auto simp: pair_builder_def)

lemma pair_rebuildable: "rebuildable pair_view pair_builder"
  by (simp add: rebuildable_def start_builder_def pair_view_def pair_entries_append)

definition demo_program :: "(nat, (char \<times> string \<times> string) list) call_program" where
  "demo_program = AddHeader ''k'' ''v'' (\<lambda>r. HasHeader ''k'' (\<lambda>present. Finish r (if present then 1 else 0)))"

definition fixture_call :: "(char \<times> string \<times> string) list pending_call" where
  "fixture_call = \<lparr>pc_path = ''/s/m'', pc_timeout = None, pc_metadata = []\<rparr>"

theorem fixture_stands_for_call_witness:
  "run_program demo_program (fixture_api pair_view pair_builder (\<lambda>e. ''bad'')) (as_fixture fixture_call) =
     (Inr (), \<lparr>cf_path = ''/s/m'', cf_timeout = None, cf_metadata = [(CHR ''k'', [], ''v'')]\<rparr>, 1)"
  unfolding fixture_stands_for_call [OF pair_rebuildable] by code_simp

end
