(* ===== verification/Grpc_Frame.thy ===== *)
theory Grpc_Frame
  imports Egress_Prelude
begin

text \<open>
  The five-byte message framing of gRPC: \<open>GrpcFrame\<close> and \<open>DecodedFrame\<close> of
  \<open>grpc-egress-test-support\<close>, with the proof that decoding reads back exactly the complete
  messages of a body. The loop of \<open>decode_all\<close> recurses on what is left of the body.
\<close>

section \<open>Frames\<close>

record decoded_frame =
  df_compressed :: bool
  df_payload :: "u8 list"

definition prefix_len :: nat where
  "prefix_len = 5"

text \<open>\<open>BufMut::put_u32\<close> and \<open>u32::from_be_bytes\<close>: the most significant byte first.\<close>

definition put_u32 :: "u32 \<Rightarrow> u8 list" where
  "put_u32 n = [ucast (drop_bit 24 n), ucast (drop_bit 16 n), ucast (drop_bit 8 n), ucast n]"

definition from_be_bytes :: "u8 \<Rightarrow> u8 \<Rightarrow> u8 \<Rightarrow> u8 \<Rightarrow> u32" where
  "from_be_bytes a b c d =
     or (push_bit 24 (ucast a)) (or (push_bit 16 (ucast b)) (or (push_bit 8 (ucast c)) (ucast d)))"

text \<open>\<open>payload.len() as u32\<close> keeps the low 32 bits.\<close>

definition frame :: "u8 \<Rightarrow> u8 list \<Rightarrow> u8 list" where
  "frame flag payload = flag # put_u32 (of_nat (length payload)) @ payload"

definition encode_plain :: "u8 list \<Rightarrow> u8 list" where
  "encode_plain payload = frame 0 payload"

definition encode_compressed :: "u8 list \<Rightarrow> u8 list" where
  "encode_compressed payload = frame 1 payload"

text \<open>The length the prefix of \<open>rest\<close> announces; \<open>5 + length\<close> fits a \<open>usize\<close> of 64 bits.\<close>

definition announced :: "u8 list \<Rightarrow> nat" where
  "announced rest = unat (from_be_bytes (rest ! 1) (rest ! 2) (rest ! 3) (rest ! 4))"

function decode_all :: "u8 list \<Rightarrow> decoded_frame list" where
  "decode_all rest =
     (if length rest < prefix_len then []
      else if length rest < prefix_len + announced rest then []
      else \<lparr>df_compressed = (rest ! 0 = 1), df_payload = take (announced rest) (drop prefix_len rest)\<rparr>
             # decode_all (drop (prefix_len + announced rest) rest))"
  by pat_completeness auto

termination
  by (relation "measure length") (auto simp: prefix_len_def)

declare decode_all.simps [simp del]

section \<open>Reading frames back\<close>

definition encode_frame :: "decoded_frame \<Rightarrow> u8 list" where
  "encode_frame f = (if df_compressed f then encode_compressed (df_payload f) else encode_plain (df_payload f))"

definition fits_u32 :: "decoded_frame \<Rightarrow> bool" where
  "fits_u32 f \<longleftrightarrow> length (df_payload f) < 2 ^ 32"

lemma from_be_bytes_put:
  "from_be_bytes (ucast (drop_bit 24 n)) (ucast (drop_bit 16 n)) (ucast (drop_bit 8 n)) (ucast n) = n"
proof (rule bit_word_eqI)
  fix i assume "i < LENGTH(32)"
  then have "i < 8 \<or> 8 \<le> i \<and> i < 16 \<or> 16 \<le> i \<and> i < 24 \<or> 24 \<le> i \<and> i < 32" by auto
  then show "bit (from_be_bytes (ucast (drop_bit 24 n)) (ucast (drop_bit 16 n)) (ucast (drop_bit 8 n)) (ucast n)) i = bit n i"
    by (auto simp: from_be_bytes_def bit_or_iff bit_push_bit_iff bit_ucast_iff bit_drop_bit_eq dest: bit_imp_le_length)
qed

lemma length_encode_frame [codec_simps]: "length (encode_frame f) = prefix_len + length (df_payload f)"
  by (simp add: encode_frame_def encode_plain_def encode_compressed_def frame_def put_u32_def prefix_len_def)

lemma announced_put: "announced (flag # put_u32 n @ rest) = unat n"
  using from_be_bytes_put [of n] by (simp add: announced_def put_u32_def)

text \<open>What a frame starts with, whatever follows it.\<close>

lemma encode_frame_parts:
  "encode_frame f = (if df_compressed f then 1 else 0) # put_u32 (of_nat (length (df_payload f))) @ df_payload f"
  by (simp add: encode_frame_def encode_plain_def encode_compressed_def frame_def)

lemma announced_frame: "fits_u32 f \<Longrightarrow> announced (encode_frame f @ rest) = length (df_payload f)"
  by (simp add: encode_frame_parts announced_put fits_u32_def unsigned_of_nat take_bit_nat_eq_self)

lemma decode_frame:
  assumes "fits_u32 f"
  shows "decode_all (encode_frame f @ rest) = f # decode_all rest"
proof -
  have "drop prefix_len (encode_frame f @ rest) = df_payload f @ rest"
    by (simp add: encode_frame_parts put_u32_def prefix_len_def)
  moreover have "(encode_frame f @ rest) ! 0 = (if df_compressed f then 1 else 0)"
    by (simp add: encode_frame_parts)
  ultimately show ?thesis
    using announced_frame [OF assms, of rest]
    by (subst decode_all.simps) (simp add: codec_simps add.commute [of prefix_len] drop_drop [symmetric] del: drop_drop)
qed

lemma decode_partial:
  assumes "fits_u32 f" "k < length (encode_frame f)"
  shows "decode_all (take k (encode_frame f)) = []"
proof (cases "k < prefix_len")
  case True
  with assms(2) show ?thesis
    by (simp add: decode_all.simps)
next
  case False
  then obtain m where k: "k = Suc (Suc (Suc (Suc (Suc m))))"
    by (auto simp: prefix_len_def le_iff_add not_less)
  have "take k (encode_frame f) =
      (if df_compressed f then 1 else 0) # put_u32 (of_nat (length (df_payload f))) @ take m (df_payload f)"
    by (simp add: k encode_frame_parts put_u32_def)
  then have "announced (take k (encode_frame f)) = length (df_payload f)"
    using assms(1) by (simp add: announced_put fits_u32_def unsigned_of_nat take_bit_nat_eq_self)
  with assms(2) show ?thesis
    by (simp add: decode_all.simps codec_simps)
qed

text \<open>A body made of messages, compressed or not, each shorter than 4 GiB, and
  of the first bytes of one more, is decoded to exactly the complete messages, in order, with their
  flags and payloads.\<close>

lemma frames_read_back:
  assumes "\<forall>f \<in> set fs. fits_u32 f" and "fits_u32 g" and "k < length (encode_frame g)"
  shows "decode_all (concat (map encode_frame fs) @ take k (encode_frame g)) = fs"
  using assms(1)
  by (induction fs) (simp_all add: decode_frame decode_partial [OF assms(2,3)])

lemma frames_read_back_at_work:
  "decode_all ([0, 0, 0, 0, 1, 7, 1, 0, 0, 0, 0] @ [0, 0, 0, 0, 2, 9]) =
     [\<lparr>df_compressed = False, df_payload = [7]\<rparr>, \<lparr>df_compressed = True, df_payload = []\<rparr>]"
  using frames_read_back [of "[\<lparr>df_compressed = False, df_payload = [7]\<rparr>, \<lparr>df_compressed = True, df_payload = []\<rparr>]"
      "\<lparr>df_compressed = False, df_payload = [9, 9]\<rparr>" 6]
  by (simp add: fits_u32_def encode_frame_def encode_plain_def encode_compressed_def frame_def put_u32_def)

text \<open>Every decoded payload fits its prefix, so what was decoded can be framed again.\<close>

lemma decoded_fits: "\<forall>f \<in> set (decode_all data). fits_u32 f"
proof (induction data rule: decode_all.induct)
  case (1 rest)
  have "announced rest < 2 ^ 32"
    using unsigned_less [of "from_be_bytes (rest ! 1) (rest ! 2) (rest ! 3) (rest ! 4)"] by (simp add: announced_def)
  then show ?case
    using 1 by (subst decode_all.simps) (auto simp: fits_u32_def)
qed

end
