(* ===== verification/Test_Peer.thy ===== *)
theory Test_Peer
  imports Grpc_Frame Rust_Str
begin

text \<open>
  The in-process peer of \<open>grpc-egress-test-support\<close>: what it answers (\<open>PeerBehaviour\<close>), what it records
  (\<open>RecordedRequest\<close>) and the handler between the two (\<open>PeerServer::answer\<close>). The server loop, TLS and the
  HTTP library are not modelled; which header values that library accepts is a parameter.
\<close>

section \<open>The handler\<close>

datatype peer_behaviour =
    Echo
  | Reply "u8 list"
  | Delay duration
  | ReplyCompressed "string option" "u8 list"
  | ReplyStatus string "string option" "u64 option"
  | ReplyRaw "u8 list" "string option"

record recorded_request =
  rr_path :: string
  rr_headers :: "string \<rightharpoonup> string"
  rr_frames :: "decoded_frame list"

text \<open>A request as it arrives: reading the body to its end may fail.\<close>

record http_request =
  hq_path :: string
  hq_headers :: "(string \<times> u8 list) list"
  hq_body :: "unit + u8 list"

record http_response =
  ha_status :: nat
  ha_headers :: "(string \<times> string) list"
  ha_body :: "u8 list"
  ha_trailers :: "(string \<times> string) list option"

text \<open>\<open>to_str\<close> of a header value, and whether a text is a header value.\<close>

record http_values =
  hv_to_str :: "u8 list \<Rightarrow> string option"
  hv_valid :: "string \<Rightarrow> bool"

definition collect_headers :: "http_values \<Rightarrow> (string \<times> u8 list) list \<Rightarrow> string \<rightharpoonup> string" where
  "collect_headers hv hs =
     foldl (\<lambda>m (name, v). m(name \<mapsto> v)) Map.empty
       (List.map_filter (\<lambda>(name, bytes). map_option (Pair name) (hv_to_str hv bytes)) hs)"

text \<open>\<open>http::response::Builder\<close>: an invalid value spoils it (\<open>None\<close>).\<close>

definition builder_header ::
  "http_values \<Rightarrow> string \<Rightarrow> string \<Rightarrow> (string \<times> string) list option \<Rightarrow> (string \<times> string) list option" where
  "builder_header hv name v b =
     (case b of None \<Rightarrow> None | Some hs \<Rightarrow> if hv_valid hv v then Some (hs @ [(name, v)]) else None)"

definition header_insert :: "string \<Rightarrow> string \<Rightarrow> (string \<times> string) list \<Rightarrow> (string \<times> string) list" where
  "header_insert name v hs = filter (\<lambda>(n, _). n \<noteq> name) hs @ [(name, v)]"

definition reply_body :: "peer_behaviour \<Rightarrow> decoded_frame list \<Rightarrow> u8 list" where
  "reply_body behaviour frames =
     (case behaviour of
        Reply payload \<Rightarrow> encode_plain payload
      | ReplyCompressed encoding payload \<Rightarrow> encode_compressed payload
      | ReplyRaw body encoding \<Rightarrow> body
      | ReplyStatus status message secs \<Rightarrow> []
      | Echo \<Rightarrow> concat (map (\<lambda>f. encode_plain (df_payload f)) frames)
      | Delay wait \<Rightarrow> concat (map (\<lambda>f. encode_plain (df_payload f)) frames))"

definition announce_encoding ::
  "http_values \<Rightarrow> peer_behaviour \<Rightarrow> (string \<times> string) list option \<Rightarrow> (string \<times> string) list option" where
  "announce_encoding hv behaviour b =
     (case behaviour of
        ReplyCompressed (Some encoding) payload \<Rightarrow> builder_header hv ''grpc-encoding'' encoding b
      | ReplyRaw body (Some encoding) \<Rightarrow> builder_header hv ''grpc-encoding'' encoding b
      | _ \<Rightarrow> b)"

definition optional_header ::
  "http_values \<Rightarrow> string \<Rightarrow> string option \<Rightarrow> (string \<times> string) list option \<Rightarrow> (string \<times> string) list option" where
  "optional_header hv name v b = (case v of None \<Rightarrow> b | Some s \<Rightarrow> builder_header hv name s b)"

definition write_status ::
  "http_values \<Rightarrow> peer_behaviour \<Rightarrow> (string \<times> string) list option \<Rightarrow> (string \<times> string) list option" where
  "write_status hv behaviour b =
     (case behaviour of
        ReplyStatus status message secs \<Rightarrow>
          optional_header hv ''retry-after'' (map_option show_u64 secs)
            (optional_header hv ''grpc-message'' message
              (map_option (header_insert ''grpc-status'' (if hv_valid hv status then status else [])) b))
      | _ \<Rightarrow> b)"

fun is_reply_status :: "peer_behaviour \<Rightarrow> bool" where
  "is_reply_status (ReplyStatus status message secs) = True"
| "is_reply_status _ = False"

definition response_of :: "http_values \<Rightarrow> peer_behaviour \<Rightarrow> u8 list \<Rightarrow> http_response" where
  "response_of hv behaviour reply =
     (case write_status hv behaviour (announce_encoding hv behaviour
         (builder_header hv ''content-type'' ''application/grpc'' (Some []))) of
        Some headers \<Rightarrow>
          \<lparr>ha_status = 200, ha_headers = headers, ha_body = reply,
           ha_trailers = (if is_reply_status behaviour then None else Some [(''grpc-status'', ''0'')])\<rparr>
      | None \<Rightarrow> \<lparr>ha_status = 200, ha_headers = [], ha_body = [], ha_trailers = None\<rparr>)"

text \<open>The record is shared by the handlers; a handler adds to it before it waits.\<close>

definition peer_answer ::
  "http_values \<Rightarrow> (duration \<Rightarrow> 'w \<Rightarrow> 'w) \<Rightarrow> peer_behaviour \<Rightarrow> http_request \<Rightarrow>
     (recorded_request list \<times> 'w, http_response) io" where
  "peer_answer hv sleep behaviour request s =
     (let frames = decode_all (case hq_body request of Inl e \<Rightarrow> [] | Inr bytes \<Rightarrow> bytes);
          entry = \<lparr>rr_path = hq_path request, rr_headers = collect_headers hv (hq_headers request), rr_frames = frames\<rparr>;
          requests = fst s @ [entry];
          w = (case behaviour of Delay wait \<Rightarrow> sleep wait (snd s) | _ \<Rightarrow> snd s)
      in (response_of hv behaviour (reply_body behaviour frames), (requests, w)))"

section \<open>What a peer is good for\<close>

text \<open>The messages a client finds in the answer, by behaviour.\<close>

fun answered_messages :: "peer_behaviour \<Rightarrow> decoded_frame list \<Rightarrow> decoded_frame list" where
  "answered_messages Echo frames = map (\<lambda>f. f\<lparr>df_compressed := False\<rparr>) frames"
| "answered_messages (Delay wait) frames = map (\<lambda>f. f\<lparr>df_compressed := False\<rparr>) frames"
| "answered_messages (Reply payload) frames = [\<lparr>df_compressed = False, df_payload = payload\<rparr>]"
| "answered_messages (ReplyCompressed encoding payload) frames = [\<lparr>df_compressed = True, df_payload = payload\<rparr>]"
| "answered_messages (ReplyStatus status message secs) frames = []"
| "answered_messages (ReplyRaw body encoding) frames = decode_all body"

text \<open>A behaviour the peer can keep to: its payload fits a frame, its texts are header values, and so
  are the peer's own.\<close>

fun answerable :: "http_values \<Rightarrow> peer_behaviour \<Rightarrow> bool" where
  "answerable hv (Reply payload) = (length payload < 2 ^ 32)"
| "answerable hv (ReplyCompressed encoding payload) =
     (length payload < 2 ^ 32 \<and> (case encoding of None \<Rightarrow> True | Some e \<Rightarrow> hv_valid hv e))"
| "answerable hv (ReplyStatus status message secs) =
     ((case message of None \<Rightarrow> True | Some t \<Rightarrow> hv_valid hv t) \<and>
      (case secs of None \<Rightarrow> True | Some n \<Rightarrow> hv_valid hv (show_u64 n)))"
| "answerable hv (ReplyRaw body encoding) = (case encoding of None \<Rightarrow> True | Some e \<Rightarrow> hv_valid hv e)"
| "answerable hv _ = True"

lemma decode_one: "fits_u32 f \<Longrightarrow> decode_all (encode_frame f) = [f]"
  using decode_frame [of f "[]"] by (simp add: decode_all.simps [of "[]"] prefix_len_def)

lemma echoed_frames:
  "\<forall>f \<in> set frames. fits_u32 f \<Longrightarrow>
     decode_all (concat (map (\<lambda>f. encode_plain (df_payload f)) frames)) = map (\<lambda>f. f\<lparr>df_compressed := False\<rparr>) frames"
proof (induction frames)
  case Nil
  show ?case by (simp add: decode_all.simps prefix_len_def)
next
  case (Cons f frames)
  have "encode_plain (df_payload f) = encode_frame (f\<lparr>df_compressed := False\<rparr>)"
    by (simp add: encode_frame_def)
  moreover have "fits_u32 (f\<lparr>df_compressed := False\<rparr>)"
    using Cons.prems by (simp add: fits_u32_def)
  ultimately show ?case
    using Cons by (simp add: decode_frame)
qed

lemma reply_decoded:
  assumes "answerable hv behaviour" "\<forall>f \<in> set frames. fits_u32 f"
  shows "decode_all (reply_body behaviour frames) = answered_messages behaviour frames"
proof (cases behaviour)
  case (Reply payload)
  then show ?thesis
    using assms(1) decode_one [of "\<lparr>df_compressed = False, df_payload = payload\<rparr>"]
    by (simp add: reply_body_def fits_u32_def encode_frame_def)
next
  case (ReplyCompressed encoding payload)
  then show ?thesis
    using assms(1) decode_one [of "\<lparr>df_compressed = True, df_payload = payload\<rparr>"]
    by (simp add: reply_body_def fits_u32_def encode_frame_def)
qed (simp_all add: reply_body_def echoed_frames assms(2) decode_all.simps [of "[]"] prefix_len_def)

lemma response_unspoilt:
  assumes "answerable hv behaviour" "hv_valid hv ''application/grpc''"
  shows "ha_body (response_of hv behaviour reply) = reply \<and>
    ha_trailers (response_of hv behaviour reply) =
      (if is_reply_status behaviour then None else Some [(''grpc-status'', ''0'')])"
  using assms
  by (cases behaviour)
    (auto simp: response_of_def announce_encoding_def write_status_def builder_header_def optional_header_def
      split: option.splits)

text \<open>A peer told something it can keep to answers every request with the
  messages of its behaviour: the request's own, uncompressed, for an echo, as many as the body has whole;
  with the status in the trailers, or in the headers alone when told a status; and it has recorded the
  request, after the earlier ones, with the same messages.\<close>

lemma peer_answers_as_told:
  assumes "answerable hv behaviour" and "hv_valid hv ''application/grpc''"
    and "peer_answer hv sleep behaviour request (before, w) = (answer, (requests, w'))"
  shows "\<exists>entry. requests = before @ [entry] \<and> rr_path entry = hq_path request \<and>
    decode_all (ha_body answer) = answered_messages behaviour (rr_frames entry) \<and>
    (hq_body request = Inr bytes \<longrightarrow> rr_frames entry = decode_all bytes) \<and>
    (ha_trailers answer = None) = is_reply_status behaviour"
proof -
  let ?frames = "decode_all (case hq_body request of Inl e \<Rightarrow> [] | Inr bytes \<Rightarrow> bytes)"
  have "decode_all (reply_body behaviour ?frames) = answered_messages behaviour ?frames"
    by (rule reply_decoded [OF assms(1) decoded_fits])
  then show ?thesis
    using assms(3) response_unspoilt [OF assms(1,2), of "reply_body behaviour ?frames"]
    by (auto simp: peer_answer_def Let_def)
qed

definition visible_values :: http_values where
  "visible_values =
     \<lparr>hv_to_str = (\<lambda>bytes. Some (map (\<lambda>b. char_of (unat b)) bytes)), hv_valid = (\<lambda>s. CHR 0x0A \<notin> set s)\<rparr>"

definition peer_request :: http_request where
  "peer_request = \<lparr>hq_path = ''/s/m'', hq_headers = [], hq_body = Inr [1, 0, 0, 0, 1, 7, 0]\<rparr>"

lemma peer_answers_as_told_at_work:
  "decode_all (ha_body (fst (peer_answer visible_values (+) (Delay 5) peer_request ([], 0)))) =
     [\<lparr>df_compressed = False, df_payload = [7]\<rparr>] \<and>
   snd (snd (peer_answer visible_values (+) (Delay 5) peer_request ([], 0))) = 5"
proof -
  let ?p = "peer_answer visible_values (+) (Delay 5) peer_request ([], 0)"
  have frames: "decode_all [1, 0, 0, 0, 1, 7, 0] = [\<lparr>df_compressed = True, df_payload = [7]\<rparr>]"
    by (simp add: decode_all.simps prefix_len_def announced_def from_be_bytes_def)
  have "answerable visible_values (Delay 5)" "hv_valid visible_values ''application/grpc''"
      "?p = (fst ?p, (fst (snd ?p), snd (snd ?p)))"
    by (simp_all add: visible_values_def)
  note told = peer_answers_as_told [OF this, where bytes = "[1, 0, 0, 0, 1, 7, 0]"]
  have "decode_all (ha_body (fst ?p)) = [\<lparr>df_compressed = False, df_payload = [7]\<rparr>]"
    using told frames by (auto simp: peer_request_def)
  moreover have "snd (snd ?p) = 5"
    by (simp add: peer_answer_def Let_def)
  ultimately show ?thesis ..
qed

end
