(* ===== verification/Test_Proxy.thy ===== *)
theory Test_Proxy
  imports Egress_Prelude "HOL-Library.Sublist"
begin

text \<open>
  The TCP proxy of \<open>grpc-egress-test-support\<close> that a test can freeze (\<open>FreezableProxy\<close>, \<open>RunningProxy\<close>).
  Each connection has two pumps that run concurrently with each other, with those of other connections and
  with the test that freezes the proxy: a pump reads a chunk, then asks whether the proxy is frozen, then
  writes. What a peer sends and when a socket fails is the environment's choice. Ghost fields keep what
  each pump has read and written.
\<close>

section \<open>State and steps\<close>

datatype direction = ToUpstream | ToClient

datatype pump =
    Reading
  | Got "u8 list"
  | Writing "u8 list"
  | ReadEnded
  | WriteFailed

record tunnel =
  tn_pump :: pump
  tn_read :: "u8 list"
  tn_written :: "u8 list"

record proxy =
  px_frozen :: bool
  px_closed_by_client :: nat
  px_tunnel :: "nat \<times> direction \<Rightarrow> tunnel"

definition buf_len :: nat where
  "buf_len = 8192"

definition fresh_tunnel :: tunnel where
  "fresh_tunnel = \<lparr>tn_pump = Reading, tn_read = [], tn_written = []\<rparr>"

definition fresh_proxy :: proxy where
  "fresh_proxy = \<lparr>px_frozen = False, px_closed_by_client = 0, px_tunnel = (\<lambda>c. fresh_tunnel)\<rparr>"

text \<open>A step of one pump, when the proxy is frozen or not.\<close>

inductive pump_step :: "bool \<Rightarrow> tunnel \<Rightarrow> tunnel \<Rightarrow> bool" where
  read_chunk:
    "tn_pump t = Reading \<Longrightarrow> chunk \<noteq> [] \<Longrightarrow> length chunk \<le> buf_len \<Longrightarrow>
     pump_step frozen t (t\<lparr>tn_pump := Got chunk, tn_read := tn_read t @ chunk\<rparr>)"
| read_end:
    "tn_pump t = Reading \<Longrightarrow> pump_step frozen t (t\<lparr>tn_pump := ReadEnded\<rparr>)"
| pass_on:
    "tn_pump t = Got chunk \<Longrightarrow> pump_step False t (t\<lparr>tn_pump := Writing chunk\<rparr>)"
| throw_away:
    "tn_pump t = Got chunk \<Longrightarrow> pump_step True t (t\<lparr>tn_pump := Reading\<rparr>)"
| write_all:
    "tn_pump t = Writing chunk \<Longrightarrow>
     pump_step frozen t (t\<lparr>tn_pump := Reading, tn_written := tn_written t @ chunk\<rparr>)"
| write_fails:
    "tn_pump t = Writing chunk \<Longrightarrow>
     pump_step frozen t (t\<lparr>tn_pump := WriteFailed, tn_written := tn_written t @ take n chunk\<rparr>)"

text \<open>The end of a read counts when it is the client's.\<close>

definition count_close :: "direction \<Rightarrow> tunnel \<Rightarrow> nat \<Rightarrow> nat" where
  "count_close d t n = (if d = ToUpstream \<and> tn_pump t = ReadEnded then n + 1 else n)"

inductive proxy_step :: "proxy \<Rightarrow> proxy \<Rightarrow> bool" where
  pump:
    "pump_step (px_frozen s) (px_tunnel s (i, d)) t \<Longrightarrow>
     proxy_step s
       (s\<lparr>px_closed_by_client := count_close d t (px_closed_by_client s), px_tunnel := (px_tunnel s)((i, d) := t)\<rparr>)"
| freeze:
    "proxy_step s (s\<lparr>px_frozen := True\<rparr>)"

abbreviation proxy_reaches :: "proxy \<Rightarrow> proxy \<Rightarrow> bool" where
  "proxy_reaches \<equiv> proxy_step\<^sup>*\<^sup>*"

inductive_cases pump_stepE: "pump_step frozen t t'"
inductive_cases proxy_stepE: "proxy_step s s'"

section \<open>Invariants of a pump\<close>

fun in_flight :: "pump \<Rightarrow> u8 list" where
  "in_flight (Got chunk) = chunk"
| "in_flight (Writing chunk) = chunk"
| "in_flight _ = []"

fun being_written :: "pump \<Rightarrow> u8 list" where
  "being_written (Writing chunk) = chunk"
| "being_written _ = []"

text \<open>A pump that has never thrown anything away has written what it read, in order, but for the chunk
  in its hands; a frozen one has left out whole chunks.\<close>

definition pump_inv :: "bool \<Rightarrow> tunnel \<Rightarrow> bool" where
  "pump_inv frozen t \<longleftrightarrow>
     subseq (tn_written t @ in_flight (tn_pump t)) (tn_read t) \<and>
     length (in_flight (tn_pump t)) \<le> buf_len \<and>
     (\<not> frozen \<longrightarrow> prefix (tn_written t @ in_flight (tn_pump t)) (tn_read t) \<and>
       (tn_pump t \<noteq> WriteFailed \<longrightarrow> tn_written t @ in_flight (tn_pump t) = tn_read t))"

lemma subseq_shorter: "prefix a b \<Longrightarrow> subseq b r \<Longrightarrow> subseq a r"
  using prefix_imp_subseq subseq_order.trans by blast

lemma pump_inv_step: "pump_step frozen t t' \<Longrightarrow> pump_inv frozen t \<Longrightarrow> pump_inv frozen t'"
proof (erule pump_stepE)
  fix chunk
  assume "pump_inv frozen t" "t' = t\<lparr>tn_pump := Got chunk, tn_read := tn_read t @ chunk\<rparr>" "tn_pump t = Reading"
    "length chunk \<le> buf_len"
  then show "pump_inv frozen t'"
    by (auto simp: pump_inv_def list_emb_append_mono)
next
  fix chunk
  assume "pump_inv frozen t" "t' = t\<lparr>tn_pump := Reading\<rparr>" "tn_pump t = Got chunk" frozen
  then show "pump_inv frozen t'"
    using subseq_shorter [of "tn_written t" "tn_written t @ chunk"] by (auto simp: pump_inv_def)
next
  fix chunk n
  assume inv: "pump_inv frozen t" and t': "t' = t\<lparr>tn_pump := WriteFailed, tn_written := tn_written t @ take n chunk\<rparr>"
    and pump: "tn_pump t = Writing chunk"
  have shorter: "prefix (tn_written t @ take n chunk) (tn_written t @ chunk)"
    by (simp add: take_is_prefix)
  show "pump_inv frozen t'"
    using inv pump t' subseq_shorter [OF shorter] prefix_order.trans [OF shorter] by (auto simp: pump_inv_def)
qed (auto simp: pump_inv_def)

lemma pump_inv_freeze: "pump_inv frozen t \<Longrightarrow> pump_inv True t"
  by (simp add: pump_inv_def)

text \<open>Once frozen, a pump finishes at most the chunk it was writing.\<close>

lemma pump_step_frozen:
  "pump_step True t t' \<Longrightarrow>
     \<exists>x. tn_written t' = tn_written t @ x \<and> prefix (x @ being_written (tn_pump t')) (being_written (tn_pump t))"
  by (erule pump_stepE) (auto simp: take_is_prefix)

definition proxy_inv :: "proxy \<Rightarrow> bool" where
  "proxy_inv s \<longleftrightarrow>
     (\<forall>c. pump_inv (px_frozen s) (px_tunnel s c)) \<and>
     finite {i. tn_pump (px_tunnel s (i, ToUpstream)) = ReadEnded} \<and>
     px_closed_by_client s = card {i. tn_pump (px_tunnel s (i, ToUpstream)) = ReadEnded}"

lemma proxy_inv_step: "proxy_step s s' \<Longrightarrow> proxy_inv s \<Longrightarrow> proxy_inv s'"
proof (erule proxy_stepE)
  assume "proxy_inv s" "s' = s\<lparr>px_frozen := True\<rparr>"
  then show "proxy_inv s'"
    by (auto simp: proxy_inv_def intro: pump_inv_freeze)
next
  fix i d t
  assume inv: "proxy_inv s" and step: "pump_step (px_frozen s) (px_tunnel s (i, d)) t"
    and s': "s' = s\<lparr>px_closed_by_client := count_close d t (px_closed_by_client s), px_tunnel := (px_tunnel s)((i, d) := t)\<rparr>"
  let ?A = "{i. tn_pump (px_tunnel s (i, ToUpstream)) = ReadEnded}"
  let ?B = "{i. tn_pump (px_tunnel s' (i, ToUpstream)) = ReadEnded}"
  have open_before: "tn_pump (px_tunnel s (i, d)) \<noteq> ReadEnded"
    using step by (auto elim: pump_stepE)
  have B: "?B = (if d = ToUpstream \<and> tn_pump t = ReadEnded then insert i ?A else ?A)"
    using open_before by (cases d) (auto simp: s')
  have "i \<notin> ?A" if "d = ToUpstream"
    using open_before that by simp
  then have "finite ?B \<and> px_closed_by_client s' = card ?B"
    unfolding B using inv by (auto simp: proxy_inv_def s' count_close_def)
  moreover have "\<forall>c. pump_inv (px_frozen s') (px_tunnel s' c)"
    using inv pump_inv_step [OF step] by (auto simp: proxy_inv_def s')
  ultimately show "proxy_inv s'"
    by (simp add: proxy_inv_def)
qed

lemma proxy_inv_reaches: "proxy_reaches s s' \<Longrightarrow> proxy_inv s \<Longrightarrow> proxy_inv s'"
  by (induction rule: rtranclp_induct) (blast intro: proxy_inv_step)+

lemma proxy_inv_fresh: "proxy_inv fresh_proxy"
  by (simp add: proxy_inv_def fresh_proxy_def fresh_tunnel_def pump_inv_def)

lemma frozen_reaches:
  assumes "proxy_reaches s s'" "px_frozen s"
  shows "px_frozen s' \<and>
    (\<exists>x. tn_written (px_tunnel s' c) = tn_written (px_tunnel s c) @ x \<and>
       prefix (x @ being_written (tn_pump (px_tunnel s' c))) (being_written (tn_pump (px_tunnel s c))))"
  using assms
proof (induction rule: rtranclp_induct)
  case base
  then show ?case by simp
next
  case (step t u)
  then obtain x where t: "px_frozen t" "tn_written (px_tunnel t c) = tn_written (px_tunnel s c) @ x"
      "prefix (x @ being_written (tn_pump (px_tunnel t c))) (being_written (tn_pump (px_tunnel s c)))"
    by blast
  obtain y where y: "tn_written (px_tunnel u c) = tn_written (px_tunnel t c) @ y"
      "prefix (y @ being_written (tn_pump (px_tunnel u c))) (being_written (tn_pump (px_tunnel t c)))"
    using step.hyps(2)
  proof (rule proxy_stepE)
    assume "u = t\<lparr>px_frozen := True\<rparr>"
    then show thesis using that [of "[]"] by simp
  next
    fix i d v
    assume u: "u = t\<lparr>px_closed_by_client := count_close d v (px_closed_by_client t), px_tunnel := (px_tunnel t)((i, d) := v)\<rparr>"
      and v: "pump_step (px_frozen t) (px_tunnel t (i, d)) v"
    show thesis
    proof (cases "c = (i, d)")
      case True
      then show ?thesis
        using pump_step_frozen [of "px_tunnel t c" v] v that t(1) u by auto
    next
      case False
      then show ?thesis using that [of "[]"] u by simp
    qed
  qed
  have "prefix (x @ y @ being_written (tn_pump (px_tunnel u c))) (being_written (tn_pump (px_tunnel s c)))"
    by (rule prefix_order.trans [OF _ t(3)]) (simp add: y(2))
  moreover have "px_frozen u"
    using step.hyps(2) t(1) by (auto elim: proxy_stepE)
  ultimately show ?case
    using t(2) y(1) by auto
qed

section \<open>What freezing does\<close>

text \<open>C33 (proxy_forwards_until_frozen). In every state the proxy can reach, each direction of each
  connection has written what it read, in order and complete but for the chunk in hand, as long as the
  proxy is not frozen; from then on it writes no more than the rest of one chunk, of at most 8192
  bytes, and nothing when it was not writing; and the count of closed connections is exact.\<close>

theorem proxy_forwards_until_frozen:
  assumes "proxy_reaches fresh_proxy s"
  shows "(\<not> px_frozen s \<longrightarrow> prefix (tn_written (px_tunnel s c) @ in_flight (tn_pump (px_tunnel s c))) (tn_read (px_tunnel s c))) \<and>
    (\<not> px_frozen s \<longrightarrow> tn_pump (px_tunnel s c) \<noteq> WriteFailed \<longrightarrow>
       tn_written (px_tunnel s c) @ in_flight (tn_pump (px_tunnel s c)) = tn_read (px_tunnel s c)) \<and>
    subseq (tn_written (px_tunnel s c)) (tn_read (px_tunnel s c)) \<and>
    (px_frozen s \<longrightarrow> proxy_reaches s s' \<longrightarrow>
       (\<exists>x. tn_written (px_tunnel s' c) = tn_written (px_tunnel s c) @ x \<and>
          prefix x (being_written (tn_pump (px_tunnel s c))) \<and> length x \<le> buf_len)) \<and>
    px_closed_by_client s = card {i. tn_pump (px_tunnel s (i, ToUpstream)) = ReadEnded}"
proof -
  have inv: "proxy_inv s"
    by (rule proxy_inv_reaches [OF assms proxy_inv_fresh])
  let ?t = "px_tunnel s c"
  have t: "pump_inv (px_frozen s) ?t"
    using inv unfolding proxy_inv_def by blast
  have "subseq (tn_written ?t) (tn_read ?t)"
    using t subseq_shorter [of "tn_written ?t" "tn_written ?t @ in_flight (tn_pump ?t)"] by (simp add: pump_inv_def)
  moreover have "length (being_written (tn_pump ?t)) \<le> buf_len"
    using t by (cases "tn_pump ?t") (simp_all add: pump_inv_def)
  moreover have "\<exists>x. tn_written (px_tunnel s' c) = tn_written ?t @ x \<and> prefix x (being_written (tn_pump ?t))"
    if "px_frozen s" "proxy_reaches s s'"
    using frozen_reaches [OF that(2,1), of c] append_prefixD by blast
  ultimately show ?thesis
    using inv t prefix_length_le le_trans by (fastforce simp: proxy_inv_def pump_inv_def)
qed

text \<open>A chunk read before the freeze and written after it.\<close>

definition busy_tunnel :: "pump \<Rightarrow> u8 list \<Rightarrow> tunnel" where
  "busy_tunnel p written = \<lparr>tn_pump = p, tn_read = [7], tn_written = written\<rparr>"

definition busy_proxy :: "bool \<Rightarrow> pump \<Rightarrow> u8 list \<Rightarrow> proxy" where
  "busy_proxy frozen p written =
     \<lparr>px_frozen = frozen, px_closed_by_client = 0,
      px_tunnel = (\<lambda>c. fresh_tunnel)((0, ToUpstream) := busy_tunnel p written)\<rparr>"

lemma busy_steps:
  "proxy_step fresh_proxy (busy_proxy False (Got [7]) [])"
  "proxy_step (busy_proxy False (Got [7]) []) (busy_proxy False (Writing [7]) [])"
  "proxy_step (busy_proxy False (Writing [7]) []) (busy_proxy True (Writing [7]) [])"
  "proxy_step (busy_proxy True (Writing [7]) []) (busy_proxy True Reading [7])"
proof -
  have "pump_step False fresh_tunnel (busy_tunnel (Got [7]) [])"
    using read_chunk [of fresh_tunnel "[7]" False] by (simp add: fresh_tunnel_def busy_tunnel_def buf_len_def)
  then show "proxy_step fresh_proxy (busy_proxy False (Got [7]) [])"
    using proxy_step.pump [of fresh_proxy 0 ToUpstream "busy_tunnel (Got [7]) []"]
    by (simp add: fresh_proxy_def busy_proxy_def count_close_def busy_tunnel_def)
  have "pump_step False (busy_tunnel (Got [7]) []) (busy_tunnel (Writing [7]) [])"
    using pass_on [of "busy_tunnel (Got [7]) []" "[7]"] by (simp add: busy_tunnel_def)
  then show "proxy_step (busy_proxy False (Got [7]) []) (busy_proxy False (Writing [7]) [])"
    using proxy_step.pump [of "busy_proxy False (Got [7]) []" 0 ToUpstream "busy_tunnel (Writing [7]) []"]
    by (simp add: busy_proxy_def count_close_def busy_tunnel_def)
  show "proxy_step (busy_proxy False (Writing [7]) []) (busy_proxy True (Writing [7]) [])"
    using proxy_step.freeze [of "busy_proxy False (Writing [7]) []"] by (simp add: busy_proxy_def)
  have "pump_step True (busy_tunnel (Writing [7]) []) (busy_tunnel Reading [7])"
    using write_all [of "busy_tunnel (Writing [7]) []" "[7]" True] by (simp add: busy_tunnel_def)
  then show "proxy_step (busy_proxy True (Writing [7]) []) (busy_proxy True Reading [7])"
    using proxy_step.pump [of "busy_proxy True (Writing [7]) []" 0 ToUpstream "busy_tunnel Reading [7]"]
    by (simp add: busy_proxy_def count_close_def busy_tunnel_def)
qed

theorem proxy_forwards_until_frozen_witness:
  "\<exists>x. tn_written (px_tunnel (busy_proxy True Reading [7]) (0, ToUpstream)) =
      tn_written (px_tunnel (busy_proxy True (Writing [7]) []) (0, ToUpstream)) @ x \<and> x = [7] \<and> length x \<le> buf_len"
proof -
  have "proxy_reaches fresh_proxy (busy_proxy True (Writing [7]) [])"
    by (rule converse_rtranclp_into_rtranclp [where r = proxy_step, OF busy_steps(1)])
      (rule converse_rtranclp_into_rtranclp [where r = proxy_step, OF busy_steps(2)],
       rule r_into_rtranclp [where r = proxy_step, OF busy_steps(3)])
  from proxy_forwards_until_frozen [OF this, of "(0, ToUpstream)" "busy_proxy True Reading [7]"]
  show ?thesis
    using r_into_rtranclp [where r = proxy_step, OF busy_steps(4)] by (auto simp: busy_proxy_def busy_tunnel_def)
qed

end
