(* ===== verification/Outage.thy ===== *)
theory Outage
  imports Resilience
begin

text \<open>
  A peer that is down, behind the retry loop and the circuit breaker: how many attempts reach it before the
  circuit opens, and that none does while the circuit cools. \<open>hits\<close> counts what reached the peer; the clock, the
  timer, the jitter and the breaker's machine do not touch it.
\<close>

section \<open>A counter beside the world\<close>

text \<open>What the runtime and the breaker's machine work on is the rest of the world.\<close>

definition beside_calls :: "('t, 'a) io \<Rightarrow> ('n \<times> 't, 'a) io" where
  "beside_calls f w = (case f (snd w) of (r, t) \<Rightarrow> (r, (fst w, t)))"

definition counted_runtime :: "('t, 'g, 'u) retry_runtime \<Rightarrow> ('n \<times> 't, 'g, 'u) retry_runtime" where
  "counted_runtime rt =
     \<lparr>rt_now = beside_calls (rt_now rt), rt_sleep = (\<lambda>d w. (fst w, rt_sleep rt d (snd w))),
      rt_jitter_from_clock = beside_calls (rt_jitter_from_clock rt), rt_next_unit = rt_next_unit rt,
      rt_next_backoff = rt_next_backoff rt, rt_rate_limit_backoff = rt_rate_limit_backoff rt\<rparr>"

definition counted_transition :: "('t, 'x, 'e) breaker_transition \<Rightarrow> ('n \<times> 't, 'x, 'e) breaker_transition" where
  "counted_transition bt =
     \<lparr>bt_admit = (\<lambda>q. beside_calls (bt_admit bt q)), bt_record = (\<lambda>q. beside_calls (bt_record bt q)),
      bt_error_text = bt_error_text bt\<rparr>"

lemma counted_simps [simp]:
  "rt_now (counted_runtime rt) (n, t) = (case rt_now rt t of (r, t') \<Rightarrow> (r, (n, t')))"
  "rt_sleep (counted_runtime rt) d (n, t) = (n, rt_sleep rt d t)"
  "rt_jitter_from_clock (counted_runtime rt) (n, t) = (case rt_jitter_from_clock rt t of (r, t') \<Rightarrow> (r, (n, t')))"
  "rt_next_unit (counted_runtime rt) = rt_next_unit rt"
  "rt_next_backoff (counted_runtime rt) = rt_next_backoff rt"
  by (simp_all add: counted_runtime_def beside_calls_def)

section \<open>What the layers leave alone\<close>

definition runtime_beside :: "('w, 'g, 'u) retry_runtime \<Rightarrow> ('w \<Rightarrow> 'n) \<Rightarrow> bool" where
  "runtime_beside rt hits \<longleftrightarrow>
     (\<forall>w. hits (snd (rt_now rt w)) = hits w) \<and> (\<forall>w. hits (snd (rt_jitter_from_clock rt w)) = hits w) \<and>
     (\<forall>d w. hits (rt_sleep rt d w) = hits w)"

definition transition_beside :: "('w, 'x, 'e) breaker_transition \<Rightarrow> ('w \<Rightarrow> 'n) \<Rightarrow> bool" where
  "transition_beside bt hits \<longleftrightarrow>
     (\<forall>q w. hits (snd (bt_admit bt q w)) = hits w) \<and> (\<forall>q w. hits (snd (bt_record bt q w)) = hits w)"

text \<open>A call that always reaches the peer and always fails in a way that is retried and counted, for the messages
  that the client may send.\<close>

definition fails_down ::
  "('i \<Rightarrow> bool) \<Rightarrow> (('i, 'md) call_request \<Rightarrow> ('w, 'md call_error + 'r) io) \<Rightarrow> ('w \<Rightarrow> nat) \<Rightarrow> bool" where
  "fails_down sendable send hits \<longleftrightarrow>
     (\<forall>request w. sendable (req_body request) \<longrightarrow> (\<exists>message details trailers w'.
        send request w = (Inl (Status (req_path request) Unavailable message details trailers), w') \<and>
        hits w' = Suc (hits w)))"

lemma fails_down_call:
  assumes "fails_down sendable send hits" "sendable (req_body request)"
  obtains message details trailers w' where
    "send request w = (Inl (Status (req_path request) Unavailable message details trailers), w')" "hits w' = Suc (hits w)"
  using assms unfolding fails_down_def by blast

text \<open>Time, when the call has a budget: the clock only moves in calls and sleeps, and \<open>slack\<close> bounds what one
  attempt and the pause after it take.\<close>

definition affords ::
  "('w, 'g, 'u) retry_runtime \<Rightarrow> grpc_retry_config \<Rightarrow> (('i, 'md) call_request \<Rightarrow> ('w, 'md call_error + 'r) io) \<Rightarrow>
     ('w \<Rightarrow> nat) \<Rightarrow> duration \<Rightarrow> duration \<Rightarrow> bool" where
  "affords rt cfg send clock slack budget \<longleftrightarrow>
     (\<exists>answer longest late. answer + longest + late \<le> slack \<and>
        (\<forall>w. rt_now rt w = (clock w, w)) \<and> (\<forall>w. clock (snd (rt_jitter_from_clock rt w)) = clock w) \<and>
        (\<forall>request w. clock w \<le> clock (snd (send request w)) \<and> clock (snd (send request w)) \<le> clock w + answer) \<and>
        (\<forall>d w. clock w \<le> clock (rt_sleep rt d w) \<and> clock (rt_sleep rt d w) \<le> clock w + d + late) \<and>
        (\<forall>n u. rt_next_backoff rt (as_backoff_policy cfg) n u \<le> longest)) \<and>
     budget \<le> duration_max \<and> unat (max_attempts cfg) * slack < budget"

definition in_budget ::
  "('w, 'g, 'u) retry_runtime \<Rightarrow> grpc_retry_config \<Rightarrow> (('i, 'md) call_request \<Rightarrow> ('w, 'md call_error + 'r) io) \<Rightarrow>
     ('w \<Rightarrow> nat) \<Rightarrow> duration \<Rightarrow> duration option \<Rightarrow> bool" where
  "in_budget rt cfg send clock slack budget \<longleftrightarrow>
     (case budget of None \<Rightarrow> True | Some b \<Rightarrow> affords rt cfg send clock slack b)"

section \<open>One call, retried\<close>

text \<open>The position of the loop before attempt \<open>k\<close>: late by at most \<open>k\<close> times the slack.\<close>

definition on_time :: "('w \<Rightarrow> nat) \<Rightarrow> duration \<Rightarrow> nat \<Rightarrow> duration option \<Rightarrow> nat \<Rightarrow> 'w \<Rightarrow> bool" where
  "on_time clock slack started budget k w \<longleftrightarrow> (budget = None \<or> clock w \<le> started + k * slack)"

lemma remaining_on_time:
  assumes "in_budget rt cfg send clock slack budget" "on_time clock slack started budget k w"
    and "k < unat (max_attempts cfg)"
  obtains timeout where "remaining rt started budget w = (Some timeout, w)"
proof (cases budget)
  case None
  then show ?thesis
    by (intro that) (simp add: remaining_def)
next
  case (Some b)
  then have now: "rt_now rt w = (clock w, w)" and "unat (max_attempts cfg) * slack < b"
    using assms(1) by (auto simp: in_budget_def affords_def)
  moreover have "k * slack \<le> unat (max_attempts cfg) * slack"
    by (rule mult_le_mono1) (use assms(3) in simp)
  moreover have "clock w \<le> started + k * slack"
    using assms(2) Some by (simp add: on_time_def)
  ultimately have "clock w - started < b"
    by linarith
  with now Some show ?thesis
    by (intro that [of "Some (b - (clock w - started))"]) (simp add: remaining_def elapsed_def duration_checked_sub_def)
qed

lemma pause_on_time:
  assumes "in_budget rt cfg send clock slack budget" "on_time clock slack started budget k w"
    and "Suc k < unat (max_attempts cfg)" and "snd (send request w) = w1"
    and "d = rt_next_backoff rt (as_backoff_policy cfg) n u"
  shows "budget_allows_sleep rt started budget d w1 = (True, w1)"
    and "on_time clock slack started budget (Suc k) (rt_sleep rt d w1)"
proof -
  have "budget_allows_sleep rt started budget d w1 = (True, w1) \<and>
      on_time clock slack started budget (Suc k) (rt_sleep rt d w1)"
  proof (cases budget)
    case None
    then show ?thesis
      by (simp add: budget_allows_sleep_def on_time_def)
  next
    case (Some b)
    then obtain answer longest late where small: "answer + longest + late \<le> slack"
      and now: "\<And>w. rt_now rt w = (clock w, w)"
      and call: "clock w \<le> clock w1" "clock w1 \<le> clock w + answer"
      and sleep: "clock (rt_sleep rt d w1) \<le> clock w1 + d + late"
      and d: "d \<le> longest"
      and b: "b \<le> duration_max" "unat (max_attempts cfg) * slack < b"
      using assms(1,4,5) by (auto simp: in_budget_def affords_def)
    have "Suc k * slack \<le> unat (max_attempts cfg) * slack"
      using assms(3) by (intro mult_le_mono1) simp
    moreover have at: "clock w \<le> started + k * slack"
      using assms(2) Some by (simp add: on_time_def)
    ultimately have "clock w1 - started + d < b"
      using small call d b by simp
    moreover have "clock (rt_sleep rt d w1) \<le> started + Suc k * slack"
      using at small call sleep d by simp
    ultimately show ?thesis
      using Some now b by (simp add: budget_allows_sleep_def elapsed_def duration_checked_add_def on_time_def)
  qed
  then show "budget_allows_sleep rt started budget d w1 = (True, w1)"
    and "on_time clock slack started budget (Suc k) (rt_sleep rt d w1)"
    by blast+
qed

text \<open>An attempt with others to come: the error is kept, the pause taken, the loop goes on in time.\<close>

lemma down_attempt:
  fixes inner :: "('w, u8 list, 'q, u8 list, 's, 'md, 'h) transport" and st :: "('md, 'g) retry_state"
  assumes down: "fails_down sendable (call_unary inner) hits" "sendable body" and beside: "runtime_beside rt hits"
    and budget: "in_budget rt cfg (call_unary inner) clock slack budget"
    and more: "Suc (unat (standard_attempt st)) < unat (max_attempts cfg)"
    and time: "on_time clock slack started budget (unat (standard_attempt st)) w"
  obtains st' w' where "run_attempts (Suc n) rt (std_retry_classifier view) cfg path started budget
        (raw_attempt inner path md body) st c w =
      run_attempts n rt (std_retry_classifier view) cfg path started budget (raw_attempt inner path md body) st' () w'"
    and "unat (standard_attempt st') = Suc (unat (standard_attempt st))" and "hits w' = Suc (hits w)"
    and "on_time clock slack started budget (unat (standard_attempt st')) w'"
proof -
  obtain timeout where rem: "remaining rt started budget w = (Some timeout, w)"
    by (rule remaining_on_time [OF budget time]) (use more in simp)
  let ?request = "make_request path body (create_options timeout md)"
  obtain message details trailers w1 where
    call: "call_unary inner ?request w = (Inl (Status path Unavailable message details trailers), w1)"
    and hit: "hits w1 = Suc (hits w)"
    by (rule fails_down_call [OF down(1), of ?request w]) (use down(2) in simp_all)
  let ?e = "Status path Unavailable message details trailers"
  have once: "raw_attempt inner path md body timeout c w = (Inl ?e, (), w1)"
    using call by (simp add: raw_attempt_def)
  have count: "unat (standard_attempt st + 1) = Suc (unat (standard_attempt st))"
    by (rule unat_Suc_below [where y = "max_attempts cfg"]) (use more in \<open>simp add: word_less_nat_alt\<close>)
  obtain u g where u: "rt_next_unit rt (rng st) = (u, g)" by fastforce
  define d where "d = rt_next_backoff rt (as_backoff_policy cfg) (standard_attempt st) u"
  define st' where "st' = st\<lparr>last_error := Some ?e, rng := g, standard_attempt := standard_attempt st + 1\<rparr>"
  have paused: "budget_allows_sleep rt started budget d w1 = (True, w1)"
      "on_time clock slack started budget (Suc (unat (standard_attempt st))) (rt_sleep rt d w1)"
    by (rule pause_on_time [OF budget time more, of ?request w1 d]; simp add: call d_def)+
  have "standard_track rt cfg started budget (Inl ?e :: 'md call_error + (u8 list, 'h) call_response) st w1 =
      (True, st', rt_sleep rt d w1)"
    using more u paused(1) by (simp add: standard_track_def result_err_def Let_def st'_def d_def count word_le_nat_alt)
  moreover have "hits (rt_sleep rt d w1) = Suc (hits w)"
    using beside hit by (simp add: runtime_beside_def)
  ultimately show thesis
    by (intro that [of st' "rt_sleep rt d w1"]) (use rem once paused(2) in \<open>simp_all add: st'_def count\<close>)
qed

lemma down_attempts:
  fixes inner :: "('w, u8 list, 'q, u8 list, 's, 'md, 'h) transport" and st :: "('md, 'g) retry_state"
  assumes down: "fails_down sendable (call_unary inner) hits" "sendable body" and beside: "runtime_beside rt hits"
    and budget: "in_budget rt cfg (call_unary inner) clock slack budget"
    and "Suc n + unat (standard_attempt st) = unat (max_attempts cfg)"
    and "on_time clock slack started budget (unat (standard_attempt st)) w"
  shows "\<exists>message details trailers w'.
    run_attempts (Suc n) rt (std_retry_classifier view) cfg path started budget (raw_attempt inner path md body) st c w =
      (Inl (Status path Unavailable message details trailers), (), w') \<and> hits w' = hits w + Suc n"
  using assms(5,6)
proof (induction n arbitrary: st c w)
  case 0
  obtain timeout where rem: "remaining rt started budget w = (Some timeout, w)"
    by (rule remaining_on_time [OF budget "0.prems"(2)]) (use "0.prems" in simp)
  obtain message details trailers w1 where call: "call_unary inner (make_request path body (create_options timeout md)) w =
      (Inl (Status path Unavailable message details trailers), w1)" and hit: "hits w1 = Suc (hits w)"
    by (rule fails_down_call [OF down(1), of "make_request path body (create_options timeout md)" w]) (use down(2) in simp_all)
  have "unat (standard_attempt st + 1) = Suc (unat (standard_attempt st))"
    by (rule unat_Suc_below [where y = "max_attempts cfg"]) (use "0.prems" in \<open>simp add: word_less_nat_alt\<close>)
  then have "max_attempts cfg \<le> standard_attempt st + 1"
    using "0.prems" by (simp add: word_le_nat_alt)
  then show ?case
    using rem call hit by (simp add: raw_attempt_def standard_track_def result_err_def unwrap_or_def Let_def)
next
  case (Suc n)
  have more: "Suc (unat (standard_attempt st)) < unat (max_attempts cfg)"
    using Suc.prems(1) by simp
  obtain st' w' where step: "run_attempts (Suc (Suc n)) rt (std_retry_classifier view) cfg path started budget
        (raw_attempt inner path md body) st c w =
      run_attempts (Suc n) rt (std_retry_classifier view) cfg path started budget (raw_attempt inner path md body) st' () w'"
      "unat (standard_attempt st') = Suc (unat (standard_attempt st))" "hits w' = Suc (hits w)"
      "on_time clock slack started budget (unat (standard_attempt st')) w'"
    by (rule down_attempt [OF down beside budget more Suc.prems(2)])
  then show ?case
    unfolding step(1) using Suc.IH [of st' w' "()"] Suc.prems(1) by simp
qed

lemma down_call:
  assumes "fails_down sendable (call_unary (raw inner)) hits" "runtime_beside rt hits" "valid_retry_config cfg"
    and "sendable (req_body request)"
    and "in_budget rt cfg (call_unary (raw inner)) clock slack (opt_timeout (req_options request))"
  shows "\<exists>message details trailers w'. call_unary (raw (std_retry_client rt view pl cfg inner)) request w =
      (Inl (Status (req_path request) Unavailable message details trailers), w') \<and>
    hits w' = hits w + unat (max_attempts cfg)"
proof -
  let ?budget = "opt_timeout (req_options request)"
  obtain started w1 where now: "rt_now rt w = (started, w1)" by fastforce
  obtain g w2 where jitter: "rt_jitter_from_clock rt w1 = (g, w2)" by fastforce
  have "?budget = None \<or> (w1 = w \<and> started = clock w)"
    using assms(5) now by (auto simp: in_budget_def affords_def split: option.splits)
  moreover have "?budget = None \<or> clock w2 = clock w1"
    using assms(5) jitter by (auto simp: in_budget_def affords_def split: option.splits) (metis snd_conv)
  ultimately have "on_time clock slack started ?budget 0 w2"
    by (auto simp: on_time_def)
  moreover have "hits w2 = hits w"
    using assms(2) now jitter unfolding runtime_beside_def by (metis snd_conv)
  moreover obtain n where "unat (max_attempts cfg) = Suc n"
    using assms(3) by (cases "unat (max_attempts cfg)") (simp_all add: valid_retry_config_iff unat_eq_zero)
  ultimately obtain message details trailers w' where
    "run_attempts (unat (max_attempts cfg)) rt (std_retry_classifier view) cfg (req_path request) started ?budget
       (raw_attempt (raw inner) (req_path request) (opt_metadata (req_options request)) (req_body request))
       (initial_retry_state g) () w2 = (Inl (Status (req_path request) Unavailable message details trailers), (), w')"
    "hits w' = hits w + unat (max_attempts cfg)"
    using down_attempts [OF assms(1,4,2,5), where n = n and st = "initial_retry_state g" and w = w2
        and started = started and c = "()" and view = view and path = "req_path request"
        and md = "opt_metadata (req_options request)"]
    by (auto simp: initial_retry_state_def simp del: run_attempts.simps)
  with now jitter show ?thesis
    by (simp add: std_retry_client_def retry_raw_def retry_call_raw_def run_with_retry_def Let_def)
qed

section \<open>A row of calls\<close>

lemma guard_admitted_hits:
  assumes "enabled cfg" "transition_beside bt hits" "admits bt cfg node w Proceed node1"
    and "\<And>v. hits (snd (call v)) = hits v + n"
  shows "hits (snd (snd (guard bt cfg path call (node, w)))) = hits w + n"
proof -
  obtain a w1 where a: "bt_admit bt (admit_input cfg node) w = (Inr a, w1)" "ad_admission a = Proceed"
    using assms(3) by (auto simp: admits_def)
  obtain r w2 where r: "call w1 = (r, w2)" by fastforce
  have "hits w1 = hits w"
    using assms(2) a(1) unfolding transition_beside_def by (metis snd_conv)
  moreover have "hits w2 = hits w1 + n"
    using assms(4) [of w1] r by simp
  moreover have "hits (snd (record_outcome bt cfg q (nd, w2))) = hits w2" for q nd
  proof -
    obtain m w3 where m: "bt_record bt (record_input cfg q nd) w2 = (m, w3)" by fastforce
    then have "hits w3 = hits w2"
      using assms(2) unfolding transition_beside_def by (metis snd_conv)
    with m show ?thesis
      by (cases m) (simp_all add: record_outcome_def)
  qed
  ultimately show ?thesis
    using assms(1) a r by (simp add: guard_enabled)
qed

lemma guard_refused_hits:
  assumes "enabled cfg" "transition_beside bt hits" "documented_breaker bt cfg cooling"
    and "bn_state node = Open x" "cooling x w"
  shows "\<exists>w'. guard bt cfg path call (node, w) = (Inl (circuit_open path), (node, w')) \<and> hits w' = hits w"
proof -
  obtain a w1 where a: "bt_admit bt (admit_input cfg node) w = (Inr a, w1)" "ad_admission a = RejectOpen"
      "write_admitted a node = node"
    using documented_rejects [OF assms(3-5)] by (auto simp: admits_def)
  moreover have "hits w1 = hits w"
    using assms(2) a(1) unfolding transition_beside_def by (metis snd_conv)
  ultimately show ?thesis
    using assms(1) by (simp add: guard_enabled)
qed

lemma guarded_calls_hits:
  assumes "enabled cfg" "documented_breaker bt cfg cooling" "valid_breaker_config cfg" "transition_beside bt hits"
    and call: "\<And>v. is_breaker_failure (fst (call v))" "\<And>v. hits (snd (call v)) = hits v + n"
    and "wf_node cfg node" "abs_node node = SClosed k" "k + m \<le> unat (failure_threshold cfg)"
  shows "hits (snd (guarded_calls bt cfg path call m (node, w))) = hits w + m * n"
  using assms(7-9)
proof (induction m arbitrary: node w k)
  case (Suc m)
  obtain w1 r w2 node' w' where step: "call w1 = (r, w2)" "guard bt cfg path call (node, w) = (r, (node', w'))"
      "stepped cfg (abs_node node) (classify_result r) node'"
    by (rule guard_step [OF assms(1-3) Suc.prems(1) closed_not_cooling [OF Suc.prems(2)]])
  have "bn_state node = Closed"
    using Suc.prems(2) by (simp add: abs_node_def split: breaker_state.splits)
  then have hit: "hits w' = hits w + n"
    using guard_admitted_hits [OF assms(1,4) documented_admits_closed [OF assms(2)] call(2), of node path w] step(2) by simp
  have "classify_result r = Failure"
    using call(1) [of w1] step(1) by (simp add: classify_result_def)
  then have after: "abs_node node' = (if unat (failure_threshold cfg) \<le> Suc k then SOpen else SClosed (Suc k))"
      "wf_node cfg node'"
    using step(3) Suc.prems(2) by (simp_all add: stepped_def)
  show ?case
  proof (cases "unat (failure_threshold cfg) \<le> Suc k")
    case True
    then have "m = 0"
      using Suc.prems(3) by simp
    then show ?thesis
      using step(2) hit by simp
  next
    case False
    then show ?thesis
      using Suc.IH [of node' "Suc k" w'] Suc.prems(3) after step(2) hit by simp
  qed
qed simp

text \<open>The same call, made again and again.\<close>

definition calls_in_a_row :: "('w, 'r) io \<Rightarrow> nat \<Rightarrow> 'w \<Rightarrow> 'w" where
  "calls_in_a_row f n = (\<lambda>w. snd (f w)) ^^ n"

lemma guarded_calls_in_a_row: "guarded_calls bt cfg path call n nw = calls_in_a_row (guard bt cfg path call) n nw"
  by (induction n arbitrary: nw)
    (simp_all add: calls_in_a_row_def funpow_swap1 [of "\<lambda>nw. snd (guard bt cfg path call nw)"])

lemma breaker_client_calls:
  "call_unary (raw (breaker_client bt b inner)) request = guard bt b (req_path request) (call_unary (raw inner) request)"
  by (simp add: breaker_client_def breaker_raw_def raw_guarded_is_guard)

text \<open>A guarded call that keeps failing: what \<open>n\<close> calls of a new breaker cost, and what the circuit does next.\<close>

lemma guarded_outage:
  fixes bt :: "('w, 'x, 'e) breaker_transition" and hits :: "'w \<Rightarrow> nat"
    and call :: "('w, 'md call_error + 'r) io"
  assumes breaker: "enabled b" "documented_breaker bt b cooling" "valid_breaker_config b" "transition_beside bt hits"
    and call: "\<And>v. is_breaker_failure (fst (call v))" "\<And>v. hits (snd (call v)) = hits v + cost"
    and row: "calls_in_a_row (guard bt b path call) n (initial_node, w) = (node', w')" "n \<le> unat (failure_threshold b)"
  shows "hits w' = hits w + n * cost \<and>
    abs_node node' = (if n < unat (failure_threshold b) then SClosed n else SOpen) \<and>
    (\<forall>x v. bn_state node' = Open x \<and> cooling x v \<longrightarrow>
       (\<exists>v'. guard bt b path call (node', v) = (Inl (circuit_open path), (node', v')) \<and> hits v' = hits v))"
proof -
  have first: "wf_node b (initial_node :: 'x breaker_node)" "abs_node (initial_node :: 'x breaker_node) = SClosed 0"
      "0 < unat (failure_threshold b)"
    using breaker(3) by (simp_all add: wf_node_def initial_node_def abs_node_def valid_breaker_config_iff word_gt_0 unat_gt_0)
  have run: "guarded_calls bt b path call n (initial_node, w) = (node', w')"
    using row(1) by (simp add: guarded_calls_in_a_row)
  have "hits w' = hits w + n * cost"
    using guarded_calls_hits [where hits = hits and call = call and path = path and m = n and w = w,
        OF breaker call first(1,2)] row(2) run by simp
  moreover have "abs_node node' = (if n < unat (failure_threshold b) then SClosed n else SOpen)"
    using failing_calls_count [where call = call and path = path and n = n and w = w,
        OF breaker(1-3) call(1) first(1,2) _ first(3)] row(2) run by simp
  moreover have "\<exists>v'. guard bt b path call (node', v) = (Inl (circuit_open path), (node', v')) \<and> hits v' = hits v"
    if "bn_state node' = Open x" "cooling x v" for x v
    by (rule guard_refused_hits [OF breaker(1,4,2) that])
  ultimately show ?thesis by blast
qed

text \<open>C19 (outage_contained). A resilient client in front of a peer that is down: each of the first
  \<open>failure_threshold\<close> calls reaches the peer \<open>max_attempts\<close> times and fails as the last attempt did; then the
  circuit is open, and as long as it cools no call reaches the peer, whenever it is made: the caller is told
  \<open>Unavailable\<close> at once. The outage costs the peer the product of the two numbers. The calls may carry a budget,
  as long as it pays for the attempts.\<close>

theorem outage_contained:
  fixes bt :: "('w, 'x, 'e) breaker_transition" and hits :: "'w \<Rightarrow> nat"
    and inner :: "('w, 'i, 'q, 'o, 's, 'bq, 'bs, 'md, 'h) client"
  assumes "build_resilient rt view pl bt shown jt (from_policies r b) inner = Inr (client, node)"
    and "valid_retry_config r" and "valid_breaker_config b" and "enabled b"
    and "documented_breaker bt b cooling" and "transition_beside bt hits" and "runtime_beside rt hits"
    and "fails_down sendable (call_unary (raw inner)) hits" and "sendable (req_body request)"
    and "in_budget rt r (call_unary (raw inner)) clock slack (opt_timeout (req_options request))"
    and "calls_in_a_row (call_unary (raw client) request) n (node, w) = (node', w')" and "n \<le> unat (failure_threshold b)"
  shows "hits w' = hits w + n * unat (max_attempts r) \<and>
    abs_node node' = (if n < unat (failure_threshold b) then SClosed n else SOpen) \<and>
    (\<forall>x v. bn_state node' = Open x \<and> cooling x v \<longrightarrow>
       (\<exists>v'. call_unary (raw client) request (node', v) = (Inl (circuit_open (req_path request)), (node', v')) \<and>
         hits v' = hits v))"
proof -
  let ?call = "call_unary (raw (std_retry_client rt view pl r inner)) request"
  have built: "client = breaker_client bt b (std_retry_client rt view pl r inner)" "node = initial_node"
    using assms(1) unfolding build_resilient_from_policies [OF assms(2,3)] by simp_all
  have guarded: "call_unary (raw client) request = guard bt b (req_path request) ?call"
    by (simp add: built breaker_client_calls)
  note down = down_call [OF assms(8,7,2,9,10), of view pl]
  have "is_breaker_failure (fst (?call v))" "hits (snd (?call v)) = hits v + unat (max_attempts r)" for v
    using down [of v] by auto
  then show ?thesis
    unfolding guarded using assms(11) guarded built(2)
    by (intro guarded_outage [OF assms(4,5,3,6) _ _ _ assms(12)]) simp_all
qed

text \<open>A peer that is down and counts what reaches it.\<close>

definition down_transport ::
  "(nat \<times> nat, 'i, unit, 'o, unit, unit, unit) transport" where
  "down_transport =
     \<lparr>call_unary = (\<lambda>r (n, t). (Inl (Status (req_path r) Unavailable ''down'' [] ()), (Suc n, Suc t))),
      call_server_stream = (\<lambda>r w. (Inr (), w)),
      call_client_stream = (\<lambda>r (n, t). (Inl (Status (req_path r) Unavailable ''down'' [] ()), (Suc n, Suc t))),
      call_bidi_stream = (\<lambda>r w. (Inr (), w))\<rparr>"

definition down_client ::
  "(nat \<times> nat, u8, unit, u8, unit, unit, unit, unit, unit) client" where
  "down_client = \<lparr>typed = down_transport, raw = down_transport\<rparr>"

definition down_resilient ::
  "((nat \<times> nat, nat) guarded_world, u8, unit, u8, unit, unit, unit, unit, unit) client" where
  "down_resilient = breaker_client (counted_transition demo_transition) default_breaker_config
     (std_retry_client (counted_runtime demo_runtime) demo_view demo_payload default_retry_config down_client)"

lemma counted_documented:
  assumes "documented_breaker bt cfg cooling"
  shows "documented_breaker (counted_transition bt) cfg (\<lambda>x w. cooling x (snd w))"
proof -
  have a: "admits (counted_transition bt) cfg node w a node' \<longleftrightarrow> admits bt cfg node (snd w) a node'" for node w a node'
    by (auto simp: admits_def counted_transition_def beside_calls_def split: prod.splits)
  have r: "records (counted_transition bt) cfg node w q P \<longleftrightarrow> records bt cfg node (snd w) q P" for node w q P
    by (auto simp: records_def counted_transition_def beside_calls_def split: prod.splits)
  show ?thesis
    using assms unfolding documented_breaker_def a r by (simp del: split_paired_All split_paired_Ex)
qed

lemma counted_beside: "transition_beside (counted_transition bt) fst" "runtime_beside (counted_runtime rt) fst"
  by (auto simp: transition_beside_def runtime_beside_def counted_transition_def counted_runtime_def beside_calls_def
      split: prod.splits)

theorem outage_contained_witness:
  "fst (snd (calls_in_a_row (call_unary (raw down_resilient) (demo_request [])) 5 (initial_node, (0, 0)))) = 25"
proof -
  have down: "fails_down (\<lambda>body. True) (call_unary (raw down_client)) fst"
    by (auto simp: fails_down_def down_client_def down_transport_def)
  have free: "in_budget (counted_runtime demo_runtime) default_retry_config (call_unary (raw down_client)) snd 0
      (opt_timeout (req_options (demo_request [])))"
    by (simp add: in_budget_def demo_request_def)
  note built = build_resilient_from_policies [OF default_policies_valid, of "counted_runtime demo_runtime" demo_view
      demo_payload "counted_transition demo_transition" "\<lambda>e. []" "\<lambda>x. []" down_client, folded down_resilient_def]
  show ?thesis
    using outage_contained [OF built default_policies_valid default_breaker_fields(1) counted_documented [OF demo_documented]
        counted_beside down TrueI free surjective_pairing [of "calls_in_a_row _ 5 (_, (0, 0))"]]
    by (auto simp: prod_eq_iff)
qed

end
