(* ===== verification/Example_Upstream.thy ===== *)
theory Example_Upstream
  imports Outage Channel_Config
begin

text \<open>
  The example programs of the retry and the resilient crate: a test double that fails its first calls, a
  decorated client around it, one call, and the assertions on what came back. The programs are modelled whole, and
  the property is that their assertions hold, on every runtime that keeps time.
\<close>

section \<open>The test double\<close>

text \<open>The count of calls is an atomic that the program shares with the double: it is part of the world, beside
  what the runtime works on.\<close>

type_synonym 't counted = "usize \<times> 't"

record flaky_upstream =
  fl_fail_until :: usize

definition flaky_refusal :: "string \<Rightarrow> 'md call_error" where
  "flaky_refusal path = Transport path Unimplemented ''this example only makes raw unary calls''"

record 'md no_stream =
  ns_headers :: 'md

definition no_stream_ops :: "'md \<Rightarrow> ('w, 'md no_stream, 'o, 'md, 'md) response_stream" where
  "no_stream_ops default_md =
     \<lparr>read_message = (\<lambda>s w. (Inr None, s, w)), get_headers = (\<lambda>s w. (Inr (ns_headers s), s, w)),
      read_trailers = (\<lambda>s w. (Inr default_md, s, w)), drop_stream = (\<lambda>s w. w)\<rparr>"

text \<open>\<open>fetch_add\<close> wraps; the sum after it would panic instead, at \<open>usize::MAX\<close> calls.\<close>

definition flaky_call_raw ::
  "'md \<Rightarrow> flaky_upstream \<Rightarrow> (u8 list, 'md) call_request \<Rightarrow>
     ('t counted, 'md call_error + (u8 list, 'md) call_response) io" where
  "flaky_call_raw default_md up request w =
     (case w of (calls, t) \<Rightarrow>
        let attempt = calls + 1 in
        (if attempt \<le> fl_fail_until up
         then Inl (Transport (req_path request) Unavailable
           (''upstream still down (attempt '' @ show_nat (unat attempt) @ '')''))
         else Inr \<lparr>resp_message = as_bytes (''ok on attempt '' @ show_nat (unat attempt)),
                   resp_headers = default_md, resp_trailers = default_md\<rparr>,
         (calls + 1, t)))"

definition flaky_raw ::
  "'md \<Rightarrow> flaky_upstream \<Rightarrow>
     ('t counted, u8 list, 'q, u8 list, 'md no_stream, 'md, 'md) transport" where
  "flaky_raw default_md up =
     \<lparr>call_unary = flaky_call_raw default_md up,
      call_server_stream = (\<lambda>request w. (Inl (flaky_refusal (req_path request)), w)),
      call_client_stream = (\<lambda>request w. (Inl (flaky_refusal (req_path request)), w)),
      call_bidi_stream = (\<lambda>request w. (Inl (flaky_refusal (req_path request)), w))\<rparr>"

definition flaky_typed :: "('t counted, 'i, 'q, 'o, 'md no_stream, 'md, 'md) transport" where
  "flaky_typed =
     \<lparr>call_unary = (\<lambda>request w. (Inl (flaky_refusal (req_path request)), w)),
      call_server_stream = (\<lambda>request w. (Inl (flaky_refusal (req_path request)), w)),
      call_client_stream = (\<lambda>request w. (Inl (flaky_refusal (req_path request)), w)),
      call_bidi_stream = (\<lambda>request w. (Inl (flaky_refusal (req_path request)), w))\<rparr>"

definition flaky_client ::
  "'md \<Rightarrow> flaky_upstream \<Rightarrow>
     ('t counted, 'i, 'q, 'o, 'md no_stream, 'bq, 'md no_stream, 'md, 'md) client" where
  "flaky_client default_md up = \<lparr>typed = flaky_typed, raw = flaky_raw default_md up\<rparr>"

section \<open>The programs\<close>

text \<open>A \<open>main\<close> returns \<open>Ok\<close>, returns an error, or panics at an assertion.\<close>

datatype program_end = Returned_Ok | Returned_Err | Panicked

definition example_request :: "'md \<Rightarrow> string \<Rightarrow> (u8 list, 'md) call_request" where
  "example_request default_md path =
     \<lparr>req_path = path, req_body = [], req_options = create_options (Some (from_secs 3)) default_md\<rparr>"

definition example_asserts :: "'e + 'r \<Rightarrow> usize \<Rightarrow> duration \<Rightarrow> duration \<Rightarrow> program_end" where
  "example_asserts result calls elapsed_time least =
     (if (case result of Inr r \<Rightarrow> True | Inl e \<Rightarrow> False) \<and> calls = 3 \<and> least \<le> elapsed_time then Returned_Ok else Panicked)"

definition retry_example_settings :: "retry_setting list" where
  "retry_example_settings =
     [Set_max_attempts 3, Set_initial_backoff_ms 50, Set_backoff_multiplier (F64_Finite 2),
      Set_jitter_factor (F64_Finite 0), Set_max_backoff_ms 200]"

text \<open>Neither program makes a typed call; their message types are taken to be \<open>unit\<close>.\<close>

definition example_client ::
  "'md \<Rightarrow> ('t counted, unit, unit, unit, 'md no_stream, unit, 'md no_stream, 'md, 'md) client" where
  "example_client default_md = flaky_client default_md \<lparr>fl_fail_until = 2\<rparr>"

definition unit_payload :: "unit payload" where
  "unit_payload = \<lparr>encode_into = (\<lambda>u. Inr []), decode_from = (\<lambda>bs. Inr ())\<rparr>"

definition retry_example ::
  "('t, 'g, 'u) retry_runtime \<Rightarrow> ('md, 'me) metadata_view \<Rightarrow> 'md \<Rightarrow> (string \<Rightarrow> 'pe + string) \<Rightarrow> 't \<Rightarrow> program_end" where
  "retry_example rt view default_md make_path t =
     (case build_config (fold apply_setting retry_example_settings default_builder) of
        Inl e \<Rightarrow> Returned_Err
      | Inr retry_config \<Rightarrow>
          (let client = std_retry_client (counted_runtime rt) view unit_payload retry_config (example_client default_md);
               (started, w1) = rt_now (counted_runtime rt) (0, t)
           in case make_path ''/example.Service/Method'' of
                Inl e \<Rightarrow> Returned_Err
              | Inr path \<Rightarrow>
                  (let (result, w2) = call_unary (raw client) (example_request default_md path) w1;
                       (elapsed_time, w3) = elapsed (counted_runtime rt) started w2
                   in example_asserts result (fst w3) elapsed_time (from_millis 50))))"

text \<open>The program of the resilient crate has the same double; an error of the call is the error of \<open>main\<close>.\<close>

definition resilient_example_retry :: build_grpc_retry_config_request where
  "resilient_example_retry =
     \<lparr>br_max_attempts = 3, br_initial_backoff_ms = 20, br_backoff_multiplier = F64_Finite 2,
      br_jitter_factor = F64_Finite 0, br_max_backoff_ms = 100, br_rate_limit_max_attempts = 1,
      br_rate_limit_initial_backoff_ms = 100, br_rate_limit_max_backoff_ms = 100\<rparr>"

definition resilient_example ::
  "('t, 'g, 'u) retry_runtime \<Rightarrow> ('md, 'me) metadata_view \<Rightarrow> ('t, 'x, 'e) breaker_transition \<Rightarrow>
     (policy_error \<Rightarrow> string) \<Rightarrow> (f64 \<Rightarrow> string) \<Rightarrow> 'md \<Rightarrow> (string \<Rightarrow> 'pe + string) \<Rightarrow> 't \<Rightarrow> program_end" where
  "resilient_example rt view bt text jitter_text default_md make_path t =
     (case bind_result (try_new resilient_example_retry)
             (\<lambda>r. bind_result (breaker_try_new (True, 5, 1, 1)) (\<lambda>b. Inr (from_policies r b))) of
        Inl e \<Rightarrow> Returned_Err
      | Inr config \<Rightarrow>
          (case build_resilient (counted_runtime rt) view unit_payload (counted_transition bt) text jitter_text config
                  (example_client default_md) of
             Inl e \<Rightarrow> Returned_Err
           | Inr (client, node) \<Rightarrow>
               (let (started, w1) = rt_now (counted_runtime rt) (0, t)
                in case make_path ''/example.Service/Method'' of
                     Inl e \<Rightarrow> Returned_Err
                   | Inr path \<Rightarrow>
                       (case call_unary (raw client) (example_request default_md path) (node, w1) of
                          (Inl e, nw2) \<Rightarrow> Returned_Err
                        | (Inr response, nw2) \<Rightarrow>
                            (let (elapsed_time, w3) = elapsed (counted_runtime rt) started (snd nw2)
                             in example_asserts (Inr response :: unit + (u8 list, 'md) call_response) (fst w3)
                                  elapsed_time (from_millis 20))))))"

section \<open>The assertions hold\<close>

text \<open>A runtime that keeps time: the clock is read, a sleep takes at least its duration and is late by less than a
  second. The scheduler without jitter: the first pause is the initial one, and no pause is above the limit.\<close>

definition keeps_time :: "('t, 'g, 'u) retry_runtime \<Rightarrow> ('t \<Rightarrow> nat) \<Rightarrow> bool" where
  "keeps_time rt clock \<longleftrightarrow>
     (\<forall>t. rt_now rt t = (clock t, t)) \<and>
     (\<forall>t. clock (snd (rt_jitter_from_clock rt t)) = clock t) \<and>
     (\<forall>d t. clock t + d \<le> clock (rt_sleep rt d t) \<and> clock (rt_sleep rt d t) < clock t + d + nanos_per_sec)"

definition plain_backoff :: "('t, 'g, 'u) retry_runtime \<Rightarrow> bool" where
  "plain_backoff rt \<longleftrightarrow>
     (\<forall>p n u. bp_jitter_factor p = F64_Finite 0 \<and> bp_initial_backoff_ms p \<le> bp_max_backoff_ms p \<longrightarrow>
        rt_next_backoff rt p 0 u = from_millis (bp_initial_backoff_ms p) \<and>
        rt_next_backoff rt p n u \<le> from_millis (bp_max_backoff_ms p))"

definition reads_clock_only :: "('t, 'x, 'e) breaker_transition \<Rightarrow> ('t \<Rightarrow> nat) \<Rightarrow> bool" where
  "reads_clock_only bt clock \<longleftrightarrow>
     (\<forall>q t. clock (snd (bt_admit bt q t)) = clock t) \<and> (\<forall>q t. clock (snd (bt_record bt q t)) = clock t)"

text \<open>A policy of three attempts without jitter, with pauses of at most 200 ms.\<close>

definition three_attempts :: "grpc_retry_config \<Rightarrow> bool" where
  "three_attempts cfg \<longleftrightarrow> max_attempts cfg = 3 \<and> jitter_factor cfg = F64_Finite 0 \<and>
     initial_backoff_ms cfg \<le> max_backoff_ms cfg \<and> max_backoff_ms cfg \<le> 200"

text \<open>Sums and bounds in nanoseconds.\<close>

lemmas nanos_simps =
  from_millis_def from_secs_def nanos_per_milli_def nanos_per_sec_def duration_max_def

lemma counted_elapsed:
  "keeps_time rt clock \<Longrightarrow> elapsed (counted_runtime rt) started (n, t) = (clock t - started, (n, t))"
  by (simp add: elapsed_def keeps_time_def)

lemma budget_left:
  assumes "keeps_time rt clock" "clock t < started + 2 * nanos_per_sec + from_millis 400"
  shows "remaining (counted_runtime rt) started (Some (from_secs 3)) (n, t) =
    (Some (Some (from_secs 3 - (clock t - started))), (n, t))"
  using assms(2) by (simp add: remaining_def counted_elapsed [OF assms(1)] duration_checked_sub_def nanos_simps) linarith

lemma pause_fits:
  assumes "keeps_time rt clock" "clock t \<le> started + 2 * nanos_per_sec" "d \<le> from_millis 200"
  shows "budget_allows_sleep (counted_runtime rt) started (Some (from_secs 3)) d (n, t) = (True, (n, t))"
  using assms(2,3) by (simp add: budget_allows_sleep_def counted_elapsed [OF assms(1)] duration_checked_add_def nanos_simps) linarith

lemma standard_pause_taken:
  assumes time: "keeps_time rt clock" "plain_backoff rt" "three_attempts cfg"
    and "standard_attempt st = 0 \<or> standard_attempt st = 1" "clock t \<le> started + 2 * nanos_per_sec"
  obtains st' t' where "standard_track (counted_runtime rt) cfg started (Some (from_secs 3)) result st (n, t) =
      (True, st', (n, t'))" and "standard_attempt st' = standard_attempt st + 1" and
      "clock t' < clock t + nanos_per_sec + from_millis 200" and
      "clock t + (if standard_attempt st = 0 then from_millis (initial_backoff_ms cfg) else 0) \<le> clock t'"
proof -
  obtain u g where u: "rt_next_unit rt (rng st) = (u, g)" by fastforce
  define d where "d = rt_next_backoff rt (as_backoff_policy cfg) (standard_attempt st) u"
  have plain: "bp_jitter_factor (as_backoff_policy cfg) = F64_Finite 0"
      "bp_initial_backoff_ms (as_backoff_policy cfg) \<le> bp_max_backoff_ms (as_backoff_policy cfg)"
    using time(3) by (simp_all add: three_attempts_def as_backoff_policy_def)
  then have "d \<le> from_millis (bp_max_backoff_ms (as_backoff_policy cfg))"
    using time(2) unfolding plain_backoff_def d_def by blast
  then have "d \<le> from_millis (max_backoff_ms cfg)"
    by (simp add: as_backoff_policy_def)
  also have "\<dots> \<le> from_millis 200"
    using time(3) by (simp add: three_attempts_def del: from_millis_le)
      (simp add: from_millis_def nanos_per_milli_def word_le_nat_alt)
  finally have small: "d \<le> from_millis 200" .
  have first: "d = from_millis (initial_backoff_ms cfg)" if "standard_attempt st = 0"
    using plain that time(2) by (simp add: plain_backoff_def d_def) (simp add: as_backoff_policy_def)
  have sleep: "clock t + d \<le> clock (rt_sleep rt d t)" "clock (rt_sleep rt d t) < clock t + d + nanos_per_sec"
    using time(1) by (simp_all add: keeps_time_def)
  have "standard_track (counted_runtime rt) cfg started (Some (from_secs 3)) result st (n, t) =
      (True, st\<lparr>last_error := result_err result, rng := g, standard_attempt := standard_attempt st + 1\<rparr>,
       (n, rt_sleep rt d t))"
    using assms(4) time(3) pause_fits [OF time(1) assms(5) small, of n]
    by (auto simp: standard_track_def u d_def three_attempts_def Let_def word_le_nat_alt)
  then show thesis
    by (rule that) (use sleep small first in auto)
qed

text \<open>One attempt of the loop against the double.\<close>

lemma flaky_attempt:
  "raw_attempt (flaky_raw md0 \<lparr>fl_fail_until = 2\<rparr>) path md0 body timeout c (n, t) =
     ((if n + 1 \<le> 2
       then Inl (Transport path Unavailable (''upstream still down (attempt '' @ show_nat (unat (n + 1)) @ '')''))
       else Inr \<lparr>resp_message = as_bytes (''ok on attempt '' @ show_nat (unat (n + 1))),
                 resp_headers = md0, resp_trailers = md0\<rparr>), (), (n + 1, t))"
  by (simp add: raw_attempt_def flaky_raw_def flaky_call_raw_def Let_def)

lemma failed_attempt:
  fixes md0 :: 'md and st :: "('md, 'g) retry_state"
    and inner :: "('t counted, u8 list, 'q, u8 list, 'md no_stream, 'md, 'md) transport"
  assumes inner: "inner = flaky_raw md0 \<lparr>fl_fail_until = 2\<rparr>" and time: "keeps_time rt clock" "plain_backoff rt" "three_attempts cfg"
    and st: "standard_attempt st = 0 \<or> standard_attempt st = 1"
    and now: "clock t \<le> started + 2 * nanos_per_sec"
    and n: "n + 1 \<le> 2"
  obtains st' t' where "run_attempts (Suc k) (counted_runtime rt) (std_retry_classifier view) cfg path started
        (Some (from_secs 3)) (raw_attempt inner path md0 body) st c (n, t) =
      run_attempts k (counted_runtime rt) (std_retry_classifier view) cfg path started
        (Some (from_secs 3)) (raw_attempt inner path md0 body) st' () (n + 1, t')"
    and "standard_attempt st' = standard_attempt st + 1" and "clock t' < clock t + nanos_per_sec + from_millis 200"
    and "clock t + (if standard_attempt st = 0 then from_millis (initial_backoff_ms cfg) else 0) \<le> clock t'"
proof -
  let ?r = "Inl (Transport path Unavailable (''upstream still down (attempt '' @ show_nat (unat (n + 1)) @ '')''))"
  obtain st' t' where track: "standard_track (counted_runtime rt) cfg started (Some (from_secs 3))
        (?r :: 'md call_error + (u8 list, 'md) call_response) st (n + 1, t) = (True, st', (n + 1, t'))"
      and rest: "standard_attempt st' = standard_attempt st + 1" "clock t' < clock t + nanos_per_sec + from_millis 200"
        "clock t + (if standard_attempt st = 0 then from_millis (initial_backoff_ms cfg) else 0) \<le> clock t'"
    by (rule standard_pause_taken [OF time st now])
  have "remaining (counted_runtime rt) started (Some (from_secs 3)) (n, t) =
      (Some (Some (from_secs 3 - (clock t - started))), (n, t))"
    by (rule budget_left [OF time(1)]) (use now in \<open>simp add: nanos_simps\<close>)
  then show thesis
    using track n by (intro that [OF _ rest]) (simp add: inner flaky_attempt)
qed

lemma flaky_recovers:
  fixes md0 :: 'md
    and inner :: "('t counted, u8 list, 'q, u8 list, 'md no_stream, 'md, 'md) transport"
  assumes inner: "inner = flaky_raw md0 \<lparr>fl_fail_until = 2\<rparr>"
    and time: "keeps_time rt clock" "plain_backoff rt" "three_attempts cfg"
  obtains response t' where "call_unary (retry_raw (counted_runtime rt) (std_retry_classifier view) cfg inner)
      (example_request md0 path) (0, t) = (Inr response, (3, t'))"
    and "clock t + from_millis (initial_backoff_ms cfg) \<le> clock t'"
proof -
  let ?attempt = "raw_attempt inner path md0 []"
  let ?run = "\<lambda>k. run_attempts k (counted_runtime rt) (std_retry_classifier view) cfg path (clock t) (Some (from_secs 3)) ?attempt"
  obtain g t0 where g: "rt_jitter_from_clock rt t = (g, t0)" by fastforce
  have three: "unat (max_attempts cfg) = Suc (Suc (Suc 0))"
    using time(3) by (simp add: three_attempts_def)
  from g have t0: "clock t0 = clock t"
    using time(1) unfolding keeps_time_def by (metis snd_conv)
  obtain st1 t1 where one: "?run (Suc (Suc (Suc 0))) (initial_retry_state g) () (0, t0) = ?run (Suc (Suc 0)) st1 () (1, t1)"
      "standard_attempt st1 = 1" "clock t1 < clock t0 + nanos_per_sec + from_millis 200"
      "clock t0 + from_millis (initial_backoff_ms cfg) \<le> clock t1"
    by (rule failed_attempt [OF inner time, of "initial_retry_state g" t0 "clock t" 0 "Suc (Suc 0)" view path "[]" "()"])
      (simp_all add: initial_retry_state_def t0)
  obtain st2 t2 where two: "?run (Suc (Suc 0)) st1 () (1, t1) = ?run (Suc 0) st2 () (2, t2)"
      "clock t2 < clock t1 + nanos_per_sec + from_millis 200" "clock t1 \<le> clock t2"
    by (rule failed_attempt [OF inner time, of st1 t1 "clock t" 1 "Suc 0" view path "[]" "()"])
      (use one t0 in \<open>simp_all add: nanos_simps\<close>)
  have "remaining (counted_runtime rt) (clock t) (Some (from_secs 3)) (2 :: usize, t2) =
      (Some (Some (from_secs 3 - (clock t2 - clock t))), (2, t2))"
    by (rule budget_left [OF time(1)]) (use one two t0 in \<open>simp add: nanos_simps\<close>)
  then obtain response where "?run (Suc 0) st2 () (2, t2) = (Inr response, (), (3, t2))"
    by (simp add: inner flaky_attempt)
  with one(1) two(1) have whole: "?run (unat (max_attempts cfg)) (initial_retry_state g) () (0, t0) = (Inr response, (), (3, t2))"
    unfolding three by simp
  have "rt_now rt t = (clock t, t)"
    using time(1) by (simp add: keeps_time_def)
  with whole g have "call_unary (retry_raw (counted_runtime rt) (std_retry_classifier view) cfg inner)
      (example_request md0 path) (0, t) = (Inr response, (3, t2))"
    by (simp add: retry_raw_def retry_call_raw_def example_request_def run_with_retry_def Let_def)
  then show thesis
    by (rule that) (use one two t0 in simp)
qed

lemma passed_assertions:
  assumes "keeps_time rt clock" "started + from_millis ms \<le> clock t'"
  shows "(let (elapsed_time, w3) = elapsed (counted_runtime rt) started (3, t')
      in example_asserts (Inr response) (fst w3) elapsed_time (from_millis ms)) = Returned_Ok"
  using assms(2) by (simp add: counted_elapsed [OF assms(1)] example_asserts_def)

definition retry_example_config :: grpc_retry_config where
  "retry_example_config =
     \<lparr>max_attempts = 3, initial_backoff_ms = 50, backoff_multiplier = F64_Finite 2, jitter_factor = F64_Finite 0,
      max_backoff_ms = 200, rate_limit_max_attempts = 2, rate_limit_initial_backoff_ms = 1000,
      rate_limit_max_backoff_ms = 10000\<rparr>"

lemma retry_example_built:
  "build_config (fold apply_setting retry_example_settings default_builder) = Inr retry_example_config"
  by (simp add: build_config_def retry_example_settings_def default_builder_def default_retry_config_def Let_def
      builder_input_def try_new_def validate_def retry_example_config_def in_unit_range_def)

lemma example_upstream: "raw (example_client md0) = flaky_raw md0 \<lparr>fl_fail_until = 2\<rparr>"
  by (simp add: example_client_def flaky_client_def)

lemma retry_example_passes:
  assumes time: "keeps_time rt clock" "plain_backoff rt"
    and path: "make_path ''/example.Service/Method'' = Inr path"
  shows "retry_example rt view md0 make_path t = Returned_Ok"
proof -
  have three: "three_attempts retry_example_config"
    by (simp add: three_attempts_def retry_example_config_def word_le_nat_alt)
  obtain response t' where call: "call_unary (retry_raw (counted_runtime rt) (std_retry_classifier view) retry_example_config
      (raw (example_client md0))) (example_request md0 path) (0, t) = (Inr response, (3, t'))"
    and late: "clock t + from_millis 50 \<le> clock t'"
    by (rule flaky_recovers [OF example_upstream [of md0] time three, where view = view and path = path and t = t]) (simp add: retry_example_config_def)
  have "rt_now rt t = (clock t, t)"
    using time(1) by (simp add: keeps_time_def)
  then show ?thesis
    using call passed_assertions [OF time(1) late, of response] 
    by (simp add: retry_example_def retry_example_built path std_retry_client_def)
qed

definition resilient_example_retry_config :: grpc_retry_config where
  "resilient_example_retry_config =
     \<lparr>max_attempts = 3, initial_backoff_ms = 20, backoff_multiplier = F64_Finite 2, jitter_factor = F64_Finite 0,
      max_backoff_ms = 100, rate_limit_max_attempts = 1, rate_limit_initial_backoff_ms = 100,
      rate_limit_max_backoff_ms = 100\<rparr>"

definition resilient_example_breaker :: grpc_breaker_config where
  "resilient_example_breaker =
     \<lparr>enabled = True, failure_threshold = 5, cool_down_seconds = 1, half_open_probe_count = 1\<rparr>"

lemma resilient_example_policies:
  "try_new resilient_example_retry = Inr resilient_example_retry_config"
  "breaker_try_new (True, 5, 1, 1) = Inr resilient_example_breaker"
  by (simp_all add: resilient_example_retry_def try_new_def resilient_example_retry_config_def in_unit_range_def
      resilient_example_breaker_def Let_def)

lemma counted_admit_closed:
  assumes "documented_breaker bt cfg cooling" "reads_clock_only bt clock"
  obtains t' where "admit (counted_transition bt) cfg path (initial_node, (n, t)) = (Inr (), (initial_node, (n, t')))"
    and "clock t' = clock t"
proof -
  have "admits bt cfg initial_node t Proceed initial_node"
    using documented_admits_closed [OF assms(1)] by (simp add: initial_node_def)
  then obtain a t' where a: "bt_admit bt (admit_input cfg initial_node) t = (Inr a, t')" "ad_admission a = Proceed"
      "write_admitted a initial_node = initial_node"
    unfolding admits_def by auto
  with assms(2) have "clock t' = clock t"
    unfolding reads_clock_only_def by (metis snd_conv)
  with a show thesis
    by (intro that [of t']) (simp_all add: admit_def counted_transition_def beside_calls_def admission_result_def)
qed

lemma counted_record:
  assumes "reads_clock_only bt clock"
  shows "fst (snd (record_outcome (counted_transition bt) cfg q (node, (n, t)))) = n"
    and "clock (snd (snd (record_outcome (counted_transition bt) cfg q (node, (n, t))))) = clock t"
proof -
  obtain r t' where r: "bt_record bt (record_input cfg q node) t = (r, t')" by fastforce
  with assms have "clock t' = clock t"
    unfolding reads_clock_only_def by (metis snd_conv)
  with r show "fst (snd (record_outcome (counted_transition bt) cfg q (node, (n, t)))) = n"
      "clock (snd (snd (record_outcome (counted_transition bt) cfg q (node, (n, t))))) = clock t"
    by (cases r; simp add: record_outcome_def counted_transition_def beside_calls_def)+
qed

lemma resilient_example_passes:
  fixes md0 :: 'md
  assumes time: "keeps_time rt clock" "plain_backoff rt"
    and breaker: "documented_breaker bt resilient_example_breaker cooling" "reads_clock_only bt clock"
    and path: "make_path ''/example.Service/Method'' = Inr path"
  shows "resilient_example rt view bt text jitter_text md0 make_path t = Returned_Ok"
proof -
  let ?r = resilient_example_retry_config and ?b = resilient_example_breaker
  have three: "three_attempts ?r"
    by (simp add: three_attempts_def resilient_example_retry_config_def word_le_nat_alt)
  have built: "build_resilient (counted_runtime rt) view unit_payload (counted_transition bt) text jitter_text
      (from_policies ?r ?b) (example_client md0) =
      Inr (breaker_client (counted_transition bt) ?b
        (std_retry_client (counted_runtime rt) view unit_payload ?r (example_client md0)), initial_node)"
    using retry_cfg.construct_valid [OF resilient_example_policies(1)]
      breaker_cfg.construct_valid [OF resilient_example_policies(2)] by (rule build_resilient_from_policies)
  obtain t1 where admitted: "admit (counted_transition bt) ?b path (initial_node, (0 :: usize, t)) =
      (Inr () :: 'md call_error + unit, (initial_node, (0, t1)))" and t1: "clock t1 = clock t"
    by (rule counted_admit_closed [OF breaker])
  obtain response t' where call: "call_unary (retry_raw (counted_runtime rt) (std_retry_classifier view) ?r
      (raw (example_client md0))) (example_request md0 path) (0, t1) = (Inr response, (3, t'))"
    and late: "clock t1 + from_millis 20 \<le> clock t'"
    by (rule flaky_recovers [OF example_upstream [of md0] time three, where view = view and path = path and t = t1])
      (simp add: resilient_example_retry_config_def)
  let ?nw = "record_outcome (counted_transition bt) ?b (classify_result (Inr response :: 'md call_error + (u8 list, 'md) call_response))
      (initial_node, (3 :: usize, t'))"
  obtain t2 where t2: "snd ?nw = (3, t2)" "clock t2 = clock t'"
    using counted_record [OF breaker(2), of ?b _ initial_node "3 :: usize" t'] by (metis prod.collapse)
  have "call_unary (raw (breaker_client (counted_transition bt) ?b
      (std_retry_client (counted_runtime rt) view unit_payload ?r (example_client md0)))) (example_request md0 path)
      (initial_node, (0, t)) = (Inr response, ?nw)"
    using admitted call
    by (simp add: breaker_client_def breaker_raw_def raw_guarded_is_guard guard_def std_retry_client_def inner_call_def
        resilient_example_breaker_def example_request_def)
  moreover have "rt_now rt t = (clock t, t)"
    using time(1) by (simp add: keeps_time_def)
  ultimately show ?thesis
    using t2 late t1 passed_assertions [OF time(1), of "clock t" 20 t2 response]
    by (simp add: resilient_example_def resilient_example_policies built path del: breaker_try_new.simps)
qed

text \<open>C34 (examples_pass). The two example programs end with \<open>Ok\<close>, no assertion fails, on every runtime
  that keeps time and with every breaker machine that keeps its documentation: the double is called three times,
  the third answer is the result, and at least the first backoff has passed. Their budget of three seconds is
  not touched although each sleep may be late by a second.\<close>

theorem examples_pass:
  assumes "keeps_time rt clock" and "plain_backoff rt"
    and "documented_breaker bt resilient_example_breaker cooling" and "reads_clock_only bt clock"
    and "make_path ''/example.Service/Method'' = Inr path"
  shows "retry_example rt view md0 make_path t = Returned_Ok \<and>
    resilient_example rt view bt text jitter_text md0 make_path t = Returned_Ok"
  by (intro conjI retry_example_passes [where make_path = make_path, OF assms(1,2,5)]
      resilient_example_passes [where make_path = make_path, OF assms])

theorem examples_pass_witness:
  "retry_example demo_runtime demo_view () (\<lambda>p. Inr p :: unit + string) 3 = Returned_Ok \<and>
   resilient_example demo_runtime demo_view demo_transition (\<lambda>e. ''e'') (\<lambda>x. ''x'') () (\<lambda>p. Inr p :: unit + string) 3 =
     Returned_Ok"
proof (rule examples_pass [where clock = "\<lambda>t. t"])
  show "keeps_time demo_runtime (\<lambda>t. t)"
    by (simp add: keeps_time_def demo_runtime_def nanos_per_sec_def)
  show "plain_backoff demo_runtime"
    by (simp add: plain_backoff_def demo_runtime_def)
  show "documented_breaker demo_transition resilient_example_breaker (demo_cooling resilient_example_breaker)"
    by (rule demo_documented)
  show "reads_clock_only demo_transition (\<lambda>t. t)"
    by (simp add: reads_clock_only_def demo_transition_def)
qed (rule refl)

end
