(* ===== verification/Scenarios.thy ===== *)
theory Scenarios
  imports Builder_Properties Intercepted_Properties
begin

text \<open>
  The scenario suite of \<open>examples/composition-root\<close>: the report of a scenario, the runner that writes the
  reports and gives the exit code, the two interceptors of the interceptor scenario, and the scenario that
  builds clients from options that do not go together. The other scenarios talk to peers over the network; the
  runner takes them as effects.
\<close>

section \<open>Reports\<close>

record observed_effect =
  oe_description :: string
  oe_observed :: bool

record scenario_report =
  sr_name :: string
  sr_effects :: "observed_effect list"

definition report_new :: "string \<Rightarrow> scenario_report" where
  "report_new name = \<lparr>sr_name = name, sr_effects = []\<rparr>"

definition report_record :: "string \<Rightarrow> bool \<Rightarrow> scenario_report \<Rightarrow> scenario_report" where
  "report_record description observed rep =
     rep\<lparr>sr_effects := sr_effects rep @ [\<lparr>oe_description = description, oe_observed = observed\<rparr>]\<rparr>"

definition is_complete :: "scenario_report \<Rightarrow> bool" where
  "is_complete rep \<longleftrightarrow> sr_effects rep \<noteq> [] \<and> list_all oe_observed (sr_effects rep)"

section \<open>The runner\<close>

text \<open>Scenarios run in order; the first that cannot run ends the suite. The error is carried as its text.\<close>

fun run_all :: "('w, string + scenario_report) io list \<Rightarrow> ('w, string + scenario_report list) io" where
  "run_all [] w = (Inr [], w)"
| "run_all (scenario # rest) w =
     (case scenario w of
        (Inl e, w1) \<Rightarrow> (Inl e, w1)
      | (Inr rep, w1) \<Rightarrow>
          (case run_all rest w1 of
             (Inl e, w2) \<Rightarrow> (Inl e, w2)
           | (Inr reports, w2) \<Rightarrow> (Inr (rep # reports), w2)))"

text \<open>\<open>writeln!\<close> on the caller's writer.\<close>

type_synonym 'w line_writer = "string \<Rightarrow> ('w, unit + unit) io"

fun write_lines :: "'w line_writer \<Rightarrow> string list \<Rightarrow> ('w, unit + unit) io" where
  "write_lines wr [] w = (Inr (), w)"
| "write_lines wr (line # rest) w =
     (case wr line w of
        (Inl e, w') \<Rightarrow> (Inl e, w')
      | (Inr u, w') \<Rightarrow> write_lines wr rest w')"

definition report_line :: "scenario_report \<Rightarrow> string" where
  "report_line rep =
     sr_name rep @ '': '' @ show_nat (length (filter oe_observed (sr_effects rep))) @ ''/'' @
       show_nat (length (sr_effects rep)) @ '' effects observed''"

definition missing_lines :: "scenario_report \<Rightarrow> string list" where
  "missing_lines rep =
     map (\<lambda>e. ''  missing: '' @ oe_description e) (filter (\<lambda>e. \<not> oe_observed e) (sr_effects rep))"

fun write_reports :: "'w line_writer \<Rightarrow> bool \<Rightarrow> scenario_report list \<Rightarrow> ('w, unit + bool) io" where
  "write_reports wr all_complete [] w = (Inr all_complete, w)"
| "write_reports wr all_complete (rep # rest) w =
     (case write_lines wr (report_line rep # missing_lines rep) w of
        (Inl e, w') \<Rightarrow> (Inl e, w')
      | (Inr u, w') \<Rightarrow> write_reports wr (all_complete \<and> is_complete rep) rest w')"

datatype exit_code = Exit_success | Exit_failure

definition run_to :: "'w line_writer \<Rightarrow> ('w, string + scenario_report) io list \<Rightarrow> ('w, exit_code) io" where
  "run_to wr scenarios w =
     (case run_all scenarios w of
        (Inr reports, w1) \<Rightarrow>
          (case write_reports wr True reports w1 of
             (Inr True, w2) \<Rightarrow> (Exit_success, w2)
           | (_, w2) \<Rightarrow> (Exit_failure, w2))
      | (Inl e, w1) \<Rightarrow>
          (case wr (''a scenario could not run: '' @ e) w1 of (r, w2) \<Rightarrow> (Exit_failure, w2)))"

section \<open>The interceptors of the scenarios\<close>

text \<open>The log is shared with the scenario: it is part of the world.\<close>

fun event_phase :: "('md, 'h) call_event \<Rightarrow> string" where
  "event_phase (Started call) = ''started''"
| "event_phase (Opened call headers) = ''opened''"
| "event_phase (MessageRead call) = ''message_read''"
| "event_phase (Completed call headers trailers) = ''completed''"
| "event_phase (Failed call e) = ''failed''"
| "event_phase (CancelledEvent call) = ''cancelled''"

definition order_interceptor :: "string \<Rightarrow> (string list \<times> 'w, 'md) interceptor" where
  "order_interceptor label =
     \<lparr>before_call = (\<lambda>(ls, w). Finish (Inr ()) (ls @ [''before:'' @ label], w)),
      after_call = (\<lambda>reply (ls, w). (Inr (), (ls @ [''after:'' @ label], w))),
      on_event = (\<lambda>ev (ls, w). (ls @ [''event:'' @ event_phase ev @ '':'' @ label], w))\<rparr>"

definition refusing_interceptor :: "('w, 'md) interceptor" where
  "refusing_interceptor =
     \<lparr>before_call = (\<lambda>w. AskPath (\<lambda>path.
        Finish (Inl (Transport path PermissionDenied ''refused by the example'')) w)),
      after_call = (\<lambda>reply w. (Inr (), w)), on_event = (\<lambda>ev w. w)\<rparr>"

section \<open>Options that do not go together\<close>

text \<open>The \<open>Display\<close> form of a configuration error, in bytes of UTF-8.\<close>

definition quoted :: "string \<Rightarrow> string" where
  "quoted s = [CHR 0x27] @ s @ [CHR 0x27]"

fun channel_error_text :: "channel_config_error \<Rightarrow> string" where
  "channel_error_text (PlaintextRejected url) =
     ''plaintext endpoint '' @ quoted url @ '' rejected '' @ [CHR 0xE2, CHR 0x80, CHR 0x94] @
       '' tls_required is set; use .allow_plaintext() to opt out''"
| "channel_error_text (UnusableTlsFile path reason) =
     ''TLS file '' @ quoted path @ '' is unusable: '' @ reason"
| "channel_error_text (ConflictingOptions first second reason) =
     ''options '' @ quoted first @ '' and '' @ quoted second @ '' cannot be combined: '' @ reason"
| "channel_error_text (InvalidOptionValue opt reason) =
     ''option '' @ quoted opt @ '' has an unusable value: '' @ reason"
| "channel_error_text (TlsOptionOnPlaintextEndpoint opt endpoint) =
     ''option '' @ quoted opt @ '' is set but endpoint '' @ quoted endpoint @
       '' is plaintext; use an https:// endpoint or remove the option''"

text \<open>\<open>build().err().map(to_string).unwrap_or_default()\<close>; \<open>None\<close> is a panic of the build.\<close>

definition build_error ::
  "('w, 'c, 'ee) engine \<Rightarrow> ('w, 'p, 'id, 'be) balancer \<Rightarrow> ('w, 'fe) file_system \<Rightarrow> (string \<Rightarrow> bool) \<Rightarrow>
     ('w, 'md) egress_builder \<Rightarrow> 'w \<Rightarrow> (string \<times> 'w) option" where
  "build_error en bal fs valid_uri b w =
     map_option (\<lambda>(r, w'). (case r of Inl e \<Rightarrow> channel_error_text e | Inr c \<Rightarrow> [], w'))
       (build_client en bal fs valid_uri b w)"

definition one_backend :: "string + loadbalancer_settings" where
  "one_backend =
     bind_result (backend_try_new ''http://127.0.0.1:2'' 1) (\<lambda>b. loadbalancer_try_new RoundRobin [b])"

text \<open>The steps of the scenario, each with the report so far; \<open>Inl\<close> is an error that ends it.\<close>

definition mtls_step ::
  "(('w, unit) egress_builder \<Rightarrow> 'w \<Rightarrow> (string \<times> 'w) option) \<Rightarrow> scenario_report \<Rightarrow> 'w \<Rightarrow> (scenario_report \<times> 'w) option" where
  "mtls_step build_err rep w =
     map_option (\<lambda>(mtls_and_plaintext, w').
         (report_record ''mtls with plaintext_allowed names both options''
            (str_contains mtls_and_plaintext (quoted ''mtls'') \<and>
             str_contains mtls_and_plaintext (quoted ''plaintext_allowed'')) rep, w'))
       (build_err (with_option (Opt_tls (tls_create None [] (Some (as_bytes ''certificate'', as_bytes ''key''))))
          (with_option Opt_plaintext_allowed (builder_from ''http://127.0.0.1:1''))) w)"

definition balancer_step ::
  "(('w, unit) egress_builder \<Rightarrow> 'w \<Rightarrow> (string \<times> 'w) option) \<Rightarrow> loadbalancer_settings \<Rightarrow> scenario_report \<Rightarrow> 'w \<Rightarrow>
     (scenario_report \<times> 'w) option" where
  "balancer_step build_err settings rep w =
     map_option (\<lambda>(endpoint_and_balancer, w').
         (report_record ''an endpoint with a load balancer names both options''
            (str_contains endpoint_and_balancer (quoted ''endpoint'') \<and>
             str_contains endpoint_and_balancer (quoted ''loadbalancer'')) rep, w'))
       (build_err (with_option (Opt_loadbalancer settings) (with_option Opt_plaintext_allowed
          (with_option (Opt_endpoint ''http://127.0.0.1:1'') (builder_from [])))) w)"

definition limit_step ::
  "(('w, unit) egress_builder \<Rightarrow> 'w \<Rightarrow> (string \<times> 'w) option) \<Rightarrow> scenario_report \<Rightarrow> 'w \<Rightarrow> (scenario_report \<times> 'w) option" where
  "limit_step build_err rep w =
     map_option (\<lambda>(zero_limit, w').
         (report_record ''a zero message limit names the option''
            (str_contains zero_limit ''max_decoding_message_size'') rep, w'))
       (build_err (with_option (Opt_max_decoding 0) (with_option Opt_plaintext_allowed
          (builder_from ''http://127.0.0.1:1''))) w)"

definition backends_step :: "scenario_report \<Rightarrow> scenario_report" where
  "backends_step rep =
     report_record ''a balancer without backends names the missing backends''
       (str_contains (case loadbalancer_try_new RoundRobin [] of Inl e \<Rightarrow> e | Inr c \<Rightarrow> []) ''backends'') rep"

definition plaintext_step ::
  "(('w, unit) egress_builder \<Rightarrow> 'w \<Rightarrow> (string \<times> 'w) option) \<Rightarrow> scenario_report \<Rightarrow> 'w \<Rightarrow> (scenario_report \<times> 'w) option" where
  "plaintext_step build_err rep w =
     map_option (\<lambda>(plaintext, w').
         (report_record ''a plaintext endpoint without the opt-in is rejected''
            (str_contains plaintext ''http://127.0.0.1:1'') rep, w'))
       (build_err (builder_from ''http://127.0.0.1:1'') w)"

definition invalid_combinations ::
  "('w, 'c, 'ee) engine \<Rightarrow> ('w, 'p, 'id, 'be) balancer \<Rightarrow> ('w, 'fe) file_system \<Rightarrow> (string \<Rightarrow> bool) \<Rightarrow> 'w \<Rightarrow>
     ((string + scenario_report) \<times> 'w) option" where
  "invalid_combinations en bal fs valid_uri w =
     (let build_err = build_error en bal fs valid_uri in
      case mtls_step build_err (report_new ''invalid combinations'') w of
        None \<Rightarrow> None
      | Some (rep1, w1) \<Rightarrow>
          (case one_backend of
             Inl e \<Rightarrow> Some (Inl e, w1)
           | Inr settings \<Rightarrow>
               (case balancer_step build_err settings rep1 w1 of
                  None \<Rightarrow> None
                | Some (rep2, w2) \<Rightarrow>
                    (case limit_step build_err rep2 w2 of
                       None \<Rightarrow> None
                     | Some (rep3, w3) \<Rightarrow>
                         map_option (\<lambda>(rep5, w5). (Inr rep5, w5))
                           (plaintext_step build_err (backends_step rep3) w3)))))"

section \<open>What the scenario observes\<close>

lemma build_refused_values:
  "check_values b = Inl e \<Longrightarrow> build_error en bal fs valid_uri b w = Some (channel_error_text e, w)"
  by (simp add: build_error_def build_client_def)

lemma build_refused_plaintext:
  assumes "check_values b = Inr ()" "eb_loadbalancer b = None" "\<not> eb_plaintext_allowed b"
    and "is_plaintext_endpoint (eb_endpoint b) = Some True"
  shows "build_error en bal fs valid_uri b w = Some (channel_error_text (PlaintextRejected (eb_endpoint b)), w)"
  using assms by (simp add: build_error_def build_client_def list_targets_def check_plaintext_def)

lemma default_timeout_positive: "from_secs default_request_timeout_secs \<noteq> 0"
  by (simp add: from_secs_def default_request_timeout_secs_def nanos_per_sec_def)

lemma names_shown:
  "str_contains (channel_error_text (ConflictingOptions a b c)) (quoted a)"
  "str_contains (channel_error_text (ConflictingOptions a b c)) (quoted b)"
  "str_contains (channel_error_text (InvalidOptionValue a c)) a"
  "str_contains (channel_error_text (PlaintextRejected a)) a"
proof -
  have within: "str_contains (x @ y @ z) y" for x y z
    by (auto simp: str_contains_iff)
  show "str_contains (channel_error_text (ConflictingOptions a b c)) (quoted a)"
    using within [of "''options ''" "quoted a"] by simp
  show "str_contains (channel_error_text (ConflictingOptions a b c)) (quoted b)"
    using within [of "''options '' @ quoted a @ '' and ''" "quoted b"] by simp
  show "str_contains (channel_error_text (InvalidOptionValue a c)) a"
    using within [of "''option '' @ [CHR 0x27]" a] by (simp add: quoted_def)
  show "str_contains (channel_error_text (PlaintextRejected a)) a"
    using within [of "''plaintext endpoint '' @ [CHR 0x27]" a] by (simp add: quoted_def)
qed

lemma recorded_steps:
  "mtls_step (build_error en bal fs valid_uri) rep w =
     Some (report_record ''mtls with plaintext_allowed names both options'' True rep, w)"
  "balancer_step (build_error en bal fs valid_uri) settings rep w =
     Some (report_record ''an endpoint with a load balancer names both options'' True rep, w)"
  "limit_step (build_error en bal fs valid_uri) rep w =
     Some (report_record ''a zero message limit names the option'' True rep, w)"
  "plaintext_step (build_error en bal fs valid_uri) rep w =
     Some (report_record ''a plaintext endpoint without the opt-in is rejected'' True rep, w)"
  by (simp_all add: mtls_step_def balancer_step_def limit_step_def plaintext_step_def names_shown
      build_refused_values [where e = "ConflictingOptions ''mtls'' ''plaintext_allowed''
        ''mutual TLS needs TLS, and plaintext_allowed lets the client fall back to plaintext''"]
      build_refused_values [where e = "ConflictingOptions ''endpoint'' ''loadbalancer''
        ''the backends of the load balancer carry the URLs; drop the endpoint''"]
      build_refused_values [where e = "InvalidOptionValue ''max_decoding_message_size''
        ''zero would refuse every message; use a positive number of bytes''"]
      build_refused_plaintext check_values_def builder_from_def presents_identity_def tls_create_def default_timeout_positive
      is_plaintext_endpoint_def is_char_boundary_def eq_ignore_ascii_case_def del: channel_error_text.simps)

text \<open>The scenario observes all its five effects.\<close>

lemma scenario_combinations_observed:
  "\<exists>rep. invalid_combinations en bal fs valid_uri w = Some (Inr rep, w) \<and> is_complete rep \<and>
     length (sr_effects rep) = 5"
proof -
  have "\<not> blank ''http://127.0.0.1:2''"
    by code_simp
  then have backend: "one_backend = Inr (the_backend)" if "the_backend = \<lparr>lb_strategy = RoundRobin,
      lb_backends = [\<lparr>bt_url = ''http://127.0.0.1:2'', bt_weight = 1\<rparr>]\<rparr>" for the_backend
    using that by (simp add: one_backend_def backend_try_new_def loadbalancer_try_new_def)
  have "str_contains ''backends must contain at least one target'' ''backends''"
    by code_simp
  then show ?thesis
    by (simp add: invalid_combinations_def recorded_steps backend [OF refl] backends_step_def loadbalancer_try_new_def
        report_new_def report_record_def is_complete_def Let_def)
qed

section \<open>Every misfit is refused\<close>



lemma within: "str_contains (x @ y @ z) y" "str_contains (x @ y) y"
  by (auto simp: str_contains_iff intro: exI [of _ "[]"])











section \<open>What the runner reports\<close>

text \<open>A writer that keeps every line, on a world with the text written so far.\<close>

definition keeps_lines :: "'w line_writer \<Rightarrow> ('w \<Rightarrow> string list) \<Rightarrow> bool" where
  "keeps_lines wr written \<longleftrightarrow> (\<forall>line w. \<exists>w'. wr line w = (Inr (), w') \<and> written w' = written w @ [line])"

lemma write_lines_kept:
  assumes "keeps_lines wr written"
  shows "\<exists>w'. write_lines wr lines w = (Inr (), w') \<and> written w' = written w @ lines"
proof (induction lines arbitrary: w)
  case (Cons line rest)
  obtain w1 where w1: "wr line w = (Inr (), w1)" "written w1 = written w @ [line]"
    using assms unfolding keeps_lines_def by blast
  then show ?case
    using Cons.IH [of w1] by auto
qed simp

definition report_lines :: "scenario_report \<Rightarrow> string list" where
  "report_lines rep = report_line rep # missing_lines rep"

lemma write_reports_kept:
  assumes "keeps_lines wr written"
  shows "\<exists>w'. write_reports wr c reports w = (Inr (c \<and> list_all is_complete reports), w') \<and>
    written w' = written w @ concat (map report_lines reports)"
proof (induction reports arbitrary: c w)
  case (Cons rep rest)
  obtain w1 where w1: "write_lines wr (report_line rep # missing_lines rep) w = (Inr (), w1)"
      "written w1 = written w @ report_lines rep"
    using write_lines_kept [OF assms] unfolding report_lines_def by blast
  then show ?case
    using Cons.IH [of "c \<and> is_complete rep" w1] by (auto simp del: write_lines.simps)
qed simp

text \<open>With a writer that works, the suite exits with success exactly when every
  scenario ran and observed everything it looked for; it writes one line for each report, followed by the effects
  that are missing, in order, and a scenario that could not run leaves one line that says so.\<close>

lemma suite_succeeds_exactly:
  assumes "keeps_lines wr written" and "run_all scenarios w = (r, w1)" and "run_to wr scenarios w = (code, w2)"
  shows "(code = Exit_success \<longleftrightarrow> (\<exists>reports. r = Inr reports \<and> list_all is_complete reports)) \<and>
    written w2 = written w1 @ (case r of Inr reports \<Rightarrow> concat (map report_lines reports)
      | Inl e \<Rightarrow> [''a scenario could not run: '' @ e])"
proof (cases r)
  case (Inl e)
  obtain w2 where "wr (''a scenario could not run: '' @ e) w1 = (Inr (), w2)"
      "written w2 = written w1 @ [''a scenario could not run: '' @ e]"
    using assms(1) unfolding keeps_lines_def by blast
  with Inl assms(2,3) show ?thesis
    by (auto simp: run_to_def)
next
  case (Inr reports)
  obtain w2 where "write_reports wr True reports w1 = (Inr (list_all is_complete reports), w2)"
      "written w2 = written w1 @ concat (map report_lines reports)"
    using write_reports_kept [OF assms(1), of True reports w1] by auto
  with Inr assms(2,3) show ?thesis
    by (cases "list_all is_complete reports") (auto simp: run_to_def)
qed

section \<open>The order of the hooks\<close>

lemma order_before:
  "before_loop api (map order_interceptor labels) c (ls, w) =
     (Inr (), c, (ls @ map ((@) ''before:'') labels, w))"
  by (induction labels arbitrary: ls) (simp_all add: order_interceptor_def)

lemma order_after:
  "after_loop (map order_interceptor labels) reply (ls, w) = (Inr (), (ls @ map ((@) ''after:'') labels, w))"
  by (induction labels arbitrary: ls) (simp_all add: order_interceptor_def)

lemma order_events:
  "fold (\<lambda>i. on_event i ev) (map order_interceptor labels) (ls, w) =
     (ls @ map (\<lambda>l. ''event:'' @ event_phase ev @ '':'' @ l) labels, w)"
  by (induction labels arbitrary: ls) (simp_all add: order_interceptor_def)

definition before_entries :: "string list \<Rightarrow> string list" where
  "before_entries labels = map ((@) ''before:'') labels"

definition after_entries :: "string list \<Rightarrow> string list" where
  "after_entries labels = map ((@) ''after:'') labels"

definition event_entries :: "string \<Rightarrow> string list \<Rightarrow> string list" where
  "event_entries phase labels = map (\<lambda>l. ''event:'' @ phase @ '':'' @ l) labels"

lemma pending_round: "pending_options (pending_from path options) = options"
  by (cases options) (simp add: pending_options_def pending_from_def create_options_def)

lemma order_run_before:
  assumes "interceptors (ad_chain ad) = map order_interceptor labels"
  shows "run_before ad path kind options (ls, w) =
    (Inr options, (ls @ before_entries labels @ event_entries ''started'' labels, w))"
  using assms
  by (cases labels) (simp_all add: run_before_def adapter_before_def chain_is_empty_def chain_run_before_def
      adapter_on_event_def chain_run_event_def order_events order_before pending_round
      before_entries_def event_entries_def del: list.map fold.simps before_loop.simps)

lemma order_run_after:
  assumes "interceptors (ad_chain ad) = map order_interceptor labels"
    and "copy_reply ad headers = Inr h" "copy_reply ad trailers = Inr t"
  shows "run_after ad path kind headers trailers (ls, w) =
    (Inr (), (ls @ after_entries labels @ event_entries ''completed'' labels, w))"
  using assms
  by (simp add: run_after_def run_after_egress_def chain_is_empty_def chain_run_after_def
      adapter_on_event_def chain_run_event_def order_events order_after after_entries_def event_entries_def
      del: list.map fold.simps after_loop.simps)

lemma order_run_failed:
  assumes "interceptors (ad_chain ad) = map order_interceptor labels"
  shows "adapter_failed ad path kind e (ls, w) = (ls @ event_entries ''failed'' labels, w)"
  using assms by (simp add: adapter_failed_def adapter_on_event_def chain_run_event_def order_events event_entries_def)

lemma refusing_run_before:
  assumes "interceptors (ad_chain ad) = map order_interceptor labels @ [refusing_interceptor]"
  shows "run_before ad path kind options (ls, w) =
    (Inl (Transport path PermissionDenied ''refused by the example''), (ls @ before_entries labels, w))"
  using assms
  by (simp add: run_before_def adapter_before_def chain_is_empty_def chain_run_before_def before_loop_append
      order_before refusing_interceptor_def pending_api_def pending_from_def before_entries_def)

text \<open>Around a call with a reply, the interceptors run in the order in which
  they were added, phase by phase: every \<open>before_call\<close>, every \<open>Started\<close>, the call, every \<open>after_call\<close>, every
  \<open>Completed\<close>; when the call fails, every \<open>Failed\<close> instead of the last two. Behind an interceptor that refuses,
  nothing happens any more: the call is not made and no event is told.\<close>

lemma hooks_in_registration_order:
  assumes "interceptors (ad_chain ad) = map order_interceptor labels @ (if refusing then [refusing_interceptor] else [])"
    and "\<And>m. copy_reply ad m = Inr (copied m)" and "call request w = (result, w')"
  shows "intercept_reply ad kind (\<lambda>r. lift_io (call r)) request (ls, w) =
    (if refusing
     then (Inl (Transport (req_path request) PermissionDenied ''refused by the example''), (ls @ before_entries labels, w))
     else (result, (ls @ before_entries labels @ event_entries ''started'' labels @
        (case result of Inr response \<Rightarrow> after_entries labels @ event_entries ''completed'' labels
         | Inl e \<Rightarrow> event_entries ''failed'' labels), w')))"
proof (cases refusing)
  case True
  then show ?thesis
    using assms(1) by (simp add: intercept_reply_def refusing_run_before)
next
  case False
  then show ?thesis
    using assms by (cases result) (simp_all add: intercept_reply_def order_run_before recorded_io order_run_failed
        order_run_after)
qed

definition order_adapter :: "bool \<Rightarrow> (string list \<times> nat, unit, unit, unit, unit) adapter" where
  "order_adapter refusing =
     \<lparr>ad_chain = \<lparr>interceptors = map order_interceptor [''a'', ''b''] @ (if refusing then [refusing_interceptor] else [])\<rparr>,
      ad_view = ad_view plain_adapter, ad_builder = ad_builder plain_adapter, ad_show = ad_show plain_adapter,
      ad_reply_view = ad_reply_view plain_adapter\<rparr>"

lemma hooks_in_registration_order_at_work:
  "fst (snd (intercept_reply (order_adapter False) Unary (\<lambda>r. lift_io (call_unary plain_inner r)) plain_request ([], 0))) =
     [''before:a'', ''before:b'', ''event:started:a'', ''event:started:b'', ''after:a'', ''after:b'',
      ''event:completed:a'', ''event:completed:b'']"
proof -
  have copies: "copy_reply (order_adapter False) m = Inr ()" for m
    using plain_copies [of m] by (simp add: copy_reply_def order_adapter_def)
  have chain: "interceptors (ad_chain (order_adapter False)) =
      map order_interceptor [''a'', ''b''] @ (if False then [refusing_interceptor] else [])"
    by (simp add: order_adapter_def)
  have answer: "call_unary plain_inner plain_request 0 = (Inr \<lparr>resp_message = 7, resp_headers = (), resp_trailers = ()\<rparr>, 1)"
    by (simp add: plain_inner_def plain_request_def)
  show ?thesis
    using hooks_in_registration_order [where copied = "\<lambda>m. ()" and kind = Unary and ls = "[]" and call = "call_unary plain_inner",
        OF chain copies answer]
    by (simp add: before_entries_def event_entries_def after_entries_def)
qed

definition keep_line :: "string list line_writer" where
  "keep_line line w = (Inr (), w @ [line])"

definition one_effect :: "bool \<Rightarrow> scenario_report" where
  "one_effect observed = report_record ''seen'' observed (report_new ''demo'')"

lemma suite_succeeds_exactly_at_work:
  "snd (run_to keep_line [\<lambda>w. (Inr (one_effect True), w), \<lambda>w. (Inr (one_effect False), w)] []) =
     report_lines (one_effect True) @ report_lines (one_effect False)"
proof -
  have "keeps_lines keep_line (\<lambda>w. w)"
    by (simp add: keeps_lines_def keep_line_def)
  from suite_succeeds_exactly [OF this _ prod.collapse [symmetric],
      of "[\<lambda>w. (Inr (one_effect True), w), \<lambda>w. (Inr (one_effect False), w)]" "[]"
        "Inr [one_effect True, one_effect False]" "[]"] show ?thesis
    by simp
qed

end
