(* ===== verification/Test_Network.thy ===== *)
theory Test_Network
  imports Scenarios Test_Peer Example_Upstream
begin

text \<open>
  What the scenarios and examples that talk to an in-process peer share: the fixtures of
  \<open>grpc-egress-test-support\<close>, the \<open>EchoServer\<close> of the composition root, and the network between a client and a
  peer. The network is the engine and the HTTP library of other crates; \<open>peer_network\<close> says what the scenarios
  rely on: a call arrives at the handler of \<open>Test_Peer\<close>, and the caller gets what the engine reads from its
  answer.
\<close>

section \<open>Programs\<close>

text \<open>A scenario ends with a report, with an error (its text) that \<open>?\<close> passes on, or panics (\<open>None\<close>).\<close>

type_synonym ('w, 'a) program = "'w \<Rightarrow> ((string + 'a) \<times> 'w) option"

definition program_bind :: "('w, 'a) program \<Rightarrow> ('a \<Rightarrow> ('w, 'b) program) \<Rightarrow> ('w, 'b) program" where
  "program_bind p f w =
     (case p w of
        None \<Rightarrow> None
      | Some (Inl e, w') \<Rightarrow> Some (Inl e, w')
      | Some (Inr a, w') \<Rightarrow> f a w')"

definition run_io :: "('w, string + 'a) io \<Rightarrow> ('w, 'a) program" where
  "run_io f w = Some (f w)"

definition pass_on :: "string + 'a \<Rightarrow> ('w, 'a) program" where
  "pass_on r w = Some (r, w)"

lemma program_simps [simp]:
  "p w = None \<Longrightarrow> program_bind p f w = None"
  "p w = Some (Inl e, w') \<Longrightarrow> program_bind p f w = Some (Inl e, w')"
  "p w = Some (Inr a, w') \<Longrightarrow> program_bind p f w = f a w'"
  "program_bind (pass_on (Inr a)) f w = f a w"
  "program_bind (pass_on (Inl e)) f w = Some (Inl e, w)"
  by (simp_all add: program_bind_def pass_on_def)

section \<open>Fixtures\<close>

text \<open>\<open>CallFixture\<close>: a path that is not valid panics. What a method path accepts belongs to the call contract.\<close>

definition fixture_path :: "(string \<Rightarrow> 'pe + string) \<Rightarrow> string \<Rightarrow> string option" where
  "fixture_path make_path method =
     (case make_path (CHR ''/'' # dropWhile (\<lambda>c. c = CHR ''/'') method) of
        Inl e \<Rightarrow> None
      | Inr path \<Rightarrow> Some path)"

type_synonym 'md fixture_call = "u8 list \<times> 'md call_options"

definition fixture_request_with :: "u8 list \<Rightarrow> duration \<Rightarrow> 'md \<Rightarrow> 'md fixture_call" where
  "fixture_request_with body timeout metadata = (body, create_options (Some timeout) metadata)"

definition fixture_request :: "'md \<Rightarrow> u8 list \<Rightarrow> duration \<Rightarrow> 'md fixture_call" where
  "fixture_request default_md body timeout = fixture_request_with body timeout default_md"

text \<open>The block that every scenario writes: take the request apart, make the path, call.\<close>

definition fixture_call ::
  "(string \<Rightarrow> 'pe + string) \<Rightarrow> ((u8 list, 'md) call_request \<Rightarrow> ('w, 'r) io) \<Rightarrow> string \<Rightarrow> 'md fixture_call \<Rightarrow>
     'w \<Rightarrow> ('r \<times> 'w) option" where
  "fixture_call make_path send method request w =
     (case request of (message, options) \<Rightarrow>
        (case fixture_path make_path method of
           None \<Rightarrow> None
         | Some path \<Rightarrow> Some (send (make_request path message options) w)))"

text \<open>The same with \<open>?\<close> after it: an error of the call is the error of the scenario.\<close>

definition expect_reply ::
  "('md call_error \<Rightarrow> string) \<Rightarrow> ('w \<Rightarrow> (('md call_error + 'r) \<times> 'w) option) \<Rightarrow> ('w, 'r) program" where
  "expect_reply show_error call w = map_option (\<lambda>(r, w'). (map_err show_error r, w')) (call w)"

record running_peer =
  rp_addr :: string

definition peer_endpoint :: "running_peer \<Rightarrow> string" where
  "peer_endpoint p = ''http://'' @ rp_addr p"

definition peer_https_endpoint :: "running_peer \<Rightarrow> string" where
  "peer_https_endpoint p = ''https://'' @ rp_addr p"

text \<open>Starting a peer, and the record that its handlers share with it. The record is part of the world.\<close>

record 'w peer_host =
  ph_start :: "peer_behaviour \<Rightarrow> ('w, string + running_peer) io"
  ph_requests :: "running_peer \<Rightarrow> 'w \<Rightarrow> recorded_request list"

section \<open>The echo server of the scenarios\<close>

record echo_server =
  es_peer :: running_peer

definition echo_start_with :: "'w peer_host \<Rightarrow> peer_behaviour \<Rightarrow> ('w, string + echo_server) io" where
  "echo_start_with ph behaviour w =
     (case ph_start ph behaviour w of
        (Inl e, w') \<Rightarrow> (Inl e, w')
      | (Inr p, w') \<Rightarrow> (Inr \<lparr>es_peer = p\<rparr>, w'))"

definition echo_start :: "'w peer_host \<Rightarrow> ('w, string + echo_server) io" where
  "echo_start ph = echo_start_with ph Echo"

definition echo_endpoint :: "echo_server \<Rightarrow> string" where
  "echo_endpoint server = peer_endpoint (es_peer server)"

definition count_requests :: "'w peer_host \<Rightarrow> echo_server \<Rightarrow> 'w \<Rightarrow> nat" where
  "count_requests ph server w = length (ph_requests ph (es_peer server) w)"

definition last_header :: "'w peer_host \<Rightarrow> echo_server \<Rightarrow> string \<Rightarrow> 'w \<Rightarrow> string option" where
  "last_header ph server name w =
     (case ph_requests ph (es_peer server) w of
        [] \<Rightarrow> None
      | r # rs \<Rightarrow> rr_headers (last (r # rs)) name)"

definition last_message_compressed :: "'w peer_host \<Rightarrow> echo_server \<Rightarrow> 'w \<Rightarrow> bool" where
  "last_message_compressed ph server w =
     (case ph_requests ph (es_peer server) w of
        [] \<Rightarrow> False
      | r # rs \<Rightarrow> (case rr_frames (last (r # rs)) of [] \<Rightarrow> False | f # fs \<Rightarrow> df_compressed f))"

text \<open>\<open>build()?\<close> on a builder: the error becomes its text, the client is the chain around the endpoint.\<close>

definition build_program ::
  "('w, ('w, 'i, 'q, 'o, 's, 'bq, 'bs, 'md, 'h) client, 'ee) engine \<Rightarrow> ('w, 'p, 'id, 'be) balancer \<Rightarrow>
     ('w, 'fe) file_system \<Rightarrow> (string \<Rightarrow> bool) \<Rightarrow> ('md call_error \<Rightarrow> string) \<Rightarrow> ('w, 'md, 'mb, 'me, 'h) adapter \<Rightarrow>
     ('w, 's, 'o, 'h, 'md) response_stream \<Rightarrow> ('w, 'bs, u8 list, 'h, 'md) response_stream \<Rightarrow>
     ('w, 'md) egress_builder \<Rightarrow>
     ('w, ('w, 'i, 'q, 'o, 's pattern_stream, 'bq, 'bs pattern_stream, 'md, 'h) client) program" where
  "build_program en bal fs valid_uri show_error ad ops raw_ops b w =
     (case build_client en bal fs valid_uri b w of
        None \<Rightarrow> None
      | Some (Inl e, w') \<Rightarrow> Some (Inl (channel_error_text e), w')
      | Some (Inr built, w') \<Rightarrow> Some (Inr (built_client bal show_error ad ops raw_ops built), w'))"

section \<open>The network\<close>

text \<open>What a client made with some options puts on the wire, and what it reads from the answer.\<close>

record ('md, 'h) wire =
  wi_request :: "engine_options \<Rightarrow> (u8 list, 'md) call_request \<Rightarrow> http_request"
  wi_read :: "engine_options \<Rightarrow> string \<Rightarrow> http_response \<Rightarrow> 'md call_error + (u8 list, 'h) call_response"

text \<open>A call that the peer handles: its result, and the record with the request added.\<close>

definition served ::
  "http_values \<Rightarrow> peer_behaviour \<Rightarrow> ('md, 'h) wire \<Rightarrow> engine_options \<Rightarrow> (u8 list, 'md) call_request \<Rightarrow>
     recorded_request list \<Rightarrow> ('md call_error + (u8 list, 'h) call_response) \<times> recorded_request list" where
  "served hv behaviour wi opts request requests =
     (case peer_answer hv (\<lambda>d u. u) behaviour (wi_request wi opts request) (requests, ()) of
        (answer, (requests', u)) \<Rightarrow> (wi_read wi opts (req_path request) answer, requests'))"

text \<open>A message of at most a mebibyte, well below the limit of the client; compression adds less than a kilobyte to it.\<close>

definition sendable :: "engine_options \<Rightarrow> u8 list \<Rightarrow> bool" where
  "sendable opts body \<longleftrightarrow> length body \<le> 2 ^ 20 \<and>
     (case eo_max_encoding opts of None \<Rightarrow> True | Some n \<Rightarrow> length body + 1024 \<le> unat n)"

definition serves ::
  "'w peer_host \<Rightarrow> running_peer \<Rightarrow> http_values \<Rightarrow> peer_behaviour \<Rightarrow> ('md, 'h) wire \<Rightarrow> engine_options \<Rightarrow>
     ((u8 list, 'md) call_request \<Rightarrow> ('w, 'md call_error + (u8 list, 'h) call_response) io) \<Rightarrow> bool" where
  "serves ph p hv behaviour wi opts send \<longleftrightarrow>
     (\<forall>request w. sendable opts (req_body request) \<longrightarrow>
        (\<exists>w'. send request w = (fst (served hv behaviour wi opts request (ph_requests ph p w)), w') \<and>
           ph_requests ph p w' = snd (served hv behaviour wi opts request (ph_requests ph p w))))"

text \<open>The text of a socket address.\<close>

definition address_chars :: string where
  "address_chars = ''0123456789abcdef.:[]''"

definition address_text :: "string \<Rightarrow> bool" where
  "address_text s \<longleftrightarrow> list_all (\<lambda>c. c \<in> set address_chars) s"

lemma address_chars_ascii: "list_all (\<lambda>c. of_char c < (128 :: nat)) address_chars"
  by code_simp

lemma address_text_ascii: "address_text s \<Longrightarrow> is_ascii s"
  using address_chars_ascii unfolding address_text_def is_ascii_def list_all_iff by blast

definition engine_reaches ::
  "'w peer_host \<Rightarrow> ('w, ('w, 'i, 'q, 'o, 's, 'bq, 'bs, 'md, 'h) client, 'ee) engine \<Rightarrow> http_values \<Rightarrow>
     ('md, 'h) wire \<Rightarrow> peer_behaviour \<Rightarrow> running_peer \<Rightarrow> bool" where
  "engine_reaches ph en hv wi behaviour p \<longleftrightarrow>
     address_text (rp_addr p) \<and>
     (\<forall>opts w. eo_endpoint opts = peer_endpoint p \<longrightarrow>
        (\<exists>c w'. en_build en opts w = (Inr c, w') \<and> ph_requests ph p w' = ph_requests ph p w \<and>
           serves ph p hv behaviour wi opts (call_unary (raw c))))"

definition peer_network ::
  "'w peer_host \<Rightarrow> ('w, ('w, 'i, 'q, 'o, 's, 'bq, 'bs, 'md, 'h) client, 'ee) engine \<Rightarrow> http_values \<Rightarrow>
     ('md, 'h) wire \<Rightarrow> peer_behaviour \<Rightarrow> bool" where
  "peer_network ph en hv wi behaviour \<longleftrightarrow>
     (\<forall>w. \<exists>p w'. ph_start ph behaviour w = (Inr p, w') \<and> ph_requests ph p w' = [] \<and>
        engine_reaches ph en hv wi behaviour p)"

section \<open>A client of a peer\<close>

lemma echo_start_with_running:
  assumes "peer_network ph en hv wi behaviour"
  obtains server w' where "echo_start_with ph behaviour w = (Inr server, w')"
    "ph_requests ph (es_peer server) w' = []" "engine_reaches ph en hv wi behaviour (es_peer server)"
proof -
  obtain p w' where "ph_start ph behaviour w = (Inr p, w')" "ph_requests ph p w' = []"
      "engine_reaches ph en hv wi behaviour p"
    using assms unfolding peer_network_def by blast
  then show thesis
    by (intro that [of "\<lparr>es_peer = p\<rparr>" w']) (simp_all add: echo_start_with_def)
qed

lemma same_request_id [simp]: "same_request request = request"
  by (simp add: same_request_def)

lemma peer_endpoint_plaintext: "is_ascii (rp_addr p) \<Longrightarrow> is_plaintext_endpoint (peer_endpoint p) = Some True"
  using is_ascii_char_boundary [of "peer_endpoint p" 7]
  by (simp add: is_plaintext_endpoint_def peer_endpoint_def is_ascii_def eq_ignore_ascii_case_def)

text \<open>A builder that names the peer, allows plaintext and has no TLS of its own.\<close>

definition plain_builder :: "running_peer \<Rightarrow> ('w, 'md) egress_builder \<Rightarrow> bool" where
  "plain_builder p b \<longleftrightarrow> eb_endpoint b = peer_endpoint p \<and> eb_plaintext_allowed b \<and> eb_tls b = None \<and>
     eb_loadbalancer b = None \<and> check_values b = Inr ()"

text \<open>An endpoint with one client of the engine and no pool calls that client, inside the chain.\<close>

lemma endpoint_of_one:
  "endpoint_call bal show_error \<lparr>et_clients = [(url, c)], et_pool = None\<rparr> path send = send c"
  by (rule ext) (simp add: endpoint_call_def pick_def report_def split: prod.split)

lemma client_of_one:
  "call_unary (typed (built_client bal show_error ad ops raw_ops (\<lparr>et_clients = [(url, c)], et_pool = None\<rparr>, chain))) =
     intercept_reply (ad\<lparr>ad_chain := chain\<rparr>) Unary (call_unary (typed c))"
  "call_unary (raw (built_client bal show_error ad ops raw_ops (\<lparr>et_clients = [(url, c)], et_pool = None\<rparr>, chain))) =
     intercept_reply (ad\<lparr>ad_chain := chain\<rparr>) Unary (call_unary (raw c))"
  by (simp_all add: built_client_def intercepted_client_def intercepted_def intercepted_raw_def endpoint_client_def
      endpoint_typed_def endpoint_raw_def endpoint_of_one)

lemma plain_build_gives:
  assumes "address_text (rp_addr p)" "plain_builder p b"
    and "en_build en (client_options b (peer_endpoint p) None) w = (Inr c, w')"
  shows "build_program en bal fs valid_uri show_error ad ops raw_ops b w = Some
    (Inr (built_client bal show_error ad ops raw_ops (\<lparr>et_clients = [(peer_endpoint p, c)], et_pool = None\<rparr>, built_chain b)), w')"
proof -
  have "is_plaintext_endpoint (peer_endpoint p) = Some True"
    using assms(1) by (simp add: peer_endpoint_plaintext address_text_ascii)
  then have "build_client en bal fs valid_uri b w =
      Some (Inr (\<lparr>et_clients = [(peer_endpoint p, c)], et_pool = None\<rparr>, built_chain b), w')"
    using assms(2,3)
    by (simp add: plain_builder_def build_client_def list_targets_def check_plaintext_def check_tls_option_def
        name_tls_option_def assemble_def resolve_tls_def tls_create_def create_client_def endpoint_try_from_def io_bind_def)
  then show ?thesis
    by (simp add: build_program_def)
qed

text \<open>A call of the client that such a builder gives is the chain around a call of a client of the engine, which the
  peer serves.\<close>

lemma plain_build:
  assumes "engine_reaches ph en hv wi behaviour p" "plain_builder p b"
  obtains c w' client where "en_build en (client_options b (peer_endpoint p) None) w = (Inr c, w')"
    and "build_program en bal fs valid_uri show_error ad ops raw_ops b w = Some (Inr client, w')"
    and "ph_requests ph p w' = ph_requests ph p w"
    and "call_unary (raw client) = intercept_reply (ad\<lparr>ad_chain := built_chain b\<rparr>) Unary (call_unary (raw c))"
    and "serves ph p hv behaviour wi (client_options b (peer_endpoint p) None) (call_unary (raw c))"
proof -
  have address: "address_text (rp_addr p)"
    using assms(1) by (simp add: engine_reaches_def)
  obtain c w' where c: "en_build en (client_options b (peer_endpoint p) None) w = (Inr c, w')"
      "ph_requests ph p w' = ph_requests ph p w"
      "serves ph p hv behaviour wi (client_options b (peer_endpoint p) None) (call_unary (raw c))"
    using assms(1) unfolding engine_reaches_def by (metis (no_types, lifting) client_options_def engine_options.select_convs(1))
  show thesis
    by (rule that [OF c(1) plain_build_gives [OF address assms(2) c(1)] c(2) client_of_one(2) c(3)])
qed

lemma peer_endpoint_not_blank: "\<not> blank (peer_endpoint p)"
proof -
  have "list_all (\<lambda>w. CHR ''h'' \<notin> set w) white_space"
    by code_simp
  then have "CHR ''h'' \<notin> white_bytes"
    by (simp add: white_bytes_def list_all_iff)
  then show ?thesis
    using str_trim_keeps_head [of "CHR ''h''"] by (simp add: blank_def peer_endpoint_def)
qed

lemma empty_chain_call:
  "eb_interceptors b = [] \<Longrightarrow> intercept_reply (ad\<lparr>ad_chain := built_chain b\<rparr>) kind call = call"
  by (rule empty_chain_reply) (simp add: built_chain_def chain_default_def chain_is_empty_def)

text \<open>A client from a builder without interceptors is served as the engine's client is.\<close>

lemma served_client:
  assumes "engine_reaches ph en hv wi behaviour p" "plain_builder p b" "eb_interceptors b = []"
  obtains client w' where "build_program en bal fs valid_uri show_error ad ops raw_ops b w = Some (Inr client, w')"
    and "ph_requests ph p w' = ph_requests ph p w"
    and "serves ph p hv behaviour wi (client_options b (peer_endpoint p) None) (call_unary (raw client))"
proof -
  obtain c w' client where "en_build en (client_options b (peer_endpoint p) None) w = (Inr c, w')"
    and client: "build_program en bal fs valid_uri show_error ad ops raw_ops b w = Some (Inr client, w')"
    and same: "ph_requests ph p w' = ph_requests ph p w"
    and chain: "call_unary (raw client) = intercept_reply (ad\<lparr>ad_chain := built_chain b\<rparr>) Unary (call_unary (raw c))"
    and serves: "serves ph p hv behaviour wi (client_options b (peer_endpoint p) None) (call_unary (raw c))"
    by (rule plain_build [where w = w and bal = bal and fs = fs and valid_uri = valid_uri and show_error = show_error
          and ad = ad and ops = ops and raw_ops = raw_ops, OF assms(1,2)])
  show thesis
    by (rule that [OF client same]) (simp add: chain empty_chain_call [OF assms(3)] serves)
qed

end
