(* ===== verification/Peer_Calls.thy ===== *)
theory Peer_Calls
  imports Test_Network Context_Transport
begin

text \<open>
  Calls that a peer answers: what gRPC over HTTP/2 says of a request and of its reply, and what a client of
  \<open>Test_Network\<close> gets and the peer records. The scenarios of \<open>Peer_Scenarios\<close> rest on it.
\<close>

section \<open>gRPC over HTTP/2\<close>

text \<open>Metadata as the contract has it (\<open>docs/behaviour-comparison.md\<close>, row 18): a key is lowercase ASCII, digits and
  three signs, does not begin with \<open>grpc-\<close> and is no header of the protocol; a key that ends with \<open>-bin\<close> is one of a
  binary entry; a value is printable ASCII without a space at either end.\<close>

definition key_chars :: string where
  "key_chars = ''abcdefghijklmnopqrstuvwxyz0123456789-_.''"

definition protocol_headers :: "string list" where
  "protocol_headers =
     [''content-type'', ''content-length'', ''te'', ''user-agent'', ''host'', ''connection'', ''keep-alive'',
      ''proxy-connection'', ''transfer-encoding'', ''upgrade'']"

definition legal_key :: "string \<Rightarrow> bool" where
  "legal_key k \<longleftrightarrow>
     k \<noteq> [] \<and> list_all (\<lambda>c. c \<in> set key_chars) k \<and> take 5 k \<noteq> ''grpc-'' \<and> drop (length k - 4) k \<noteq> ''-bin'' \<and>
     k \<notin> set protocol_headers"

definition legal_value :: "string \<Rightarrow> bool" where
  "legal_value v \<longleftrightarrow>
     v \<noteq> [] \<and> list_all (\<lambda>c. 32 \<le> (of_char c :: nat) \<and> (of_char c :: nat) < 127) v \<and>
     hd v \<noteq> CHR '' '' \<and> last v \<noteq> CHR '' ''"

text \<open>The text entries of a call travel as headers; of several values under one name the peer's map keeps the last.
  Binary entries travel under names of their own, which end with \<open>-bin\<close>.\<close>

definition sends_metadata :: "http_values \<Rightarrow> ('md, 'me) metadata_view \<Rightarrow> ('md, 'h) wire \<Rightarrow> bool" where
  "sends_metadata hv view wi \<longleftrightarrow>
     (\<forall>opts request name. legal_key name \<and>
        list_all (\<lambda>(k, v). legal_key k \<and> legal_value v) (entries_of view (opt_metadata (req_options request))) \<longrightarrow>
        collect_headers hv (hq_headers (wi_request wi opts request)) name =
          map_of (rev (entries_of view (opt_metadata (req_options request)))) name)"

fun compression_name :: "compression \<Rightarrow> string" where
  "compression_name Gzip = ''gzip''"
| "compression_name Zstd = ''zstd''"

text \<open>A unary request is one frame, compressed and announced as such when the client compresses.\<close>

definition sends_message :: "http_values \<Rightarrow> ('md, 'h) wire \<Rightarrow> bool" where
  "sends_message hv wi \<longleftrightarrow>
     (\<forall>opts request. sendable opts (req_body request) \<longrightarrow>
        collect_headers hv (hq_headers (wi_request wi opts request)) ''grpc-encoding'' =
          map_option compression_name (eo_send_compression opts) \<and>
        (\<exists>bytes payload. hq_body (wi_request wi opts request) = Inr bytes \<and>
           decode_all bytes = [\<lparr>df_compressed = (eo_send_compression opts \<noteq> None), df_payload = payload\<rparr>] \<and>
           (eo_send_compression opts = None \<longrightarrow> payload = req_body request) \<and>
           length payload \<le> length (req_body request) + 1024))"

text \<open>The answer of a server that replies with a message: the status is in the trailers after it, and nothing but the
  content type in the headers.\<close>

definition plain_reply :: "http_response \<Rightarrow> bool" where
  "plain_reply answer \<longleftrightarrow>
     ha_status answer = 200 \<and> ha_headers answer = [(''content-type'', ''application/grpc'')] \<and>
     ha_trailers answer = Some [(''grpc-status'', ''0'')]"

text \<open>A reply of one plain message is that message, unless it is over the client's limit, 4 MiB when none is set.\<close>

definition decoding_limit :: "engine_options \<Rightarrow> nat" where
  "decoding_limit opts = (case eo_max_decoding opts of None \<Rightarrow> 4 * 1024 * 1024 | Some n \<Rightarrow> unat n)"

definition reads_replies :: "('md, 'h) wire \<Rightarrow> bool" where
  "reads_replies wi \<longleftrightarrow>
     (\<forall>opts path answer payload. plain_reply answer \<and>
        decode_all (ha_body answer) = [\<lparr>df_compressed = False, df_payload = payload\<rparr>] \<longrightarrow>
        (if length payload \<le> decoding_limit opts
         then (\<exists>h t. wi_read wi opts path answer = Inr \<lparr>resp_message = payload, resp_headers = h, resp_trailers = t\<rparr>)
         else (\<exists>message details trailers. wi_read wi opts path answer =
           Inl (Status path OutOfRange message details trailers))))"

definition grpc_wire :: "http_values \<Rightarrow> ('md, 'me) metadata_view \<Rightarrow> ('md, 'h) wire \<Rightarrow> bool" where
  "grpc_wire hv view wi \<longleftrightarrow>
     hv_valid hv ''application/grpc'' \<and> sends_metadata hv view wi \<and> sends_message hv wi \<and> reads_replies wi"

section \<open>A call and its record\<close>

text \<open>What the peer records of a request.\<close>

definition recorded_of ::
  "http_values \<Rightarrow> ('md, 'h) wire \<Rightarrow> engine_options \<Rightarrow> (u8 list, 'md) call_request \<Rightarrow> recorded_request" where
  "recorded_of hv wi opts request =
     (let hq = wi_request wi opts request in
      \<lparr>rr_path = hq_path hq, rr_headers = collect_headers hv (hq_headers hq),
       rr_frames = decode_all (case hq_body hq of Inl e \<Rightarrow> [] | Inr bytes \<Rightarrow> bytes)\<rparr>)"

lemma recorded_metadata:
  assumes "grpc_wire hv view wi" "legal_key name"
    and "list_all (\<lambda>(k, v). legal_key k \<and> legal_value v) (entries_of view (opt_metadata (req_options request)))"
  shows "rr_headers (recorded_of hv wi opts request) name =
    map_of (rev (entries_of view (opt_metadata (req_options request)))) name"
  using assms by (simp add: grpc_wire_def sends_metadata_def recorded_of_def Let_def)

lemma recorded_encoding:
  assumes "grpc_wire hv view wi" "sendable opts (req_body request)"
  shows "rr_headers (recorded_of hv wi opts request) ''grpc-encoding'' = map_option compression_name (eo_send_compression opts)"
  using assms by (simp add: grpc_wire_def sends_message_def recorded_of_def Let_def)

lemma recorded_frames:
  assumes "grpc_wire hv view wi" "sendable opts (req_body request)"
  obtains payload where
    "rr_frames (recorded_of hv wi opts request) = [\<lparr>df_compressed = (eo_send_compression opts \<noteq> None), df_payload = payload\<rparr>]"
    and "eo_send_compression opts = None \<longrightarrow> payload = req_body request"
    and "length payload \<le> length (req_body request) + 1024"
proof -
  obtain bytes payload where "hq_body (wi_request wi opts request) = Inr bytes"
      "decode_all bytes = [\<lparr>df_compressed = (eo_send_compression opts \<noteq> None), df_payload = payload\<rparr>]"
      "eo_send_compression opts = None \<longrightarrow> payload = req_body request"
      "length payload \<le> length (req_body request) + 1024"
    using assms unfolding grpc_wire_def sends_message_def by blast
  then show thesis
    by (intro that [of payload]) (simp_all add: recorded_of_def Let_def)
qed

text \<open>The peers of the scenarios echo the message or give a reply of their own.\<close>

fun replied_payload :: "peer_behaviour \<Rightarrow> u8 list \<Rightarrow> u8 list option" where
  "replied_payload Echo payload = Some payload"
| "replied_payload (Reply own) payload = Some own"
| "replied_payload _ payload = None"

lemma served_reply:
  assumes wire: "grpc_wire hv view wi" and "sendable opts (req_body request)"
    and frames: "rr_frames (recorded_of hv wi opts request) = [\<lparr>df_compressed = flag, df_payload = payload\<rparr>]"
    and reply: "replied_payload behaviour payload = Some answer" "length answer < 2 ^ 32"
  shows "\<exists>result a. served hv behaviour wi opts request requests = (result, requests @ [recorded_of hv wi opts request]) \<and>
    plain_reply a \<and> result = wi_read wi opts (req_path request) a \<and>
    (if length answer \<le> decoding_limit opts
     then \<exists>h t. result = Inr \<lparr>resp_message = answer, resp_headers = h, resp_trailers = t\<rparr>
     else \<exists>message details trailers. result = Inl (Status (req_path request) OutOfRange message details trailers))"
proof -
  let ?frames = "[\<lparr>df_compressed = flag, df_payload = payload\<rparr>]"
  let ?body = "reply_body behaviour ?frames"
  let ?answer = "response_of hv behaviour ?body"
  have valid: "hv_valid hv ''application/grpc''"
    using wire by (simp add: grpc_wire_def)
  have kind: "answerable hv behaviour" "\<not> is_reply_status behaviour" "announce_encoding hv behaviour b = b"
      "write_status hv behaviour b = b" for b
    using reply by (cases behaviour; simp add: announce_encoding_def write_status_def)+
  have "?body = encode_plain answer"
    using reply(1) by (cases behaviour) (simp_all add: reply_body_def)
  then have "decode_all ?body = [\<lparr>df_compressed = False, df_payload = answer\<rparr>]"
    using reply(2) decode_one [of "\<lparr>df_compressed = False, df_payload = answer\<rparr>"] by (simp add: fits_u32_def encode_frame_def)
  moreover have "ha_body ?answer = ?body" "ha_trailers ?answer = Some [(''grpc-status'', ''0'')]"
    using response_unspoilt [OF kind(1) valid, of ?body] kind(2) by simp_all
  moreover have plain: "plain_reply ?answer"
    using calculation by (simp add: plain_reply_def) (simp add: response_of_def kind valid builder_header_def)
  ultimately have "if length answer \<le> decoding_limit opts
     then \<exists>h t. wi_read wi opts (req_path request) ?answer = Inr \<lparr>resp_message = answer, resp_headers = h, resp_trailers = t\<rparr>
     else \<exists>message details trailers. wi_read wi opts (req_path request) ?answer =
       Inl (Status (req_path request) OutOfRange message details trailers)"
    using wire unfolding grpc_wire_def reads_replies_def by metis
  moreover have "served hv behaviour wi opts request requests =
      (wi_read wi opts (req_path request) ?answer, requests @ [recorded_of hv wi opts request])"
  proof -
    have "decode_all (case hq_body (wi_request wi opts request) of Inl e \<Rightarrow> [] | Inr bytes \<Rightarrow> bytes) = ?frames"
      using frames by (simp add: recorded_of_def Let_def)
    then show ?thesis
      by (simp add: served_def peer_answer_def recorded_of_def Let_def)
  qed
  ultimately show ?thesis using plain by blast
qed

text \<open>One call of a client that the peer serves.\<close>

lemma answered_call:
  assumes "serves ph p hv behaviour wi opts send" and "grpc_wire hv view wi" and "sendable opts (req_body request)"
    and "\<And>payload. (eo_send_compression opts = None \<longrightarrow> payload = req_body request) \<Longrightarrow>
      length payload \<le> length (req_body request) + 1024 \<Longrightarrow>
      \<exists>answer. replied_payload behaviour payload = Some answer \<and> length answer \<le> decoding_limit opts \<and>
        length answer < 2 ^ 32"
  obtains reply w' where "send request w = (Inr reply, w')"
    and "ph_requests ph p w' = ph_requests ph p w @ [recorded_of hv wi opts request]"
    and "eo_send_compression opts = None \<longrightarrow> replied_payload behaviour (req_body request) = Some (resp_message reply)"
    and "\<exists>a. plain_reply a \<and> wi_read wi opts (req_path request) a = Inr reply"
proof -
  obtain payload where frames: "rr_frames (recorded_of hv wi opts request) =
        [\<lparr>df_compressed = (eo_send_compression opts \<noteq> None), df_payload = payload\<rparr>]"
      and payload: "eo_send_compression opts = None \<longrightarrow> payload = req_body request"
        "length payload \<le> length (req_body request) + 1024"
    by (rule recorded_frames [OF assms(2,3)])
  obtain answer where answer: "replied_payload behaviour payload = Some answer" "length answer \<le> decoding_limit opts"
      "length answer < 2 ^ 32"
    using assms(4) [OF payload] by (elim exE conjE)
  obtain w' where "send request w = (fst (served hv behaviour wi opts request (ph_requests ph p w)), w')"
      "ph_requests ph p w' = snd (served hv behaviour wi opts request (ph_requests ph p w))"
    using assms(1,3) unfolding serves_def by blast
  moreover obtain h t a where "served hv behaviour wi opts request (ph_requests ph p w) =
      (Inr \<lparr>resp_message = answer, resp_headers = h, resp_trailers = t\<rparr>, ph_requests ph p w @ [recorded_of hv wi opts request])"
      "plain_reply a" "wi_read wi opts (req_path request) a = Inr \<lparr>resp_message = answer, resp_headers = h, resp_trailers = t\<rparr>"
    using served_reply [OF assms(2,3) frames answer(1,3), of "ph_requests ph p w"] answer(2) by auto
  ultimately show thesis
    using payload answer by (intro that [of _ w']) auto
qed

end
