(* ===== verification/Demo_Network.thy ===== *)
theory Demo_Network
  imports Peer_Calls
begin

text \<open>
  A network to try the scenarios on: one peer at a time, whose record is the first part of the world, and an engine
  whose clients hand their request to the peer's handler and read its answer. Metadata is a list of entries. It
  shows that what the scenarios assume of a network can hold.
\<close>

section \<open>The wire\<close>

definition send_headers :: "engine_options \<Rightarrow> (string \<times> string) list \<Rightarrow> (string \<times> u8 list) list" where
  "send_headers opts entries =
     (case eo_send_compression opts of None \<Rightarrow> [] | Some c \<Rightarrow> [(''grpc-encoding'', as_bytes (compression_name c))]) @
     map (\<lambda>(k, v). (k, as_bytes v)) (filter (\<lambda>(k, v). legal_key k) entries)"

definition demo_wire :: "((string \<times> string) list, unit) wire" where
  "demo_wire =
     \<lparr>wi_request = (\<lambda>opts r. \<lparr>hq_path = req_path r, hq_headers = send_headers opts (entries_of list_view (opt_metadata (req_options r))),
        hq_body = Inr (encode_frame \<lparr>df_compressed = (eo_send_compression opts \<noteq> None), df_payload = req_body r\<rparr>)\<rparr>),
      wi_read = (\<lambda>opts path answer.
        (case ha_trailers answer of
           None \<Rightarrow> Inl (Status path Unavailable ''down'' [] [])
         | Some trailers \<Rightarrow>
             (case decode_all (ha_body answer) of
                [f] \<Rightarrow>
                  (if length (df_payload f) \<le> decoding_limit opts
                   then Inr \<lparr>resp_message = df_payload f, resp_headers = (), resp_trailers = ()\<rparr>
                   else Inl (Status path OutOfRange ''too large'' [] []))
              | _ \<Rightarrow> Inl (Status path Internal ''one message expected'' [] []))))\<rparr>"

lemma bytes_as_text: "map (\<lambda>b. char_of (unat b)) (as_bytes s) = s"
  by (simp add: as_bytes_def comp_def unsigned_of_nat take_bit_nat_eq_self)

lemma collected_headers:
  "collect_headers visible_values (map (\<lambda>(k, v). (k, as_bytes v)) es) = map_of (rev es)"
proof (induction es rule: rev_induct)
  case Nil
  then show ?case by (simp add: collect_headers_def List.map_filter_def)
next
  case (snoc e es)
  then show ?case
    by (cases e) (simp add: collect_headers_def List.map_filter_def visible_values_def bytes_as_text fun_eq_iff)
qed

lemma map_of_rev_filter: "P name \<Longrightarrow> map_of (rev (filter (\<lambda>(k, v). P k) es)) name = map_of (rev es) name"
  by (induction es rule: rev_induct) auto

definition announced_encoding :: "engine_options \<Rightarrow> (string \<times> string) list" where
  "announced_encoding opts =
     (case eo_send_compression opts of None \<Rightarrow> [] | Some c \<Rightarrow> [(''grpc-encoding'', compression_name c)])"

lemma sent_headers:
  "collect_headers visible_values (send_headers opts entries) =
     map_of (rev (announced_encoding opts @ filter (\<lambda>(k, v). legal_key k) entries))"
proof -
  have "send_headers opts entries = map (\<lambda>(k, v). (k, as_bytes v))
      (announced_encoding opts @ filter (\<lambda>(k, v). legal_key k) entries)"
    by (simp add: send_headers_def announced_encoding_def split: option.split)
  then show ?thesis
    by (simp only: collected_headers)
qed

lemma grpc_names_illegal: "\<not> legal_key ''grpc-encoding''"
  by (simp add: legal_key_def)

lemma demo_grpc_wire: "grpc_wire visible_values list_view demo_wire"
  unfolding grpc_wire_def
proof (intro conjI)
  show "hv_valid visible_values ''application/grpc''"
    by (simp add: visible_values_def)
  show "sends_metadata visible_values list_view demo_wire"
  proof -
    have "collect_headers visible_values (send_headers opts entries) name = map_of (rev entries) name"
      if "legal_key name" for opts entries name
    proof -
      have "map_of (rev (announced_encoding opts)) name = None"
        using that grpc_names_illegal by (auto simp: announced_encoding_def split: option.split)
      then show ?thesis
        using map_of_rev_filter [where P = legal_key, OF that, of entries]
        by (simp add: sent_headers map_add_def split: option.split)
    qed
    then show ?thesis
      by (simp add: sends_metadata_def demo_wire_def)
  qed
  show "sends_message visible_values demo_wire"
  proof -
    have "map_of (rev (filter (\<lambda>(k, v). legal_key k) entries)) ''grpc-encoding'' = None" for entries :: "(string \<times> string) list"
      using grpc_names_illegal by (auto simp: map_of_eq_None_iff)
    then have "collect_headers visible_values (send_headers opts entries) ''grpc-encoding'' =
        map_option compression_name (eo_send_compression opts)" for opts entries
      by (simp add: sent_headers announced_encoding_def map_add_def split: option.split)
    then show ?thesis
      by (auto simp: sends_message_def demo_wire_def sendable_def decode_one fits_u32_def)
  qed
  show "reads_replies demo_wire"
    by (auto simp: reads_replies_def plain_reply_def demo_wire_def)
qed

section \<open>The peer and the engine\<close>

definition one_peer :: "(recorded_request list \<times> 't) peer_host" where
  "one_peer =
     \<lparr>ph_start = (\<lambda>behaviour w. (Inr \<lparr>rp_addr = ''127.0.0.1:50051''\<rparr>, ([], snd w))), ph_requests = (\<lambda>p w. fst w)\<rparr>"

definition direct_transport ::
  "peer_behaviour \<Rightarrow> engine_options \<Rightarrow> (recorded_request list \<times> 't, u8 list, unit, u8 list, unit, (string \<times> string) list, unit) transport" where
  "direct_transport behaviour opts =
     \<lparr>call_unary = (\<lambda>request w. case served visible_values behaviour demo_wire opts request (fst w) of
        (r, requests) \<Rightarrow> (r, (requests, snd w))),
      call_server_stream = (\<lambda>request w. (Inr (), w)), call_client_stream = (\<lambda>request w. (Inl (Transport (req_path request)
        Unimplemented ''stream''), w)), call_bidi_stream = (\<lambda>request w. (Inr (), w))\<rparr>"

definition direct_engine ::
  "peer_behaviour \<Rightarrow> (recorded_request list \<times> 't,
     (recorded_request list \<times> 't, u8 list, unit, u8 list, unit, unit, unit, (string \<times> string) list, unit) client, unit) engine" where
  "direct_engine behaviour =
     \<lparr>en_build = (\<lambda>opts w. (Inr \<lparr>typed = direct_transport behaviour opts, raw = direct_transport behaviour opts\<rparr>, w)),
      en_error_text = (\<lambda>e. ''refused'')\<rparr>"

definition demo_build ::
  "('w, ('w, 'i, unit, 'o, unit, unit, unit, (string \<times> string) list, unit) client, unit) engine \<Rightarrow>
     ('w, (string \<times> string) list) egress_builder \<Rightarrow>
     ('w, ('w, 'i, unit, 'o, unit pattern_stream, unit, unit pattern_stream, (string \<times> string) list, unit) client) program" where
  "demo_build en =
     build_program en
       \<lparr>bal_build_pool = (\<lambda>cfg w. (Inl () :: unit + unit, w)), bal_select = (\<lambda>p w. (Inl () :: unit + unit pool_backend, w)),
        bal_report_outcome = (\<lambda>p i out w. w), bal_error_text = (\<lambda>e. ''no pool'')\<rparr>
       \<lparr>read_file = (\<lambda>path w. (Inl () :: unit + u8 list, w)), file_error_text = (\<lambda>e. ''not found'')\<rparr>
       (\<lambda>url. True) err_reason
       \<lparr>ad_chain = chain_default, ad_view = list_view, ad_builder = list_builder, ad_show = (\<lambda>e. ''bad''),
        ad_reply_view = demo_view\<rparr>
       \<lparr>read_message = (\<lambda>s w. (Inr None, s, w)), get_headers = (\<lambda>s w. (Inr (), s, w)),
        read_trailers = (\<lambda>s w. (Inr (), s, w)), drop_stream = (\<lambda>s w. w)\<rparr>
       \<lparr>read_message = (\<lambda>s w. (Inr None, s, w)), get_headers = (\<lambda>s w. (Inr (), s, w)),
        read_trailers = (\<lambda>s w. (Inr (), s, w)), drop_stream = (\<lambda>s w. w)\<rparr>"

abbreviation demo_program ::
  "peer_behaviour \<Rightarrow> (recorded_request list \<times> 't, (string \<times> string) list) egress_builder \<Rightarrow> (recorded_request list \<times> 't,
     (recorded_request list \<times> 't, u8 list, unit, u8 list, unit pattern_stream, unit, unit pattern_stream, (string \<times> string) list, unit) client)
     program" where
  "demo_program behaviour \<equiv> demo_build (direct_engine behaviour)"

lemma direct_network: "peer_network one_peer (direct_engine behaviour) visible_values demo_wire behaviour"
proof -
  have serves: "serves one_peer p visible_values behaviour demo_wire opts (call_unary (direct_transport behaviour opts))"
    for p opts
    by (simp add: serves_def direct_transport_def one_peer_def split: prod.split)
  have "address_text ''127.0.0.1:50051''"
    by code_simp
  then show ?thesis
    by (simp add: peer_network_def engine_reaches_def direct_engine_def serves) (simp add: one_peer_def)
qed

end
