(* ===== verification/Outage_Programs.thy ===== *)
theory Outage_Programs
  imports Demo_Network
begin

text \<open>
  The two programs that put a client in front of a peer that is down: \<open>DecoratorScenario\<close> of the composition root
  (retry and breaker applied after \<open>build()\<close>) and \<open>breaker-spi/examples/grpc_breaker.rs\<close> (the breaker alone). What
  they look for follows from what an outage costs (\<open>Outage\<close>) and from what the peer and the network do
  (\<open>Test_Peer\<close>, \<open>Test_Network\<close>).
\<close>

section \<open>DecoratorScenario\<close>

definition decorator_attempts :: nat where
  "decorator_attempts = 3"

definition decorator_settings :: "retry_setting list" where
  "decorator_settings =
     [Set_max_attempts (of_nat decorator_attempts), Set_initial_backoff_ms 1, Set_backoff_multiplier (F64_Finite 1),
      Set_jitter_factor (F64_Finite 0), Set_max_backoff_ms 1]"

definition decorator_request :: "'md \<Rightarrow> 'md fixture_call" where
  "decorator_request default_md = fixture_request default_md (as_bytes ''ping'') (from_secs 5)"

fun is_transport_unavailable :: "'md call_error + 'r \<Rightarrow> bool" where
  "is_transport_unavailable (Inl (Transport path code reason)) = (code = Unavailable)"
| "is_transport_unavailable r = False"

fun is_open :: "'x breaker_state \<Rightarrow> bool" where
  "is_open (Open x) = True"
| "is_open s = False"

text \<open>The three calls of the wrapped client. The state of the breaker is asked between them.\<close>

definition decorator_calls ::
  "'w peer_host \<Rightarrow> echo_server \<Rightarrow> (string \<Rightarrow> 'pe + string) \<Rightarrow> 'md \<Rightarrow>
     (('w, 'x) guarded_world, 'i, 'q, 'o, 's, 'bq, 'bs, 'md, 'h) client \<Rightarrow> scenario_report \<Rightarrow>
     (('w, 'x) guarded_world, scenario_report) program" where
  "decorator_calls ph server make_path default_md client rep nw =
     (let call = fixture_call make_path (call_unary (raw client)) ''pkg.Service/Method'' (decorator_request default_md) in
      case call nw of
        None \<Rightarrow> None
      | Some (first, nw1) \<Rightarrow>
          (let rep1 = report_record ''a failing call is retried up to the attempt limit''
                 (count_requests ph server (snd nw1) = decorator_attempts) rep in
           case call nw1 of
             None \<Rightarrow> None
           | Some (second, nw2) \<Rightarrow>
               (case observe_state nw2 of
                  (Inl e, nw3) \<Rightarrow> Some (Inl e, nw3)
                | (Inr state, nw3) \<Rightarrow>
                    (let rep2 = report_record ''the breaker opens after the threshold of failed calls'' (is_open state) rep1;
                         hits = count_requests ph server (snd nw3) in
                     case call nw3 of
                       None \<Rightarrow> None
                     | Some (refused, nw4) \<Rightarrow>
                         Some (Inr (report_record ''an open breaker answers Unavailable without reaching the peer''
                           (is_transport_unavailable refused \<and> count_requests ph server (snd nw4) = hits) rep2), nw4)))))"

definition decorator_scenario ::
  "'w peer_host \<Rightarrow>
     (('w, 'md) egress_builder \<Rightarrow> ('w, ('w, 'i, 'q, 'o, 's, 'bq, 'bs, 'md, 'h) client) program) \<Rightarrow>
     ('w, 'g, 'u) retry_runtime \<Rightarrow> ('md, 'me) metadata_view \<Rightarrow> 'i payload \<Rightarrow> ('w, 'x, 'e) breaker_transition \<Rightarrow>
     (policy_error \<Rightarrow> string) \<Rightarrow> (string \<Rightarrow> 'pe + string) \<Rightarrow> 'md \<Rightarrow> ('w, scenario_report) program" where
  "decorator_scenario ph build rt view pl bt show_policy make_path default_md =
     program_bind (run_io (echo_start_with ph (ReplyStatus ''14'' (Some ''down'') None))) (\<lambda>server.
     program_bind (build (with_option Opt_plaintext_allowed (builder_from (echo_endpoint server)))) (\<lambda>bare.
     program_bind (pass_on (map_err show_policy (build_config (fold apply_setting decorator_settings default_builder))))
       (\<lambda>retry_config.
     program_bind (pass_on (map_err show_policy (bind_result (breaker_try_new (True, 2, 60, 1))
         (\<lambda>breaker_config. build_breaker bt breaker_config (std_retry_client rt view pl retry_config bare)))))
       (\<lambda>(client, node) w.
          map_option (\<lambda>(r, nw). (r, snd nw))
            (decorator_calls ph server make_path default_md client (report_new ''decorators applied by the root'')
              (node, w))))))"

section \<open>The breaker example\<close>

text \<open>\<open>ClientFixture::from_config\<close>.\<close>

definition client_from_config ::
  "(('w, 'md) egress_builder \<Rightarrow> ('w, 'c) program) \<Rightarrow> grpc_channel_config \<Rightarrow> ('w, 'c) program" where
  "client_from_config build config = build (with_channel_config config (builder_from (ch_endpoint config)))"

definition breaker_example_config :: "string \<Rightarrow> string + grpc_channel_config" where
  "breaker_example_config endpoint =
     build_channel (fold apply_channel_setting [With_endpoint endpoint, Allow_plaintext] default_channel_builder)"

definition breaker_example_request :: "'md \<Rightarrow> 'md fixture_call" where
  "breaker_example_request default_md = fixture_request default_md (as_bytes ''hi'') (from_secs 1)"

fun is_status_unavailable :: "'md call_error + 'r \<Rightarrow> bool" where
  "is_status_unavailable (Inl (Status path code message details trailers)) = (code = Unavailable)"
| "is_status_unavailable r = False"

text \<open>What follows a call that returns: a panic of the call, or a failed assertion on its result, ends the program.\<close>

definition assert_call :: "('r \<times> 'w) option \<Rightarrow> ('r \<Rightarrow> bool) \<Rightarrow> ('w \<Rightarrow> program_end) \<Rightarrow> program_end" where
  "assert_call called P rest =
     (case called of
        None \<Rightarrow> Panicked
      | Some (r, w) \<Rightarrow> (if P r then rest w else Panicked))"

definition breaker_example_calls ::
  "('w \<Rightarrow> nat) \<Rightarrow> (('w, 'x) guarded_world \<Rightarrow> (('md call_error + 'r) \<times> ('w, 'x) guarded_world) option) \<Rightarrow>
     ('w, 'x) guarded_world \<Rightarrow> program_end" where
  "breaker_example_calls count call nw =
     assert_call (call nw) is_status_unavailable (\<lambda>nw1.
     assert_call (call nw1) is_status_unavailable (\<lambda>nw2.
       case observe_state nw2 of
         (Inl e, nw3) \<Rightarrow> (let e' = (e :: string) in Returned_Err)
       | (Inr state, nw3) \<Rightarrow>
           (if \<not> is_open state then Panicked
            else assert_call (call nw3) is_transport_unavailable (\<lambda>nw4.
              if count (snd nw3) = count (snd nw4) then Returned_Ok else Panicked))))"

definition breaker_example ::
  "'w peer_host \<Rightarrow>
     (('w, 'md) egress_builder \<Rightarrow> ('w, ('w, 'i, 'q, 'o, 's, 'bq, 'bs, 'md, 'h) client) program) \<Rightarrow>
     ('w, 'x, 'e) breaker_transition \<Rightarrow> (string \<Rightarrow> 'pe + string) \<Rightarrow> 'md \<Rightarrow> 'w \<Rightarrow> program_end" where
  "breaker_example ph build bt make_path default_md w =
     (case ph_start ph (ReplyStatus ''14'' (Some ''upstream is down'') None) w of
        (Inl e, w1) \<Rightarrow> Returned_Err
      | (Inr upstream, w1) \<Rightarrow>
          (case breaker_example_config (peer_endpoint upstream) of
             Inl e \<Rightarrow> Returned_Err
           | Inr config \<Rightarrow>
               (case client_from_config build config w1 of
                  None \<Rightarrow> Panicked
                | Some (Inl e, w2) \<Rightarrow> Returned_Err
                | Some (Inr inner, w2) \<Rightarrow>
                    (case bind_result (breaker_try_new (True, 2, 30, 1)) (\<lambda>c. build_breaker bt c inner) of
                       Inl e \<Rightarrow> Returned_Err
                     | Inr (client, node) \<Rightarrow>
                         breaker_example_calls (\<lambda>v. length (ph_requests ph upstream v))
                           (fixture_call make_path (call_unary (raw client)) ''example.Service/Method''
                             (breaker_example_request default_md)) (node, w2)))))"

section \<open>A peer that is down\<close>

text \<open>gRPC: a response without a message and with status 14 in its headers is an \<open>UNAVAILABLE\<close> error of the call.\<close>

definition reads_unavailable :: "('md, 'h) wire \<Rightarrow> bool" where
  "reads_unavailable wi \<longleftrightarrow>
     (\<forall>opts path answer. (''grpc-status'', ''14'') \<in> set (ha_headers answer) \<and> ha_trailers answer = None \<longrightarrow>
        (\<exists>message details trailers. wi_read wi opts path answer = Inl (Status path Unavailable message details trailers)))"

definition header_texts_valid :: "http_values \<Rightarrow> string list \<Rightarrow> bool" where
  "header_texts_valid hv texts \<longleftrightarrow> list_all (hv_valid hv) (''application/grpc'' # texts)"

lemma down_answer:
  assumes "header_texts_valid hv [''14'', message]"
  shows "(''grpc-status'', ''14'') \<in> set (ha_headers (response_of hv (ReplyStatus ''14'' (Some message) None) reply)) \<and>
    ha_trailers (response_of hv (ReplyStatus ''14'' (Some message) None) reply) = None"
  using assms
  by (simp add: header_texts_valid_def response_of_def announce_encoding_def write_status_def builder_header_def
      optional_header_def header_insert_def)

lemma down_peer_fails:
  fixes wi :: "('md, 'h) wire"
  assumes "serves ph p hv (ReplyStatus ''14'' (Some message) None) wi opts send"
    and "reads_unavailable wi" and "header_texts_valid hv [''14'', message]"
  shows "fails_down (sendable opts) send (\<lambda>w. length (ph_requests ph p w))"
  unfolding fails_down_def
proof (intro allI impI)
  fix request :: "(u8 list, 'md) call_request" and w
  assume fits: "sendable opts (req_body request)"
  let ?served = "served hv (ReplyStatus ''14'' (Some message) None) wi opts request (ph_requests ph p w)"
  obtain w' where send: "send request w = (fst ?served, w')" "ph_requests ph p w' = snd ?served"
    using assms(1) fits unfolding serves_def by blast
  obtain text' details trailers where
    "fst ?served = Inl (Status (req_path request) Unavailable text' details trailers)"
    using assms(2) down_answer [OF assms(3)]
    unfolding reads_unavailable_def served_def peer_answer_def by (simp add: Let_def) blast
  moreover have "length (snd ?served) = Suc (length (ph_requests ph p w))"
    by (simp add: served_def peer_answer_def Let_def)
  ultimately show "\<exists>message details trailers w'.
      send request w = (Inl (Status (req_path request) Unavailable message details trailers), w') \<and>
      length (ph_requests ph p w') = Suc (length (ph_requests ph p w))"
    using send by auto
qed

text \<open>A circuit that has just opened is cooling.\<close>

definition opens_cooling ::
  "('w, 'x, 'e) breaker_transition \<Rightarrow> grpc_breaker_config \<Rightarrow> ('x \<Rightarrow> 'w \<Rightarrow> bool) \<Rightarrow> bool" where
  "opens_cooling bt cfg cooling \<longleftrightarrow>
     (\<forall>node w m w' x. bn_state node = Closed \<and> bt_record bt (record_input cfg Failure node) w = (Inr m, w') \<and>
        rc_state m = Open x \<longrightarrow> cooling x w')"

lemma closed_guard:
  assumes "enabled b" "documented_breaker bt b cooling" "opens_cooling bt b cooling"
    and call: "\<And>v. is_breaker_failure (fst (call v))"
    and closed: "bn_state node = Closed" and run: "guard bt b path call (node, v0) = (r, (node', v'))"
  shows "\<exists>v u. call v = (r, u)" and "\<forall>y. bn_state node' = Open y \<longrightarrow> cooling y v'"
proof -
  obtain a u1 where a: "bt_admit bt (admit_input b node) v0 = (Inr a, u1)" "ad_admission a = Proceed"
      "write_admitted a node = node"
    using documented_admits_closed [OF assms(2) closed, of v0] by (auto simp: admits_def)
  obtain q u2 where q: "call u1 = (q, u2)" by fastforce
  obtain m u3 where m: "bt_record bt (record_input b Failure node) u2 = (m, u3)" by fastforce
  have "classify_result q = Failure"
    using call [of u1] q by (simp add: classify_result_def)
  then have guard: "r = q \<and> (node', v') = (case m of Inr k \<Rightarrow> (write_recorded k node, u3) | Inl e \<Rightarrow> (node, u3))"
    using run assms(1) a q m by (auto simp: guard_enabled record_outcome_def split: sum.splits)
  then show "\<exists>v u. call v = (r, u)"
    using q by blast
  show "\<forall>y. bn_state node' = Open y \<longrightarrow> cooling y v'"
    using guard m assms(3) closed by (cases m) (auto simp: opens_cooling_def write_recorded_def)
qed

text \<open>Two calls of a new breaker with a threshold of two, the state after them, and a third.\<close>

lemma outage_of_two:
  fixes bt :: "('w, 'x, 'e) breaker_transition" and hits :: "'w \<Rightarrow> nat"
    and call :: "('w, 'md call_error + 'r) io"
  assumes breaker: "enabled b" "documented_breaker bt b cooling" "valid_breaker_config b" "transition_beside bt hits"
    and "opens_cooling bt b cooling" "failure_threshold b = 2"
    and call: "\<And>v. is_breaker_failure (fst (call v))" "\<And>v. hits (snd (call v)) = hits v + cost"
  obtains r1 n1 w1 r2 n2 w2 x w3 v1 v2 where "guard bt b path call (initial_node, w) = (r1, (n1, w1))"
    and "guard bt b path call (n1, w1) = (r2, (n2, w2))"
    and "guard bt b path call (n2, w2) = (Inl (circuit_open path), (n2, w3))"
    and "bn_state n2 = Open x" and "hits w1 = hits w + cost" and "hits w2 = hits w + 2 * cost" and "hits w3 = hits w2"
    and "r1 = fst (call v1)" and "r2 = fst (call v2)"
proof -
  obtain r1 n1 w1 where one: "guard bt b path call (initial_node, w) = (r1, (n1, w1))" by (metis prod_cases3)
  obtain r2 n2 w2 where two: "guard bt b path call (n1, w1) = (r2, (n2, w2))" by (metis prod_cases3)
  have rows: "calls_in_a_row (guard bt b path call) 1 (initial_node, w) = (n1, w1)"
      "calls_in_a_row (guard bt b path call) 2 (initial_node, w) = (n2, w2)"
    using one two by (simp_all add: calls_in_a_row_def numeral_2_eq_2)
  note after = guarded_outage [OF breaker call, of path _ w]
  have n1: "hits w1 = hits w + cost" "abs_node n1 = SClosed 1"
    using after [OF rows(1)] assms(6) by simp_all
  have n2: "hits w2 = hits w + 2 * cost" "abs_node n2 = SOpen"
    using after [OF rows(2)] assms(6) by simp_all
  have third: "\<exists>v. guard bt b path call (n2, w2) = (Inl (circuit_open path), (n2, v)) \<and> hits v = hits w2"
    if "bn_state n2 = Open y" "cooling y w2" for y
    using after [OF rows(2)] assms(6) that by fastforce
  obtain x where x: "bn_state n2 = Open x"
    using n2(2) by (auto simp: abs_node_def split: breaker_state.splits)
  have closed: "bn_state n1 = Closed" "bn_state (initial_node :: 'x breaker_node) = Closed"
    using n1(2) by (simp_all add: abs_node_def initial_node_def split: breaker_state.splits)
  note made = closed_guard [OF breaker(1,2) assms(5) call(1)]
  obtain v1 u1 where v1: "call v1 = (r1, u1)"
    using made(1) [OF closed(2) one] by blast
  obtain v2 u2 where v2: "call v2 = (r2, u2)" "cooling x w2"
    using made [OF closed(1) two] x by blast
  obtain w3 where "guard bt b path call (n2, w2) = (Inl (circuit_open path), (n2, w3))" "hits w3 = hits w2"
    using third [OF x v2(2)] by blast
  with one two n1 n2 x v1 v2 show thesis
    by (intro that [of r1 n1 w1 r2 n2 w2 w3 x v1 v2]) simp_all
qed

section \<open>The breaker example passes\<close>

lemma length_beside: "transition_beside bt f \<Longrightarrow> transition_beside bt (\<lambda>w. length (f w))"
  by (simp add: transition_beside_def)

lemma length_runtime_beside: "runtime_beside rt f \<Longrightarrow> runtime_beside rt (\<lambda>w. length (f w))"
  by (simp add: runtime_beside_def)

lemma down_call_result:
  assumes "fails_down ok send hits" "ok (req_body request)"
  shows "is_breaker_failure (fst (send request v))" and "hits (snd (send request v)) = hits v + 1"
    and "is_status_unavailable (fst (send request v))"
proof -
  obtain message details trailers v' where
    "send request v = (Inl (Status (req_path request) Unavailable message details trailers), v')" "hits v' = Suc (hits v)"
    using assms unfolding fails_down_def by blast
  then show "is_breaker_failure (fst (send request v))" "hits (snd (send request v)) = hits v + 1"
      "is_status_unavailable (fst (send request v))"
    by simp_all
qed

definition breaker_example_policy :: "u64 \<Rightarrow> grpc_breaker_config" where
  "breaker_example_policy secs =
     \<lparr>enabled = True, failure_threshold = 2, cool_down_seconds = secs, half_open_probe_count = 1\<rparr>"

lemma breaker_example_policy:
  "breaker_try_new (True, 2, secs, 1) = Inr (breaker_example_policy secs)"
  "valid_breaker_config (breaker_example_policy secs)" "enabled (breaker_example_policy secs)"
  "failure_threshold (breaker_example_policy secs) = 2"
  by (simp_all add: breaker_example_policy_def valid_breaker_config_iff)

lemma breaker_example_built:
  assumes "breaker_example_config (peer_endpoint p) = Inr config"
  shows "plain_builder p (with_channel_config config (builder_from (ch_endpoint config)))"
    and "eb_interceptors (with_channel_config config (builder_from (ch_endpoint config))) = []"
  using assms default_timeout_positive
  by (auto simp: breaker_example_config_def build_channel_def default_channel_builder_def channel_try_new_def
      plain_builder_def with_channel_config_def builder_from_def check_values_def presents_identity_def option_or_def
      default_max_message_bytes_def split: if_splits)

lemma breaker_example_config_made: "\<exists>config. breaker_example_config (peer_endpoint p) = Inr config"
  using peer_endpoint_not_blank [of p]
  by (simp add: breaker_example_config_def build_channel_def default_channel_builder_def channel_try_new_def
      default_max_message_bytes_def)

text \<open>A client in front of the peer, from a builder without interceptors.\<close>

lemma down_client_built:
  fixes b :: "('w, 'md) egress_builder"
  assumes "engine_reaches ph en hv wi (ReplyStatus ''14'' (Some message) None) p" "plain_builder p b" "eb_interceptors b = []"
    and "reads_unavailable wi" "header_texts_valid hv [''14'', message]"
  obtains c w' inner where "en_build en (client_options b (peer_endpoint p) None) w = (Inr c, w')"
    and "build_program en bal fs valid_uri show_error ad ops raw_ops b w = Some (Inr inner, w')"
    and "ph_requests ph p w' = ph_requests ph p w" and "call_unary (raw inner) = call_unary (raw c)"
    and "fails_down (sendable (client_options b (peer_endpoint p) None)) (call_unary (raw c)) (\<lambda>v. length (ph_requests ph p v))"
proof -
  obtain c w' inner where built: "en_build en (client_options b (peer_endpoint p) None) w = (Inr c, w')"
      "build_program en bal fs valid_uri show_error ad ops raw_ops b w = Some (Inr inner, w')"
      "ph_requests ph p w' = ph_requests ph p w"
    and chain: "call_unary (raw inner) = intercept_reply (ad\<lparr>ad_chain := built_chain b\<rparr>) Unary (call_unary (raw c))"
    and serves: "serves ph p hv (ReplyStatus ''14'' (Some message) None) wi
      (client_options b (peer_endpoint p) None) (call_unary (raw c))"
    by (rule plain_build [where w = w and bal = bal and fs = fs and valid_uri = valid_uri and show_error = show_error
          and ad = ad and ops = ops and raw_ops = raw_ops, OF assms(1,2)])
  show thesis
    by (rule that [OF built chain [unfolded empty_chain_call [OF assms(3)]] down_peer_fails [OF serves assms(4,5)]])
qed

lemma down_call_made:
  assumes "make_path (CHR ''/'' # dropWhile (\<lambda>c. c = CHR ''/'') method) = Inr path"
  shows "fixture_call make_path (call_unary (raw (breaker_client bt b inner))) method (fixture_request default_md body timeout) =
    (\<lambda>nw. Some (guard bt b path
       (call_unary (raw inner) (make_request path body (create_options (Some timeout) default_md))) nw))"
  using assms by (simp add: fun_eq_iff fixture_call_def fixture_request_def fixture_request_with_def fixture_path_def
      breaker_client_calls)

lemma demo_opens_cooling: "opens_cooling demo_transition (breaker_example_policy secs) (demo_cooling (breaker_example_policy secs))"
  if "0 < secs"
  using that by (auto simp: opens_cooling_def demo_transition_def demo_record_def demo_cooling_def word_less_nat_alt
      breaker_example_policy_def record_input_def Let_def split: if_splits)

lemma counted_opens_cooling:
  "opens_cooling bt cfg cooling \<Longrightarrow> opens_cooling (counted_transition bt) cfg (\<lambda>x w. cooling x (snd w))"
  by (auto simp: opens_cooling_def counted_transition_def beside_calls_def split: prod.splits)

lemma demo_down:
  "reads_unavailable demo_wire" "header_texts_valid visible_values [''14'', ''upstream is down'']"
  "header_texts_valid visible_values [''14'', ''down'']"
  "transition_beside (counted_transition bt) (ph_requests one_peer p)"
  "runtime_beside (counted_runtime rt) (ph_requests one_peer p)"
  using counted_beside by (simp_all add: reads_unavailable_def demo_wire_def header_texts_valid_def visible_values_def one_peer_def)

text \<open>C37 (breaker_example_passes). The breaker example ends with \<open>Ok\<close> whatever the engine is, as long as its
  calls arrive at the peer and it reads the peer's status as gRPC says: both calls reach the peer and come back
  with its status, the circuit opens, and the third call is answered without the peer being asked.\<close>

theorem breaker_example_passes:
  fixes ad :: "('w, 'md, 'mb, 'me, 'h) adapter"
  assumes "peer_network ph en hv wi (ReplyStatus ''14'' (Some ''upstream is down'') None)"
    and "reads_unavailable wi" and "header_texts_valid hv [''14'', ''upstream is down'']"
    and "documented_breaker bt (breaker_example_policy 30) cooling" and "opens_cooling bt (breaker_example_policy 30) cooling"
    and "\<And>p. transition_beside bt (ph_requests ph p)"
    and "make_path ''/example.Service/Method'' = Inr path"
  shows "breaker_example ph (build_program en bal fs valid_uri show_error ad ops raw_ops) bt make_path default_md w = Returned_Ok"
proof -
  let ?b = "breaker_example_policy 30" and ?build = "build_program en bal fs valid_uri show_error ad ops raw_ops"
  obtain p w1 where start: "ph_start ph (ReplyStatus ''14'' (Some ''upstream is down'') None) w = (Inr p, w1)"
    and reach: "engine_reaches ph en hv wi (ReplyStatus ''14'' (Some ''upstream is down'') None) p"
    using assms(1) unfolding peer_network_def by blast
  obtain config where config: "breaker_example_config (peer_endpoint p) = Inr config"
    using breaker_example_config_made by blast
  let ?builder = "with_channel_config config (builder_from (ch_endpoint config)) :: ('w, 'md) egress_builder"
  obtain c w2 inner where "en_build en (client_options ?builder (peer_endpoint p) None) w1 = (Inr c, w2)"
    and inner: "?build ?builder w1 = Some (Inr inner, w2)" and "ph_requests ph p w2 = ph_requests ph p w1"
    and calls: "call_unary (raw inner) = call_unary (raw c)"
    and down: "fails_down (sendable (client_options ?builder (peer_endpoint p) None)) (call_unary (raw c))
      (\<lambda>v. length (ph_requests ph p v))"
    by (rule down_client_built [where w = w1 and bal = bal and fs = fs and valid_uri = valid_uri and show_error = show_error
          and ad = ad and ops = ops and raw_ops = raw_ops, OF reach breaker_example_built [OF config] assms(2,3)])
  let ?send = "call_unary (raw c)"
  let ?request = "make_request path (as_bytes ''hi'') (create_options (Some (from_secs 1)) default_md)"
  have fits: "sendable (client_options ?builder (peer_endpoint p) None) (req_body ?request)"
    using config by (auto simp: breaker_example_config_def build_channel_def default_channel_builder_def
        default_max_message_bytes_def sendable_def client_options_def with_channel_config_def builder_from_def split: if_splits)
  obtain r1 n1 v1 r2 n2 v2 x v3 u1 u2 where two: "guard bt ?b path (?send ?request) (initial_node, w2) = (r1, (n1, v1))"
      "guard bt ?b path (?send ?request) (n1, v1) = (r2, (n2, v2))"
      "guard bt ?b path (?send ?request) (n2, v2) = (Inl (circuit_open path), (n2, v3))"
      "bn_state n2 = Open x" "length (ph_requests ph p v3) = length (ph_requests ph p v2)"
      "r1 = fst (?send ?request u1)" "r2 = fst (?send ?request u2)"
    by (rule outage_of_two [OF breaker_example_policy(3) assms(4) breaker_example_policy(2) length_beside [OF assms(6)] assms(5)
          breaker_example_policy(4) down_call_result(1,2) [OF down fits], where path = path and w = w2])
  have made: "make_path (CHR ''/'' # dropWhile (\<lambda>c. c = CHR ''/'') ''example.Service/Method'') = Inr path"
    using assms(7) by simp
  show ?thesis
    using two down_call_result(3) [OF down fits]
    by (simp add: breaker_example_def client_from_config_def start config inner breaker_example_policy(1) build_breaker_valid
        breaker_example_policy(2) breaker_example_request_def down_call_made [where make_path = make_path and path = path, OF made] calls breaker_example_calls_def
        assert_call_def observe_state_def circuit_open_def refuse_def del: breaker_try_new.simps)
qed

theorem breaker_example_passes_witness:
  "breaker_example one_peer (demo_program (ReplyStatus ''14'' (Some ''upstream is down'') None))
     (counted_transition demo_transition) (\<lambda>p. Inr p :: unit + string) [] ([], 0) = Returned_Ok"
  unfolding demo_build_def
  by (rule breaker_example_passes [OF direct_network demo_down(1,2) counted_documented [OF demo_documented]
        counted_opens_cooling [OF demo_opens_cooling] demo_down(4)]) simp_all

section \<open>The scenario of the decorators observes its effects\<close>

definition decorator_policy :: grpc_retry_config where
  "decorator_policy =
     \<lparr>max_attempts = 3, initial_backoff_ms = 1, backoff_multiplier = F64_Finite 1, jitter_factor = F64_Finite 0,
      max_backoff_ms = 1, rate_limit_max_attempts = 2, rate_limit_initial_backoff_ms = 1000,
      rate_limit_max_backoff_ms = 10000\<rparr>"

lemma decorator_policy_built:
  "build_config (fold apply_setting decorator_settings default_builder) = Inr decorator_policy"
  by (simp add: build_config_def decorator_settings_def decorator_attempts_def default_builder_def default_retry_config_def
      Let_def builder_input_def try_new_def validate_def decorator_policy_def in_unit_range_def)

lemma decorator_policy_facts: "valid_retry_config decorator_policy" "unat (max_attempts decorator_policy) = 3"
  by (simp_all add: valid_retry_config_iff decorator_policy_def in_unit_range_def)

text \<open>A call of a client of the engine takes at most \<open>answer\<close> on the clock.\<close>

definition answers_within ::
  "('w, ('w, 'i, 'q, 'o, 's, 'bq, 'bs, 'md, 'h) client, 'ee) engine \<Rightarrow> ('w \<Rightarrow> nat) \<Rightarrow> duration \<Rightarrow> bool" where
  "answers_within en clock answer \<longleftrightarrow>
     (\<forall>opts w c w'. en_build en opts w = (Inr c, w') \<longrightarrow>
        (\<forall>request v. clock v \<le> clock (snd (call_unary (raw c) request v)) \<and>
           clock (snd (call_unary (raw c) request v)) \<le> clock v + answer))"

text \<open>Three attempts of half a second, and two pauses each late by less than a second, fit into five seconds.\<close>

lemma decorator_budget:
  assumes "keeps_time rt clock" "plain_backoff rt"
    and "\<And>request v. clock v \<le> clock (snd (send request v)) \<and> clock (snd (send request v)) \<le> clock v + from_millis 500"
  shows "in_budget rt decorator_policy send clock (from_millis 500 + from_millis 1 + nanos_per_sec) (Some (from_secs 5))"
proof -
  have "rt_next_backoff rt (as_backoff_policy decorator_policy) n u \<le> from_millis 1" for n u
  proof -
    have "bp_jitter_factor (as_backoff_policy decorator_policy) = F64_Finite 0"
      "bp_initial_backoff_ms (as_backoff_policy decorator_policy) \<le> bp_max_backoff_ms (as_backoff_policy decorator_policy)"
      "bp_max_backoff_ms (as_backoff_policy decorator_policy) = 1"
      by (simp_all add: as_backoff_policy_def decorator_policy_def)
    then show ?thesis
      using assms(2) unfolding plain_backoff_def by metis
  qed
  moreover have "clock w \<le> clock (rt_sleep rt d w) \<and> clock (rt_sleep rt d w) \<le> clock w + d + nanos_per_sec" for d w
    using assms(1) unfolding keeps_time_def by (meson le_add1 le_trans less_imp_le)
  moreover have "\<And>w. rt_now rt w = (clock w, w)" "\<And>w. clock (snd (rt_jitter_from_clock rt w)) = clock w"
    using assms(1) by (simp_all add: keeps_time_def)
  ultimately have "\<exists>answer longest late. answer + longest + late \<le> from_millis 500 + from_millis 1 + nanos_per_sec \<and>
      (\<forall>w. rt_now rt w = (clock w, w)) \<and> (\<forall>w. clock (snd (rt_jitter_from_clock rt w)) = clock w) \<and>
      (\<forall>request w. clock w \<le> clock (snd (send request w)) \<and> clock (snd (send request w)) \<le> clock w + answer) \<and>
      (\<forall>d w. clock w \<le> clock (rt_sleep rt d w) \<and> clock (rt_sleep rt d w) \<le> clock w + d + late) \<and>
      (\<forall>n u. rt_next_backoff rt (as_backoff_policy decorator_policy) n u \<le> longest)"
    using assms(3) by (intro exI [of _ "from_millis 500"] exI [of _ "from_millis 1"] exI [of _ nanos_per_sec]) simp
  moreover have "from_secs 5 \<le> duration_max"
    "unat (max_attempts decorator_policy) * (from_millis 500 + from_millis 1 + nanos_per_sec) < from_secs 5"
    unfolding decorator_policy_facts(2) by (simp_all add: nanos_simps)
  ultimately show ?thesis
    by (simp add: in_budget_def affords_def)
qed

text \<open>C36 (decorators_observed). The scenario of the decorators observes its three effects: the first call reaches
  the peer three times, after the second the circuit is open, and the third is refused without a request. This
  holds on a clock that is up to a second late and with an engine that answers within half a second: then the
  five seconds of a call pay for its attempts.\<close>

theorem decorators_observed:
  fixes ad :: "('w, 'md, 'mb, 'me, 'h) adapter"
  assumes "peer_network ph en hv wi (ReplyStatus ''14'' (Some ''down'') None)"
    and "reads_unavailable wi" and "header_texts_valid hv [''14'', ''down'']"
    and "documented_breaker bt (breaker_example_policy 60) cooling" and "opens_cooling bt (breaker_example_policy 60) cooling"
    and "\<And>p. transition_beside bt (ph_requests ph p)" and "\<And>p. runtime_beside rt (ph_requests ph p)"
    and "keeps_time rt clock" and "plain_backoff rt" and "answers_within en clock (from_millis 500)"
    and "make_path ''/pkg.Service/Method'' = Inr path"
  shows "\<exists>rep w'. decorator_scenario ph (build_program en bal fs valid_uri show_error ad ops raw_ops) rt view pl bt show_policy
      make_path default_md w = Some (Inr rep, w') \<and> is_complete rep \<and> length (sr_effects rep) = 3"
proof -
  let ?b = "breaker_example_policy 60" and ?build = "build_program en bal fs valid_uri show_error ad ops raw_ops"
  obtain server w1 where start: "echo_start_with ph (ReplyStatus ''14'' (Some ''down'') None) w = (Inr server, w1)"
    and fresh: "ph_requests ph (es_peer server) w1 = []"
    and reach: "engine_reaches ph en hv wi (ReplyStatus ''14'' (Some ''down'') None) (es_peer server)"
    by (rule echo_start_with_running [OF assms(1)])
  let ?p = "es_peer server"
  let ?hits = "\<lambda>v. length (ph_requests ph ?p v)"
  let ?builder = "with_option Opt_plaintext_allowed (builder_from (peer_endpoint ?p)) :: ('w, 'md) egress_builder"
  have plain: "plain_builder ?p ?builder" "eb_interceptors ?builder = []"
    by (simp_all add: plain_builder_def builder_from_def check_values_def presents_identity_def default_timeout_positive)
  obtain c w2 bare where c: "en_build en (client_options ?builder (peer_endpoint ?p) None) w1 = (Inr c, w2)"
    and bare: "?build ?builder w1 = Some (Inr bare, w2)" and same: "ph_requests ph ?p w2 = ph_requests ph ?p w1"
    and calls: "call_unary (raw bare) = call_unary (raw c)" 
    and down: "fails_down (sendable (client_options ?builder (peer_endpoint ?p) None)) (call_unary (raw c)) ?hits"
    by (rule down_client_built [where w = w1 and bal = bal and fs = fs and valid_uri = valid_uri and show_error = show_error
          and ad = ad and ops = ops and raw_ops = raw_ops, OF reach plain assms(2,3)])
  let ?request = "make_request path (as_bytes ''ping'') (create_options (Some (from_secs 5)) default_md)"
  let ?retrying = "std_retry_client rt view pl decorator_policy bare"
  let ?call = "call_unary (raw ?retrying) ?request"
  have "clock v \<le> clock (snd (call_unary (raw bare) request v)) \<and>
      clock (snd (call_unary (raw bare) request v)) \<le> clock v + from_millis 500" for request v
    using assms(10) c unfolding calls answers_within_def by blast
  then have timely: "in_budget rt decorator_policy (call_unary (raw bare)) clock (from_millis 500 + from_millis 1 + nanos_per_sec)
      (opt_timeout (req_options ?request))"
    by (simp add: decorator_budget [OF assms(8,9)])
  have fits: "sendable (client_options ?builder (peer_endpoint ?p) None) (req_body ?request)"
    by (simp add: sendable_def client_options_def builder_from_def)
  note retried = down_call [OF down [folded calls] length_runtime_beside [OF assms(7)] decorator_policy_facts(1) fits timely,
      of view pl,
      unfolded decorator_policy_facts(2)]
  have call: "is_breaker_failure (fst (?call v))" "?hits (snd (?call v)) = ?hits v + 3" for v
    using retried [of v] by auto
  obtain r1 n1 v1 r2 n2 v2 x v3 where two: "guard bt ?b path ?call (initial_node, w2) = (r1, (n1, v1))"
      "guard bt ?b path ?call (n1, v1) = (r2, (n2, v2))" "guard bt ?b path ?call (n2, v2) = (Inl (circuit_open path), (n2, v3))"
      "bn_state n2 = Open x" "?hits v1 = ?hits w2 + 3" "?hits v3 = ?hits v2"
    by (rule outage_of_two [OF breaker_example_policy(3) assms(4) breaker_example_policy(2) length_beside [OF assms(6)] assms(5)
          breaker_example_policy(4) call, where path = path and w = w2])
  have made: "make_path (CHR ''/'' # dropWhile (\<lambda>c. c = CHR ''/'') ''pkg.Service/Method'') = Inr path"
    using assms(11) by simp
  have "decorator_calls ph server make_path default_md (breaker_client bt ?b ?retrying) rep (initial_node, w2) =
      Some (Inr (report_record ''an open breaker answers Unavailable without reaching the peer'' True
        (report_record ''the breaker opens after the threshold of failed calls'' True
          (report_record ''a failing call is retried up to the attempt limit'' True rep))), (n2, v3))" for rep
    using two fresh same
    by (simp add: decorator_calls_def decorator_request_def down_call_made [where make_path = make_path and path = path, OF made] count_requests_def observe_state_def
        circuit_open_def refuse_def decorator_attempts_def)
  then show ?thesis
    by (simp add: decorator_scenario_def run_io_def start echo_endpoint_def bare [unfolded with_option.simps] decorator_policy_built
        breaker_example_policy(1) build_breaker_valid breaker_example_policy(2) report_record_def report_new_def is_complete_def
        del: breaker_try_new.simps)
qed

theorem decorators_observed_witness:
  "\<exists>rep w'. decorator_scenario one_peer (demo_program (ReplyStatus ''14'' (Some ''down'') None)) (counted_runtime demo_runtime)
      list_view \<lparr>encode_into = (\<lambda>bs. Inr bs), decode_from = (\<lambda>bs. Inr bs)\<rparr> (counted_transition demo_transition) (\<lambda>e. ''e'') (\<lambda>p. Inr p :: unit + string) [] ([], 0) =
    Some (Inr rep, w') \<and> is_complete rep \<and> length (sr_effects rep) = 3"
  unfolding demo_build_def
proof (rule decorators_observed [OF direct_network demo_down(1,3) counted_documented [OF demo_documented]
        counted_opens_cooling [OF demo_opens_cooling] demo_down(4,5), where clock = snd])
  show "keeps_time (counted_runtime demo_runtime) snd"
    by (auto simp: keeps_time_def counted_runtime_def beside_calls_def demo_runtime_def nanos_per_sec_def)
  show "plain_backoff (counted_runtime demo_runtime)"
    by (simp add: plain_backoff_def counted_runtime_def demo_runtime_def)
  show "answers_within (direct_engine (ReplyStatus ''14'' (Some ''down'') None)) snd (from_millis 500)"
    by (auto simp: answers_within_def direct_engine_def direct_transport_def split: prod.split)
qed simp_all

end
