(* ===== verification/Interceptor_Scenarios.thy ===== *)
theory Interceptor_Scenarios
  imports Peer_Scenarios
begin

text \<open>
  The scenarios that look at interceptors: \<open>InterceptorScenario\<close> of the composition root, with the order of the
  hooks, the trace context on the wire and a call refused before it is sent. The log of the interceptors is memory
  of the program: the first part of the world, which neither the engine nor the peer touches.
\<close>

section \<open>InterceptorScenario\<close>








section \<open>Around a traced call\<close>














section \<open>The scenario observes its effects\<close>















end
