(* ===== verification/Spec2Isabelle.thy ===== *)
theory Spec2Isabelle
  imports Resilience Breaker_Concurrency Builder_Properties Intercepted_Properties Channel_Properties Client_Stack Async_Client
    Health_Properties Bearer_Properties Test_Call Test_Peer Test_Proxy
    Example_Upstream Scenarios Outage_Programs Peer_Scenarios Interceptor_Scenarios
begin

text \<open>
  A verification library for the gRPC egress crates (\<open>src/scm/main\<close>): the outbound client of a
  service, with its configuration, transport security, load balancing, retries, circuit breaker,
  interceptors, authentication, identity and cancellation. Every definition is translated from
  the Rust source; code of other crates is a parameter.

  \<^bold>\<open>How the program is put together.\<close> A caller sets options on a builder
  (\<open>GrpcEgressBuilderImpl\<close>), which checks them, reads the TLS files and makes one engine client
  per backend; the result is an \<open>EndpointTransport\<close> that picks a backend for each call and reports
  how it went, inside an \<open>InterceptedTransport\<close> that runs the interceptors before and after each call
  and tells them its events. A resilience policy wraps any client in a retry decorator
  (\<open>GrpcRetryClient\<close>) and that in a breaker decorator (\<open>GrpcBreakerClient\<close>). Views bind a client to a
  caller's identity (\<open>ContextTransport\<close>) or to a cancellation signal (\<open>CancellableTransport\<close>). Every
  layer has the same eight calls, four typed and four raw.

  \<^bold>\<open>Conventions.\<close> A struct is a record, an enum a datatype, an integer a word of its width, a string
  the list of its bytes, a \<open>Duration\<close> its nanoseconds, a \<open>Result\<close> a sum with the error on the left. An effect
  is a function of the world (\<open>('w, 'a) io\<close>); the world is a type parameter. What a layer asks of another
  crate (the engine, the pool, the metadata of the call contract, the clock, the file system, the
  TOML reader, the token library, the breaker's transition function) is a record of functions given
  to the definitions; what a proof relies on is a named predicate (\<open>lawful_metadata\<close>,
  \<open>documented_breaker\<close> and the like), shown satisfiable by a concrete instance. A panic is \<open>None\<close> of
  an option. A locale stands for an interface that the source itself has, and is interpreted on the
  model's own definitions where they are declared.

  \<^bold>\<open>The theories.\<close>
  \<^item> \<open>Egress_Prelude\<close>, \<open>Rust_Str\<close>, \<open>Config_Core\<close>: results, effects, durations, \<open>f64\<close>, the functions of
    \<open>str\<close> with UTF-8 validation and lossy decoding, and the contract of a policy value that is
    validated when it is made and again by its provider (locales \<open>checked_config\<close>,
    \<open>constructible_config\<close>, interpreted for the retry, breaker, resilience and bearer values).
  \<^item> \<open>Call_Contract\<close>: the vocabulary of the crate \<open>proto-pattern\<close> as the sources use it: status codes,
    errors, options, requests, responses, the transports and streams as records of calls.
  \<^item> \<open>Retry_Policy\<close> (\<open>retry-api/src/vo\<close>, \<open>retry-spi/src/spi/config\<close>), \<open>Retry_Classifier\<close>
    (\<open>retry-std\<close>), \<open>Retry_Client\<close> (\<open>retry-spi/src/spi/decorator/retry_transport.rs\<close>): the policy, the
    decision for each failure with the \<open>retry-after\<close> hint, the loop and the eight calls. \<open>Retry_Loop\<close> is
    the specification of the loop, an inductive relation on runs, with the proof that the code refines it;
    \<open>Retry_Budget\<close> a second log of a run, which also has every reading of the clock, and what a budget allows over it;
    \<open>Retry_Properties\<close> draws from both the bounds, the budget and the results.
  \<^item> \<open>Breaker_Policy\<close>, \<open>Breaker_Client\<close> (\<open>breaker-api\<close>, \<open>breaker-spi\<close>): the policy, the failure classifier
    and the guarded calls. \<open>Breaker_Properties\<close> has the refinement of a three-state abstract breaker over
    natural counters; \<open>Breaker_Concurrency\<close> the steps of concurrent calls, which hold the mutex only while
    they read or write the node, the invariants under every interleaving and the lost update.
  \<^item> \<open>Resilience\<close> (\<open>resilient-api\<close>, \<open>resilient-spi\<close>): the composed policy and the factory.
  \<^item> \<open>Headers\<close>, \<open>Interceptors\<close>, \<open>Intercepted\<close> (\<open>transport-spi/src/spi/client\<close>, \<open>transport-std/src/std/interceptor\<close>):
    metadata with entries added, the pending call, the chain, the trace-context interceptor, the eight
    intercepted calls and the observed stream with its drop. An interceptor is a program over the operations
    of \<open>OutboundCall\<close> (\<open>call_program\<close>), so what holds of every interceptor is an induction on programs.
    \<open>Intercepted_Properties\<close> says what callers and observers see, also where the metadata of a reply cannot be
    copied for the observers: such an end is not told.
  \<^item> \<open>Channel_Config\<close>, \<open>Endpoint_Transport\<close>, \<open>Client_Builder\<close> (\<open>transport-api/src/channel\<close>, \<open>transport-std/src/std/channel\<close>,
    \<open>transport-spi/src/spi/client/protosvc\<close>): the channel values and their builder, the reader of PEM
    files, the load-balancer settings, the endpoint and the client builder. \<open>Channel_Properties\<close>,
    \<open>Endpoint_Properties\<close> and \<open>Builder_Properties\<close> hold their results.
  \<^item> \<open>Context_Transport\<close> (\<open>transport-spi/src/spi/context\<close>), \<open>Cancellation\<close>
    (\<open>transport-spi/src/spi/cancellation\<close>): the two views. A call is an effect in the theories above; in
    \<open>Cancellation\<close> it is a future, a codatatype that an executor polls, because the race with the signal is
    decided poll by poll.
  \<^item> \<open>Futures\<close>, \<open>Async_Layers\<close>, \<open>Async_Client\<close>: futures with their \<open>await\<close>, the relations \<open>ends\<close> and \<open>abandoned\<close> of a
    future that completes and of one that is dropped half way, and the calls of the breaker, of the retry loop and
    of the interceptors as the \<open>async\<close> functions they are. Run to its end, each is the effect of the theories
    above, for the whole client (\<open>async_client_is_model\<close>); what a dropped or cancelled call leaves behind is
    stated here. The mutex of the breaker and the timer are futures given to the definitions.
  \<^item> \<open>Client_Stack\<close>: the breaker around the retry loop around the bearer interceptor, and what the whole can send.
  \<^item> \<open>Health_Codec\<close>, \<open>Health_Properties\<close> (\<open>transport-api/src/client\<close>): the health messages on the wire.
  \<^item> \<open>Bearer_Auth\<close>, \<open>Bearer_Properties\<close> (\<open>auth-bearer-api\<close>, \<open>-std\<close>, \<open>-spi\<close>): secrets, the signing
    configuration, the claims and the interceptor that mints a token per call.
  \<^item> \<open>Grpc_Frame\<close>, \<open>Test_Peer\<close>, \<open>Test_Call\<close>, \<open>Test_Proxy\<close> (\<open>test-support\<close>): the message framing, the
    handler of the in-process peer, the call that stands for \<open>PendingCall\<close> in the tests of interceptors (the
    second interpretation of \<open>outbound_call_contract\<close>) and the freezable proxy, a step relation of
    concurrent pumps.
  \<^item> \<open>Example_Upstream\<close> (\<open>retry-spi/examples/grpc_retry.rs\<close>, \<open>resilient-spi/examples/resilient.rs\<close>): the example
    programs with their test double; their assertions hold. \<open>Scenarios\<close> (\<open>examples/composition-root\<close>): the
    scenario suite with its reports and exit code, the interceptors that log and refuse, the scenario of the
    options that do not go together, and the general law behind it: which builders are refused, with which text.
  \<^item> \<open>Outage\<close>: a peer that is down behind the retry loop and the breaker, and what it costs the peer. \<open>Test_Network\<close>
    (\<open>test-support/src/setup\<close>, \<open>peer/running_peer.rs\<close>, \<open>composition-root/src/echo_server.rs\<close>): the fixtures of the
    programs that talk to a peer, and the predicate \<open>peer_network\<close>, what these programs rely on of the engine and
    the sockets: a call arrives at the handler of \<open>Test_Peer\<close> and its answer is read. \<open>Outage_Programs\<close>
    (\<open>decorator_scenario.rs\<close>, \<open>breaker-spi/examples/grpc_breaker.rs\<close>): the two programs in front of a peer that
    is down, which see what \<open>Outage\<close> promises.
  \<^item> \<open>Peer_Calls\<close>: what the scenarios rely on of gRPC over HTTP/2 (\<open>grpc_wire\<close>: legal text entries as headers
    beside whatever binary ones there are, one frame per message, the limits of a reply whose status is in its
    trailers), with the rules of \<open>docs/behaviour-comparison.md\<close> for keys and values (\<open>legal_key\<close>, \<open>legal_value\<close>), and a
    call that a peer answers. \<open>Demo_Network\<close>: a concrete network on which all of it
    holds. \<open>Peer_Scenarios\<close> (\<open>composition_root.rs\<close>, \<open>loaded_config_scenario.rs\<close>, \<open>security_context_scenario.rs\<close>) and
    \<open>Interceptor_Scenarios\<close> (\<open>interceptor_scenario.rs\<close>): the scenarios with one peer.

  \<^bold>\<open>What is shown.\<close> Refinement: the retry loop, the guarded call, a lone task of the concurrent breaker, the
  events of a call, the asynchronous client against the composed effects. Equivalence of the test fixture with the call it stands for. Bounds and budget of the loop, liveness of the breaker (it opens at the threshold, it
  closes after the probes), the cost of an outage. Safety: transport security fails closed, a refused or cancelled call reaches
  nothing, a cancelled call leaves the circuit as it was admitted, each attempt carries one credential, an
  identity or a caller's credential is not replaced. Round trips of the hint, of the composed
  policy, of the health messages and of the frames of a body. Termination of the decoding of a health message. Errors: which
  checks a channel configuration can fail, and when a build panics. Some properties record what the code
  does against its documentation; they are listed with the findings of the manifest.

  \<^bold>\<open>Bounds and fuel.\<close> The retry loop recurses on the attempts left, as the \<open>for\<close> loop of the source counts
  them. The decoding of a message is a \<open>while\<close> loop, a partial function into an option that is proved to
  return on every input, as each field read moves the offset. \<open>drive\<close> polls a future a given number of
  times; its properties hold for every number. Word recursions have termination proofs.

  \<^bold>\<open>Not modelled.\<close> The engine, the pool and the call contract, which are other crates; the factories of
  the \<open>saf\<close> modules, which only call the constructors modelled here; \<open>Debug\<close> output, tracing and the names of
  configuration sections; the timing of the constant-time comparison, of which the result is modelled; of
  \<open>test-support\<close> the listeners, TLS and the certificates, which are network I/O of other crates; the
  scenarios that need more of the network than one plaintext peer (balancing, cancellation, TLS). Calls that contend for the breaker's node are steps of \<open>Breaker_Concurrency\<close>; the futures
  of \<open>Async_Layers\<close> have the node to themselves.
\<close>

end
